(* ===== verification/Prelude.thy ===== *)
theory Prelude
  imports Main "HOL-Library.Word" "HOL-Library.Sublist"
    "HOL-Library.Char_ord" "HOL-Library.List_Lexorder"
begin

text \<open>
  Shared vocabulary of the development: byte strings, machine integers, the error values the
  keepers return, the result type with its bind, the two loop shapes of the Go code (a loop that
  stops at the first error, and an iterator loop whose callback may also ask to stop), and the
  lemmas on them that every component uses.
\<close>

named_theorems result_simps \<open>equations that unfold result-valued code\<close>
named_theorems keeper_defs \<open>definitions of keeper operations\<close>

section \<open>Types\<close>

text \<open>A Go \<^verbatim>\<open>[]byte\<close> or \<^verbatim>\<open>string\<close> is a list of 8-bit characters.\<close>

type_synonym bytes = "char list"
type_synonym uint64 = "64 word"
type_synonym uint32 = "32 word"

text \<open>
  Errors. The constructors are the registered errors of the modules, by the names they have in
  the source; those of the operator and AVS modules are wrapped. \<open>ErrExternal\<close> is an error handed back by code outside the modelled modules,
  \<open>ErrParse\<close> the unregistered errors of key parsing (\<^verbatim>\<open>fmt.Errorf\<close>,
  \<^verbatim>\<open>xerrors.New\<close>), and \<open>Panic\<close> a Go panic.
\<close>

datatype op_error =
    ErrParameterInvalid | ErrOperatorAlreadyExists | ErrOperatorNameAlreadyExists | ErrNoSuchOperator
  | ErrOperatorFrozenStateMismatch | ErrNoSuchAvs | ErrAlreadyOptedIn | ErrNotOptedIn | ErrIsJailed
  | ErrMinDelegationNotMet | ErrIsOptedOutOrJailed | ErrInvalidPubKey | ErrAlreadyRemovingKey
  | ErrConsKeyAlreadyInUse | ErrConsKeyAlreadyTombstoned | ErrUnknownChainID | ErrOperatorNotRemovingKey
  | ErrKeyNotExistInMap | ErrValueIsNilOrZero | ErrInvalidOperatorAddr | ErrCommissionLTMinRate
  | ErrCommissionUpdateTime | ErrCommissionNegative | ErrCommissionGTMaxRate | ErrCommissionGTMaxChangeRate
  | ErrFailToClearVPSnapshot | ErrFailToGetHistoricalVP | ErrGetPriceRoundNotFound
  | ErrSlashInfo | ErrSlashInfoExist

datatype avs_error =
    ErrEpochNotFound | ErrAlreadyRegistered | ErrUnregisterNonExistent | ErrCallerAddressUnauthorized
  | ErrCannotDeregister | ErrAvsNameMismatch | ErrInvalidAction | ErrNotNull | ErrInvalidAddr
  | ErrNotAVSByChainID | ErrUpdateAVSInfo | ErrAlreadyExists
  | ErrTaskIsNotExists | ErrPubKeyIsNotExists | ErrSigVerifyError | ErrParamError | ErrParamNotEmptyError
  | ErrSubmitTooLateError | ErrSubmitTooSoonError | ErrResAlreadyExists | ErrInconsistentParams
  | ErrVotingPowerIncorrect | ErrSigNotMatchPubKey | ErrParsePubKey | ErrNoOptedInOperators

datatype error =
    ErrInputPointerIsNil | ErrSubAmountIsMoreThanOrigin | ErrNoClientChainKey
  | ErrNoClientChainAssetKey | ErrNoStakerAssetKey | ErrNoOperatorAssetKey
  | ErrParseAssetsStateKey | ErrInvalidInputParameter | ErrInvalidAmount
  | ErrInvalidOperationType | ErrRegisterDuplicateAssetID | ErrNoParamsKey
  | ErrForbiddenGatewayAddress | ErrInvalidSigner | ErrInvalidParams
  | ErrNoKeyInTheStore | ErrOperatorIsFrozen | ErrOperatorNotExist | ErrAmountIsNotPositive
  | ErrOperatorAddrIsNotAccAddr | ErrDelegationAmountTooBig | ErrCannotIncHoldCount
  | ErrCannotDecHoldCount | ErrDivisorIsZero | ErrInsufficientShares
  | ErrOperatorAlreadyAssociated | ErrNoAssociatedOperatorByStaker | ErrClientChainNotExist
  | ErrInvalidCompletionEpoch | ErrEpochIdentifierNotExist | ErrCannotIncUndelegationID
  | ErrDuplicateEpochInfo | ErrInvalidEpoch | ErrInvalidGenesisData
  | ErrSlashOccurredHeight | ErrInvalidSlashPower | ErrInvalidAssetID
  | OpErr op_error | AvsErr avs_error
  | ErrParse | ErrExternal string | Panic string

type_synonym 'a result = "error + 'a"

section \<open>Results\<close>

definition rbind :: "'a result \<Rightarrow> ('a \<Rightarrow> 'b result) \<Rightarrow> 'b result" where
  "rbind m f = (case m of Inl e \<Rightarrow> Inl e | Inr x \<Rightarrow> f x)"

text \<open>\<open>guard_err c e\<close> is the early return \<^verbatim>\<open>if c { return e }\<close>.\<close>

definition guard_err :: "bool \<Rightarrow> error \<Rightarrow> unit result" where
  "guard_err c e = (if c then Inl e else Inr ())"

definition of_option :: "error \<Rightarrow> 'a option \<Rightarrow> 'a result" where
  "of_option e v = (case v of None \<Rightarrow> Inl e | Some x \<Rightarrow> Inr x)"

definition is_ok :: "'a result \<Rightarrow> bool" where
  "is_ok r = (case r of Inl _ \<Rightarrow> False | Inr _ \<Rightarrow> True)"

lemma rbind_simps [simp]:
  "rbind (Inl e) f = Inl e"
  "rbind (Inr x) f = f x"
  by (simp_all add: rbind_def)

lemma rbind_eq_Inr_iff: "rbind m f = Inr y \<longleftrightarrow> (\<exists>x. m = Inr x \<and> f x = Inr y)"
  by (cases m) simp_all

lemma rbind_eq_Inl_iff:
  "rbind m f = Inl e \<longleftrightarrow> m = Inl e \<or> (\<exists>x. m = Inr x \<and> f x = Inl e)"
  by (cases m) simp_all

lemma if_err_iff: "(if c then Inl e else m) = Inr x \<longleftrightarrow> \<not> c \<and> m = Inr x"
  by simp

lemma rbindE [elim]:
  assumes "rbind m f = Inr y"
  obtains x where "m = Inr x" and "f x = Inr y"
  using assms by (auto simp: rbind_eq_Inr_iff)

lemma rbind_cong [fundef_cong]:
  assumes "m = m'" and "\<And>x. m' = Inr x \<Longrightarrow> f x = f' x"
  shows "rbind m f = rbind m' f'"
  using assms by (cases m') (auto simp: rbind_def)

lemma guard_err_simps [simp]:
  "guard_err c e = Inr u \<longleftrightarrow> \<not> c"
  "guard_err c e = Inl e' \<longleftrightarrow> c \<and> e' = e"
  by (auto simp: guard_err_def)

lemma guard_err_cases [simp]: "guard_err True e = Inl e" "guard_err False e = Inr ()"
  by (simp_all add: guard_err_def)

lemma of_option_simps [simp]:
  "of_option e None = Inl e"
  "of_option e (Some x) = Inr x"
  by (simp_all add: of_option_def)

lemma of_option_eq_Inr [simp]: "of_option e v = Inr x \<longleftrightarrow> v = Some x"
  by (cases v) simp_all

lemma is_ok_simps [simp]: "is_ok (Inl e) = False" "is_ok (Inr x) = True"
  by (simp_all add: is_ok_def)

lemma is_ok_iff: "is_ok r \<longleftrightarrow> (\<exists>x. r = Inr x)"
  by (cases r) simp_all

lemma is_ok_rbind: "is_ok (rbind m f) \<longleftrightarrow> (\<exists>x. m = Inr x \<and> is_ok (f x))"
  by (cases m) simp_all

lemmas result_iff = rbind_eq_Inr_iff rbind_eq_Inl_iff

section \<open>Loops\<close>

text \<open>
  \<open>rfold f xs s\<close> runs \<open>f\<close> over \<open>xs\<close>, threading the state and stopping at the first error.
  \<open>riter f xs s\<close> is the iterator loop with a callback that returns
  \<^verbatim>\<open>(isBreak, err)\<close>: it stops at the first error and after the first element for which the
  callback asks to break.
\<close>

fun rfold :: "('a \<Rightarrow> 's \<Rightarrow> 's result) \<Rightarrow> 'a list \<Rightarrow> 's \<Rightarrow> 's result" where
  "rfold f [] s = Inr s"
| "rfold f (x # xs) s = rbind (f x s) (rfold f xs)"

fun riter :: "('a \<Rightarrow> 's \<Rightarrow> (bool \<times> 's) result) \<Rightarrow> 'a list \<Rightarrow> 's \<Rightarrow> 's result" where
  "riter f [] s = Inr s"
| "riter f (x # xs) s =
     rbind (f x s) (\<lambda>(isBreak, s'). if isBreak then Inr s' else riter f xs s')"

lemma rfold_cong [fundef_cong]:
  assumes "xs = ys" "s = t" "\<And>x s. x \<in> set ys \<Longrightarrow> f x s = g x s"
  shows "rfold f xs s = rfold g ys t"
  using assms(3) unfolding assms(1,2)
  by (induction ys arbitrary: t) (auto intro!: rbind_cong)

lemma rfold_append: "rfold f (xs @ ys) s = rbind (rfold f xs s) (rfold f ys)"
proof (induction xs arbitrary: s)
  case Nil
  then show ?case by simp
next
  case (Cons x xs)
  then show ?case by (cases "f x s") simp_all
qed

text \<open>The invariant rules of the two loops.\<close>

lemma rfold_invariant:
  assumes "rfold f xs s = Inr t" and "I s"
    and "\<And>x s s'. x \<in> set xs \<Longrightarrow> I s \<Longrightarrow> f x s = Inr s' \<Longrightarrow> I s'"
  shows "I t"
  using assms
proof (induction xs arbitrary: s)
  case Nil
  then show ?case by simp
next
  case (Cons x xs)
  from Cons.prems(1) obtain s' where s': "f x s = Inr s'" "rfold f xs s' = Inr t"
    by (auto simp: rbind_eq_Inr_iff)
  show ?case
    by (rule Cons.IH [OF s'(2) Cons.prems(3) [OF _ Cons.prems(2) s'(1)]])
       (auto intro: Cons.prems(3))
qed

lemma riter_invariant:
  assumes "riter f xs s = Inr t" and "I s"
    and "\<And>x s b s'. x \<in> set xs \<Longrightarrow> I s \<Longrightarrow> f x s = Inr (b, s') \<Longrightarrow> I s'"
  shows "I t"
  using assms
proof (induction xs arbitrary: s)
  case Nil
  then show ?case by simp
next
  case (Cons x xs)
  from Cons.prems(1) obtain b s' where s': "f x s = Inr (b, s')"
    and t: "(if b then Inr s' else riter f xs s') = Inr t"
    by (auto simp: rbind_eq_Inr_iff)
  have I: "I s'" by (rule Cons.prems(3) [OF _ Cons.prems(2) s']) simp
  show ?case
  proof (cases b)
    case True
    with t I show ?thesis by simp
  next
    case False
    with t have "riter f xs s' = Inr t" by simp
    then show ?thesis by (rule Cons.IH [OF _ I]) (auto intro: Cons.prems(3))
  qed
qed

text \<open>A loop whose body never fails never fails.\<close>

lemma rfold_total:
  assumes "I s" and "\<And>x s. x \<in> set xs \<Longrightarrow> I s \<Longrightarrow> \<exists>s'. f x s = Inr s' \<and> I s'"
  shows "\<exists>t. rfold f xs s = Inr t \<and> I t"
  using assms
proof (induction xs arbitrary: s)
  case Nil
  then show ?case by simp
next
  case (Cons x xs)
  obtain s' where s': "f x s = Inr s'" "I s'" using Cons.prems by force
  then show ?case using Cons.IH [OF s'(2)] Cons.prems(2) by force
qed

text \<open>An iterator loop that never breaks and never fails is a fold.\<close>

lemma riter_collect:
  assumes "\<And>x s. x \<in> set xs \<Longrightarrow> f x s = Inr (False, s @ g x)"
  shows "riter f xs s = Inr (s @ concat (map g xs))"
  using assms by (induction xs arbitrary: s) simp_all

text \<open>A loop that rebuilds a list entry by entry; loops over mapped and concatenated lists.\<close>

lemma rfold_snoc: "rfold f (xs @ [x]) s = rbind (rfold f xs s) (f x)"
proof -
  have "rfold f [x] = f x" by (rule ext) (simp add: rbind_def split: sum.split)
  then show ?thesis by (simp only: rfold_append)
qed

lemma rfold_prefixes:
  assumes "\<And>p e q. es = p @ e # q \<Longrightarrow> F e (mk p) = Inr (mk (p @ [e]))"
  shows "rfold F es (mk []) = Inr (mk es)"
  using assms
proof (induction es rule: rev_induct)
  case (snoc e es)
  have "rfold F es (mk []) = Inr (mk es)" by (rule snoc.IH) (use snoc.prems in auto)
  then show ?case using snoc.prems [of es e "[]"] by (simp add: rfold_append)
qed simp

lemma rfold_map: "rfold f (map g xs) = rfold (\<lambda>x. f (g x)) xs"
proof
  show "rfold f (map g xs) s = rfold (\<lambda>x. f (g x)) xs s" for s
    by (induction xs arbitrary: s) (auto intro: rbind_cong)
qed

lemma rfold_concat: "rfold f (concat (map its ds)) s = rfold (\<lambda>d. rfold f (its d)) ds s"
  by (induction ds arbitrary: s) (auto simp: rfold_append intro: rbind_cong)

section \<open>Lists and maps\<close>

lemma map_of_filter_key:
  "map_of (filter (\<lambda>e. P (fst e)) xs) k = (if P k then map_of xs k else None)"
  by (induction xs) auto

lemma sorted_wrt_filter_map:
  "sorted_wrt R (map f xs) \<Longrightarrow> sorted_wrt R (map f (filter P xs))"
  by (induction xs) auto

lemma distinct_concat_map:
  assumes "distinct xs" "\<And>x. x \<in> set xs \<Longrightarrow> distinct (f x)"
    and "\<And>x y. x \<in> set xs \<Longrightarrow> y \<in> set xs \<Longrightarrow> x \<noteq> y \<Longrightarrow> set (f x) \<inter> set (f y) = {}"
  shows "distinct (concat (map f xs))"
  using assms
proof (induction xs)
  case (Cons x xs)
  have "set (f x) \<inter> set (f y) = {}" if "y \<in> set xs" for y
    using Cons.prems(1,3) that by auto
  with Cons show ?case by auto
qed simp

lemma rfold_elem:
  assumes "rfold f xs s = Inr t" "x \<in> set xs"
  shows "\<exists>s1 s2. f x s1 = Inr s2"
  using assms
proof (induction xs arbitrary: s)
  case (Cons y ys)
  then show ?case by (auto simp: rbind_eq_Inr_iff)
qed simp

end
