(* ===== verification/Decimal.thy ===== *)
theory Decimal
  imports Prelude
begin

text \<open>
  Amounts. A \<^verbatim>\<open>sdkmath.Int\<close> is an \<open>int\<close>. A \<^verbatim>\<open>sdkmath.LegacyDec\<close> is the
  \<open>int\<close> that holds it scaled by the fixed precision of 18 decimal digits, so that its addition,
  subtraction, negation and comparison are those of \<open>int\<close>. The operations of
  \<^verbatim>\<open>cosmossdk.io/math\<close> that scale or round are code outside the repository: they are the fields
  of a record that the definitions take as an argument, and what the modules rely on is the
  contract \<open>dec_arith\<close>. A nil \<^verbatim>\<open>Int\<close> or \<^verbatim>\<open>LegacyDec\<close> (a struct field that was not
  given) is \<open>None\<close> where the code distinguishes it.
\<close>

type_synonym dec = int

record dec_ops =
  newDec :: "int \<Rightarrow> dec"                \<comment> \<open>\<open>LegacyNewDec\<close>, \<open>NewDecFromInt\<close>, \<open>LegacyNewDecFromBigInt\<close>\<close>
  mulInt :: "dec \<Rightarrow> int \<Rightarrow> dec"         \<comment> \<open>\<open>MulInt\<close>\<close>
  mulDec :: "dec \<Rightarrow> dec \<Rightarrow> dec"         \<comment> \<open>\<open>Mul\<close>\<close>
  quoDec :: "dec \<Rightarrow> dec \<Rightarrow> dec"         \<comment> \<open>\<open>Quo\<close>\<close>
  quoInt :: "dec \<Rightarrow> int \<Rightarrow> dec"         \<comment> \<open>\<open>QuoInt\<close>, \<open>QuoInt64\<close>\<close>
  truncateInt :: "dec \<Rightarrow> int"           \<comment> \<open>\<open>TruncateInt\<close>\<close>
  newDecWithPrec :: "int \<Rightarrow> nat \<Rightarrow> dec"  \<comment> \<open>\<open>NewDecWithPrec\<close>\<close>

definition dec_precision :: int where
  "dec_precision = 10 ^ 18"

text \<open>Division of \<^verbatim>\<open>big.Int\<close> (\<^verbatim>\<open>Quo\<close>) truncates towards zero.\<close>

definition tdiv :: "int \<Rightarrow> int \<Rightarrow> int" where
  "tdiv a b = sgn a * sgn b * (\<bar>a\<bar> div \<bar>b\<bar>)"

lemma tdiv_nonneg_eq: "0 \<le> a \<Longrightarrow> 0 < b \<Longrightarrow> tdiv a b = a div b"
  by (cases "a = 0") (simp_all add: tdiv_def)

lemma dec_precision_pos [simp]: "0 < dec_precision"
  by (simp add: dec_precision_def)

lemma dec_precision_nonneg [simp]: "0 \<le> dec_precision" "dec_precision \<noteq> 0"
  by (simp_all add: dec_precision_def)

lemma tdiv_bounds:
  assumes "0 \<le> a" "0 < b"
  shows "0 \<le> tdiv a b" "tdiv a b * b \<le> a" "a < (tdiv a b + 1) * b"
proof -
  have "a = a div b * b + a mod b" "0 \<le> a mod b" "a mod b < b" using assms by simp_all
  then show "tdiv a b * b \<le> a" "a < (tdiv a b + 1) * b"
    unfolding tdiv_nonneg_eq [OF assms] distrib_right mult_1 by linarith+
  show "0 \<le> tdiv a b"
    using assms by (simp add: tdiv_nonneg_eq pos_imp_zdiv_nonneg_iff)
qed

lemma tdiv_mono: "0 \<le> a \<Longrightarrow> a \<le> a' \<Longrightarrow> 0 < b \<Longrightarrow> tdiv a b \<le> tdiv a' b"
  by (simp add: tdiv_nonneg_eq zdiv_mono1)

lemma tdiv_le:
  assumes "0 \<le> a" "0 < b" "a \<le> n * b"
  shows "tdiv a b \<le> n"
proof -
  have "tdiv a b * b \<le> n * b" using tdiv_bounds(2) [OF assms(1,2)] assms(3) by linarith
  then show ?thesis using assms(2) by simp
qed

text \<open>
  The contract: scaling and multiplication by an integer are exact; \<^verbatim>\<open>QuoInt\<close> and
  \<^verbatim>\<open>TruncateInt\<close> truncate; \<^verbatim>\<open>Mul\<close> rounds to the nearest representable value and
  \<^verbatim>\<open>Quo\<close> is off by less than one unit of the last digit.
\<close>

locale dec_arith =
  fixes D :: dec_ops
  assumes newDec: "newDec D n = n * dec_precision"
    and mulInt: "mulInt D d n = d * n"
    and quoInt: "n \<noteq> 0 \<Longrightarrow> quoInt D d n = tdiv d n"
    and truncateInt: "truncateInt D d = tdiv d dec_precision"
    and mulDec_near: "2 * \<bar>mulDec D a b * dec_precision - a * b\<bar> \<le> dec_precision"
    and quoDec_near: "b \<noteq> 0 \<Longrightarrow> \<bar>quoDec D a b * b - a * dec_precision\<bar> < \<bar>b\<bar>"
begin

text \<open>A quotient never passes an integer bound of the exact quotient.\<close>

lemma quoDec_le:
  assumes "0 < b" "a * dec_precision \<le> n * b"
  shows "quoDec D a b \<le> n"
proof -
  have "quoDec D a b * b < n * b + b" using quoDec_near [of b a] assms by simp
  then have "quoDec D a b * b < (n + 1) * b" by (simp add: distrib_right)
  then show ?thesis using assms(1) by (simp add: mult_less_cancel_right)
qed

lemma quoDec_ge:
  assumes "0 < b" "n * b \<le> a * dec_precision"
  shows "n \<le> quoDec D a b"
proof -
  have "n * b - b < quoDec D a b * b" using quoDec_near [of b a] assms by simp
  then have "(n - 1) * b < quoDec D a b * b" by (simp add: left_diff_distrib)
  then show ?thesis using assms(1) by (simp add: mult_less_cancel_right)
qed

lemma quoDec_nonneg: "0 \<le> a \<Longrightarrow> 0 < b \<Longrightarrow> 0 \<le> quoDec D a b"
  by (rule quoDec_ge) simp_all

lemma truncateInt_le:
  "0 \<le> d \<Longrightarrow> d \<le> n * dec_precision \<Longrightarrow> truncateInt D d \<le> n"
  by (simp add: truncateInt tdiv_le)

lemma truncateInt_nonneg: "0 \<le> d \<Longrightarrow> 0 \<le> truncateInt D d"
  by (simp add: truncateInt tdiv_bounds)

lemma truncateInt_newDec: "truncateInt D (newDec D n) = n"
  by (simp add: newDec truncateInt tdiv_def abs_mult sgn_mult)
     (metis mult_sgn_abs mult.commute)

text \<open>The share-to-token quotient \<open>s * T / S\<close>, truncated: within \<open>0\<close> and any exact bound.\<close>

lemma prorata_le:
  assumes "0 \<le> s" "0 < S" "0 \<le> T" "s * T \<le> n * S"
  shows "truncateInt D (quoDec D (mulInt D s T) S) \<le> n"
proof (rule truncateInt_le)
  show "0 \<le> quoDec D (mulInt D s T) S"
    using assms by (simp add: quoDec_nonneg mulInt)
  have "s * T * dec_precision \<le> n * S * dec_precision"
    using assms(4) by (rule mult_right_mono) simp
  then show "quoDec D (mulInt D s T) S \<le> n * dec_precision"
    by (intro quoDec_le) (simp_all add: assms(2) mulInt ac_simps)
qed

lemma prorata_nonneg:
  assumes "0 \<le> s" "0 < S" "0 \<le> T"
  shows "0 \<le> truncateInt D (quoDec D (mulInt D s T) S)"
  using assms by (simp add: truncateInt_nonneg quoDec_nonneg mulInt)

text \<open>Multiplying by a proportion between zero and one.\<close>

lemma fraction_nonneg:
  assumes "0 \<le> p" "0 \<le> n"
  shows "0 \<le> truncateInt D (mulInt D p n)"
  using assms by (simp add: mulInt truncateInt_nonneg)

lemma fraction_le:
  assumes "0 \<le> p" "p \<le> newDec D 1" "0 \<le> n"
  shows "truncateInt D (mulInt D p n) \<le> n"
proof -
  have "p * n \<le> dec_precision * n"
    using assms by (intro mult_right_mono) (simp_all add: newDec)
  then show ?thesis
    using assms by (intro truncateInt_le) (simp_all add: mulInt mult.commute)
qed

lemma fraction_one: "truncateInt D (mulInt D (newDec D 1) n) = n"
  using truncateInt_newDec [of n] by (simp add: newDec mulInt mult.commute)

lemma mulDec_bounds:
  "2 * (mulDec D a b * dec_precision) \<le> 2 * (a * b) + dec_precision"
  "2 * (a * b) \<le> 2 * (mulDec D a b * dec_precision) + dec_precision"
proof -
  define x where "x = mulDec D a b * dec_precision"
  define y where "y = a * b"
  have near: "2 * \<bar>x - y\<bar> \<le> dec_precision"
    using mulDec_near [of a b] by (simp add: x_def y_def)
  have "2 * x \<le> 2 * y + dec_precision" "2 * y \<le> 2 * x + dec_precision"
    using near by arith+
  then show "2 * (mulDec D a b * dec_precision) \<le> 2 * (a * b) + dec_precision"
    "2 * (a * b) \<le> 2 * (mulDec D a b * dec_precision) + dec_precision"
    by (simp_all add: x_def y_def)
qed

lemma mulDec_nonneg:
  assumes "0 \<le> a" "0 \<le> b"
  shows "0 \<le> mulDec D a b"
proof -
  have "0 \<le> a * b" using assms by simp
  then have "- dec_precision < mulDec D a b * dec_precision"
    using mulDec_bounds [of a b] dec_precision_pos by linarith
  then have "- 1 * dec_precision < mulDec D a b * dec_precision" by simp
  then show ?thesis using dec_precision_pos by (simp only: mult_less_cancel_right) simp
qed

lemma mulDec_le:
  assumes "0 \<le> a" "0 \<le> b" "b \<le> newDec D 1"
  shows "mulDec D a b \<le> a"
proof -
  have "a * b \<le> a * dec_precision"
    using assms by (intro mult_left_mono) (simp_all add: newDec)
  then have "mulDec D a b * dec_precision < a * dec_precision + dec_precision"
    using mulDec_bounds [of a b] dec_precision_pos by linarith
  then have "mulDec D a b * dec_precision < (a + 1) * dec_precision"
    by (simp add: distrib_right)
  then show ?thesis using dec_precision_pos by (simp only: mult_less_cancel_right) simp
qed

lemma mulDec_one: "0 \<le> a \<Longrightarrow> mulDec D a (newDec D 1) = a"
proof -
  assume "0 \<le> a"
  have "2 * \<bar>(mulDec D a (newDec D 1) - a) * dec_precision\<bar> \<le> dec_precision"
    using mulDec_near [of a "newDec D 1"] by (simp add: newDec left_diff_distrib)
  then have "\<bar>mulDec D a (newDec D 1) - a\<bar> * (2 * dec_precision) \<le> dec_precision"
    by (simp add: abs_mult)
  then have "\<bar>mulDec D a (newDec D 1) - a\<bar> * (2 * dec_precision) < 1 * (2 * dec_precision)"
    using dec_precision_pos by linarith
  then have "\<bar>mulDec D a (newDec D 1) - a\<bar> < 1"
    using dec_precision_pos by (simp only: mult_less_cancel_right)
  then show ?thesis by simp
qed

end

section \<open>An instance\<close>

text \<open>
  A record that satisfies the contract, used where a statement is evaluated: products and quotients
  are computed exactly, or with double precision, and rounded half to even.
\<close>

definition chop_round :: "int \<Rightarrow> int" where
  "chop_round d =
     (let q = \<bar>d\<bar> div dec_precision; r = \<bar>d\<bar> mod dec_precision in
      sgn d * (if 2 * r < dec_precision \<or> (2 * r = dec_precision \<and> even q) then q else q + 1))"

definition legacy_dec :: dec_ops where
  "legacy_dec = \<lparr>
     newDec = (\<lambda>n. n * dec_precision),
     mulInt = (\<lambda>d n. d * n),
     mulDec = (\<lambda>a b. chop_round (a * b)),
     quoDec = (\<lambda>a b. chop_round (tdiv (a * dec_precision * dec_precision) b)),
     quoInt = tdiv,
     truncateInt = (\<lambda>d. tdiv d dec_precision),
     newDecWithPrec = (\<lambda>i prec. i * 10 ^ (18 - prec))\<rparr>"

lemma chop_round_near: "2 * \<bar>chop_round d * dec_precision - d\<bar> \<le> dec_precision"
proof -
  let ?P = dec_precision
  define q where "q = \<bar>d\<bar> div ?P"
  define r where "r = \<bar>d\<bar> mod ?P"
  define c where "c = (if 2 * r < ?P \<or> (2 * r = ?P \<and> even q) then q else q + 1)"
  have d: "\<bar>d\<bar> = q * ?P + r" and r: "0 \<le> r" "r < ?P"
    by (simp_all add: q_def r_def)
  have "2 * \<bar>c * ?P - \<bar>d\<bar>\<bar> \<le> ?P"
    unfolding d c_def using r by (auto simp: distrib_right)
  moreover have "chop_round d * ?P - d = sgn d * (c * ?P - \<bar>d\<bar>)"
    by (simp add: chop_round_def Let_def q_def r_def c_def right_diff_distrib sgn_mult_abs)
  ultimately show ?thesis by (cases "d = 0") (simp_all add: abs_mult)
qed

lemma tdiv_near: "b \<noteq> 0 \<Longrightarrow> \<bar>tdiv a b * b - a\<bar> < \<bar>b\<bar>"
proof -
  assume b: "b \<noteq> 0"
  have eq: "tdiv a b * b - a = - (sgn a * (\<bar>a\<bar> mod \<bar>b\<bar>))"
  proof -
    have "tdiv a b * b = sgn a * (\<bar>b\<bar> * (\<bar>a\<bar> div \<bar>b\<bar>))"
      by (simp add: tdiv_def abs_sgn [of b])
    also have "\<dots> = sgn a * (\<bar>a\<bar> - \<bar>a\<bar> mod \<bar>b\<bar>)"
      by (simp only: minus_mod_eq_mult_div)
    finally show ?thesis by (simp add: right_diff_distrib sgn_mult_abs)
  qed
  show ?thesis unfolding eq using b by (cases "a = 0") (simp_all add: abs_mult)
qed

lemma double_precision_quotient:
  assumes "b \<noteq> 0"
  shows "\<bar>chop_round (tdiv (a * dec_precision * dec_precision) b) * b - a * dec_precision\<bar> < \<bar>b\<bar>"
proof -
  let ?P = dec_precision
  define t where "t = tdiv (a * ?P * ?P) b"
  define c where "c = chop_round t"
  have t: "\<bar>t * b - a * ?P * ?P\<bar> < \<bar>b\<bar>" unfolding t_def by (rule tdiv_near [OF assms])
  have "2 * \<bar>c * ?P - t\<bar> * \<bar>b\<bar> \<le> ?P * \<bar>b\<bar>"
    unfolding c_def by (intro mult_right_mono chop_round_near) simp
  then have c: "2 * \<bar>c * b * ?P - t * b\<bar> \<le> ?P * \<bar>b\<bar>"
    by (simp add: abs_mult [symmetric] left_diff_distrib mult.assoc) (simp add: ac_simps)
  have split: "(c * b - a * ?P) * ?P = (c * b * ?P - t * b) + (t * b - a * ?P * ?P)"
    by (simp add: left_diff_distrib)
  have "2 * \<bar>(c * b - a * ?P) * ?P\<bar> \<le>
      2 * \<bar>c * b * ?P - t * b\<bar> + 2 * \<bar>t * b - a * ?P * ?P\<bar>"
    unfolding split distrib_left [symmetric]
    by (intro mult_left_mono abs_triangle_ineq) simp
  also have "\<dots> < ?P * \<bar>b\<bar> + 2 * \<bar>b\<bar>"
    using c t by (intro add_le_less_mono) simp_all
  also have "\<dots> \<le> 2 * (\<bar>b\<bar> * ?P)" by (simp add: dec_precision_def)
  finally have "\<bar>c * b - a * ?P\<bar> * ?P < \<bar>b\<bar> * ?P" by (simp add: abs_mult)
  then show ?thesis
    unfolding c_def t_def using dec_precision_pos by (simp only: mult_less_cancel_right)
qed

interpretation ld: dec_arith legacy_dec
  by unfold_locales
     (simp_all add: legacy_dec_def chop_round_near double_precision_quotient)

lemmas dec_arith_legacy_dec = ld.dec_arith_axioms

end
