(* ===== verification/KVStore.thy ===== *)
theory KVStore
  imports Prelude
begin

text \<open>
  The key-value stores of the modules. A module keeps every kind of state in its own
  \<^verbatim>\<open>prefix.NewStore(ctx.KVStore(k.storeKey), prefix)\<close>: a map from byte keys to values that can be
  read, written, deleted, and iterated in ascending byte order of the keys, either completely or
  restricted to the keys that start with a given byte prefix. The model is an association list
  in ascending key order, so that iteration order is the order of the list.
\<close>

section \<open>The store operations\<close>

type_synonym ('k, 'v) kv = "('k \<times> 'v) list"

definition kv_get :: "('k, 'v) kv \<Rightarrow> 'k \<Rightarrow> 'v option" where
  "kv_get s k = map_of s k"

definition kv_has :: "('k, 'v) kv \<Rightarrow> 'k \<Rightarrow> bool" where
  "kv_has s k = (map_of s k \<noteq> None)"

fun kv_set :: "'k::linorder \<Rightarrow> 'v \<Rightarrow> ('k, 'v) kv \<Rightarrow> ('k, 'v) kv" where
  "kv_set k v [] = [(k, v)]"
| "kv_set k v ((k', v') # s) =
     (if k < k' then (k, v) # (k', v') # s
      else if k = k' then (k, v) # s
      else (k', v') # kv_set k v s)"

definition kv_delete :: "'k \<Rightarrow> ('k, 'v) kv \<Rightarrow> ('k, 'v) kv" where
  "kv_delete k s = filter (\<lambda>e. fst e \<noteq> k) s"

definition kv_iterate :: "'a list \<Rightarrow> ('a list, 'v) kv \<Rightarrow> ('a list \<times> 'v) list" where
  "kv_iterate p s = filter (\<lambda>e. prefix p (fst e)) s"

definition kv_wf :: "('k::linorder, 'v) kv \<Rightarrow> bool" where
  "kv_wf s = sorted_wrt (<) (map fst s)"

text \<open>The sum of \<open>f\<close> over the entries of a store.\<close>

definition kv_total :: "('k \<Rightarrow> 'v \<Rightarrow> int) \<Rightarrow> ('k \<times> 'v) list \<Rightarrow> int" where
  "kv_total f es = sum_list (map (\<lambda>e. f (fst e) (snd e)) es)"

section \<open>The contract of a store\<close>

locale kv_interface =
  fixes get :: "'s \<Rightarrow> 'k \<Rightarrow> 'v option"
    and put :: "'k \<Rightarrow> 'v \<Rightarrow> 's \<Rightarrow> 's"
    and del :: "'k \<Rightarrow> 's \<Rightarrow> 's"
    and entries :: "'s \<Rightarrow> ('k \<times> 'v) list"
    and wf :: "'s \<Rightarrow> bool"
  assumes get_put: "get (put k v s) j = (if j = k then Some v else get s j)"
    and get_del: "get (del k s) j = (if j = k then None else get s j)"
    and wf_put: "wf s \<Longrightarrow> wf (put k v s)"
    and wf_del: "wf s \<Longrightarrow> wf (del k s)"
    and in_entries: "wf s \<Longrightarrow> (k, v) \<in> set (entries s) \<longleftrightarrow> get s k = Some v"
    and distinct_entries: "wf s \<Longrightarrow> distinct (map fst (entries s))"
begin

lemma get_put_same: "get (put k v s) k = Some v"
  by (simp add: get_put)

lemma get_del_same: "get (del k s) k = None"
  by (simp add: get_del)

lemma distinct_entries': "wf s \<Longrightarrow> distinct (entries s)"
  using distinct_entries by (simp add: distinct_map)

lemma total_as_sum:
  assumes "wf s"
  shows "kv_total f (entries s) = (\<Sum>e\<in>set (entries s). f (fst e) (snd e))"
  unfolding kv_total_def by (rule sum_list_distinct_conv_sum_set [OF distinct_entries' [OF assms]])

text \<open>What writing one key does to a total: the old value's share is replaced by the new one's.\<close>

lemma total_split:
  assumes "wf s"
  shows "kv_total f (entries s) =
    (case get s k of None \<Rightarrow> 0 | Some v \<Rightarrow> f k v) +
    (\<Sum>e\<in>{e \<in> set (entries s). fst e \<noteq> k}. f (fst e) (snd e))"
proof -
  let ?E = "set (entries s)"
  have k: "{e \<in> ?E. fst e = k} = (case get s k of None \<Rightarrow> {} | Some v \<Rightarrow> {(k, v)})"
    using in_entries [OF assms] by (auto split: option.splits)
  have "(\<Sum>e\<in>?E. f (fst e) (snd e)) =
      (\<Sum>e\<in>{e \<in> ?E. fst e = k}. f (fst e) (snd e)) +
      (\<Sum>e\<in>{e \<in> ?E. fst e \<noteq> k}. f (fst e) (snd e))"
    by (subst sum.union_disjoint [symmetric]) (auto intro: sum.cong)
  also have "(\<Sum>e\<in>{e \<in> ?E. fst e = k}. f (fst e) (snd e)) =
      (case get s k of None \<Rightarrow> 0 | Some v \<Rightarrow> f k v)"
    unfolding k by (auto split: option.splits)
  finally show ?thesis by (simp add: total_as_sum [OF assms])
qed

lemma entries_put_other:
  assumes "wf s"
  shows "{e \<in> set (entries (put k v s)). fst e \<noteq> k} = {e \<in> set (entries s). fst e \<noteq> k}"
  using in_entries [OF assms] in_entries [OF wf_put [OF assms]] by (auto simp: get_put)

lemma entries_del_other:
  assumes "wf s"
  shows "{e \<in> set (entries (del k s)). fst e \<noteq> k} = {e \<in> set (entries s). fst e \<noteq> k}"
  using in_entries [OF assms] in_entries [OF wf_del [OF assms]] by (auto simp: get_del)

theorem total_put:
  assumes "wf s"
  shows "kv_total f (entries (put k v s)) =
    kv_total f (entries s) - (case get s k of None \<Rightarrow> 0 | Some u \<Rightarrow> f k u) + f k v"
  unfolding total_split [OF assms, of f k] total_split [OF wf_put [OF assms], of f k v k]
    entries_put_other [OF assms]
  by (simp add: get_put)

theorem total_del:
  assumes "wf s"
  shows "kv_total f (entries (del k s)) =
    kv_total f (entries s) - (case get s k of None \<Rightarrow> 0 | Some u \<Rightarrow> f k u)"
  unfolding total_split [OF assms, of f k] total_split [OF wf_del [OF assms], of f k k]
    entries_del_other [OF assms]
  by (simp add: get_del)

end

section \<open>The stores of the model satisfy the contract\<close>

lemma kv_get_set: "kv_get (kv_set k v s) j = (if j = k then Some v else kv_get s j)"
  unfolding kv_get_def by (induction k v s rule: kv_set.induct) auto

lemma kv_get_delete: "kv_get (kv_delete k s) j = (if j = k then None else kv_get s j)"
  unfolding kv_get_def kv_delete_def
  using map_of_filter_key [of "\<lambda>x. x \<noteq> k" s j] by simp

lemma keys_kv_set: "fst ` set (kv_set k v s) = insert k (fst ` set s)"
  by (induction k v s rule: kv_set.induct) auto

lemma kv_wf_Nil [simp]: "kv_wf []"
  by (simp add: kv_wf_def)

lemma kv_wf_set: "kv_wf s \<Longrightarrow> kv_wf (kv_set k v s)"
  unfolding kv_wf_def
proof (induction k v s rule: kv_set.induct)
  case (1 k v)
  then show ?case by simp
next
  case (2 k v k' v' s)
  have keys: "set (map fst (kv_set k v s)) = insert k (set (map fst s))"
    using keys_kv_set [of k v s] by simp
  show ?case
    using "2" keys by (auto simp del: set_map intro: less_trans)
qed

lemma kv_wf_delete: "kv_wf s \<Longrightarrow> kv_wf (kv_delete k s)"
  unfolding kv_wf_def kv_delete_def by (rule sorted_wrt_filter_map)

lemma kv_wf_distinct: "kv_wf s \<Longrightarrow> distinct (map fst s)"
  by (simp add: kv_wf_def strict_sorted_iff)

lemma in_kv_entries: "kv_wf s \<Longrightarrow> (k, v) \<in> set s \<longleftrightarrow> kv_get s k = Some v"
  by (auto simp: kv_get_def dest: map_of_is_SomeI [OF kv_wf_distinct] map_of_SomeD)

interpretation kv: kv_interface kv_get kv_set kv_delete "\<lambda>s. s" kv_wf
  by unfold_locales
     (auto simp: kv_get_set kv_get_delete kv_wf_set kv_wf_delete kv_wf_distinct in_kv_entries)

lemmas kv_get_put [simp] = kv.get_put
lemmas kv_get_del [simp] = kv.get_del
lemmas kv_wf_intros [intro] = kv.wf_put kv.wf_del

lemma kv_get_Nil [simp]: "kv_get [] k = None"
  by (simp add: kv_get_def)

lemma kv_has_iff: "kv_has s k \<longleftrightarrow> (\<exists>v. kv_get s k = Some v)"
  by (auto simp: kv_has_def kv_get_def)

lemma in_kv_iterate:
  "kv_wf s \<Longrightarrow> (k, v) \<in> set (kv_iterate p s) \<longleftrightarrow> kv_get s k = Some v \<and> prefix p k"
  using kv.in_entries [of s k v] by (auto simp: kv_iterate_def)

lemma kv_iterate_sorted: "kv_wf s \<Longrightarrow> kv_wf (kv_iterate p s)"
  unfolding kv_wf_def kv_iterate_def by (rule sorted_wrt_filter_map)

lemma kv_iterate_Nil [simp]: "kv_iterate [] s = s"
  by (simp add: kv_iterate_def)

text \<open>Appending at the end of a sorted store.\<close>

lemma kv_set_snoc: "kv_wf (p @ [(k, v)]) \<Longrightarrow> kv_set k v p = p @ [(k, v)]"
  by (induction k v p rule: kv_set.induct) (auto simp: kv_wf_def)

lemma kv_wf_split:
  assumes "kv_wf (p @ (k, v) # q)"
  shows "kv_get p k = None" "kv_set k v p = p @ [(k, v)]"
proof -
  have wf: "kv_wf (p @ [(k, v)])" using assms by (auto simp: kv_wf_def sorted_wrt_append)
  then show "kv_set k v p = p @ [(k, v)]" by (rule kv_set_snoc)
  show "kv_get p k = None"
    using kv_wf_distinct [OF wf] by (auto simp: kv_get_def map_of_eq_None_iff)
qed

text \<open>Storing entries with different keys.\<close>

definition put_all :: "('k::linorder \<times> 'v) list \<Rightarrow> ('k, 'v) kv" where
  "put_all es = fold (\<lambda>(k, v). kv_set k v) es []"

lemma put_all_snoc [simp]: "put_all [] = []" "put_all (es @ [(k, v)]) = kv_set k v (put_all es)"
  by (simp_all add: put_all_def)

lemma kv_get_put_all: "distinct (map fst es) \<Longrightarrow> kv_get (put_all es) k = map_of es k"
proof (induction es rule: rev_induct)
  case (snoc e es)
  then show ?case
    by (cases e) (force simp: map_add_def map_of_eq_None_iff split: option.splits)
qed simp

lemma rfold_put:
  assumes "distinct (map fst (map entry xs))"
    and "\<And>x p. x \<in> set xs \<Longrightarrow> kv_get p (fst (entry x)) = None \<Longrightarrow> F x (mk p) = Inr (mk (kv_set (fst (entry x)) (snd (entry x)) p))"
  shows "rfold F xs (mk []) = Inr (mk (put_all (map entry xs)))"
  using assms
proof (induction xs rule: rev_induct)
  case (snoc x xs)
  have IH: "rfold F xs (mk []) = Inr (mk (put_all (map entry xs)))" by (rule snoc.IH) (use snoc.prems in auto)
  have "kv_get (put_all (map entry xs)) (fst (entry x)) = None"
    using snoc.prems(1) by (subst kv_get_put_all) (auto simp: map_of_eq_None_iff image_image)
  then show ?case
    using IH snoc.prems(2) [of x] by (cases "entry x") (simp add: rfold_snoc)
qed (simp add: assms)

lemma kv_as_map: "kv_wf s \<Longrightarrow> map (\<lambda>k. (k, the (kv_get s k))) (map fst s) = s"
  unfolding map_map comp_def by (rule map_idI) (auto simp: in_kv_entries)

lemma kv_ext:
  assumes "kv_wf s" "kv_wf t" "\<And>k. kv_get s k = kv_get t k"
  shows "s = t"
proof -
  have "fst ` set s = fst ` set t" unfolding dom_map_of_conv_image_fst [symmetric] using assms(3) by (simp add: kv_get_def dom_def)
  moreover have "sorted (map fst s)" "sorted (map fst t)" "distinct (map fst s)" "distinct (map fst t)"
    using assms(1,2) by (simp_all add: kv_wf_def strict_sorted_iff)
  ultimately have "map fst s = map fst t" by (intro sorted_distinct_set_unique) simp_all
  then show ?thesis using kv_as_map [OF assms(1)] kv_as_map [OF assms(2)] assms(3) by simp
qed

lemma kv_wf_put_all: "kv_wf (put_all es)"
  unfolding put_all_def
proof -
  have "kv_wf (fold (\<lambda>(k, v). kv_set k v) es s)" if "kv_wf s" for s
    using that by (induction es arbitrary: s) (auto intro: kv.wf_put)
  then show "kv_wf (fold (\<lambda>(k, v). kv_set k v) es [])" by simp
qed

lemma put_all_sorted: "kv_wf es \<Longrightarrow> put_all es = es"
  by (rule kv_ext [OF kv_wf_put_all]) (simp_all add: kv_get_put_all [OF kv_wf_distinct], simp add: kv_get_def)

lemma put_all_keys: "put_all (map (\<lambda>k. (k, v)) ks) = fold (\<lambda>k. kv_set k v) ks []"
  by (simp add: put_all_def fold_map comp_def)

end
