(* ===== verification/Keys.thy ===== *)
theory Keys
  imports Decimal KVStore
begin

text \<open>
  Store keys and identifiers: the helpers of \<^verbatim>\<open>utils/utils.go\<close> that join and split composite
  keys, the record keys of \<^verbatim>\<open>x/delegation/types/keys.go\<close>, and the staker and asset identifiers of
  \<^verbatim>\<open>x/assets/types\<close>. The address and number encodings these are built from belong to
  \<^verbatim>\<open>cosmos-sdk\<close> and \<^verbatim>\<open>go-ethereum\<close>: they are fields of the record \<open>codec\<close>, with the
  contract \<open>chain_codec\<close>. The lemmas are the round trips of the parsers, the injectivity of the
  keys, and the order of the pending-undelegation keys.
\<close>

section \<open>Go strings\<close>

fun join :: "string \<Rightarrow> string list \<Rightarrow> string" where
  "join d [] = []"
| "join d [x] = x"
| "join d (x # y # xs) = x @ d @ join d (y # xs)"

fun split_char :: "char \<Rightarrow> string \<Rightarrow> string list" where
  "split_char c [] = [[]]"
| "split_char c (x # xs) =
     (if x = c then [] # split_char c xs
      else (case split_char c xs of [] \<Rightarrow> [[x]] | y # ys \<Rightarrow> (x # y) # ys))"

definition no_char :: "char \<Rightarrow> string \<Rightarrow> bool" where
  "no_char c s = (c \<notin> set s)"

definition lower_char :: "char \<Rightarrow> char" where
  "lower_char c = (let n = (of_char c :: nat) in if 65 \<le> n \<and> n \<le> 90 then char_of (n + 32) else c)"

definition to_lower :: "string \<Rightarrow> string" where
  "to_lower s = map lower_char s"

fun decimal :: "nat \<Rightarrow> string" where
  "decimal n = (if n < 10 then [char_of (48 + n)] else decimal (n div 10) @ [char_of (48 + n mod 10)])"

declare decimal.simps [simp del]

text \<open>\<^verbatim>\<open>fmt.Sprintf("%021d", n)\<close>\<close>

definition decimal21 :: "uint64 \<Rightarrow> string" where
  "decimal21 w = (let s = decimal (unat w) in replicate (21 - length s) (CHR ''0'') @ s)"

lemma split_char_nonempty [simp]: "split_char c s \<noteq> []"
  by (induction c s rule: split_char.induct) (auto split: list.splits)

lemma split_char_no_char: "no_char c x \<Longrightarrow> split_char c x = [x]"
  by (induction x) (auto simp: no_char_def)

lemma split_char_append:
  "no_char c x \<Longrightarrow> split_char c (x @ c # s) = x # split_char c s"
  by (induction x) (auto simp: no_char_def)

lemma split_join:
  "ks \<noteq> [] \<Longrightarrow> \<forall>k\<in>set ks. no_char c k \<Longrightarrow> split_char c (join [c] ks) = ks"
  by (induction "[c]" ks rule: join.induct) (auto simp: split_char_no_char split_char_append)

lemma join_inj:
  assumes "join [c] ks = join [c] ls" "length ks = length ls"
    and "\<forall>k\<in>set ks. no_char c k" "\<forall>l\<in>set ls. no_char c l"
  shows "ks = ls"
proof (cases "ks = []")
  case False
  with assms(2) have "ls \<noteq> []" by auto
  with False assms show ?thesis by (metis split_join)
qed (use assms(2) in simp)

section \<open>Big-endian numbers\<close>

fun be_bytes :: "nat \<Rightarrow> nat \<Rightarrow> bytes" where
  "be_bytes 0 v = []"
| "be_bytes (Suc k) v = char_of (v div 256 ^ k) # be_bytes k (v mod 256 ^ k)"

fun be_value :: "bytes \<Rightarrow> nat" where
  "be_value [] = 0"
| "be_value (b # bs) = of_char b * 256 ^ length bs + be_value bs"

lemma length_be_bytes [simp]: "length (be_bytes k v) = k"
  by (induction k v rule: be_bytes.induct) simp_all

lemma be_digit_less: "v < 256 ^ Suc k \<Longrightarrow> v div 256 ^ k < (256::nat)"
  by (simp add: less_mult_imp_div_less)

lemma be_value_bytes: "v < 256 ^ k \<Longrightarrow> be_value (be_bytes k v) = v"
proof (induction k v rule: be_bytes.induct)
  case (1 v)
  then show ?case by simp
next
  case (2 k v)
  have "v div 256 ^ k < 256" using "2.prems" by (rule be_digit_less)
  with "2" have "be_value (be_bytes (Suc k) v) = v div 256 ^ k * 256 ^ k + v mod 256 ^ k"
    by (simp add: take_bit_nat_eq_self)
  then show ?case by (simp only: div_mult_mod_eq)
qed

lemma be_bytes_less_iff:
  "v < 256 ^ k \<Longrightarrow> w < 256 ^ k \<Longrightarrow> be_bytes k v < be_bytes k w \<longleftrightarrow> v < w"
proof (induction k arbitrary: v w)
  case 0
  then show ?case by simp
next
  case (Suc k)
  let ?B = "256 ^ k :: nat"
  have dv: "v div ?B < 256" and dw: "w div ?B < 256"
    using Suc.prems by (simp_all add: be_digit_less)
  have ord: "(char_of a :: char) < char_of b \<longleftrightarrow> a < b" if "a < 256" "b < 256" for a b :: nat
    using that by (simp add: less_char_def)
  have inj: "(char_of a :: char) = char_of b \<longleftrightarrow> a = b" if "a < 256" "b < 256" for a b :: nat
    using that by (metis of_char_of mod_less)
  have IH: "be_bytes k (v mod ?B) < be_bytes k (w mod ?B) \<longleftrightarrow> v mod ?B < w mod ?B"
    by (rule Suc.IH) simp_all
  have vw: "v = v div ?B * ?B + v mod ?B" "w = w div ?B * ?B + w mod ?B"
    by (simp_all only: div_mult_mod_eq)
  have mB: "v mod ?B < ?B" "w mod ?B < ?B" by simp_all
  show ?case
  proof (cases "v div ?B" "w div ?B" rule: linorder_cases)
    case less
    then have "(v div ?B + 1) * ?B \<le> w div ?B * ?B" by (intro mult_le_mono1) simp
    then have "v < w" using vw mB unfolding distrib_right mult_1 by linarith
    with less show ?thesis by (simp add: ord dv dw)
  next
    case equal
    then have "v < w \<longleftrightarrow> v mod ?B < w mod ?B"
      using vw by (metis add_less_cancel_left)
    with equal IH show ?thesis by simp
  next
    case greater
    then have "(w div ?B + 1) * ?B \<le> v div ?B * ?B" by (intro mult_le_mono1) simp
    then have "w < v" using vw mB unfolding distrib_right mult_1 by linarith
    with greater show ?thesis by (simp add: ord inj dv dw)
  qed
qed

text \<open>\<^verbatim>\<open>utils.Uint32ToBigEndian\<close> and \<^verbatim>\<open>utils.BigEndianToUint32\<close>; reading fewer than four bytes panics.\<close>

definition Uint32ToBigEndian :: "uint32 \<Rightarrow> bytes" where
  "Uint32ToBigEndian i = be_bytes 4 (unat i)"

definition BigEndianToUint32 :: "bytes \<Rightarrow> uint32 result" where
  "BigEndianToUint32 bz =
     (if bz = [] then Inr 0
      else if length bz < 4 then Inl (Panic ''index out of range'')
      else Inr (of_nat (be_value (take 4 bz))))"

section \<open>Composite keys\<close>

definition DelimiterForCombinedKey :: char where
  "DelimiterForCombinedKey = CHR ''/''"

definition DelimiterForID :: char where
  "DelimiterForID = CHR ''_''"

definition GetJoinedStoreKey :: "string list \<Rightarrow> bytes" where
  "GetJoinedStoreKey keys = join [DelimiterForCombinedKey] keys"

definition GetJoinedStoreKeyForPrefix :: "string list \<Rightarrow> bytes" where
  "GetJoinedStoreKeyForPrefix keys = GetJoinedStoreKey keys @ [DelimiterForCombinedKey]"

definition ParseJoinedKey :: "bytes \<Rightarrow> string list" where
  "ParseJoinedKey key = split_char DelimiterForCombinedKey key"

definition IsJoinedStoreKey :: "string \<Rightarrow> bool" where
  "IsJoinedStoreKey key = (DelimiterForCombinedKey \<in> set key)"

definition ParseJoinedKeyWithCount :: "bytes \<Rightarrow> nat \<Rightarrow> string list result" where
  "ParseJoinedKeyWithCount key number =
     (let stringList = ParseJoinedKey key in
      if length stringList \<noteq> number then Inl ErrParse else Inr stringList)"

definition AppendMany :: "bytes list \<Rightarrow> bytes" where
  "AppendMany byteses = concat byteses"

text \<open>A part of a composite key: it contains no delimiter.\<close>

abbreviation key_part :: "string \<Rightarrow> bool" where
  "key_part \<equiv> no_char DelimiterForCombinedKey"

lemma ParseJoinedKeyWithCount_joined:
  assumes "ks \<noteq> []" "\<forall>k\<in>set ks. key_part k"
  shows "ParseJoinedKeyWithCount (GetJoinedStoreKey ks) (length ks) = Inr ks"
  using assms
  by (simp add: ParseJoinedKeyWithCount_def ParseJoinedKey_def GetJoinedStoreKey_def split_join)

lemma GetJoinedStoreKey_inj:
  assumes "GetJoinedStoreKey ks = GetJoinedStoreKey ls" "length ks = length ls"
    and "\<forall>k\<in>set ks. key_part k" "\<forall>l\<in>set ls. key_part l"
  shows "ks = ls"
  using assms unfolding GetJoinedStoreKey_def by (rule join_inj)

section \<open>Encodings of the SDK and of go-ethereum\<close>

record codec =
  accAddressString :: "bytes \<Rightarrow> string"             \<comment> \<open>\<open>sdk.AccAddress.String\<close>\<close>
  accAddressFromBech32 :: "string \<Rightarrow> bytes option"  \<comment> \<open>\<open>sdk.AccAddressFromBech32\<close>\<close>
  hexEncode :: "bytes \<Rightarrow> string"                    \<comment> \<open>\<open>hexutil.Encode\<close>\<close>
  hexDecode :: "string \<Rightarrow> bytes option"             \<comment> \<open>\<open>hexutil.Decode\<close>\<close>
  hexEncodeUint64 :: "uint64 \<Rightarrow> string"             \<comment> \<open>\<open>hexutil.EncodeUint64\<close>\<close>
  hexDecodeUint64 :: "string \<Rightarrow> uint64 option"      \<comment> \<open>\<open>hexutil.DecodeUint64\<close>\<close>
  isHexAddress :: "string \<Rightarrow> bool"                 \<comment> \<open>\<open>common.IsHexAddress\<close>\<close>
  hexToAddress :: "string \<Rightarrow> bytes"                \<comment> \<open>\<open>common.HexToAddress\<close>\<close>
  addressHex :: "bytes \<Rightarrow> string"                  \<comment> \<open>\<open>common.Address.Hex\<close>\<close>
  hexToHash :: "string \<Rightarrow> bytes"                    \<comment> \<open>\<open>common.HexToHash(s).Bytes()\<close>\<close>
  hashString :: "bytes \<Rightarrow> string"                   \<comment> \<open>\<open>common.BytesToHash(b).String()\<close>\<close>
  Uint64ToBigEndian :: "uint64 \<Rightarrow> bytes"            \<comment> \<open>\<open>sdk.Uint64ToBigEndian\<close>\<close>
  BigEndianToUint64 :: "bytes \<Rightarrow> uint64"            \<comment> \<open>\<open>sdk.BigEndianToUint64\<close>\<close>
  keccak256 :: "bytes \<Rightarrow> bytes"                     \<comment> \<open>\<open>crypto.Keccak256\<close>\<close>
  bytesToAddress :: "bytes \<Rightarrow> bytes"                \<comment> \<open>\<open>common.BytesToAddress\<close>\<close>
  isRevisionFormat :: "string \<Rightarrow> bool"             \<comment> \<open>\<open>ibcclienttypes.IsRevisionFormat\<close>\<close>
  toConsAddr :: "bytes \<Rightarrow> bytes"                    \<comment> \<open>\<open>sdk.GetConsAddress\<close> of an ed25519 key\<close>

definition AccAddressLength :: nat where "AccAddressLength = 20"
definition ByteLengthForUint64 :: nat where "ByteLengthForUint64 = 8"
definition HashLength :: nat where "HashLength = 32"

lemmas key_lengths = AccAddressLength_def ByteLengthForUint64_def HashLength_def

text \<open>
  What the modules rely on: an account address of the chain's length is recovered from its bech32
  form, the empty string is not an address, the hexadecimal and bech32 forms contain no delimiter, hashes have 32 bytes and are written with the prefix
  \<open>0x\<close>, the big-endian form of a \<^verbatim>\<open>uint64\<close> has eight bytes that sort like the number, and the checksummed
  form of an address differs from its hexadecimal form only in the case of the letters.
\<close>

locale chain_codec =
  fixes C :: codec
  assumes acc_roundtrip: "length a = AccAddressLength \<Longrightarrow> accAddressFromBech32 C (accAddressString C a) = Some a"
    and acc_empty: "accAddressFromBech32 C [] = None"
    and acc_part: "key_part (accAddressString C a)"
    and hex_roundtrip: "hexDecode C (hexEncode C b) = Some b"
    and hex_part: "key_part (hexEncode C b)" "no_char DelimiterForID (hexEncode C b)"
    and hex_nonempty: "hexEncode C b \<noteq> []"
    and hex64_roundtrip: "hexDecodeUint64 C (hexEncodeUint64 C w) = Some w"
    and hex64_part: "key_part (hexEncodeUint64 C w)" "no_char DelimiterForID (hexEncodeUint64 C w)"
    and hash_length: "length (hexToHash C s) = HashLength"
    and hash_prefix: "take 2 (hashString C h) = ''0x''"
    and hash_roundtrip: "length h = HashLength \<Longrightarrow> hexToHash C (hashString C h) = h"
    and be64_length: "length (Uint64ToBigEndian C w) = ByteLengthForUint64"
    and be64_roundtrip: "BigEndianToUint64 C (Uint64ToBigEndian C w) = w"
    and be64_order: "Uint64ToBigEndian C v < Uint64ToBigEndian C w \<longleftrightarrow> v < w"
    and address_lower: "to_lower (addressHex C a) = hexEncode C a"
begin

lemma be64_inj: "Uint64ToBigEndian C v = Uint64ToBigEndian C w \<longleftrightarrow> v = w"
  by (metis be64_roundtrip)

lemma be64_mono: "Uint64ToBigEndian C v \<le> Uint64ToBigEndian C w \<longleftrightarrow> v \<le> w"
  by (auto simp: le_less be64_order be64_inj)

lemma acc_nonempty: "length a = AccAddressLength \<Longrightarrow> accAddressString C a \<noteq> []"
  using acc_roundtrip acc_empty by fastforce

lemma acc_inj:
  "length a = AccAddressLength \<Longrightarrow> length b = AccAddressLength \<Longrightarrow>
   accAddressString C a = accAddressString C b \<longleftrightarrow> a = b"
  by (metis acc_roundtrip option.inject)

lemma hex_inj: "hexEncode C a = hexEncode C b \<longleftrightarrow> a = b"
  by (metis hex_roundtrip option.inject)

lemma hex64_inj: "hexEncodeUint64 C v = hexEncodeUint64 C w \<longleftrightarrow> v = w"
  by (metis hex64_roundtrip option.inject)

end

section \<open>Identifiers of stakers and assets\<close>

definition ImuachainAssetID :: string where
  "ImuachainAssetID = ''0x0000000000000000000000000000000000000000_0x0''"

text \<open>A nil address gives the empty identifier.\<close>

definition GetStakerIDAndAssetID ::
    "codec \<Rightarrow> uint64 \<Rightarrow> bytes option \<Rightarrow> bytes option \<Rightarrow> string \<times> string" where
  "GetStakerIDAndAssetID C clientChainLzID stakerAddress assetsAddress =
     (let clientChainLzIDStr = hexEncodeUint64 C clientChainLzID;
          ident = (\<lambda>a. case a of None \<Rightarrow> []
             | Some b \<Rightarrow> join [DelimiterForID] [hexEncode C b, clientChainLzIDStr])
      in (ident stakerAddress, ident assetsAddress))"

definition GetStakerIDAndAssetIDFromStr ::
    "codec \<Rightarrow> uint64 \<Rightarrow> string \<Rightarrow> string \<Rightarrow> string \<times> string" where
  "GetStakerIDAndAssetIDFromStr C clientChainLzID stakerAddress assetsAddress =
     (let clientChainLzIDStr = hexEncodeUint64 C clientChainLzID;
          ident = (\<lambda>a. if a = [] then []
             else join [DelimiterForID] [to_lower a, clientChainLzIDStr])
      in (ident stakerAddress, ident assetsAddress))"

definition ParseID :: "codec \<Rightarrow> string \<Rightarrow> (string \<times> uint64) result" where
  "ParseID C key =
     (case split_char DelimiterForID key of
        [a, b] \<Rightarrow>
          if a = [] then Inl ErrParseAssetsStateKey
          else (case hexDecodeUint64 C b of
                  None \<Rightarrow> Inl ErrParseAssetsStateKey
                | Some ident \<Rightarrow> Inr (a, ident))
      | _ \<Rightarrow> Inl ErrParseAssetsStateKey)"

definition FillCharForRestakingAssetAddr :: char where
  "FillCharForRestakingAssetAddr = char_of (0xee :: nat)"

definition IsNST :: "codec \<Rightarrow> string \<Rightarrow> bool" where
  "IsNST C assetID =
     (case ParseID C assetID of
        Inl _ \<Rightarrow> False
      | Inr (assetAddr, _) \<Rightarrow>
          (case hexDecode C assetAddr of
             None \<Rightarrow> False
           | Some addressBytes \<Rightarrow>
               list_all (\<lambda>b. b = FillCharForRestakingAssetAddr) addressBytes))"

text \<open>
  \<open>GenerateNSTAddr\<close> doubles the filled part of the slice with \<^verbatim>\<open>copy\<close>: \<open>nst_fill i\<close> is the loop
  from index \<open>i\<close> on, and \<^verbatim>\<open>copy(address[i:], address[:i])\<close> writes at most what is left.
\<close>

definition copy_within :: "bytes \<Rightarrow> nat \<Rightarrow> bytes" where
  "copy_within a i = take i a @ take (length a - i) (take i a) @ drop (2 * i) a"

function nst_fill :: "bytes \<Rightarrow> nat \<Rightarrow> bytes" where
  "nst_fill a i = (if 0 < i \<and> i < length a then nst_fill (copy_within a i) (2 * i) else a)"
  by pat_completeness auto
termination
  by (relation "measure (\<lambda>(a, i). length a - i)") (auto simp: copy_within_def min_def)

declare nst_fill.simps [simp del]

definition GenerateNSTAddr :: "uint32 \<Rightarrow> bytes" where
  "GenerateNSTAddr clientChainAddrLength =
     (if clientChainAddrLength = 0 then []
      else nst_fill
        ((replicate (unat clientChainAddrLength) (char_of (0 :: nat)))
           [0 := FillCharForRestakingAssetAddr]) 1)"

section \<open>Record keys of the delegation module\<close>

definition IteratorPrefixForStakerAsset :: "string \<Rightarrow> string \<Rightarrow> bytes" where
  "IteratorPrefixForStakerAsset stakerID assetID = join ''/'' [stakerID, assetID] @ ''/''"

text \<open>\<^verbatim>\<open>SingleDelegationInfoReq\<close> as the triple of staker, asset and operator.\<close>

definition ParseStakerAssetIDAndOperator :: "bytes \<Rightarrow> (string \<times> string \<times> string) result" where
  "ParseStakerAssetIDAndOperator key =
     rbind (ParseJoinedKeyWithCount key 3)
       (\<lambda>stringList. Inr (stringList ! 0, stringList ! 1, stringList ! 2))"

definition MustAccAddressFromBech32 :: "codec \<Rightarrow> string \<Rightarrow> bytes result" where
  "MustAccAddressFromBech32 C s = of_option (Panic ''invalid bech32 address'') (accAddressFromBech32 C s)"

definition GetUndelegationRecordKey ::
    "codec \<Rightarrow> uint64 \<Rightarrow> uint64 \<Rightarrow> string \<Rightarrow> string \<Rightarrow> bytes result" where
  "GetUndelegationRecordKey C blockHeight undelegationID txHash operatorAddr =
     rbind (MustAccAddressFromBech32 C operatorAddr) (\<lambda>operatorAccAddress.
     Inr (AppendMany
       [operatorAccAddress,
        Uint64ToBigEndian C blockHeight,
        Uint64ToBigEndian C undelegationID,
        hexToHash C txHash]))"

record UndelegationKeyFields =
  kf_BlockHeight :: uint64
  kf_UndelegationID :: uint64
  kf_TxHash :: string
  kf_OperatorAddr :: string

definition ParseUndelegationRecordKey :: "codec \<Rightarrow> bytes \<Rightarrow> UndelegationKeyFields result" where
  "ParseUndelegationRecordKey C key =
     (let expectLength = AccAddressLength + 2 * ByteLengthForUint64 + HashLength in
      if length key \<noteq> expectLength then Inl ErrParse
      else
        let operatorAccAddr = take AccAddressLength key;
            key1 = drop AccAddressLength key;
            height = BigEndianToUint64 C (take ByteLengthForUint64 key1);
            key2 = drop ByteLengthForUint64 key1;
            undelegationID = BigEndianToUint64 C (take ByteLengthForUint64 key2);
            key3 = drop ByteLengthForUint64 key2;
            txHash = take HashLength key3
        in Inr \<lparr>kf_BlockHeight = height, kf_UndelegationID = undelegationID,
                kf_TxHash = hashString C txHash,
                kf_OperatorAddr = accAddressString C operatorAccAddr\<rparr>)"

definition GetStakerUndelegationRecordKey :: "string \<Rightarrow> string \<Rightarrow> uint64 \<Rightarrow> bytes" where
  "GetStakerUndelegationRecordKey stakerID assetID undelegationID =
     join ''/'' [stakerID, assetID, decimal21 undelegationID]"

record PendingUndelegationKeyFields =
  pk_EpochIdentifier :: string
  pk_EpochNumber :: uint64
  pk_UndelegationID :: uint64

definition GetPendingUndelegationRecordKey :: "codec \<Rightarrow> string \<Rightarrow> int \<Rightarrow> uint64 \<Rightarrow> bytes" where
  "GetPendingUndelegationRecordKey C epochIdentifier epochNumber undelegationID =
     AppendMany
       [Uint64ToBigEndian C (of_nat (length epochIdentifier)),
        epochIdentifier,
        Uint64ToBigEndian C (of_int epochNumber),
        Uint64ToBigEndian C undelegationID]"

definition ParsePendingUndelegationKey :: "codec \<Rightarrow> bytes \<Rightarrow> PendingUndelegationKeyFields result" where
  "ParsePendingUndelegationKey C key =
     (if length key \<le> 3 * ByteLengthForUint64 then Inl ErrParse
      else
        let identifierLen = BigEndianToUint64 C (take ByteLengthForUint64 key) in
        if (of_nat (length key) :: uint64) \<noteq> of_nat (3 * ByteLengthForUint64) + identifierLen
        then Inl ErrParse
        else
          let n = unat identifierLen;
              rest = drop ByteLengthForUint64 key
          in Inr \<lparr>pk_EpochIdentifier = take n rest,
                  pk_EpochNumber = BigEndianToUint64 C (take ByteLengthForUint64 (drop n rest)),
                  pk_UndelegationID = BigEndianToUint64 C (drop (ByteLengthForUint64 + n) rest)\<rparr>)"

definition prefixUndelegationOnHold :: char where
  "prefixUndelegationOnHold = char_of (6 :: nat)"

definition GetUndelegationOnHoldKey :: "bytes \<Rightarrow> bytes" where
  "GetUndelegationOnHoldKey recordKey = prefixUndelegationOnHold # recordKey"

end
