(* ===== verification/KeyProps.thy ===== *)
theory KeyProps
  imports Keys
begin

text \<open>
  What holds of keys and identifiers: a codec that satisfies the contract (the hexadecimal forms
  of go-ethereum, and addresses written in hexadecimal behind the human-readable prefix), the round
  trips of every parser with its builder, and that the doubling loop of \<open>GenerateNSTAddr\<close>
  fills the whole address.
\<close>

section \<open>A codec that satisfies the contract\<close>

definition hex_digit :: "nat \<Rightarrow> char" where
  "hex_digit n = (if n < 10 then char_of (48 + n) else char_of (87 + n))"

definition hex_val :: "char \<Rightarrow> nat option" where
  "hex_val c = (let n = (of_char c :: nat) in
     if 48 \<le> n \<and> n \<le> 57 then Some (n - 48)
     else if 97 \<le> n \<and> n \<le> 102 then Some (n - 87) else None)"

fun hex_bytes :: "bytes \<Rightarrow> string" where
  "hex_bytes [] = []"
| "hex_bytes (b # bs) = hex_digit (of_char b div 16) # hex_digit (of_char b mod 16) # hex_bytes bs"

fun unhex_bytes :: "string \<Rightarrow> bytes option" where
  "unhex_bytes [] = Some []"
| "unhex_bytes [c] = None"
| "unhex_bytes (h # l # s) =
     (case (hex_val h, hex_val l, unhex_bytes s) of
        (Some a, Some b, Some r) \<Rightarrow> Some (char_of (16 * a + b) # r)
      | _ \<Rightarrow> None)"

fun hex_nat :: "nat \<Rightarrow> string" where
  "hex_nat n = (if n < 16 then [hex_digit n] else hex_nat (n div 16) @ [hex_digit (n mod 16)])"

declare hex_nat.simps [simp del]

fun unhex_nat :: "nat \<Rightarrow> string \<Rightarrow> nat option" where
  "unhex_nat acc [] = Some acc"
| "unhex_nat acc (c # s) = (case hex_val c of None \<Rightarrow> None | Some d \<Rightarrow> unhex_nat (16 * acc + d) s)"

definition hex0x :: "string \<Rightarrow> string option" where
  "hex0x s = (if take 2 s = ''0x'' then Some (drop 2 s) else None)"

definition ref_codec :: codec where
  "ref_codec = \<lparr>
     accAddressString = (\<lambda>a. ''im1'' @ hex_bytes a),
     accAddressFromBech32 = (\<lambda>s.
       if take 3 s = ''im1''
       then (case unhex_bytes (drop 3 s) of Some (b # bs) \<Rightarrow> Some (b # bs) | _ \<Rightarrow> None) else None),
     hexEncode = (\<lambda>b. ''0x'' @ hex_bytes b),
     hexDecode = (\<lambda>s. Option.bind (hex0x s) unhex_bytes),
     hexEncodeUint64 = (\<lambda>w. ''0x'' @ hex_nat (unat w)),
     hexDecodeUint64 = (\<lambda>s. map_option of_nat (Option.bind (hex0x s) (unhex_nat 0))),
     isHexAddress = (\<lambda>s. case Option.bind (hex0x s) unhex_bytes of Some b \<Rightarrow> length b = 20 | None \<Rightarrow> False),
     hexToAddress = (\<lambda>s. case Option.bind (hex0x (to_lower s)) unhex_bytes of Some b \<Rightarrow> b | None \<Rightarrow> []),
     addressHex = (\<lambda>b. ''0x'' @ hex_bytes b),
     hexToHash = (\<lambda>s. case Option.bind (hex0x s) unhex_bytes of
         Some b \<Rightarrow> if length b = 32 then b else replicate 32 (char_of (0 :: nat))
       | None \<Rightarrow> replicate 32 (char_of (0 :: nat))),
     hashString = (\<lambda>h. ''0x'' @ hex_bytes h),
     Uint64ToBigEndian = (\<lambda>w. be_bytes 8 (unat w)),
     BigEndianToUint64 = (\<lambda>b. of_nat (be_value b)),
     keccak256 = (\<lambda>b. b),
     bytesToAddress = (\<lambda>b. replicate (20 - length b) (char_of (0 :: nat)) @ drop (length b - 20) b),
     isRevisionFormat = (\<lambda>s. False),
     toConsAddr = (\<lambda>b. b)\<rparr>"

lemma hex_digit_simps [simp]:
  "hex_digit 0 = CHR ''0''" "hex_digit 1 = CHR ''1''" "hex_digit (Suc 0) = CHR ''1''"
  "hex_digit 2 = CHR ''2''" "hex_digit 3 = CHR ''3''" "hex_digit 4 = CHR ''4''"
  "hex_digit 5 = CHR ''5''" "hex_digit 6 = CHR ''6''" "hex_digit 7 = CHR ''7''"
  "hex_digit 8 = CHR ''8''" "hex_digit 9 = CHR ''9''" "hex_digit 10 = CHR ''a''"
  "hex_digit 11 = CHR ''b''" "hex_digit 12 = CHR ''c''" "hex_digit 13 = CHR ''d''"
  "hex_digit 14 = CHR ''e''" "hex_digit 15 = CHR ''f''"
  by (simp_all add: hex_digit_def char_of_eq_iff)

lemma of_char_hex_digit:
  "n < 16 \<Longrightarrow> (of_char (hex_digit n) :: nat) = (if n < 10 then 48 + n else 87 + n)"
  by (auto simp: hex_digit_def take_bit_nat_eq_self)

lemma hex_val_digit: "n < 16 \<Longrightarrow> hex_val (hex_digit n) = Some n"
  by (auto simp: hex_val_def of_char_hex_digit)

lemma hex_digit_ne: "n < 16 \<Longrightarrow> hex_digit n \<noteq> CHR ''/'' \<and> hex_digit n \<noteq> CHR ''_''"
  using of_char_hex_digit [of n] by (auto split: if_splits)

lemma of_char_nibbles: "(of_char (c :: char) :: nat) div 16 < 16" "(of_char c :: nat) mod 16 < 16"
  using nat_of_char_less_256 [of c] by (simp_all add: less_mult_imp_div_less)

lemma lower_hex_digit: "n < 16 \<Longrightarrow> lower_char (hex_digit n) = hex_digit n"
  using of_char_hex_digit [of n] by (simp add: lower_char_def Let_def)

lemma lower_hex_bytes: "map lower_char (hex_bytes b) = hex_bytes b"
  by (induction b) (simp_all add: lower_hex_digit of_char_nibbles)

lemma unhex_hex_bytes: "unhex_bytes (hex_bytes b) = Some b"
  by (induction b) (simp_all add: hex_val_digit of_char_nibbles)

lemma hex_bytes_chars: "CHR ''/'' \<notin> set (hex_bytes b)" "CHR ''_'' \<notin> set (hex_bytes b)"
  by (induction b) (use hex_digit_ne of_char_nibbles in \<open>auto, metis+\<close>)

lemma unhex_nat_append: "unhex_nat acc (s @ t) = Option.bind (unhex_nat acc s) (\<lambda>a. unhex_nat a t)"
  by (induction acc s rule: unhex_nat.induct) (auto split: option.splits)

lemma unhex_hex_nat: "unhex_nat 0 (hex_nat n) = Some n"
proof (induction n rule: hex_nat.induct)
  case (1 n)
  show ?case
  proof (cases "n < 16")
    case True
    then show ?thesis by (simp add: hex_nat.simps [of n] hex_val_digit)
  next
    case False
    with "1" show ?thesis by (simp add: hex_nat.simps [of n] unhex_nat_append hex_val_digit)
  qed
qed

lemma hex_nat_chars: "CHR ''/'' \<notin> set (hex_nat n) \<and> CHR ''_'' \<notin> set (hex_nat n)"
proof (induction n rule: hex_nat.induct)
  case (1 n)
  then show ?case
    using hex_digit_ne [of n] hex_digit_ne [of "n mod 16"]
    by (auto simp: hex_nat.simps [of n])
qed

lemma unat_be_less: "unat (w :: uint64) < 256 ^ 8"
proof -
  have "unat w < 2 ^ LENGTH(64)" by (rule unsigned_less)
  then show ?thesis by simp
qed

interpretation rc: chain_codec ref_codec
proof (unfold_locales, goal_cases)
  case (1 a)
  then show ?case
    using unhex_hex_bytes [of a]
    by (cases a) (simp_all add: ref_codec_def AccAddressLength_def del: hex_bytes.simps)
next
  case (3 a)
  then show ?case
    by (simp add: ref_codec_def no_char_def DelimiterForCombinedKey_def hex_bytes_chars)
next
  case (13 h)
  then show ?case by (simp add: ref_codec_def hex0x_def unhex_hex_bytes HashLength_def)
next
  case (16 v w)
  then show ?case
    by (simp add: ref_codec_def be_bytes_less_iff [OF unat_be_less unat_be_less] word_less_nat_alt)
next
  case (17 a)
  have "lower_char (CHR ''0'') = CHR ''0''" "lower_char (CHR ''x'') = CHR ''x''"
    by (simp_all add: lower_char_def)
  then show ?case by (simp add: ref_codec_def to_lower_def lower_hex_bytes)
qed (auto simp: ref_codec_def hex0x_def unhex_hex_bytes unhex_hex_nat no_char_def
       DelimiterForCombinedKey_def DelimiterForID_def hex_bytes_chars hex_nat_chars
       key_lengths be_value_bytes [OF unat_be_less] split: option.splits)

lemmas chain_codec_ref = rc.chain_codec_axioms

lemma joined_eq:
  assumes "length ks = length ls" "\<forall>k\<in>set ks. key_part k" "\<forall>l\<in>set ls. key_part l"
  shows "GetJoinedStoreKey ks = GetJoinedStoreKey ls \<longleftrightarrow> ks = ls"
  using GetJoinedStoreKey_inj [OF _ assms] by auto

section \<open>The virtual address of a native restaking token\<close>

lemma copy_within_replicate:
  assumes "take i a = replicate i f" "i \<le> length a"
  shows "take (min (2 * i) (length a)) (copy_within a i) = replicate (min (2 * i) (length a)) f"
    and "length (copy_within a i) = length a"
  using assms by (auto simp: copy_within_def min_def simp flip: replicate_add)

lemma nst_fill_replicate:
  "0 < i \<Longrightarrow> take i a = replicate (min i (length a)) f \<Longrightarrow> nst_fill a i = replicate (length a) f"
proof (induction a i rule: nst_fill.induct)
  case (1 a i)
  show ?case
  proof (cases "i < length a")
    case True
    with "1.prems" have cp: "take (min (2 * i) (length a)) (copy_within a i) = replicate (min (2 * i) (length a)) f"
      and len: "length (copy_within a i) = length a"
      using copy_within_replicate [of i a f] by simp_all
    have "take (2 * i) (copy_within a i) = replicate (min (2 * i) (length (copy_within a i))) f"
      using cp len by (metis take_all_iff min_def nle_le take_all)
    then have "nst_fill (copy_within a i) (2 * i) = replicate (length a) f"
      using "1.IH" "1.prems" True len by simp
    then show ?thesis using True "1.prems"(1) by (subst nst_fill.simps) simp
  next
    case False
    with "1.prems" show ?thesis by (subst nst_fill.simps) simp
  qed
qed

text \<open>C40: the doubling loop of \<^verbatim>\<open>GenerateNSTAddr\<close> writes the fill byte to every position of the
  address, whatever its length, so the address is exactly \<open>clientChainAddrLength\<close> copies of
  \<^verbatim>\<open>0xee\<close>.\<close>

theorem GenerateNSTAddr_fills:
  "GenerateNSTAddr n = replicate (unat n) FillCharForRestakingAssetAddr"
proof (cases "n = 0")
  case True
  then show ?thesis by (simp add: GenerateNSTAddr_def)
next
  case False
  then obtain m where m: "unat n = Suc m" by (metis unat_eq_zero not0_implies_Suc)
  have "nst_fill (FillCharForRestakingAssetAddr # replicate m (char_of (0 :: nat))) 1 =
      replicate (Suc m) FillCharForRestakingAssetAddr"
    by (subst nst_fill_replicate [where f = FillCharForRestakingAssetAddr]) simp_all
  with False m show ?thesis by (simp add: GenerateNSTAddr_def)
qed

section \<open>Round trips\<close>

text \<open>C37: parsing the store key of an undelegation record gives back the operator, the block
  height, the undelegation id and the transaction hash it was built from.\<close>

theorem undelegation_record_key_roundtrip:
  assumes "chain_codec C"
    and "length operatorAcc = AccAddressLength" "length h = HashLength"
  shows "rbind (GetUndelegationRecordKey C height undelegationID (hashString C h)
                  (accAddressString C operatorAcc))
           (ParseUndelegationRecordKey C) =
         Inr \<lparr>kf_BlockHeight = height, kf_UndelegationID = undelegationID,
              kf_TxHash = hashString C h, kf_OperatorAddr = accAddressString C operatorAcc\<rparr>"
proof -
  note c = chain_codec.acc_roundtrip [OF assms(1)] chain_codec.hash_roundtrip [OF assms(1)]
    chain_codec.be64_length [OF assms(1)] chain_codec.be64_roundtrip [OF assms(1)]
  show ?thesis
    using assms(2,3)
    by (simp add: GetUndelegationRecordKey_def MustAccAddressFromBech32_def
        ParseUndelegationRecordKey_def AppendMany_def Let_def c)
qed

theorem undelegation_record_key_roundtrip_witness:
  "rbind (GetUndelegationRecordKey ref_codec 7 3 (hashString ref_codec (replicate 32 CHR ''h''))
            (accAddressString ref_codec (replicate 20 CHR ''o'')))
     (ParseUndelegationRecordKey ref_codec) =
   Inr \<lparr>kf_BlockHeight = 7, kf_UndelegationID = 3,
        kf_TxHash = hashString ref_codec (replicate 32 CHR ''h''),
        kf_OperatorAddr = accAddressString ref_codec (replicate 20 CHR ''o'')\<rparr>"
  by (rule undelegation_record_key_roundtrip [OF chain_codec_ref])
     (simp_all add: AccAddressLength_def HashLength_def)

text \<open>C38: parsing the key of a pending undelegation gives back the epoch identifier, the epoch
  number (as an unsigned number) and the undelegation id it was built from.\<close>

theorem pending_undelegation_key_roundtrip:
  assumes "chain_codec C" and "epochIdentifier \<noteq> []" "length epochIdentifier < 2 ^ 63"
  shows "ParsePendingUndelegationKey C
           (GetPendingUndelegationRecordKey C epochIdentifier epochNumber undelegationID) =
         Inr \<lparr>pk_EpochIdentifier = epochIdentifier, pk_EpochNumber = of_int epochNumber,
              pk_UndelegationID = undelegationID\<rparr>"
proof -
  have n: "unat (of_nat (length epochIdentifier) :: uint64) = length epochIdentifier"
    using assms(3) by (simp add: unat_of_nat take_bit_nat_eq_self)
  note c = chain_codec.be64_length [OF assms(1)] chain_codec.be64_roundtrip [OF assms(1)]
  show ?thesis
    using assms(2)
    by (simp add: ParsePendingUndelegationKey_def GetPendingUndelegationRecordKey_def
        AppendMany_def Let_def c ByteLengthForUint64_def n)
qed

theorem pending_undelegation_key_roundtrip_witness:
  "ParsePendingUndelegationKey ref_codec
     (GetPendingUndelegationRecordKey ref_codec ''day'' 5 9) =
   Inr \<lparr>pk_EpochIdentifier = ''day'', pk_EpochNumber = of_int 5, pk_UndelegationID = 9\<rparr>"
  by (rule pending_undelegation_key_roundtrip [OF chain_codec_ref]) simp_all

text \<open>C39: the identifiers of stakers and assets determine the chain and the address, and
  \<^verbatim>\<open>ParseID\<close> reads both back.\<close>

theorem staker_id_roundtrip:
  assumes "chain_codec C"
  shows "ParseID C (fst (GetStakerIDAndAssetID C chain (Some addr) asset)) =
           Inr (hexEncode C addr, chain) \<and>
         ParseID C (snd (GetStakerIDAndAssetID C chain staker (Some addr))) =
           Inr (hexEncode C addr, chain) \<and>
         (fst (GetStakerIDAndAssetID C chain (Some addr) asset) =
            fst (GetStakerIDAndAssetID C chain' (Some addr') asset') \<longleftrightarrow>
          chain = chain' \<and> addr = addr')"
proof -
  let ?id = "\<lambda>c a. join [DelimiterForID] [hexEncode C a, hexEncodeUint64 C c]"
  note c = chain_codec.hex64_roundtrip [OF assms] chain_codec.hex_nonempty [OF assms]
  have parts: "\<forall>k\<in>set [hexEncode C a, hexEncodeUint64 C c]. no_char DelimiterForID k" for a c
    using chain_codec.hex_part(2) [OF assms] chain_codec.hex64_part(2) [OF assms] by simp
  have split: "split_char DelimiterForID (?id c a) = [hexEncode C a, hexEncodeUint64 C c]" for a c
    using parts by (intro split_join) simp_all
  have parse: "ParseID C (?id c a) = Inr (hexEncode C a, c)" for a c
    unfolding ParseID_def split by (simp add: c)
  have inj: "?id chain addr = ?id chain' addr' \<longleftrightarrow> chain = chain' \<and> addr = addr'"
    using parse [of addr chain] parse [of addr' chain'] chain_codec.hex_inj [OF assms]
    by (metis Inr_inject prod.inject)
  show ?thesis
    using parse inj unfolding GetStakerIDAndAssetID_def Let_def by simp
qed

theorem staker_id_roundtrip_witness:
  "ParseID ref_codec (fst (GetStakerIDAndAssetID ref_codec 101 (Some ''abc'') None)) =
     Inr (hexEncode ref_codec ''abc'', 101)"
  using staker_id_roundtrip [OF chain_codec_ref, of 101 "''abc''" None] by blast

end
