(* ===== verification/Epochs.thy ===== *)
theory Epochs
  imports KVStore Keys
begin

text \<open>
  The epochs module, \<^verbatim>\<open>x/epochs\<close>: the store of epoch infos (\<^verbatim>\<open>keeper/epoch_infos.go\<close>), their
  validation (\<^verbatim>\<open>types/genesis.go\<close>, \<^verbatim>\<open>types/identifier.go\<close>), the hooks (\<^verbatim>\<open>types/hooks.go\<close>), and the
  begin blocker that starts and ends epochs (\<^verbatim>\<open>keeper/abci.go\<close>). A \<^verbatim>\<open>time.Time\<close> is the number of
  nanoseconds since the zero time, a \<^verbatim>\<open>time.Duration\<close> a number of nanoseconds. The epoch numbers and
  heights are \<^verbatim>\<open>int64\<close>; they are counted up by one per epoch and are modelled as integers.
\<close>

section \<open>Data and validation\<close>

record EpochInfo =
  ei_Identifier :: string
  ei_StartTime :: int
  ei_Duration :: int
  ei_CurrentEpoch :: int
  ei_CurrentEpochStartTime :: int
  ei_EpochCountingStarted :: bool
  ei_CurrentEpochStartHeight :: int

type_synonym epochs_state = "(bytes, EpochInfo) kv"

record block_ctx =
  BlockTime :: int
  BlockHeight :: int

definition NullEpochIdentifier :: string where
  "NullEpochIdentifier = ''NullEpoch''"

definition NullEpochNumber :: int where
  "NullEpochNumber = 0"

text \<open>
  \<^verbatim>\<open>strings.TrimSpace\<close> on UTF-8: the byte sequences of the characters that have the Unicode property
  White\_Space.
\<close>

definition utf8 :: "nat list \<Rightarrow> bytes" where
  "utf8 bs = map char_of bs"

definition space_sequences :: "bytes list" where
  "space_sequences =
     map utf8 ([[9], [10], [11], [12], [13], [32], [0xC2, 0x85], [0xC2, 0xA0], [0xE1, 0x9A, 0x80]] @
       map (\<lambda>b. [0xE2, 0x80, b]) ([0x80..<0x8B] @ [0xA8, 0xA9, 0xAF]) @
       [[0xE2, 0x81, 0x9F], [0xE3, 0x80, 0x80]])"

fun strip :: "nat \<Rightarrow> bytes list \<Rightarrow> bytes \<Rightarrow> bytes" where
  "strip 0 seqs s = s"
| "strip (Suc fuel) seqs s =
     (case find (\<lambda>p. prefix p s) seqs of None \<Rightarrow> s | Some p \<Rightarrow> strip fuel seqs (drop (length p) s))"

text \<open>Every sequence has a byte at least, so the length of the string is enough fuel.\<close>

definition TrimSpace :: "bytes \<Rightarrow> bytes" where
  "TrimSpace s =
     (let l = strip (length s) space_sequences s
      in rev (strip (length l) (map rev space_sequences) (rev l)))"

definition ValidateEpochIdentifierString :: "string \<Rightarrow> unit result" where
  "ValidateEpochIdentifierString s =
     (let s' = TrimSpace s in
      if s' = [] then Inl ErrParse
      else if s' = NullEpochIdentifier then Inl ErrParse
      else Inr ())"

definition EpochInfo_Validate :: "EpochInfo \<Rightarrow> unit result" where
  "EpochInfo_Validate epoch =
     rbind (ValidateEpochIdentifierString (ei_Identifier epoch)) (\<lambda>_.
     if ei_Duration epoch \<le> 0 then Inl ErrParse
     else if ei_CurrentEpoch epoch < 0 then Inl ErrParse
     else if ei_CurrentEpochStartHeight epoch < 0 then Inl ErrParse
     else Inr ())"

text \<open>The identifiers seen so far are the keys of a Go map, kept as a list.\<close>

definition GenesisState_Validate :: "EpochInfo list \<Rightarrow> unit result" where
  "GenesisState_Validate epochs =
     rbind (rfold (\<lambda>epoch epochIdentifiers.
         case EpochInfo_Validate epoch of
           Inl _ \<Rightarrow> Inl ErrInvalidGenesisData
         | Inr _ \<Rightarrow>
             if ei_Identifier epoch \<in> set epochIdentifiers then Inl ErrInvalidGenesisData
             else Inr (ei_Identifier epoch # epochIdentifiers)) epochs [])
       (\<lambda>_. Inr ())"

section \<open>The store of epoch infos\<close>

definition setEpochInfoUnchecked :: "EpochInfo \<Rightarrow> epochs_state \<Rightarrow> epochs_state" where
  "setEpochInfoUnchecked epoch s = kv_set (ei_Identifier epoch) epoch s"

definition AddEpochInfo :: "block_ctx \<Rightarrow> EpochInfo \<Rightarrow> epochs_state \<Rightarrow> epochs_state result" where
  "AddEpochInfo ctx epochInfo s =
     rbind (EpochInfo_Validate epochInfo) (\<lambda>_.
     if kv_has s (ei_Identifier epochInfo) then Inl ErrDuplicateEpochInfo
     else
       let e1 = (if ei_StartTime epochInfo = 0
                 then epochInfo\<lparr>ei_StartTime := BlockTime ctx\<rparr> else epochInfo);
           e2 = (if ei_CurrentEpochStartHeight e1 = 0
                 then e1\<lparr>ei_CurrentEpochStartHeight := BlockHeight ctx\<rparr> else e1)
       in Inr (setEpochInfoUnchecked e2 s))"

text \<open>An epoch info never marshals to the empty string, since its durations are always written.\<close>

definition GetEpochInfo :: "epochs_state \<Rightarrow> string \<Rightarrow> EpochInfo option" where
  "GetEpochInfo s identifier = kv_get s identifier"

text \<open>The iteration reads the entries as they were when it started.\<close>

fun iterate_from ::
    "int \<Rightarrow> (int \<Rightarrow> EpochInfo \<Rightarrow> 'a \<Rightarrow> bool \<times> 'a) \<Rightarrow> (bytes \<times> EpochInfo) list \<Rightarrow> 'a \<Rightarrow> 'a" where
  "iterate_from i fn [] a = a"
| "iterate_from i fn ((_, epoch) # es) a =
     (case fn i epoch a of (stop, a') \<Rightarrow> if stop then a' else iterate_from (i + 1) fn es a')"

definition IterateEpochInfos ::
    "epochs_state \<Rightarrow> (int \<Rightarrow> EpochInfo \<Rightarrow> 'a \<Rightarrow> bool \<times> 'a) \<Rightarrow> 'a \<Rightarrow> 'a" where
  "IterateEpochInfos s fn a = iterate_from 0 fn (kv_iterate [] s) a"

definition AllEpochInfos :: "epochs_state \<Rightarrow> EpochInfo list" where
  "AllEpochInfos s = IterateEpochInfos s (\<lambda>_ epochInfo epochs. (False, epochs @ [epochInfo])) []"

definition epochs_InitGenesis :: "block_ctx \<Rightarrow> EpochInfo list \<Rightarrow> epochs_state \<Rightarrow> epochs_state" where
  "epochs_InitGenesis ctx epochs s =
     fold (\<lambda>epoch s. case AddEpochInfo ctx epoch s of Inl _ \<Rightarrow> s | Inr s' \<Rightarrow> s') epochs s"

definition epochs_ExportGenesis :: "epochs_state \<Rightarrow> EpochInfo list" where
  "epochs_ExportGenesis s = AllEpochInfos s"

section \<open>Hooks\<close>

text \<open>
  A hook reads the epochs store and changes the rest of the chain, \<open>'w\<close>. The functions that write
  the epochs store are private to the module or called at genesis only.
\<close>

record 'w epoch_hooks =
  AfterEpochEnd :: "string \<Rightarrow> int \<Rightarrow> epochs_state \<Rightarrow> 'w \<Rightarrow> 'w"
  BeforeEpochStart :: "string \<Rightarrow> int \<Rightarrow> epochs_state \<Rightarrow> 'w \<Rightarrow> 'w"

definition MultiEpochHooks :: "'w epoch_hooks list \<Rightarrow> 'w epoch_hooks" where
  "MultiEpochHooks hs =
     \<lparr>AfterEpochEnd = (\<lambda>i n s w. fold (\<lambda>h. AfterEpochEnd h i n s) hs w),
      BeforeEpochStart = (\<lambda>i n s w. fold (\<lambda>h. BeforeEpochStart h i n s) hs w)\<rparr>"

section \<open>Starting and ending epochs\<close>

text \<open>The callback of the begin blocker for one epoch info.\<close>

definition BeginBlocker_fn ::
    "block_ctx \<Rightarrow> 'w epoch_hooks \<Rightarrow> EpochInfo \<Rightarrow> epochs_state \<times> 'w \<Rightarrow> bool \<times> (epochs_state \<times> 'w)" where
  "BeginBlocker_fn ctx hooks epochInfo sw =
     (case sw of (s, w) \<Rightarrow>
      if \<not> is_ok (EpochInfo_Validate epochInfo) then (False, s, w)
      else if BlockTime ctx < ei_StartTime epochInfo then (False, s, w)
      else
        let epochEndTime = ei_CurrentEpochStartTime epochInfo + ei_Duration epochInfo;
            isFirstTick = (\<not> ei_EpochCountingStarted epochInfo);
            isTickEnding = (epochEndTime < BlockTime ctx);
            isEpochStart = (isTickEnding \<or> isFirstTick)
        in
        if \<not> isEpochStart then (False, s, w)
        else
          let e1 = epochInfo\<lparr>ei_CurrentEpochStartHeight := BlockHeight ctx\<rparr>;
              (e2, w1) =
                (if isFirstTick
                 then (e1\<lparr>ei_EpochCountingStarted := True, ei_CurrentEpoch := 1,
                          ei_CurrentEpochStartTime := ei_StartTime e1\<rparr>, w)
                 else (e1\<lparr>ei_CurrentEpoch := ei_CurrentEpoch e1 + 1,
                          ei_CurrentEpochStartTime := epochEndTime\<rparr>,
                       AfterEpochEnd hooks (ei_Identifier e1) (ei_CurrentEpoch e1) s w));
              s1 = setEpochInfoUnchecked e2 s
          in (False, s1, BeforeEpochStart hooks (ei_Identifier e2) (ei_CurrentEpoch e2) s1 w1))"

definition BeginBlocker ::
    "block_ctx \<Rightarrow> 'w epoch_hooks \<Rightarrow> epochs_state \<times> 'w \<Rightarrow> epochs_state \<times> 'w" where
  "BeginBlocker ctx hooks sw =
     IterateEpochInfos (fst sw) (\<lambda>_ epochInfo. BeginBlocker_fn ctx hooks epochInfo) sw"

end
