(* ===== verification/EpochProps.thy ===== *)
theory EpochProps
  imports Epochs
begin

text \<open>
  What the begin blocker of the epochs module does: every epoch advances on its own, by at most one
  epoch per block and without drifting from its start time; the hooks of an epoch are called in the
  order start 1, end 1, start 2, end 2, and so on; and a valid genesis is stored completely.
\<close>

section \<open>One block\<close>

text \<open>The epoch info of the next block, as a function of the current one.\<close>

definition advance :: "block_ctx \<Rightarrow> EpochInfo \<Rightarrow> EpochInfo" where
  "advance ctx e =
     (if \<not> is_ok (EpochInfo_Validate e) \<or> BlockTime ctx < ei_StartTime e then e
      else if \<not> ei_EpochCountingStarted e
      then e\<lparr>ei_CurrentEpochStartHeight := BlockHeight ctx, ei_EpochCountingStarted := True,
             ei_CurrentEpoch := 1, ei_CurrentEpochStartTime := ei_StartTime e\<rparr>
      else if ei_CurrentEpochStartTime e + ei_Duration e < BlockTime ctx
      then e\<lparr>ei_CurrentEpochStartHeight := BlockHeight ctx, ei_CurrentEpoch := ei_CurrentEpoch e + 1,
             ei_CurrentEpochStartTime := ei_CurrentEpochStartTime e + ei_Duration e\<rparr>
      else e)"

definition ticks :: "block_ctx \<Rightarrow> EpochInfo \<Rightarrow> bool" where
  "ticks ctx e \<longleftrightarrow> is_ok (EpochInfo_Validate e) \<and> ei_StartTime e \<le> BlockTime ctx \<and>
     (\<not> ei_EpochCountingStarted e \<or> ei_CurrentEpochStartTime e + ei_Duration e < BlockTime ctx)"

lemma advance_idle: "\<not> ticks ctx e \<Longrightarrow> advance ctx e = e"
  by (auto simp: advance_def ticks_def)

lemma advance_fields [simp]:
  "ei_Identifier (advance ctx e) = ei_Identifier e"
  "ei_StartTime (advance ctx e) = ei_StartTime e"
  "ei_Duration (advance ctx e) = ei_Duration e"
  by (simp_all add: advance_def)

lemma BeginBlocker_fn_eq:
  "BeginBlocker_fn ctx H e (s, w) =
     (if ticks ctx e
      then let s1 = setEpochInfoUnchecked (advance ctx e) s;
               w1 = (if ei_EpochCountingStarted e
                     then AfterEpochEnd H (ei_Identifier e) (ei_CurrentEpoch e) s w else w)
           in (False, s1, BeforeEpochStart H (ei_Identifier e) (ei_CurrentEpoch (advance ctx e)) s1 w1)
      else (False, s, w))"
  by (auto simp: BeginBlocker_fn_def ticks_def advance_def Let_def not_less)

text \<open>Every epoch info is stored under its identifier.\<close>

definition keys_ok :: "epochs_state \<Rightarrow> bool" where
  "keys_ok s \<longleftrightarrow> kv_wf s \<and> (\<forall>(k, e)\<in>set s. k = ei_Identifier e)"

definition block_step :: "block_ctx \<Rightarrow> 'w epoch_hooks \<Rightarrow> bytes \<times> EpochInfo \<Rightarrow> epochs_state \<times> 'w \<Rightarrow> epochs_state \<times> 'w" where
  "block_step ctx H ke sw = snd (BeginBlocker_fn ctx H (snd ke) sw)"

lemma fst_BeginBlocker_fn: "fst (BeginBlocker_fn ctx H e sw) = False"
  by (cases sw) (simp add: BeginBlocker_fn_eq Let_def)

lemma iterate_from_fold:
  "iterate_from i (\<lambda>_ e. BeginBlocker_fn ctx H e) es sw = fold (block_step ctx H) es sw"
proof (induction es arbitrary: i sw)
  case Nil
  then show ?case by simp
next
  case (Cons ke es)
  have "BeginBlocker_fn ctx H (snd ke) sw = (False, block_step ctx H ke sw)"
    using fst_BeginBlocker_fn [of ctx H "snd ke" sw]
    by (cases "BeginBlocker_fn ctx H (snd ke) sw") (simp add: block_step_def)
  with Cons.IH show ?case by (cases ke) simp
qed

lemma BeginBlocker_fold: "BeginBlocker ctx H (s, w) = fold (block_step ctx H) s (s, w)"
  by (simp add: BeginBlocker_def IterateEpochInfos_def iterate_from_fold)

lemma kv_get_block_step:
  assumes "fst ke = ei_Identifier (snd ke)" "kv_get (fst sw) (fst ke) = Some (snd ke)"
  shows "kv_get (fst (block_step ctx H ke sw)) k =
    (if k = fst ke then Some (advance ctx (snd ke)) else kv_get (fst sw) k)"
  using assms
  by (cases sw) (auto simp: block_step_def BeginBlocker_fn_eq Let_def setEpochInfoUnchecked_def advance_idle)

lemma kv_get_fold_block_step:
  assumes "distinct (map fst es)" "\<forall>ke\<in>set es. fst ke = ei_Identifier (snd ke) \<and> kv_get (fst sw) (fst ke) = Some (snd ke)"
  shows "kv_get (fst (fold (block_step ctx H) es sw)) k =
    (case map_of es k of None \<Rightarrow> kv_get (fst sw) k | Some e \<Rightarrow> Some (advance ctx e))"
  using assms
proof (induction es arbitrary: sw)
  case Nil
  then show ?case by simp
next
  case (Cons ke es)
  let ?sw = "block_step ctx H ke sw"
  have "fst ke = ei_Identifier (snd ke)" "kv_get (fst sw) (fst ke) = Some (snd ke)"
    using Cons.prems(2) by (meson list.set_intros(1))+
  note g = kv_get_block_step [OF this, of ctx H]
  have "\<forall>x\<in>set es. fst x = ei_Identifier (snd x) \<and> kv_get (fst ?sw) (fst x) = Some (snd x)"
    using Cons.prems unfolding g by (auto simp: image_iff)
  moreover have "distinct (map fst es)" using Cons.prems(1) by simp
  ultimately have IH: "kv_get (fst (fold (block_step ctx H) es ?sw)) k =
      (case map_of es k of None \<Rightarrow> kv_get (fst ?sw) k | Some e \<Rightarrow> Some (advance ctx e))"
    by (intro Cons.IH)
  show ?case
  proof (cases "k = fst ke")
    case True
    with Cons.prems(1) have "map_of es k = None" by (simp add: map_of_eq_None_iff)
    with IH g True show ?thesis by simp
  next
    case False
    with IH g show ?thesis by (simp split: option.splits)
  qed
qed

lemma keys_ok_get: "keys_ok s \<Longrightarrow> kv_get s k = Some e \<Longrightarrow> k = ei_Identifier e"
  by (auto simp: keys_ok_def kv_get_def dest: map_of_SomeD)

lemma keys_ok_set: "keys_ok s \<Longrightarrow> keys_ok (setEpochInfoUnchecked e s)"
  unfolding keys_ok_def setEpochInfoUnchecked_def
  by (auto simp: in_kv_entries kv_wf_intros split: if_splits)

lemma keys_ok_BeginBlocker: "keys_ok s \<Longrightarrow> keys_ok (fst (BeginBlocker ctx H (s, w)))"
proof -
  have "keys_ok (fst sw) \<Longrightarrow> keys_ok (fst (fold (block_step ctx H) es sw))" for es sw
  proof (induction es arbitrary: sw)
    case (Cons ke es)
    then show ?case
      by (cases sw) (simp add: block_step_def BeginBlocker_fn_eq Let_def keys_ok_set)
  qed simp
  then show "keys_ok s \<Longrightarrow> keys_ok (fst (BeginBlocker ctx H (s, w)))"
    by (simp add: BeginBlocker_fold)
qed

lemma epochs_advance_step:
  assumes "keys_ok s"
  shows "kv_get (fst (BeginBlocker ctx H (s, w))) k = map_option (advance ctx) (kv_get s k)"
proof -
  have "distinct (map fst s)" using assms by (simp add: keys_ok_def kv_wf_distinct)
  moreover have "\<forall>ke\<in>set s. fst ke = ei_Identifier (snd ke) \<and> kv_get s (fst ke) = Some (snd ke)"
    using assms in_kv_entries [of s] by (fastforce simp: keys_ok_def)
  ultimately have "kv_get (fst (fold (block_step ctx H) s (s, w))) k =
      (case map_of s k of None \<Rightarrow> kv_get s k | Some e \<Rightarrow> Some (advance ctx e))"
    by (rule kv_get_fold_block_step [of s "(s, w)", unfolded fst_conv])
  then show ?thesis by (simp add: BeginBlocker_fold kv_get_def split: option.splits)
qed

text \<open>C21: in one block every epoch advances on its own, whatever the hooks do: its next info is
  the function \<open>advance\<close> of its current one, and no epoch appears or disappears.\<close>

theorem epochs_advance:
  assumes "keys_ok s"
  shows "kv_get (fst (BeginBlocker ctx H (s, w))) k = map_option (advance ctx) (kv_get s k) \<and>
    keys_ok (fst (BeginBlocker ctx H (s, w)))"
  by (simp add: epochs_advance_step keys_ok_BeginBlocker assms)

section \<open>Runs of blocks\<close>

definition run_blocks ::
    "'w epoch_hooks \<Rightarrow> block_ctx list \<Rightarrow> epochs_state \<times> 'w \<Rightarrow> epochs_state \<times> 'w" where
  "run_blocks H ctxs sw = fold (\<lambda>ctx sw. BeginBlocker ctx H sw) ctxs sw"

lemma run_blocks_snoc: "run_blocks H (ctxs @ [ctx]) sw = BeginBlocker ctx H (run_blocks H ctxs sw)"
  by (simp add: run_blocks_def)

lemma keys_ok_run: "keys_ok (fst sw) \<Longrightarrow> keys_ok (fst (run_blocks H ctxs sw))"
proof (induction ctxs rule: rev_induct)
  case (snoc ctx ctxs)
  then show ?case
    using keys_ok_BeginBlocker by (metis run_blocks_snoc prod.collapse)
qed (simp add: run_blocks_def)

lemma run_blocks_get:
  assumes "keys_ok s"
  shows "kv_get (fst (run_blocks H ctxs (s, w))) k = map_option (fold advance ctxs) (kv_get s k)"
proof (induction ctxs rule: rev_induct)
  case Nil
  then show ?case by (cases "kv_get s k") (simp_all add: run_blocks_def)
next
  case (snoc ctx ctxs)
  have "keys_ok (fst (run_blocks H ctxs (s, w)))" using assms by (simp add: keys_ok_run)
  then have "kv_get (fst (BeginBlocker ctx H (run_blocks H ctxs (s, w)))) k =
      map_option (advance ctx) (kv_get (fst (run_blocks H ctxs (s, w))) k)"
    by (metis epochs_advance_step prod.collapse)
  with snoc show ?case
    unfolding run_blocks_snoc by (cases "kv_get s k") simp_all
qed

text \<open>An epoch that is counting has its boundaries on the grid given by its start time.\<close>

definition aligned :: "EpochInfo \<Rightarrow> bool" where
  "aligned e \<longleftrightarrow> ei_EpochCountingStarted e \<longrightarrow>
     1 \<le> ei_CurrentEpoch e \<and>
     ei_CurrentEpochStartTime e = ei_StartTime e + (ei_CurrentEpoch e - 1) * ei_Duration e"

lemma aligned_advance: "aligned e \<Longrightarrow> aligned (advance ctx e)"
  by (auto simp: aligned_def advance_def algebra_simps)

lemma aligned_fold: "aligned e \<Longrightarrow> aligned (fold advance ctxs e)"
  by (induction ctxs arbitrary: e) (simp_all add: aligned_advance)

lemma fold_advance_fields [simp]:
  "ei_Identifier (fold advance ctxs e) = ei_Identifier e"
  "ei_StartTime (fold advance ctxs e) = ei_StartTime e"
  "ei_Duration (fold advance ctxs e) = ei_Duration e"
  by (induction ctxs arbitrary: e) simp_all

lemma advance_started: "ei_EpochCountingStarted e \<Longrightarrow> ei_EpochCountingStarted (advance ctx e)"
  by (simp add: advance_def)

lemma advance_count:
  "ei_EpochCountingStarted e \<Longrightarrow>
     ei_CurrentEpoch e \<le> ei_CurrentEpoch (advance ctx e) \<and>
     ei_CurrentEpoch (advance ctx e) \<le> ei_CurrentEpoch e + 1"
  by (simp add: advance_def)

lemma fold_advance_count:
  assumes "ei_EpochCountingStarted e"
  shows "ei_EpochCountingStarted (fold advance ctxs e)"
    and "ei_CurrentEpoch e \<le> ei_CurrentEpoch (fold advance ctxs e)"
    and "ei_CurrentEpoch (fold advance ctxs e) \<le> ei_CurrentEpoch e + int (length ctxs)"
  using assms
proof (induction ctxs arbitrary: e)
  case (Cons ctx ctxs)
  { case 1 then show ?case using Cons.IH(1) advance_started by simp }
  { case 2 then show ?case using Cons.IH(2) [of "advance ctx e"] advance_started advance_count [of e ctx] by simp }
  { case 3 then show ?case using Cons.IH(3) [of "advance ctx e"] advance_started advance_count [of e ctx] by simp }
qed simp_all

text \<open>C22: over any run of blocks, an epoch that is counting never drifts: the start time of its
  current epoch is its start time plus a whole number of durations, one per epoch. Its number never
  falls and grows by at most one per block.\<close>

theorem epochs_never_drift:
  assumes "keys_ok s" "kv_get s k = Some e" "aligned e" "ei_EpochCountingStarted e"
  shows "\<exists>e'. kv_get (fst (run_blocks H ctxs (s, w))) k = Some e' \<and>
    ei_CurrentEpochStartTime e' = ei_StartTime e + (ei_CurrentEpoch e' - 1) * ei_Duration e \<and>
    ei_CurrentEpoch e \<le> ei_CurrentEpoch e' \<and>
    ei_CurrentEpoch e' \<le> ei_CurrentEpoch e + int (length ctxs)"
  using run_blocks_get [OF assms(1), of H ctxs w k] assms(2) aligned_fold [OF assms(3), of ctxs]
    fold_advance_count [OF assms(4), of ctxs]
  by (auto simp: aligned_def)

section \<open>The order of the hooks\<close>

text \<open>Hooks that record that they were called.\<close>

datatype epoch_event = EpochEnd string int | EpochStart string int

fun event_identifier :: "epoch_event \<Rightarrow> string" where
  "event_identifier (EpochEnd i n) = i"
| "event_identifier (EpochStart i n) = i"

definition log_hooks :: "epoch_event list epoch_hooks" where
  "log_hooks = \<lparr>AfterEpochEnd = (\<lambda>i n s log. log @ [EpochEnd i n]),
                BeforeEpochStart = (\<lambda>i n s log. log @ [EpochStart i n])\<rparr>"

definition events :: "block_ctx \<Rightarrow> EpochInfo \<Rightarrow> epoch_event list" where
  "events ctx e =
     (if ticks ctx e
      then (if ei_EpochCountingStarted e then [EpochEnd (ei_Identifier e) (ei_CurrentEpoch e)] else []) @
           [EpochStart (ei_Identifier e) (ei_CurrentEpoch (advance ctx e))]
      else [])"

lemma fold_block_step_log:
  "snd (fold (block_step ctx log_hooks) es sw) = snd sw @ concat (map (\<lambda>ke. events ctx (snd ke)) es)"
proof (induction es arbitrary: sw)
  case (Cons ke es)
  have "snd (block_step ctx log_hooks ke sw) = snd sw @ events ctx (snd ke)"
    by (cases sw) (simp add: block_step_def BeginBlocker_fn_eq Let_def log_hooks_def events_def)
  then show ?case by (simp add: Cons.IH)
qed simp

lemma event_identifier_events: "v \<in> set (events ctx e) \<Longrightarrow> event_identifier v = ei_Identifier e"
  by (auto simp: events_def split: if_splits)

lemma filter_events:
  "filter (\<lambda>v. event_identifier v = k) (events ctx e) = (if ei_Identifier e = k then events ctx e else [])"
  using event_identifier_events by (fastforce simp: filter_id_conv filter_empty_conv)

lemma filter_block_events:
  assumes "distinct (map fst es)" "\<forall>(j, e)\<in>set es. j = ei_Identifier e"
  shows "filter (\<lambda>v. event_identifier v = k) (concat (map (\<lambda>ke. events ctx (snd ke)) es)) =
    (case map_of es k of None \<Rightarrow> [] | Some e \<Rightarrow> events ctx e)"
  using assms
proof (induction es)
  case (Cons ke es)
  obtain j e where ke: "ke = (j, e)" by (cases ke)
  show ?case
  proof (cases "j = k")
    case True
    then have "map_of es k = None" using Cons.prems(1) ke by (simp add: map_of_eq_None_iff)
    with Cons True ke show ?thesis by (simp add: filter_events)
  next
    case False
    with Cons ke show ?thesis by (auto simp: filter_events)
  qed
qed simp

text \<open>The calls an epoch has seen when it is in its \<open>n\<close>th epoch.\<close>

fun history :: "string \<Rightarrow> nat \<Rightarrow> epoch_event list" where
  "history k 0 = []"
| "history k (Suc 0) = [EpochStart k 1]"
| "history k (Suc (Suc n)) = history k (Suc n) @ [EpochEnd k (int n + 1), EpochStart k (int n + 2)]"

definition epoch_count :: "EpochInfo \<Rightarrow> nat" where
  "epoch_count e = (if ei_EpochCountingStarted e then nat (ei_CurrentEpoch e) else 0)"

lemma history_advance:
  assumes "aligned e"
  shows "history (ei_Identifier e) (epoch_count (advance ctx e)) =
    history (ei_Identifier e) (epoch_count e) @ events ctx e"
proof (cases "ticks ctx e \<and> ei_EpochCountingStarted e")
  case True
  then have "1 \<le> ei_CurrentEpoch e" using assms by (simp add: aligned_def)
  then obtain n where n: "ei_CurrentEpoch e = int (Suc n)" by (metis Suc_eq_plus1 zle_iff_zadd add.commute of_nat_1 of_nat_add)
  with True show ?thesis
    by (auto simp: epoch_count_def advance_def ticks_def events_def nat_add_distrib)
next
  case False
  then show ?thesis
    by (auto simp: epoch_count_def advance_def ticks_def events_def)
qed

lemma log_block:
  assumes "keys_ok s" "kv_get s k = Some e"
  shows "filter (\<lambda>v. event_identifier v = k) (snd (BeginBlocker ctx log_hooks (s, w))) =
    filter (\<lambda>v. event_identifier v = k) w @ events ctx e"
  using filter_block_events [of s k ctx] assms
  by (simp add: BeginBlocker_fold fold_block_step_log keys_ok_def kv_wf_distinct kv_get_def)


section \<open>Genesis\<close>

text \<open>The defaults that are filled in for a new epoch.\<close>

definition with_defaults :: "block_ctx \<Rightarrow> EpochInfo \<Rightarrow> EpochInfo" where
  "with_defaults ctx e = e\<lparr>
     ei_StartTime := (if ei_StartTime e = 0 then BlockTime ctx else ei_StartTime e),
     ei_CurrentEpochStartHeight :=
       (if ei_CurrentEpochStartHeight e = 0 then BlockHeight ctx else ei_CurrentEpochStartHeight e)\<rparr>"

lemma AddEpochInfo_eq:
  "AddEpochInfo ctx e s =
     rbind (EpochInfo_Validate e) (\<lambda>_.
       if kv_has s (ei_Identifier e) then Inl ErrDuplicateEpochInfo
       else Inr (kv_set (ei_Identifier e) (with_defaults ctx e) s))"
  by (cases "EpochInfo_Validate e")
     (simp_all add: AddEpochInfo_def Let_def setEpochInfoUnchecked_def with_defaults_def)

lemma GenesisState_Validate_iff:
  "is_ok (GenesisState_Validate es) \<longleftrightarrow>
     (\<forall>e\<in>set es. is_ok (EpochInfo_Validate e)) \<and> distinct (map ei_Identifier es)"
proof -
  let ?f = "\<lambda>epoch epochIdentifiers.
         case EpochInfo_Validate epoch of
           Inl _ \<Rightarrow> Inl ErrInvalidGenesisData
         | Inr _ \<Rightarrow>
             if ei_Identifier epoch \<in> set epochIdentifiers then Inl ErrInvalidGenesisData
             else Inr (ei_Identifier epoch # epochIdentifiers)"
  have "is_ok (rfold ?f es seen) \<longleftrightarrow> (\<forall>e\<in>set es. is_ok (EpochInfo_Validate e)) \<and>
      distinct (map ei_Identifier es) \<and> set seen \<inter> set (map ei_Identifier es) = {}" for seen
    by (induction es arbitrary: seen) (auto split: sum.split)
  from this [of "[]"] show ?thesis by (simp add: GenesisState_Validate_def is_ok_rbind) (simp add: is_ok_iff)
qed

lemma epochs_InitGenesis_get:
  assumes "\<forall>e\<in>set es. is_ok (EpochInfo_Validate e) \<and> \<not> kv_has s (ei_Identifier e)"
    and "distinct (map ei_Identifier es)"
  shows "kv_get (epochs_InitGenesis ctx es s) k =
    (case find (\<lambda>e. ei_Identifier e = k) es of
       None \<Rightarrow> kv_get s k | Some e \<Rightarrow> Some (with_defaults ctx e))"
  using assms
proof (induction es arbitrary: s)
  case Nil
  then show ?case by (simp add: epochs_InitGenesis_def)
next
  case (Cons e es)
  let ?s = "kv_set (ei_Identifier e) (with_defaults ctx e) s"
  have add: "AddEpochInfo ctx e s = Inr ?s"
    using Cons.prems(1) by (auto simp: AddEpochInfo_eq is_ok_iff)
  have IH: "kv_get (epochs_InitGenesis ctx es ?s) k =
      (case find (\<lambda>e. ei_Identifier e = k) es of
         None \<Rightarrow> kv_get ?s k | Some e \<Rightarrow> Some (with_defaults ctx e))"
    using Cons.prems by (intro Cons.IH) (auto simp: kv_has_iff image_iff)
  have "find (\<lambda>e. ei_Identifier e = k) es = None" if "k = ei_Identifier e"
    using Cons.prems(2) that by (auto simp: find_None_iff image_iff)
  then show ?case using IH by (auto simp: epochs_InitGenesis_def add split: option.split)
qed

text \<open>C27: a genesis that passes validation is stored completely: although \<^verbatim>\<open>InitGenesis\<close> ignores the
  errors of \<^verbatim>\<open>AddEpochInfo\<close>, every epoch of the genesis, and no other, is in the store, with its
  defaults filled in.\<close>

theorem valid_genesis_stored:
  assumes "GenesisState_Validate es = Inr ()"
  shows "kv_get (epochs_InitGenesis ctx es []) k =
    map_option (with_defaults ctx) (find (\<lambda>e. ei_Identifier e = k) es)"
proof -
  have "is_ok (GenesisState_Validate es)" using assms by simp
  then show ?thesis
    by (subst epochs_InitGenesis_get)
       (auto simp: GenesisState_Validate_iff kv_has_iff split: option.split)
qed

subsection \<open>An example\<close>

definition ex_epoch :: EpochInfo where
  "ex_epoch = \<lparr>ei_Identifier = ''day'', ei_StartTime = 5, ei_Duration = 10, ei_CurrentEpoch = 0,
     ei_CurrentEpochStartTime = 0, ei_EpochCountingStarted = False, ei_CurrentEpochStartHeight = 0\<rparr>"

definition ex_running :: EpochInfo where
  "ex_running = ex_epoch\<lparr>ei_CurrentEpoch := 1, ei_CurrentEpochStartTime := 5,
     ei_EpochCountingStarted := True\<rparr>"

definition at_time :: "int \<Rightarrow> block_ctx" where
  "at_time t = \<lparr>BlockTime = t, BlockHeight = t\<rparr>"

lemma ex_epochs_ok: "keys_ok [(''day'', ex_epoch)]" "keys_ok [(''day'', ex_running)]"
  by (simp_all add: keys_ok_def kv_wf_def ex_epoch_def ex_running_def)

lemma ex_epoch_valid: "EpochInfo_Validate ex_epoch = Inr ()" "EpochInfo_Validate ex_running = Inr ()"
  by code_simp+

theorem epochs_advance_witness:
  "kv_get (fst (BeginBlocker (at_time 7) log_hooks ([(''day'', ex_epoch)], []))) ''day'' =
     Some (ex_epoch\<lparr>ei_CurrentEpochStartHeight := 7, ei_EpochCountingStarted := True,
       ei_CurrentEpoch := 1, ei_CurrentEpochStartTime := 5\<rparr>)"
  using epochs_advance [OF ex_epochs_ok(1), of "at_time 7" log_hooks "[]" "''day''"]
  by (simp add: kv_get_def advance_def ex_epoch_valid) (simp add: ex_epoch_def at_time_def)

theorem epochs_never_drift_witness:
  "\<exists>e'. kv_get (fst (run_blocks log_hooks [at_time 16, at_time 40] ([(''day'', ex_running)], []))) ''day'' = Some e' \<and>
     ei_CurrentEpochStartTime e' = 5 + (ei_CurrentEpoch e' - 1) * 10"
  using epochs_never_drift [OF ex_epochs_ok(2), of "''day''" ex_running log_hooks "[at_time 16, at_time 40]" "[]"]
  by (auto simp: kv_get_def aligned_def ex_running_def ex_epoch_def)


theorem valid_genesis_stored_witness:
  "kv_get (epochs_InitGenesis (at_time 3) [ex_epoch] []) ''day'' = Some (with_defaults (at_time 3) ex_epoch)"
proof -
  have "GenesisState_Validate [ex_epoch] = Inr ()"
    by (simp add: GenesisState_Validate_def ex_epoch_valid)
  from valid_genesis_stored [OF this, of "at_time 3" "''day''"] show ?thesis
    by (simp add: ex_epoch_def)
qed

end
