(* ===== verification/Ledger.thy ===== *)
theory Ledger
  imports Prelude "HOL-Library.Multiset"
begin

text \<open>
  The contract that the asset states of stakers, of operators and of delegations share: an entry is
  a family of amounts, an update adds a delta to every amount of one entry and leaves all other
  entries alone, and it succeeds exactly when no amount that the delta decreases would fall below
  zero. The lemmas of the contract are what the clients of the keepers rely on: amounts never become
  negative, a run of updates adds up, its order does not matter, and an update can be undone.
\<close>

locale ledger_interface =
  fixes comp :: "'s \<Rightarrow> 'k \<Rightarrow> 'f \<Rightarrow> int"      \<comment> \<open>an amount of an entry, zero when there is none\<close>
    and key :: "'i \<Rightarrow> 'k"
    and valid :: "'i \<Rightarrow> bool"
    and delta :: "'d \<Rightarrow> 'f \<Rightarrow> int"
    and upd :: "'i \<Rightarrow> 'd \<Rightarrow> 's \<Rightarrow> 's result"
  assumes upd_ok_iff: "valid i \<Longrightarrow>
      is_ok (upd i d s) \<longleftrightarrow> (\<forall>f. 0 \<le> delta d f \<or> 0 \<le> comp s (key i) f + delta d f)"
    and upd_comp: "upd i d s = Inr s' \<Longrightarrow>
      comp s' k f = comp s k f + (if k = key i then delta d f else 0)"
    and upd_err: "valid i \<Longrightarrow> upd i d s = Inl e \<Longrightarrow> e = ErrSubAmountIsMoreThanOrigin"
    and upd_valid: "upd i d s = Inr s' \<Longrightarrow> valid i"
begin

lemma upd_same: "upd i d s = Inr s' \<Longrightarrow> comp s' (key i) f = comp s (key i) f + delta d f"
  by (simp add: upd_comp)

lemma upd_other: "upd i d s = Inr s' \<Longrightarrow> k \<noteq> key i \<Longrightarrow> comp s' k f = comp s k f"
  by (simp add: upd_comp)

lemma upd_nonneg:
  assumes "\<forall>k f. 0 \<le> comp s k f" "upd i d s = Inr s'"
  shows "0 \<le> comp s' k f"
proof (cases "k = key i")
  case True
  have "0 \<le> delta d f \<or> 0 \<le> comp s (key i) f + delta d f"
    using upd_ok_iff [OF upd_valid [OF assms(2)], of d s] assms(2) by simp
  moreover have "0 \<le> comp s (key i) f" using assms(1) by blast
  ultimately have "0 \<le> comp s k f + delta d f" unfolding True by linarith
  with assms(2) True show ?thesis by (simp add: upd_comp)
next
  case False
  with assms show ?thesis by (simp add: upd_comp)
qed

lemma upd_undo:
  assumes "\<forall>k f. 0 \<le> comp s k f" "upd i d s = Inr s'" "\<And>f. delta d' f = - delta d f"
  shows "\<exists>s''. upd i d' s' = Inr s'' \<and> comp s'' = comp s"
proof -
  have "0 \<le> comp s' (key i) f + delta d' f" for f
    using assms by (simp add: upd_comp [OF assms(2)])
  then have "is_ok (upd i d' s')" using upd_ok_iff [OF upd_valid [OF assms(2)]] by blast
  then obtain s'' where s'': "upd i d' s' = Inr s''" by (auto simp: is_ok_iff)
  then have "comp s'' k f = comp s k f" for k f
    by (simp add: upd_comp [OF s''] upd_comp [OF assms(2)] assms(3))
  with s'' show ?thesis by blast
qed

lemma run_comp:
  assumes "rfold (\<lambda>(i, d). upd i d) xs s = Inr s'"
  shows "comp s' k f = comp s k f + (\<Sum>(i, d)\<leftarrow>xs. if k = key i then delta d f else 0)"
  using assms
proof (induction xs arbitrary: s)
  case Nil
  then show ?case by simp
next
  case (Cons x xs)
  obtain i d where x: "x = (i, d)" by (cases x)
  with Cons.prems obtain t where t: "upd i d s = Inr t" "rfold (\<lambda>(i, d). upd i d) xs t = Inr s'"
    by (auto simp: rbind_eq_Inr_iff)
  show ?case using Cons.IH [OF t(2)] upd_comp [OF t(1)] x by simp
qed

theorem run_permute:
  assumes "mset xs = mset ys"
    and "rfold (\<lambda>(i, d). upd i d) xs s = Inr s'" "rfold (\<lambda>(i, d). upd i d) ys s = Inr s''"
  shows "comp s' = comp s''"
proof (intro ext)
  fix k f
  let ?g = "\<lambda>(i, d). if k = key i then delta d f else 0"
  have msum: "(\<Sum>x\<leftarrow>zs. ?g x) = sum_mset (image_mset ?g (mset zs))" for zs
    by (simp only: mset_map [symmetric] sum_mset_sum_list)
  have "(\<Sum>x\<leftarrow>xs. ?g x) = (\<Sum>x\<leftarrow>ys. ?g x)" unfolding msum assms(1) by (rule refl)
  then show "comp s' k f = comp s'' k f"
    using run_comp [OF assms(2), of k f] run_comp [OF assms(3), of k f] by (simp add: case_prod_unfold)
qed

lemma run_nonneg:
  assumes "\<forall>k f. 0 \<le> comp s k f" "rfold (\<lambda>(i, d). upd i d) xs s = Inr s'"
  shows "0 \<le> comp s' k f"
proof -
  have "\<forall>k f. 0 \<le> comp s' k f"
    by (rule rfold_invariant [where I = "\<lambda>s. \<forall>k f. 0 \<le> comp s k f", OF assms(2,1)])
       (auto intro: upd_nonneg)
  then show ?thesis by blast
qed

end

end
