(* ===== verification/Assets.thy ===== *)
theory Assets
  imports KeyProps Ledger
begin

text \<open>
  The assets module, \<^verbatim>\<open>x/assets/keeper\<close>: the registry of client chains and staking assets
  (\<^verbatim>\<open>client_chain.go\<close>, \<^verbatim>\<open>client_chain_asset.go\<close>), the asset states of stakers and operators
  (\<^verbatim>\<open>staker_asset.go\<close>, \<^verbatim>\<open>operator_asset.go\<close>), deposits and withdrawals (\<^verbatim>\<open>bank.go\<close>), and the
  gateway parameters (\<^verbatim>\<open>params.go\<close>). A state is changed by adding a delta to each of its amounts;
  the locale \<open>ledger\<close> is the contract of such an update, and the staker and operator states are
  its first two instances.
\<close>

section \<open>Data\<close>

record ClientChainInfo =
  cci_Name :: string
  cci_MetaInfo :: string
  cci_ChainId :: uint64
  cci_ImuaChainIndex :: uint64
  cci_FinalizationBlocks :: uint64
  cci_LayerZeroChainID :: uint64
  cci_SignatureType :: string
  cci_AddressLength :: uint32

record AssetInfo =
  ai_Name :: string
  ai_Symbol :: string
  ai_Address :: string
  ai_Decimals :: uint32
  ai_LayerZeroChainID :: uint64
  ai_ImuaChainIndex :: uint64
  ai_MetaInfo :: string

record StakingAssetInfo =
  sai_AssetBasicInfo :: AssetInfo
  sai_StakingTotalAmount :: int

record StakerAssetInfo =
  sa_TotalDepositAmount :: int
  sa_WithdrawableAmount :: int
  sa_PendingUndelegationAmount :: int

record OperatorAssetInfo =
  oa_TotalAmount :: int
  oa_PendingUndelegationAmount :: int
  oa_TotalShare :: int
  oa_OperatorShare :: int

text \<open>
  The delta types have the fields of the state they change; a field the caller leaves out is the
  nil \<^verbatim>\<open>math.Int\<close> or \<^verbatim>\<open>LegacyDec\<close>, here \<open>None\<close>.
\<close>

record DeltaStakerSingleAsset =
  dsa_TotalDepositAmount :: "int option"
  dsa_WithdrawableAmount :: "int option"
  dsa_PendingUndelegationAmount :: "int option"

record DeltaOperatorSingleAsset =
  doa_TotalAmount :: "int option"
  doa_PendingUndelegationAmount :: "int option"
  doa_TotalShare :: "int option"
  doa_OperatorShare :: "int option"

definition no_staker_delta :: DeltaStakerSingleAsset where
  "no_staker_delta = \<lparr>dsa_TotalDepositAmount = None, dsa_WithdrawableAmount = None,
     dsa_PendingUndelegationAmount = None\<rparr>"

definition no_operator_delta :: DeltaOperatorSingleAsset where
  "no_operator_delta = \<lparr>doa_TotalAmount = None, doa_PendingUndelegationAmount = None,
     doa_TotalShare = None, doa_OperatorShare = None\<rparr>"

datatype CrossChainOpType = DepositLST | WithdrawLST | DepositNST | WithdrawNST | WithdrawReward

record Params =
  p_Gateways :: "string list"

text \<open>The prefix stores of the module.\<close>

record assets_state =
  clientChainInfos :: "(bytes, ClientChainInfo) kv"
  stakingAssetInfos :: "(bytes, StakingAssetInfo) kv"
  stakerAssetInfos :: "(bytes, StakerAssetInfo) kv"
  operatorAssetInfos :: "(bytes, OperatorAssetInfo) kv"
  assetsParams :: "Params option"

section \<open>Changing an amount\<close>

text \<open>
  The first argument is the pointer to the value, the second the pointer to the change;
  \<open>Some None\<close> is a pointer to a nil number. On an error the value is left as it was.
\<close>

definition UpdateAssetValue :: "int option \<Rightarrow> int option option \<Rightarrow> int result" where
  "UpdateAssetValue valueToUpdate changeValue =
     (case (valueToUpdate, changeValue) of
        (Some v, Some None) \<Rightarrow> Inr v
      | (Some v, Some (Some c)) \<Rightarrow>
          if c = 0 then Inr v
          else if c < 0 \<and> v < - c then Inl ErrSubAmountIsMoreThanOrigin
          else Inr (v + c)
      | _ \<Rightarrow> Inl ErrInputPointerIsNil)"

definition UpdateAssetDecValue :: "int option \<Rightarrow> int option option \<Rightarrow> int result" where
  "UpdateAssetDecValue valueToUpdate changeValue =
     (case (valueToUpdate, changeValue) of
        (Some v, Some None) \<Rightarrow> Inr v
      | (Some v, Some (Some c)) \<Rightarrow>
          if c = 0 then Inr v
          else if c < 0 \<and> v < - c then Inl ErrSubAmountIsMoreThanOrigin
          else Inr (v + c)
      | _ \<Rightarrow> Inl ErrInputPointerIsNil)"

text \<open>The change a delta field asks for.\<close>

definition amount_of :: "int option \<Rightarrow> int" where
  "amount_of c = (case c of None \<Rightarrow> 0 | Some x \<Rightarrow> x)"

lemma amount_of_simps [simp]: "amount_of None = 0" "amount_of (Some x) = x"
  by (simp_all add: amount_of_def)

lemma UpdateAssetValue_eq [result_simps]:
  "UpdateAssetValue (Some v) (Some c) =
     (if amount_of c < 0 \<and> v + amount_of c < 0 then Inl ErrSubAmountIsMoreThanOrigin
      else Inr (v + amount_of c))"
  by (cases c) (auto simp: UpdateAssetValue_def)

lemma UpdateAssetDecValue_eq [result_simps]:
  "UpdateAssetDecValue (Some v) (Some c) =
     (if amount_of c < 0 \<and> v + amount_of c < 0 then Inl ErrSubAmountIsMoreThanOrigin
      else Inr (v + amount_of c))"
  by (cases c) (auto simp: UpdateAssetDecValue_def)

section \<open>Client chains\<close>

definition SetClientChainInfo ::
    "codec \<Rightarrow> ClientChainInfo \<Rightarrow> assets_state \<Rightarrow> bool \<times> assets_state" where
  "SetClientChainInfo C info s =
     (let key = hexEncodeUint64 C (cci_LayerZeroChainID info);
          updated = kv_has (clientChainInfos s) key
      in (updated, s\<lparr>clientChainInfos := kv_set key info (clientChainInfos s)\<rparr>))"

definition ClientChainExists :: "codec \<Rightarrow> assets_state \<Rightarrow> uint64 \<Rightarrow> bool" where
  "ClientChainExists C s index = kv_has (clientChainInfos s) (hexEncodeUint64 C index)"

definition GetClientChainInfoByIndex ::
    "codec \<Rightarrow> assets_state \<Rightarrow> uint64 \<Rightarrow> ClientChainInfo result" where
  "GetClientChainInfoByIndex C s index =
     of_option ErrNoClientChainKey (kv_get (clientChainInfos s) (hexEncodeUint64 C index))"

text \<open>The callback, \<open>None\<close> when it is nil, threads a state of its own.\<close>

definition IterateAllClientChains ::
    "(ClientChainInfo \<Rightarrow> 'a \<Rightarrow> 'a result) option \<Rightarrow> assets_state \<Rightarrow> 'a \<Rightarrow> 'a result" where
  "IterateAllClientChains opFunc s a =
     (case opFunc of
        None \<Rightarrow> Inl ErrInvalidInputParameter
      | Some f \<Rightarrow> rfold (\<lambda>(_, clientChain). f clientChain) (kv_iterate [] (clientChainInfos s)) a)"

definition GetAllClientChainInfo :: "assets_state \<Rightarrow> ClientChainInfo list result" where
  "GetAllClientChainInfo s =
     IterateAllClientChains (Some (\<lambda>clientChain ret. Inr (ret @ [clientChain]))) s []"

definition GetAllClientChainID :: "assets_state \<Rightarrow> uint32 list result" where
  "GetAllClientChainID s =
     IterateAllClientChains
       (Some (\<lambda>clientChain ret. Inr (ret @ [ucast (cci_LayerZeroChainID clientChain)]))) s []"

section \<open>Staking assets\<close>

definition MaxDecimal :: uint32 where
  "MaxDecimal = 18"

definition UpdateStakingAssetTotalAmount ::
    "string \<Rightarrow> int option \<Rightarrow> assets_state \<Rightarrow> assets_state result" where
  "UpdateStakingAssetTotalAmount assetID changeAmount s =
     (case changeAmount of
        None \<Rightarrow> Inl ErrInputPointerIsNil
      | Some _ \<Rightarrow>
          (case kv_get (stakingAssetInfos s) assetID of
             None \<Rightarrow> Inl ErrNoClientChainAssetKey
           | Some ret \<Rightarrow>
               rbind (UpdateAssetValue (Some (sai_StakingTotalAmount ret)) (Some changeAmount))
                 (\<lambda>v. Inr (s\<lparr>stakingAssetInfos :=
                    kv_set assetID (ret\<lparr>sai_StakingTotalAmount := v\<rparr>) (stakingAssetInfos s)\<rparr>))))"

definition AssetID :: "codec \<Rightarrow> AssetInfo \<Rightarrow> string" where
  "AssetID C info = snd (GetStakerIDAndAssetIDFromStr C (ai_LayerZeroChainID info) [] (ai_Address info))"

definition SetStakingAssetInfo ::
    "codec \<Rightarrow> StakingAssetInfo \<Rightarrow> assets_state \<Rightarrow> assets_state result" where
  "SetStakingAssetInfo C info s =
     (if MaxDecimal < ai_Decimals (sai_AssetBasicInfo info) then Inl ErrInvalidInputParameter
      else if sai_StakingTotalAmount info < 0 then Inl ErrInvalidInputParameter
      else
        let assetID = snd (GetStakerIDAndAssetIDFromStr C
               (ai_LayerZeroChainID (sai_AssetBasicInfo info)) [] (ai_Address (sai_AssetBasicInfo info)))
        in if kv_has (stakingAssetInfos s) assetID then Inl ErrRegisterDuplicateAssetID
           else Inr (s\<lparr>stakingAssetInfos := kv_set assetID info (stakingAssetInfos s)\<rparr>))"

definition IsStakingAsset :: "assets_state \<Rightarrow> string \<Rightarrow> bool" where
  "IsStakingAsset s assetID = kv_has (stakingAssetInfos s) assetID"

definition GetStakingAssetInfo :: "assets_state \<Rightarrow> string \<Rightarrow> StakingAssetInfo result" where
  "GetStakingAssetInfo s assetID =
     of_option ErrNoClientChainAssetKey (kv_get (stakingAssetInfos s) assetID)"

definition UpdateStakingAssetMetaInfo ::
    "string \<Rightarrow> string \<Rightarrow> assets_state \<Rightarrow> assets_state result" where
  "UpdateStakingAssetMetaInfo assetID metainfo s =
     rbind (GetStakingAssetInfo s assetID) (\<lambda>info.
     Inr (s\<lparr>stakingAssetInfos :=
       kv_set assetID
         (info\<lparr>sai_AssetBasicInfo := (sai_AssetBasicInfo info)\<lparr>ai_MetaInfo := metainfo\<rparr>\<rparr>)
         (stakingAssetInfos s)\<rparr>))"

text \<open>
  The set of assets is a Go map, visited in an order the language does not fix: \<open>assets\<close> is one
  such order, \<open>None\<close> the nil map, and the result a map from asset to decimals.
\<close>

definition GetAssetsDecimal ::
    "assets_state \<Rightarrow> string list option \<Rightarrow> (string \<rightharpoonup> uint32) result" where
  "GetAssetsDecimal s assets =
     (case assets of
        None \<Rightarrow> Inl ErrInputPointerIsNil
      | Some as \<Rightarrow>
          rfold (\<lambda>assetID decimals.
             case kv_get (stakingAssetInfos s) assetID of
               None \<Rightarrow> Inl ErrNoClientChainAssetKey
             | Some ret \<Rightarrow> Inr (decimals(assetID \<mapsto> ai_Decimals (sai_AssetBasicInfo ret))))
            as Map.empty)"

definition GetAllStakingAssetsInfo :: "assets_state \<Rightarrow> StakingAssetInfo list" where
  "GetAllStakingAssetsInfo s = map snd (kv_iterate [] (stakingAssetInfos s))"

section \<open>Staker and operator states\<close>

definition UpdateStakerAssetState ::
    "string \<Rightarrow> string \<Rightarrow> DeltaStakerSingleAsset \<Rightarrow> assets_state
      \<Rightarrow> (StakerAssetInfo \<times> assets_state) result" where
  "UpdateStakerAssetState stakerID assetID changeAmount s =
     (let key = GetJoinedStoreKey [stakerID, assetID];
          assetState = (case kv_get (stakerAssetInfos s) key of
             None \<Rightarrow> \<lparr>sa_TotalDepositAmount = 0, sa_WithdrawableAmount = 0,
                      sa_PendingUndelegationAmount = 0\<rparr>
           | Some v \<Rightarrow> v)
      in
      rbind (UpdateAssetValue (Some (sa_TotalDepositAmount assetState))
               (Some (dsa_TotalDepositAmount changeAmount))) (\<lambda>total.
      rbind (UpdateAssetValue (Some (sa_WithdrawableAmount assetState))
               (Some (dsa_WithdrawableAmount changeAmount))) (\<lambda>withdrawable.
      rbind (UpdateAssetValue (Some (sa_PendingUndelegationAmount assetState))
               (Some (dsa_PendingUndelegationAmount changeAmount))) (\<lambda>pending.
      let assetState' = \<lparr>sa_TotalDepositAmount = total, sa_WithdrawableAmount = withdrawable,
                         sa_PendingUndelegationAmount = pending\<rparr>
      in Inr (assetState',
           s\<lparr>stakerAssetInfos := kv_set key assetState' (stakerAssetInfos s)\<rparr>)))))"

definition IsOperatorAssetExist :: "codec \<Rightarrow> assets_state \<Rightarrow> bytes \<Rightarrow> string \<Rightarrow> bool" where
  "IsOperatorAssetExist C s operatorAddr assetID =
     kv_has (operatorAssetInfos s) (GetJoinedStoreKey [accAddressString C operatorAddr, assetID])"

definition GetOperatorSpecifiedAssetInfo ::
    "codec \<Rightarrow> assets_state \<Rightarrow> bytes \<Rightarrow> string \<Rightarrow> OperatorAssetInfo result" where
  "GetOperatorSpecifiedAssetInfo C s operatorAddr assetID =
     of_option ErrNoOperatorAssetKey
       (kv_get (operatorAssetInfos s) (GetJoinedStoreKey [accAddressString C operatorAddr, assetID]))"

definition zero_operator_asset :: OperatorAssetInfo where
  "zero_operator_asset = \<lparr>oa_TotalAmount = 0, oa_PendingUndelegationAmount = 0,
     oa_TotalShare = 0, oa_OperatorShare = 0\<rparr>"

text \<open>The first result is the state before the update.\<close>

definition UpdateOperatorAssetState ::
    "codec \<Rightarrow> bytes \<Rightarrow> string \<Rightarrow> DeltaOperatorSingleAsset \<Rightarrow> assets_state
      \<Rightarrow> (OperatorAssetInfo \<times> assets_state) result" where
  "UpdateOperatorAssetState C operatorAddr assetID changeAmount s =
     (let key = GetJoinedStoreKey [accAddressString C operatorAddr, assetID];
          assetState = (case kv_get (operatorAssetInfos s) key of
             None \<Rightarrow> zero_operator_asset | Some v \<Rightarrow> v)
      in
      rbind (UpdateAssetValue (Some (oa_TotalAmount assetState))
               (Some (doa_TotalAmount changeAmount))) (\<lambda>totalAmount.
      rbind (UpdateAssetValue (Some (oa_PendingUndelegationAmount assetState))
               (Some (doa_PendingUndelegationAmount changeAmount))) (\<lambda>pending.
      rbind (UpdateAssetDecValue (Some (oa_TotalShare assetState))
               (Some (doa_TotalShare changeAmount))) (\<lambda>totalShare.
      rbind (UpdateAssetDecValue (Some (oa_OperatorShare assetState))
               (Some (doa_OperatorShare changeAmount))) (\<lambda>operatorShare.
      let assetState' = \<lparr>oa_TotalAmount = totalAmount, oa_PendingUndelegationAmount = pending,
                         oa_TotalShare = totalShare, oa_OperatorShare = operatorShare\<rparr>
      in Inr (assetState,
           s\<lparr>operatorAssetInfos := kv_set key assetState' (operatorAssetInfos s)\<rparr>))))))"

text \<open>
  The filter is the set of asset identifiers to visit, \<open>None\<close> for all. The callback may change the
  state of the asset it is given; with \<open>isUpdate\<close> the changed states are written back after the
  iteration.
\<close>

definition IterateAssetsForOperator ::
    "codec \<Rightarrow> bool \<Rightarrow> string \<Rightarrow> string set option
      \<Rightarrow> (string \<Rightarrow> OperatorAssetInfo \<Rightarrow> 'a \<Rightarrow> (OperatorAssetInfo \<times> 'a) result) option
      \<Rightarrow> assets_state \<Rightarrow> 'a \<Rightarrow> (assets_state \<times> 'a) result" where
  "IterateAssetsForOperator C isUpdate operator assetsFilter opFunc s a =
     (case accAddressFromBech32 C operator of
        None \<Rightarrow> Inl ErrInvalidInputParameter
      | Some _ \<Rightarrow>
     (case opFunc of
        None \<Rightarrow> Inl ErrInvalidInputParameter
      | Some f \<Rightarrow>
          rbind (rfold (\<lambda>(key, amounts) (updateKeyValues, a).
              rbind (ParseJoinedKeyWithCount key 2) (\<lambda>keys.
                if (case assetsFilter of None \<Rightarrow> False | Some F \<Rightarrow> keys ! 1 \<notin> F)
                then Inr (updateKeyValues, a)
                else rbind (f (keys ! 1) amounts a) (\<lambda>(amounts', a').
                  Inr (if isUpdate then updateKeyValues @ [(key, amounts')] else updateKeyValues, a'))))
            (kv_iterate operator (operatorAssetInfos s)) ([], a))
          (\<lambda>(updateKeyValues, a').
            Inr (s\<lparr>operatorAssetInfos :=
                   fold (\<lambda>(key, v). kv_set key v) updateKeyValues (operatorAssetInfos s)\<rparr>, a'))))"

record AssetByID =
  abi_AssetID :: string
  abi_Info :: OperatorAssetInfo

record AssetsByOperator =
  abo_Operator :: string
  abo_AssetsState :: "AssetByID list"

record DepositByAsset =
  dba_AssetID :: string
  dba_Info :: StakerAssetInfo

record DepositsByStaker =
  dbs_StakerID :: string
  dbs_Deposits :: "DepositByAsset list"

definition GetOperatorAssetInfos ::
    "codec \<Rightarrow> assets_state \<Rightarrow> string \<Rightarrow> string set option \<Rightarrow> AssetByID list result" where
  "GetOperatorAssetInfos C s operator assetsFilter =
     rbind (IterateAssetsForOperator C False operator assetsFilter
              (Some (\<lambda>assetID state ret.
                 Inr (state, ret @ [\<lparr>abi_AssetID = assetID, abi_Info = state\<rparr>]))) s [])
       (\<lambda>(_, ret). Inr ret)"

text \<open>
  \<^verbatim>\<open>AllDeposits\<close> and \<^verbatim>\<open>AllOperatorAssets\<close> group the entries by the first part of the key: a new
  group is opened whenever that part differs from the previous entry's. The last group is changed
  by \<^verbatim>\<open>ret[len(ret)-1]\<close>, which panics on an empty list.
\<close>

definition append_last :: "('g \<Rightarrow> 'g) \<Rightarrow> 'g list \<Rightarrow> 'g list result" where
  "append_last f ret =
     (if ret = [] then Inl (Panic ''index out of range'') else Inr (butlast ret @ [f (last ret)]))"

definition AllDeposits :: "assets_state \<Rightarrow> DepositsByStaker list result" where
  "AllDeposits s =
     rbind (rfold (\<lambda>(key, stateInfo) (previousStakerID, ret).
         rbind (ParseJoinedKeyWithCount key 2) (\<lambda>keyList.
         let stakerID = keyList ! 0; assetID = keyList ! 1;
             ret' = (if previousStakerID \<noteq> stakerID
                     then ret @ [\<lparr>dbs_StakerID = stakerID, dbs_Deposits = []\<rparr>] else ret)
         in rbind (append_last (\<lambda>d. d\<lparr>dbs_Deposits :=
                dbs_Deposits d @ [\<lparr>dba_AssetID = assetID, dba_Info = stateInfo\<rparr>]\<rparr>) ret')
              (\<lambda>ret''. Inr (stakerID, ret''))))
       (kv_iterate [] (stakerAssetInfos s)) ([], []))
     (\<lambda>(_, ret). Inr ret)"

definition AllOperatorAssets :: "assets_state \<Rightarrow> AssetsByOperator list result" where
  "AllOperatorAssets s =
     rbind (rfold (\<lambda>(key, assetInfo) (previousOperator, ret).
         rbind (ParseJoinedKeyWithCount key 2) (\<lambda>keyList.
         let operator = keyList ! 0; assetID = keyList ! 1;
             ret' = (if previousOperator \<noteq> operator
                     then ret @ [\<lparr>abo_Operator = operator, abo_AssetsState = []\<rparr>] else ret)
         in rbind (append_last (\<lambda>d. d\<lparr>abo_AssetsState :=
                abo_AssetsState d @ [\<lparr>abi_AssetID = assetID, abi_Info = assetInfo\<rparr>]\<rparr>) ret')
              (\<lambda>ret''. Inr (operator, ret''))))
       (kv_iterate [] (operatorAssetInfos s)) ([], []))
     (\<lambda>(_, ret). Inr ret)"

section \<open>Deposits and withdrawals\<close>

record DepositWithdrawParams =
  dw_ClientChainLzID :: uint64
  dw_Action :: CrossChainOpType
  dw_AssetsAddress :: "bytes option"
  dw_StakerAddress :: "bytes option"
  dw_OpAmount :: int

definition PerformDepositOrWithdraw ::
    "codec \<Rightarrow> DepositWithdrawParams \<Rightarrow> assets_state \<Rightarrow> (int \<times> assets_state) result" where
  "PerformDepositOrWithdraw C params s =
     (if dw_OpAmount params \<le> 0 then Inl ErrInvalidAmount
      else
        let (stakerID, assetID) = GetStakerIDAndAssetID C (dw_ClientChainLzID params)
               (dw_StakerAddress params) (dw_AssetsAddress params)
        in
        if \<not> IsStakingAsset s assetID then Inl ErrNoClientChainAssetKey
        else if assetID = ImuachainAssetID then Inl ErrNoClientChainAssetKey
        else
          rbind (case dw_Action params of
                   DepositLST \<Rightarrow> Inr (dw_OpAmount params)
                 | DepositNST \<Rightarrow> Inr (dw_OpAmount params)
                 | WithdrawLST \<Rightarrow> Inr (- dw_OpAmount params)
                 | WithdrawNST \<Rightarrow> Inr (- dw_OpAmount params)
                 | _ \<Rightarrow> Inl ErrInvalidOperationType) (\<lambda>actualOpAmount.
          rbind (UpdateStakerAssetState stakerID assetID
                   (no_staker_delta\<lparr>dsa_TotalDepositAmount := Some actualOpAmount,
                                    dsa_WithdrawableAmount := Some actualOpAmount\<rparr>) s) (\<lambda>(info, s1).
          rbind (UpdateStakingAssetTotalAmount assetID (Some actualOpAmount) s1) (\<lambda>s2.
          Inr (sa_TotalDepositAmount info, s2)))))"

section \<open>Parameters\<close>

definition forbiddenGatewayAddresses :: "string list" where
  "forbiddenGatewayAddresses =
    [''0x0000000000000000000000000000000000000000'',
     ''0x0000000000000000000000000000000000000001'',
     ''0x0000000000000000000000000000000000000002'',
     ''0x0000000000000000000000000000000000000003'',
     ''0x0000000000000000000000000000000000000004'',
     ''0x0000000000000000000000000000000000000005'',
     ''0x0000000000000000000000000000000000000006'',
     ''0x0000000000000000000000000000000000000007'',
     ''0x0000000000000000000000000000000000000008'',
     ''0x0000000000000000000000000000000000000009'',
     ''0x0000000000000000000000000000000000000400'',
     ''0x0000000000000000000000000000000000000804'',
     ''0x0000000000000000000000000000000000000805'',
     ''0x0000000000000000000000000000000000000806'',
     ''0x0000000000000000000000000000000000000809'']"

text \<open>
  \<^verbatim>\<open>strings.EqualFold\<close> against one of these strings: they consist of digits and an \<open>x\<close>, for which
  Unicode case folding is the ASCII one.
\<close>

definition ValidateGatewayBusinessRules :: "string \<Rightarrow> unit result" where
  "ValidateGatewayBusinessRules gateway =
     rfold (\<lambda>forbidden _.
         if to_lower gateway = to_lower forbidden then Inl ErrForbiddenGatewayAddress else Inr ())
       forbiddenGatewayAddresses ()"

definition Normalize :: "Params \<Rightarrow> Params" where
  "Normalize p = p\<lparr>p_Gateways := map to_lower (p_Gateways p)\<rparr>"

definition ValidateGatewayAddress :: "codec \<Rightarrow> string \<Rightarrow> unit result" where
  "ValidateGatewayAddress C gateway =
     (if \<not> isHexAddress C gateway then Inl ErrParse
      else if hexToAddress C gateway = replicate 20 (char_of (0 :: nat)) then Inl ErrParse
      else Inr ())"

definition ValidateBasic :: "codec \<Rightarrow> Params \<Rightarrow> unit result" where
  "ValidateBasic C p =
     rbind (rfold (\<lambda>gateway seen.
         let lowercased = to_lower gateway in
         rbind (ValidateGatewayAddress C gateway) (\<lambda>_.
         if lowercased \<in> set seen then Inl ErrParse else Inr (seen @ [lowercased])))
       (p_Gateways p) [])
     (\<lambda>_. Inr ())"

definition SetParams :: "Params \<Rightarrow> assets_state \<Rightarrow> assets_state result" where
  "SetParams params s =
     rbind (rfold (\<lambda>gateway _. ValidateGatewayBusinessRules gateway) (p_Gateways params) ()) (\<lambda>_.
     Inr (s\<lparr>assetsParams := Some (Normalize params)\<rparr>))"

definition GetParams :: "assets_state \<Rightarrow> Params result" where
  "GetParams s = of_option ErrNoParamsKey (assetsParams s)"

definition GetGatewayAddresses :: "codec \<Rightarrow> assets_state \<Rightarrow> bytes list result" where
  "GetGatewayAddresses C s =
     rbind (GetParams s) (\<lambda>param. Inr (map (hexToAddress C) (p_Gateways param)))"

definition IsAuthorizedGateway :: "codec \<Rightarrow> assets_state \<Rightarrow> bytes \<Rightarrow> bool result" where
  "IsAuthorizedGateway C s addr =
     rbind (GetParams s) (\<lambda>param. Inr (to_lower (addressHex C addr) \<in> set (p_Gateways param)))"

definition UpdateParams :: "string \<Rightarrow> string \<Rightarrow> Params \<Rightarrow> assets_state \<Rightarrow> assets_state result" where
  "UpdateParams authority msgAuthority params s =
     (if authority \<noteq> msgAuthority then Inl ErrInvalidSigner else SetParams params s)"

end
