(* ===== verification/AssetProps.thy ===== *)
theory AssetProps
  imports Assets
begin

text \<open>
  What the assets module guarantees: the staker and operator states are ledgers, deposits and
  withdrawals keep the registered total of an asset equal to what the stakers deposited, a
  withdrawal undoes a deposit, and no reserved address can become an authorised gateway.
\<close>

section \<open>The staker ledger\<close>

datatype staker_field = F_TotalDeposit | F_Withdrawable | F_PendingUndelegation

fun staker_amount :: "StakerAssetInfo \<Rightarrow> staker_field \<Rightarrow> int" where
  "staker_amount a F_TotalDeposit = sa_TotalDepositAmount a"
| "staker_amount a F_Withdrawable = sa_WithdrawableAmount a"
| "staker_amount a F_PendingUndelegation = sa_PendingUndelegationAmount a"

fun staker_delta :: "DeltaStakerSingleAsset \<Rightarrow> staker_field \<Rightarrow> int" where
  "staker_delta d F_TotalDeposit = amount_of (dsa_TotalDepositAmount d)"
| "staker_delta d F_Withdrawable = amount_of (dsa_WithdrawableAmount d)"
| "staker_delta d F_PendingUndelegation = amount_of (dsa_PendingUndelegationAmount d)"

definition staker_comp :: "assets_state \<Rightarrow> bytes \<Rightarrow> staker_field \<Rightarrow> int" where
  "staker_comp s k f =
     (case kv_get (stakerAssetInfos s) k of None \<Rightarrow> 0 | Some a \<Rightarrow> staker_amount a f)"

abbreviation staker_key :: "string \<Rightarrow> string \<Rightarrow> bytes" where
  "staker_key stakerID assetID \<equiv> GetJoinedStoreKey [stakerID, assetID]"

lemma all_staker_field: "(\<forall>f. P f) \<longleftrightarrow> P F_TotalDeposit \<and> P F_Withdrawable \<and> P F_PendingUndelegation"
  by (metis staker_field.exhaust)

lemma staker_state_ext:
  "(\<And>f. staker_amount a f = staker_amount b f) \<Longrightarrow> a = b"
  by (metis (full_types) StakerAssetInfo.equality old.unit.exhaust staker_amount.simps)

text \<open>The update, as a case distinction on the amounts.\<close>

lemma UpdateStakerAssetState_cases:
  fixes s :: assets_state and stakerID assetID :: string
  defines "v \<equiv> staker_comp s (staker_key stakerID assetID)"
  shows "UpdateStakerAssetState stakerID assetID d s =
    (if \<forall>f. 0 \<le> staker_delta d f \<or> 0 \<le> v f + staker_delta d f
     then (let a = \<lparr>sa_TotalDepositAmount = v F_TotalDeposit + staker_delta d F_TotalDeposit,
                    sa_WithdrawableAmount = v F_Withdrawable + staker_delta d F_Withdrawable,
                    sa_PendingUndelegationAmount =
                      v F_PendingUndelegation + staker_delta d F_PendingUndelegation\<rparr>
           in Inr (a, s\<lparr>stakerAssetInfos :=
                kv_set (staker_key stakerID assetID) a (stakerAssetInfos s)\<rparr>))
     else Inl ErrSubAmountIsMoreThanOrigin)"
  unfolding all_staker_field v_def UpdateStakerAssetState_def staker_comp_def
  by (cases "kv_get (stakerAssetInfos s) (staker_key stakerID assetID)")
     (simp_all add: result_simps Let_def not_less [symmetric])

definition staker_upd ::
    "string \<times> string \<Rightarrow> DeltaStakerSingleAsset \<Rightarrow> assets_state \<Rightarrow> assets_state result" where
  "staker_upd i d s = rbind (UpdateStakerAssetState (fst i) (snd i) d s) (\<lambda>(_, s'). Inr s')"

lemma staker_comp_put:
  "staker_comp (s\<lparr>stakerAssetInfos := kv_set k a (stakerAssetInfos s)\<rparr>) j f =
     (if j = k then staker_amount a f else staker_comp s j f)"
  by (simp add: staker_comp_def)

interpretation stakers: ledger_interface staker_comp "\<lambda>(st, a). staker_key st a" "\<lambda>_. True"
  staker_delta staker_upd
proof (unfold_locales, goal_cases)
  case (1 i d s)
  then show ?case
    by (cases i) (simp add: staker_upd_def UpdateStakerAssetState_cases Let_def)
next
  case (2 i d s s' k f)
  then show ?case
    by (cases i; cases f)
       (auto simp: staker_upd_def UpdateStakerAssetState_cases Let_def staker_comp_put
             split: if_splits)
next
  case (3 i d s e)
  then show ?case
    by (cases i) (simp add: staker_upd_def UpdateStakerAssetState_cases Let_def split: if_splits)
qed simp

lemma UpdateStakerAssetState_upd:
  "UpdateStakerAssetState st a d s = Inr (info, s') \<Longrightarrow> staker_upd (st, a) d s = Inr s'"
  by (simp add: staker_upd_def)

lemma UpdateStakerAssetState_comp:
  assumes "UpdateStakerAssetState st a d s = Inr (info, s')"
  shows "staker_comp s' k f =
           staker_comp s k f + (if k = staker_key st a then staker_delta d f else 0)"
  using stakers.upd_comp [OF UpdateStakerAssetState_upd [OF assms]] by simp

text \<open>The other stores are untouched, and the returned state is the stored one.\<close>

lemma UpdateStakerAssetState_frame:
  assumes "UpdateStakerAssetState st a d s = Inr (info, s')"
  shows "clientChainInfos s' = clientChainInfos s" "stakingAssetInfos s' = stakingAssetInfos s"
    "operatorAssetInfos s' = operatorAssetInfos s" "assetsParams s' = assetsParams s"
    "kv_get (stakerAssetInfos s') (staker_key st a) = Some info"
    "kv_wf (stakerAssetInfos s) \<Longrightarrow> kv_wf (stakerAssetInfos s')"
    "j \<noteq> staker_key st a \<Longrightarrow> kv_get (stakerAssetInfos s') j = kv_get (stakerAssetInfos s) j"
    "staker_amount info f = staker_comp s (staker_key st a) f + staker_delta d f"
  using assms
  by (auto simp: UpdateStakerAssetState_cases Let_def split: if_splits) (cases f, simp_all)

section \<open>The operator ledger\<close>

datatype operator_field = O_TotalAmount | O_Pending | O_TotalShare | O_OperatorShare

fun operator_amount :: "OperatorAssetInfo \<Rightarrow> operator_field \<Rightarrow> int" where
  "operator_amount a O_TotalAmount = oa_TotalAmount a"
| "operator_amount a O_Pending = oa_PendingUndelegationAmount a"
| "operator_amount a O_TotalShare = oa_TotalShare a"
| "operator_amount a O_OperatorShare = oa_OperatorShare a"

fun operator_delta :: "DeltaOperatorSingleAsset \<Rightarrow> operator_field \<Rightarrow> int" where
  "operator_delta d O_TotalAmount = amount_of (doa_TotalAmount d)"
| "operator_delta d O_Pending = amount_of (doa_PendingUndelegationAmount d)"
| "operator_delta d O_TotalShare = amount_of (doa_TotalShare d)"
| "operator_delta d O_OperatorShare = amount_of (doa_OperatorShare d)"

definition operator_comp :: "assets_state \<Rightarrow> bytes \<Rightarrow> operator_field \<Rightarrow> int" where
  "operator_comp s k f =
     (case kv_get (operatorAssetInfos s) k of None \<Rightarrow> 0 | Some a \<Rightarrow> operator_amount a f)"

abbreviation operator_key :: "codec \<Rightarrow> bytes \<Rightarrow> string \<Rightarrow> bytes" where
  "operator_key C opAddr assetID \<equiv> GetJoinedStoreKey [accAddressString C opAddr, assetID]"

lemma all_operator_field:
  "(\<forall>f. P f) \<longleftrightarrow> P O_TotalAmount \<and> P O_Pending \<and> P O_TotalShare \<and> P O_OperatorShare"
  by (metis operator_field.exhaust)

lemma UpdateOperatorAssetState_cases:
  fixes s :: assets_state and C :: codec and opAddr :: bytes and assetID :: string
  defines "v \<equiv> operator_comp s (operator_key C opAddr assetID)"
  shows "UpdateOperatorAssetState C opAddr assetID d s =
    (if \<forall>f. 0 \<le> operator_delta d f \<or> 0 \<le> v f + operator_delta d f
     then Inr (\<lparr>oa_TotalAmount = v O_TotalAmount, oa_PendingUndelegationAmount = v O_Pending,
                oa_TotalShare = v O_TotalShare, oa_OperatorShare = v O_OperatorShare\<rparr>,
       s\<lparr>operatorAssetInfos := kv_set (operator_key C opAddr assetID)
          \<lparr>oa_TotalAmount = v O_TotalAmount + operator_delta d O_TotalAmount,
           oa_PendingUndelegationAmount = v O_Pending + operator_delta d O_Pending,
           oa_TotalShare = v O_TotalShare + operator_delta d O_TotalShare,
           oa_OperatorShare = v O_OperatorShare + operator_delta d O_OperatorShare\<rparr>
          (operatorAssetInfos s)\<rparr>)
     else Inl ErrSubAmountIsMoreThanOrigin)"
  unfolding all_operator_field v_def UpdateOperatorAssetState_def operator_comp_def
  by (cases "kv_get (operatorAssetInfos s) (operator_key C opAddr assetID)")
     (simp_all add: result_simps Let_def not_less [symmetric] zero_operator_asset_def)

definition operator_upd ::
    "codec \<Rightarrow> bytes \<times> string \<Rightarrow> DeltaOperatorSingleAsset \<Rightarrow> assets_state \<Rightarrow> assets_state result" where
  "operator_upd C i d s = rbind (UpdateOperatorAssetState C (fst i) (snd i) d s) (\<lambda>(_, s'). Inr s')"

lemma operator_comp_put:
  "operator_comp (s\<lparr>operatorAssetInfos := kv_set k a (operatorAssetInfos s)\<rparr>) j f =
     (if j = k then operator_amount a f else operator_comp s j f)"
  by (simp add: operator_comp_def)

interpretation operators: ledger_interface operator_comp "\<lambda>(opAddr, a). operator_key C opAddr a"
  "\<lambda>_. True" operator_delta "operator_upd C" for C
proof (unfold_locales, goal_cases)
  case (1 i d s)
  then show ?case by (cases i) (simp add: operator_upd_def UpdateOperatorAssetState_cases)
next
  case (2 i d s s' k f)
  then show ?case
    by (cases i; cases f)
       (auto simp: operator_upd_def UpdateOperatorAssetState_cases operator_comp_put
             split: if_splits)
next
  case (3 i d s e)
  then show ?case
    by (cases i) (simp add: operator_upd_def UpdateOperatorAssetState_cases split: if_splits)
qed simp

lemma UpdateOperatorAssetState_comp:
  assumes "UpdateOperatorAssetState C opAddr a d s = Inr (prev, s')"
  shows "operator_comp s' k f =
           operator_comp s k f + (if k = operator_key C opAddr a then operator_delta d f else 0)"
proof -
  have "operator_upd C (opAddr, a) d s = Inr s'" using assms by (simp add: operator_upd_def)
  then show ?thesis using operators.upd_comp by force
qed

lemma UpdateOperatorAssetState_frame:
  assumes "UpdateOperatorAssetState C opAddr a d s = Inr (prev, s')"
  shows "clientChainInfos s' = clientChainInfos s" "stakingAssetInfos s' = stakingAssetInfos s"
    "stakerAssetInfos s' = stakerAssetInfos s" "assetsParams s' = assetsParams s"
    "operator_amount prev f = operator_comp s (operator_key C opAddr a) f"
    "kv_wf (operatorAssetInfos s) \<Longrightarrow> kv_wf (operatorAssetInfos s')"
    "j \<noteq> operator_key C opAddr a \<Longrightarrow>
       kv_get (operatorAssetInfos s') j = kv_get (operatorAssetInfos s) j"
  using assms
  by (auto simp: UpdateOperatorAssetState_cases split: if_splits) (cases f, simp_all)


section \<open>Deposits and withdrawals\<close>

text \<open>What is registered as the total of an asset, and what the stakers deposited of it.\<close>

definition staking_total :: "assets_state \<Rightarrow> string \<Rightarrow> int" where
  "staking_total s assetID =
     (case kv_get (stakingAssetInfos s) assetID of None \<Rightarrow> 0 | Some i \<Rightarrow> sai_StakingTotalAmount i)"

definition deposit_share :: "string \<Rightarrow> bytes \<Rightarrow> StakerAssetInfo \<Rightarrow> int" where
  "deposit_share assetID k v =
     (case ParseJoinedKeyWithCount k 2 of
        Inl _ \<Rightarrow> 0
      | Inr ks \<Rightarrow> if ks ! 1 = assetID then sa_TotalDepositAmount v else 0)"

definition deposits_of :: "assets_state \<Rightarrow> string \<Rightarrow> int" where
  "deposits_of s assetID = kv_total (deposit_share assetID) (stakerAssetInfos s)"

lemma deposit_share_joined:
  assumes "key_part st" "key_part a"
  shows "deposit_share b (staker_key st a) v = (if a = b then sa_TotalDepositAmount v else 0)"
  using ParseJoinedKeyWithCount_joined [of "[st, a]"] assms by (simp add: deposit_share_def numeral_2_eq_2)

lemma deposits_of_update:
  assumes "UpdateStakerAssetState st a d s = Inr (info, s')"
    and "kv_wf (stakerAssetInfos s)" "key_part st" "key_part a"
  shows "deposits_of s' b = deposits_of s b + (if a = b then staker_delta d F_TotalDeposit else 0)"
proof -
  have s': "stakerAssetInfos s' = kv_set (staker_key st a) info (stakerAssetInfos s)"
    using assms(1) by (auto simp: UpdateStakerAssetState_cases Let_def split: if_splits)
  have "staker_amount info F_TotalDeposit =
      staker_comp s (staker_key st a) F_TotalDeposit + staker_delta d F_TotalDeposit"
    by (rule UpdateStakerAssetState_frame(8) [OF assms(1)])
  then show ?thesis
    unfolding deposits_of_def s' kv.total_put [OF assms(2)]
    using assms(3,4)
    by (cases "a = b") (auto simp: deposit_share_joined staker_comp_def split: option.splits)
qed

lemma UpdateStakingAssetTotalAmount_Inr:
  "UpdateStakingAssetTotalAmount a (Some n) s = Inr s' \<longleftrightarrow>
     (\<exists>i. kv_get (stakingAssetInfos s) a = Some i \<and>
        (0 \<le> n \<or> 0 \<le> sai_StakingTotalAmount i + n) \<and>
        s' = s\<lparr>stakingAssetInfos := kv_set a
               (i\<lparr>sai_StakingTotalAmount := sai_StakingTotalAmount i + n\<rparr>) (stakingAssetInfos s)\<rparr>)"
  by (auto simp: UpdateStakingAssetTotalAmount_def result_simps split: option.splits)

lemma staking_total_update:
  assumes "UpdateStakingAssetTotalAmount a (Some n) s = Inr s'"
  shows "staking_total s' b = staking_total s b + (if a = b then n else 0)"
    "stakerAssetInfos s' = stakerAssetInfos s" "operatorAssetInfos s' = operatorAssetInfos s"
    "kv_has (stakingAssetInfos s') b = kv_has (stakingAssetInfos s) b"
  using assms
  by (auto simp: UpdateStakingAssetTotalAmount_Inr staking_total_def kv_has_iff split: if_splits)

text \<open>The signed amount of an operation.\<close>

definition signed_amount :: "DepositWithdrawParams \<Rightarrow> int option" where
  "signed_amount p =
     (case dw_Action p of
        DepositLST \<Rightarrow> Some (dw_OpAmount p) | DepositNST \<Rightarrow> Some (dw_OpAmount p)
      | WithdrawLST \<Rightarrow> Some (- dw_OpAmount p) | WithdrawNST \<Rightarrow> Some (- dw_OpAmount p)
      | WithdrawReward \<Rightarrow> None)"

definition dw_ids :: "codec \<Rightarrow> DepositWithdrawParams \<Rightarrow> string \<times> string" where
  "dw_ids C p = GetStakerIDAndAssetID C (dw_ClientChainLzID p) (dw_StakerAddress p) (dw_AssetsAddress p)"

lemma dw_ids_parts:
  assumes "chain_codec C"
  shows "key_part (fst (dw_ids C p))" "key_part (snd (dw_ids C p))"
  using chain_codec.hex_part(1) [OF assms] chain_codec.hex64_part(1) [OF assms]
  by (auto simp: dw_ids_def GetStakerIDAndAssetID_def no_char_def DelimiterForID_def
      DelimiterForCombinedKey_def Let_def split: option.splits)

definition deposit_delta :: "int \<Rightarrow> DeltaStakerSingleAsset" where
  "deposit_delta n =
     no_staker_delta\<lparr>dsa_TotalDepositAmount := Some n, dsa_WithdrawableAmount := Some n\<rparr>"

lemma deposit_delta_simps [simp]:
  "dsa_TotalDepositAmount (deposit_delta n) = Some n"
  "dsa_WithdrawableAmount (deposit_delta n) = Some n"
  "dsa_PendingUndelegationAmount (deposit_delta n) = None"
  by (simp_all add: deposit_delta_def no_staker_delta_def)

lemma PerformDepositOrWithdraw_Inr:
  "PerformDepositOrWithdraw C p s = Inr (t, s') \<longleftrightarrow>
     0 < dw_OpAmount p \<and> IsStakingAsset s (snd (dw_ids C p)) \<and> snd (dw_ids C p) \<noteq> ImuachainAssetID \<and>
     (\<exists>n info s1. signed_amount p = Some n \<and>
        UpdateStakerAssetState (fst (dw_ids C p)) (snd (dw_ids C p)) (deposit_delta n) s = Inr (info, s1) \<and>
        UpdateStakingAssetTotalAmount (snd (dw_ids C p)) (Some n) s1 = Inr s' \<and>
        t = sa_TotalDepositAmount info)"
  unfolding PerformDepositOrWithdraw_def dw_ids_def [symmetric] signed_amount_def
  by (cases "dw_ids C p"; cases "dw_Action p")
     (auto simp: rbind_eq_Inr_iff deposit_delta_def not_less Let_def)

lemma PerformDepositOrWithdraw_totals:
  assumes "chain_codec C" "PerformDepositOrWithdraw C p s = Inr (t, s')"
    and "kv_wf (stakerAssetInfos s)"
  shows "kv_wf (stakerAssetInfos s')"
    and "staking_total s' b - deposits_of s' b = staking_total s b - deposits_of s b"
proof -
  obtain n info s1 where
      u1: "UpdateStakerAssetState (fst (dw_ids C p)) (snd (dw_ids C p)) (deposit_delta n) s = Inr (info, s1)"
    and u2: "UpdateStakingAssetTotalAmount (snd (dw_ids C p)) (Some n) s1 = Inr s'"
    using assms(2) by (auto simp: PerformDepositOrWithdraw_Inr)
  show "kv_wf (stakerAssetInfos s')"
    using UpdateStakerAssetState_frame(6) [OF u1 assms(3)] staking_total_update(2) [OF u2] by simp
  have "deposits_of s' b = deposits_of s1 b"
    by (simp add: deposits_of_def staking_total_update(2) [OF u2])
  moreover have "staking_total s1 b = staking_total s b"
    by (simp add: staking_total_def UpdateStakerAssetState_frame(2) [OF u1])
  ultimately show "staking_total s' b - deposits_of s' b = staking_total s b - deposits_of s b"
    using deposits_of_update [OF u1 assms(3) dw_ids_parts [OF assms(1)]]
      staking_total_update(1) [OF u2] by simp
qed

definition perform_step ::
    "codec \<Rightarrow> DepositWithdrawParams \<Rightarrow> assets_state \<Rightarrow> assets_state result" where
  "perform_step C p s = rbind (PerformDepositOrWithdraw C p s) (\<lambda>(_, s'). Inr s')"

text \<open>C19: across any sequence of deposits and withdrawals, the registered total of every asset stays
  equal to the sum of what the stakers have deposited of it.\<close>

theorem deposits_match_total:
  assumes "chain_codec C" "kv_wf (stakerAssetInfos s)"
    and "\<And>b. staking_total s b = deposits_of s b"
    and "rfold (perform_step C) ps s = Inr s'"
  shows "staking_total s' b = deposits_of s' b"
proof -
  let ?I = "\<lambda>s. kv_wf (stakerAssetInfos s) \<and> (\<forall>b. staking_total s b = deposits_of s b)"
  have "?I s'"
  proof (rule rfold_invariant [where I = ?I, OF assms(4)])
    show "?I s" using assms(2,3) by blast
  next
    fix p s1 s2 assume I: "?I s1" and p: "perform_step C p s1 = Inr s2"
    obtain t where t: "PerformDepositOrWithdraw C p s1 = Inr (t, s2)"
      using p by (auto simp: perform_step_def rbind_eq_Inr_iff)
    show "?I s2"
      using PerformDepositOrWithdraw_totals [OF assms(1) t] I by auto
  qed
  then show ?thesis by blast
qed

text \<open>C20: a withdrawal of the deposited amount is accepted right after the deposit and puts back
  every staker amount and every registered total.\<close>

theorem deposit_withdraw_roundtrip:
  assumes "PerformDepositOrWithdraw C p s = Inr (t, s1)" "signed_amount p = Some (dw_OpAmount p)"
    and "\<And>k f. 0 \<le> staker_comp s k f" "\<And>a. 0 \<le> staking_total s a"
  shows "\<exists>t2 s2. PerformDepositOrWithdraw C (p\<lparr>dw_Action := WithdrawLST\<rparr>) s1 = Inr (t2, s2) \<and>
           staker_comp s2 = staker_comp s \<and> staking_total s2 = staking_total s"
proof -
  obtain st a where ids: "dw_ids C p = (st, a)" by (cases "dw_ids C p")
  let ?n = "dw_OpAmount p"
  obtain info s0 where n: "0 < ?n" and a: "IsStakingAsset s a" "a \<noteq> ImuachainAssetID"
    and u: "UpdateStakerAssetState st a (deposit_delta ?n) s = Inr (info, s0)"
    and v: "UpdateStakingAssetTotalAmount a (Some ?n) s0 = Inr s1"
    using assms(1,2) by (auto simp: PerformDepositOrWithdraw_Inr ids)
  have comp1: "staker_comp s1 = staker_comp s0"
    by (intro ext) (simp add: staker_comp_def staking_total_update(2) [OF v])
  have c1: "staker_comp s1 k f = staker_comp s k f +
      (if k = staker_key st a then staker_delta (deposit_delta ?n) f else 0)" for k f
    unfolding comp1 by (rule UpdateStakerAssetState_comp [OF u])
  let ?d = "deposit_delta (- ?n)"
  have "\<forall>f. 0 \<le> staker_comp s1 (staker_key st a) f + staker_delta ?d f"
    using assms(3) by (simp add: c1 all_staker_field)
  then obtain info2 s3 where u2: "UpdateStakerAssetState st a ?d s1 = Inr (info2, s3)"
    by (auto simp: UpdateStakerAssetState_cases Let_def)
  obtain i where i: "kv_get (stakingAssetInfos s) a = Some i"
    and i1: "kv_get (stakingAssetInfos s1) a =
      Some (i\<lparr>sai_StakingTotalAmount := sai_StakingTotalAmount i + ?n\<rparr>)"
    using v UpdateStakerAssetState_frame(2) [OF u] by (auto simp: UpdateStakingAssetTotalAmount_Inr)
  have "0 \<le> sai_StakingTotalAmount i" using assms(4) [of a] i by (simp add: staking_total_def)
  then obtain s2 where v2: "UpdateStakingAssetTotalAmount a (Some (- ?n)) s3 = Inr s2"
    using i1 UpdateStakerAssetState_frame(2) [OF u2] by (auto simp: UpdateStakingAssetTotalAmount_Inr)
  have "dw_ids C (p\<lparr>dw_Action := WithdrawLST\<rparr>) = (st, a)" using ids by (simp add: dw_ids_def)
  then have "PerformDepositOrWithdraw C (p\<lparr>dw_Action := WithdrawLST\<rparr>) s1 =
      Inr (sa_TotalDepositAmount info2, s2)"
    using n a(2) i1 u2 v2
    by (auto simp: PerformDepositOrWithdraw_Inr IsStakingAsset_def kv_has_iff signed_amount_def)
  moreover have "staker_comp s2 = staker_comp s"
  proof (intro ext)
    fix k f
    show "staker_comp s2 k f = staker_comp s k f"
      using UpdateStakerAssetState_comp [OF u2, of k f] c1 [of k f]
      by (cases f) (simp_all add: staker_comp_def staking_total_update(2) [OF v2])
  qed
  moreover have "staking_total s2 = staking_total s"
    using staking_total_update(1) [OF v2] staking_total_update(1) [OF v]
      UpdateStakerAssetState_frame(2) [OF u] UpdateStakerAssetState_frame(2) [OF u2]
    by (intro ext) (simp add: staking_total_def)
  ultimately show ?thesis by blast
qed

subsection \<open>An example\<close>

definition ex_asset :: string where
  "ex_asset = ''0x6161_0x65''"

definition ex_assets :: assets_state where
  "ex_assets = \<lparr>clientChainInfos = [], stakingAssetInfos =
      [(ex_asset, \<lparr>sai_AssetBasicInfo = \<lparr>ai_Name = ''n'', ai_Symbol = ''s'', ai_Address = ''0x6161'',
          ai_Decimals = 6, ai_LayerZeroChainID = 101, ai_ImuaChainIndex = 0, ai_MetaInfo = []\<rparr>,
          sai_StakingTotalAmount = 0\<rparr>)],
     stakerAssetInfos = [], operatorAssetInfos = [], assetsParams = None\<rparr>"

definition ex_dw :: "CrossChainOpType \<Rightarrow> int \<Rightarrow> DepositWithdrawParams" where
  "ex_dw action n = \<lparr>dw_ClientChainLzID = 101, dw_Action = action, dw_AssetsAddress = Some ''aa'',
     dw_StakerAddress = Some ''bb'', dw_OpAmount = n\<rparr>"

lemma ex_assets_start:
  "kv_wf (stakerAssetInfos ex_assets)" "staker_comp ex_assets k f = 0"
  "staking_total ex_assets b = 0" "deposits_of ex_assets b = 0"
  by (simp_all add: ex_assets_def staker_comp_def staking_total_def deposits_of_def kv_total_def
      kv_get_def)

lemma ex_ids: "dw_ids ref_codec (ex_dw action n) = (''0x6262_0x65'', ex_asset)"
  by (simp add: dw_ids_def GetStakerIDAndAssetID_def ref_codec_def ex_dw_def Let_def hex_nat.simps
      DelimiterForID_def ex_asset_def)

lemmas ex_eval = ex_dw_def ex_assets_def IsStakingAsset_def kv_has_def kv_get_def
  UpdateStakerAssetState_def UpdateStakingAssetTotalAmount_def no_staker_delta_def

lemma ex_asset_not_native: "ex_asset \<noteq> ImuachainAssetID"
  by (simp add: ex_asset_def ImuachainAssetID_def)

lemma ex_deposit_ok: "is_ok (PerformDepositOrWithdraw ref_codec (ex_dw DepositLST 100) ex_assets)"
  unfolding PerformDepositOrWithdraw_def dw_ids_def [symmetric] ex_ids
  by (simp add: ex_asset_not_native ex_eval result_simps Let_def)

lemma ex_run_ok: "is_ok (rfold (perform_step ref_codec) [ex_dw DepositLST 100, ex_dw WithdrawLST 40] ex_assets)"
  unfolding rfold.simps perform_step_def PerformDepositOrWithdraw_def dw_ids_def [symmetric] ex_ids
  by (simp add: ex_asset_not_native ex_eval result_simps Let_def)

theorem deposits_match_total_witness:
  "\<exists>s'. rfold (perform_step ref_codec) [ex_dw DepositLST 100, ex_dw WithdrawLST 40] ex_assets = Inr s' \<and>
        staking_total s' ex_asset = deposits_of s' ex_asset"
proof -
  obtain s' where s': "rfold (perform_step ref_codec) [ex_dw DepositLST 100, ex_dw WithdrawLST 40] ex_assets = Inr s'"
    using ex_run_ok by (auto simp: is_ok_iff)
  have "staking_total s' ex_asset = deposits_of s' ex_asset"
    by (rule deposits_match_total [OF chain_codec_ref ex_assets_start(1) _ s'])
       (simp add: ex_assets_start)
  with s' show ?thesis by blast
qed

theorem deposit_withdraw_roundtrip_witness:
  "\<exists>t s1 t2 s2. PerformDepositOrWithdraw ref_codec (ex_dw DepositLST 100) ex_assets = Inr (t, s1) \<and>
     PerformDepositOrWithdraw ref_codec ((ex_dw DepositLST 100)\<lparr>dw_Action := WithdrawLST\<rparr>) s1 = Inr (t2, s2) \<and>
     staker_comp s2 = staker_comp ex_assets"
proof -
  obtain t s1 where p: "PerformDepositOrWithdraw ref_codec (ex_dw DepositLST 100) ex_assets = Inr (t, s1)"
    using ex_deposit_ok by (auto simp: is_ok_iff)
  have "signed_amount (ex_dw DepositLST 100) = Some (dw_OpAmount (ex_dw DepositLST 100))"
    by (simp add: signed_amount_def ex_dw_def)
  from deposit_withdraw_roundtrip [OF p this] p show ?thesis by (auto simp: ex_assets_start)
qed

section \<open>Gateways\<close>

lemma ValidateGatewayBusinessRules_ok:
  "is_ok (ValidateGatewayBusinessRules gateway) \<longleftrightarrow>
     (\<forall>f\<in>set forbiddenGatewayAddresses. to_lower gateway \<noteq> to_lower f)"
proof -
  have "is_ok (rfold (\<lambda>f _. if to_lower gateway = to_lower f then Inl ErrForbiddenGatewayAddress
      else Inr ()) fs ()) \<longleftrightarrow> (\<forall>f\<in>set fs. to_lower gateway \<noteq> to_lower f)" for fs
    by (induction fs) auto
  then show ?thesis by (simp add: ValidateGatewayBusinessRules_def)
qed

lemma forbidden_lower: "f \<in> set forbiddenGatewayAddresses \<Longrightarrow> to_lower f = f"
proof -
  have "\<forall>f\<in>set forbiddenGatewayAddresses. to_lower f = f"
    by (simp add: forbiddenGatewayAddresses_def to_lower_def lower_char_def)
  then show "f \<in> set forbiddenGatewayAddresses \<Longrightarrow> to_lower f = f" by blast
qed

lemma SetParams_checks:
  assumes "SetParams params s = Inr s'" "g \<in> set (p_Gateways params)"
  shows "is_ok (ValidateGatewayBusinessRules g)"
proof -
  have "rfold (\<lambda>g _. ValidateGatewayBusinessRules g) gs () = Inr u \<Longrightarrow> g \<in> set gs \<Longrightarrow>
      is_ok (ValidateGatewayBusinessRules g)" for gs u
    by (induction gs) (auto simp: rbind_eq_Inr_iff)
  then show ?thesis using assms by (auto simp: SetParams_def rbind_eq_Inr_iff)
qed

lemma SetParams_stores: "SetParams params s = Inr s' \<Longrightarrow> assetsParams s' = Some (Normalize params)"
  by (auto simp: SetParams_def rbind_eq_Inr_iff)

text \<open>C31: once parameters have been accepted, the addresses authorised as gateways are those whose
  hexadecimal form is listed, in whatever letter case, and none of them is a reserved address.\<close>

theorem gateways_authorised:
  assumes "chain_codec C" "SetParams params s = Inr s'"
  shows "IsAuthorizedGateway C s' addr =
           Inr (\<exists>g\<in>set (p_Gateways params). to_lower g = hexEncode C addr) \<and>
         (IsAuthorizedGateway C s' addr = Inr True \<longrightarrow>
           hexEncode C addr \<notin> set forbiddenGatewayAddresses)"
proof -
  have auth: "IsAuthorizedGateway C s' addr =
      Inr (\<exists>g\<in>set (p_Gateways params). to_lower g = hexEncode C addr)"
    by (force simp: IsAuthorizedGateway_def GetParams_def SetParams_stores [OF assms(2)] Normalize_def
        chain_codec.address_lower [OF assms(1)] image_iff)
  have "hexEncode C addr \<notin> set forbiddenGatewayAddresses"
    if g: "g \<in> set (p_Gateways params)" "to_lower g = hexEncode C addr" for g
  proof
    assume f: "hexEncode C addr \<in> set forbiddenGatewayAddresses"
    then have "to_lower g = to_lower (hexEncode C addr)" using g(2) forbidden_lower by simp
    then show False
      using SetParams_checks [OF assms(2) g(1)] f by (auto simp: ValidateGatewayBusinessRules_ok)
  qed
  with auth show ?thesis by auto
qed

definition DefaultGateway :: string where
  "DefaultGateway = ''0x0000000000000000000000000000000000000901''"

lemma ex_params_ok: "is_ok (SetParams \<lparr>p_Gateways = [DefaultGateway]\<rparr> ex_assets)"
proof -
  have "is_ok (ValidateGatewayBusinessRules DefaultGateway)"
    unfolding ValidateGatewayBusinessRules_ok
    by (simp add: forbiddenGatewayAddresses_def DefaultGateway_def to_lower_def lower_char_def)
  then obtain u where "ValidateGatewayBusinessRules DefaultGateway = Inr u" by (auto simp: is_ok_iff)
  then show ?thesis by (simp add: SetParams_def)
qed

theorem gateways_authorised_witness:
  "\<exists>s'. SetParams \<lparr>p_Gateways = [DefaultGateway]\<rparr> ex_assets = Inr s' \<and>
     IsAuthorizedGateway ref_codec s' (replicate 18 (char_of (0 :: nat)) @ [char_of (9 :: nat), char_of (1 :: nat)])
       = Inr True"
proof -
  obtain s' where s': "SetParams \<lparr>p_Gateways = [DefaultGateway]\<rparr> ex_assets = Inr s'"
    using ex_params_ok by (auto simp: is_ok_iff)
  have hex: "hex_bytes (replicate n (char_of (0 :: nat)) @ bs) = replicate (2 * n) (CHR ''0'') @ hex_bytes bs" for n bs
    by (induction n) simp_all
  have "DefaultGateway = ''0x'' @ replicate 36 (CHR ''0'') @ ''0901''"
    by (simp add: DefaultGateway_def numeral_eq_Suc)
  moreover have "to_lower DefaultGateway = DefaultGateway"
    by (simp add: DefaultGateway_def to_lower_def lower_char_def)
  ultimately have "to_lower DefaultGateway =
      hexEncode ref_codec (replicate 18 (char_of (0 :: nat)) @ [char_of (9 :: nat), char_of (1 :: nat)])"
    by (simp add: ref_codec_def hex)
  then show ?thesis
    using s' gateways_authorised [OF chain_codec_ref s'] by auto
qed

end
