(* ===== verification/Shares.thy ===== *)
theory Shares
  imports Decimal
begin

text \<open>
  The arithmetic of shares, the functions of \<^verbatim>\<open>x/delegation/keeper/share.go\<close> that do not touch a
  store. A pool has \<open>totalShare\<close> (a decimal, by its mantissa) and \<open>totalAmount\<close> tokens; the
  lemmas bound what a share is worth and what an amount buys.
\<close>

definition TokensFromShares :: "dec_ops \<Rightarrow> int \<Rightarrow> int \<Rightarrow> int \<Rightarrow> int result" where
  "TokensFromShares D stakerShare totalShare totalAmount =
     (if totalShare < stakerShare then Inl ErrInsufficientShares
      else if totalShare = 0 then (if totalAmount = 0 then Inr 0 else Inl ErrDivisorIsZero)
      else Inr (truncateInt D (quoDec D (mulInt D stakerShare totalAmount) totalShare)))"

definition SharesFromTokens :: "dec_ops \<Rightarrow> int \<Rightarrow> int \<Rightarrow> int \<Rightarrow> int result" where
  "SharesFromTokens D totalShare stakerAmount totalAmount =
     (if totalAmount = 0 then (if totalShare = 0 then Inr 0 else Inl ErrDivisorIsZero)
      else Inr (quoInt D (mulInt D totalShare stakerAmount) totalAmount))"

definition TokenUSDValueFromShares :: "dec_ops \<Rightarrow> int \<Rightarrow> int \<Rightarrow> int \<Rightarrow> int result" where
  "TokenUSDValueFromShares D stakerShare totalShare totalUSDValue =
     (if totalShare < stakerShare then Inl ErrInsufficientShares
      else if totalShare = 0 then (if totalUSDValue = 0 then Inr 0 else Inl ErrDivisorIsZero)
      else Inr (quoDec D (mulDec D stakerShare totalUSDValue) totalShare))"

section \<open>What a share is worth\<close>

lemma TokensFromShares_Inr:
  "0 < S \<Longrightarrow> s \<le> S \<Longrightarrow>
     TokensFromShares D s S T = Inr (truncateInt D (quoDec D (mulInt D s T) S))"
  by (simp add: TokensFromShares_def)

lemma TokensFromShares_Inr_iff:
  "TokensFromShares D s S T = Inr t \<longleftrightarrow> s \<le> S \<and>
     (if S = 0 then T = 0 \<and> t = 0 else t = truncateInt D (quoDec D (mulInt D s T) S))"
  by (auto simp: TokensFromShares_def not_less)

lemma SharesFromTokens_Inr_iff:
  "SharesFromTokens D S n T = Inr s \<longleftrightarrow>
     (if T = 0 then S = 0 \<and> s = 0 else s = quoInt D (mulInt D S n) T)"
  by (auto simp: SharesFromTokens_def)

text \<open>What the holder of a share can claim.\<close>

definition claim :: "dec_ops \<Rightarrow> int \<Rightarrow> int \<Rightarrow> int \<Rightarrow> int" where
  "claim D totalShare totalAmount share =
     (case TokensFromShares D share totalShare totalAmount of Inl _ \<Rightarrow> 0 | Inr t \<Rightarrow> t)"

context dec_arith
begin

lemma tokens_bounds:
  assumes "TokensFromShares D s S T = Inr t" "0 \<le> s" "0 \<le> T"
  shows "0 \<le> t" "t \<le> T"
proof -
  have *: "s \<le> S" "if S = 0 then T = 0 \<and> t = 0 else t = truncateInt D (quoDec D (mulInt D s T) S)"
    using assms(1) by (simp_all add: TokensFromShares_Inr_iff)
  have "s * T \<le> T * S" using mult_left_mono [OF *(1) assms(3)] by (simp add: mult.commute)
  then show "0 \<le> t" "t \<le> T"
    using * assms prorata_nonneg [of s S T] prorata_le [of s S T T]
    by (auto split: if_splits)
qed

text \<open>Rounding adds less than one unit in the last place to the value of a share.\<close>

lemma tokens_upper:
  assumes "TokensFromShares D s S T = Inr t" "0 \<le> s" "0 < S" "0 \<le> T"
  shows "t * dec_precision * S < s * T * dec_precision + S"
proof -
  let ?q = "quoDec D (mulInt D s T) S"
  have t: "t = truncateInt D ?q" using assms(1,3) by (simp add: TokensFromShares_Inr_iff)
  have q0: "0 \<le> ?q" using assms by (intro quoDec_nonneg) (simp_all add: mulInt)
  have "t * dec_precision \<le> ?q" using q0 unfolding t truncateInt by (intro tdiv_bounds) simp_all
  then have "t * dec_precision * S \<le> ?q * S" using assms(3) by (intro mult_right_mono) simp_all
  moreover have "\<bar>?q * S - s * T * dec_precision\<bar> < \<bar>S\<bar>"
    using quoDec_near [of S "mulInt D s T"] assms(3) by (simp add: mulInt)
  ultimately show ?thesis using assms(3) by linarith
qed

lemma claims_upper:
  assumes "0 < S" "0 \<le> T" "\<forall>s\<in>set ss. 0 \<le> s \<and> s \<le> S"
  shows "(\<Sum>s\<leftarrow>ss. claim D S T s) * (dec_precision * S) \<le>
    sum_list ss * T * dec_precision + int (length ss) * (S - 1)"
  using assms(3)
proof (induction ss)
  case Nil
  then show ?case by simp
next
  case (Cons s ss)
  have "TokensFromShares D s S T = Inr (claim D S T s)"
    using assms(1) Cons.prems by (simp add: claim_def TokensFromShares_def)
  from tokens_upper [OF this] have "claim D S T s * dec_precision * S < s * T * dec_precision + S"
    using assms Cons.prems by simp
  with Cons show ?case by (simp add: algebra_simps)
qed

lemma tokens_lower:
  assumes "TokensFromShares D s S T = Inr t" "0 \<le> s" "0 < S" "0 \<le> T"
    and "n * dec_precision * S - S \<le> s * T * dec_precision"
  shows "n - 1 \<le> t"
proof -
  let ?q = "quoDec D (mulInt D s T) S"
  have t: "t = truncateInt D ?q" using assms(1,3) by (simp add: TokensFromShares_Inr_iff)
  have q0: "0 \<le> ?q" using assms by (intro quoDec_nonneg) (simp_all add: mulInt)
  have near: "\<bar>?q * S - s * T * dec_precision\<bar> < \<bar>S\<bar>"
    using quoDec_near [of S "mulInt D s T"] assms(3) by (simp add: mulInt)
  have "(n * dec_precision - 2) * S < ?q * S"
    using near assms(3,5) unfolding left_diff_distrib by linarith
  then have "n * dec_precision - 1 \<le> ?q" using assms(3) by (simp add: mult_less_cancel_right)
  moreover have "?q < (t + 1) * dec_precision"
    using q0 unfolding t truncateInt by (intro tdiv_bounds) simp_all
  ultimately have "n * dec_precision < (t + 2) * dec_precision"
    using dec_precision_pos unfolding distrib_right by linarith
  then show ?thesis by (simp add: mult_less_cancel_right)
qed

lemma shares_floor:
  assumes "SharesFromTokens D S n T = Inr s" "0 \<le> S" "0 \<le> n" "0 < T"
  shows "0 \<le> s" "s * T \<le> S * n" "S * n < (s + 1) * T"
proof -
  have "s = tdiv (S * n) T" using assms by (simp add: SharesFromTokens_Inr_iff quoInt mulInt)
  then show "0 \<le> s" "s * T \<le> S * n" "S * n < (s + 1) * T"
    using tdiv_bounds [of "S * n" T] assms by simp_all
qed

end

text \<open>C28: whatever share of a pool a staker holds, it is worth a number of tokens between zero and
  the whole pool, and the computation never fails.\<close>

theorem tokens_within_pool:
  assumes "dec_arith D" "0 \<le> s" "s \<le> S" "0 \<le> T" "S = 0 \<Longrightarrow> T = 0"
  shows "\<exists>t. TokensFromShares D s S T = Inr t \<and> 0 \<le> t \<and> t \<le> T"
proof -
  have "\<exists>t. TokensFromShares D s S T = Inr t"
    using assms(3,5) by (auto simp: TokensFromShares_Inr_iff)
  then show ?thesis using dec_arith.tokens_bounds [OF assms(1)] assms by blast
qed

theorem tokens_within_pool_witness:
  "\<exists>t. TokensFromShares legacy_dec (3 * 10 ^ 18) (7 * 10 ^ 18) 6 = Inr t \<and> 0 \<le> t \<and> t \<le> 6"
  by (rule tokens_within_pool [OF dec_arith_legacy_dec]) simp_all

text \<open>C4: a pool is solvent: the amounts its stakers can claim add up to no more than the tokens it
  holds, for up to \<open>10\<^sup>1\<^sup>8\<close> stakers, although each claim may be rounded up.\<close>

theorem pool_solvent:
  assumes "dec_arith D" "0 < S" "0 \<le> T"
    and "\<forall>s\<in>set ss. 0 \<le> s \<and> s \<le> S" "sum_list ss \<le> S" "int (length ss) \<le> dec_precision"
  shows "(\<Sum>s\<leftarrow>ss. claim D S T s) \<le> T"
proof -
  let ?P = dec_precision and ?c = "\<Sum>s\<leftarrow>ss. claim D S T s"
  have "?c * (?P * S) \<le> sum_list ss * T * ?P + int (length ss) * (S - 1)"
    by (rule dec_arith.claims_upper [OF assms(1-4)])
  also have "sum_list ss * T * ?P \<le> S * T * ?P"
    using assms(3,5) by (intro mult_right_mono) simp_all
  also have "int (length ss) * (S - 1) \<le> ?P * (S - 1)"
    using assms(2,6) by (intro mult_right_mono) simp_all
  finally have "?c * (?P * S) \<le> S * T * ?P + ?P * (S - 1)" by simp
  also have "\<dots> < (T + 1) * (?P * S)" using dec_precision_pos by (simp add: algebra_simps)
  finally show ?thesis using assms(2) by (simp add: mult_less_cancel_right)
qed

theorem pool_solvent_witness:
  "(\<Sum>s\<leftarrow>[3 * 10 ^ 18, 4 * 10 ^ 18]. claim legacy_dec (7 * 10 ^ 18) 6 s) \<le> 6"
  by (rule pool_solvent [OF dec_arith_legacy_dec]) (simp_all add: dec_precision_def)



text \<open>C30: delegating does not dilute the pool and cannot be turned into a profit: a token of the pool
  is worth at least as many shares as before, and what the new share can claim at once is at most the
  amount delegated.\<close>

theorem delegation_no_profit:
  assumes "dec_arith D" "0 < T" "0 < S" "0 < n"
    and "SharesFromTokens D S n T = Inr s"
  shows "(S + s) * T \<le> S * (T + n) \<and>
    (\<exists>t. TokensFromShares D s (S + s) (T + n) = Inr t \<and> 0 \<le> t \<and> t \<le> n)"
proof -
  note f = dec_arith.shares_floor [OF assms(1,5) less_imp_le [OF assms(3)] less_imp_le [OF assms(4)] assms(2)]
  obtain t where t: "TokensFromShares D s (S + s) (T + n) = Inr t"
    using assms(3) f(1) by (simp add: TokensFromShares_def)
  have "s * (T + n) \<le> n * (S + s)" using f(2) by (simp add: algebra_simps)
  then have "t \<le> n"
    using t f(1) assms dec_arith.prorata_le [OF assms(1), of s "S + s" "T + n" n]
    by (auto simp: TokensFromShares_Inr_iff split: if_splits)
  moreover have "0 \<le> t" using dec_arith.tokens_bounds(1) [OF assms(1) t f(1)] assms by simp
  moreover have "(S + s) * T \<le> S * (T + n)" using f(2) by (simp add: algebra_simps)
  ultimately show ?thesis using t by blast
qed

theorem delegation_no_profit_witness:
  "(7 * 10 ^ 18 + 1166666666666666666) * 6 \<le> (7 * 10 ^ 18) * ((6 :: int) + 1) \<and>
   (\<exists>t. TokensFromShares legacy_dec 1166666666666666666 (7 * 10 ^ 18 + 1166666666666666666) (6 + 1) = Inr t \<and>
      0 \<le> t \<and> t \<le> 1)"
  by (rule delegation_no_profit [OF dec_arith_legacy_dec])
     (simp_all add: SharesFromTokens_def legacy_dec_def tdiv_def)

end
