(* ===== verification/Delegation.thy ===== *)
theory Delegation
  imports AssetProps Epochs Shares
begin

text \<open>
  The state of the delegation module and the keeper functions that read and write it:
  \<^verbatim>\<open>x/delegation/keeper/delegation_state.go\<close> (delegations, staker lists, associations) and
  \<^verbatim>\<open>un_delegation_state.go\<close> (undelegation records, their two indexes, hold counts, the global
  undelegation id), the parameters (\<^verbatim>\<open>params.go\<close>, \<^verbatim>\<open>msg_update_params.go\<close>), and the views of the
  assets module that need delegations (\<^verbatim>\<open>x/assets/keeper/staker_asset.go\<close>).
\<close>

section \<open>Data\<close>

record DelegationAmounts =
  da_UndelegatableShare :: int
  da_PendingUndelegationAmount :: int
  da_RewardUndelegatableShare :: int
  da_RewardPendingUndelegationAmount :: int

record DeltaDelegationAmounts =
  dda_UndelegatableShare :: "int option"
  dda_PendingUndelegationAmount :: "int option"
  dda_RewardUndelegatableShare :: "int option"
  dda_RewardPendingUndelegationAmount :: "int option"

definition no_delegation_delta :: DeltaDelegationAmounts where
  "no_delegation_delta = \<lparr>dda_UndelegatableShare = None, dda_PendingUndelegationAmount = None,
     dda_RewardUndelegatableShare = None, dda_RewardPendingUndelegationAmount = None\<rparr>"

definition zero_delegation :: DelegationAmounts where
  "zero_delegation = \<lparr>da_UndelegatableShare = 0, da_PendingUndelegationAmount = 0,
     da_RewardUndelegatableShare = 0, da_RewardPendingUndelegationAmount = 0\<rparr>"

record UndelegationAmountPerAVS =
  upa_AvsAddress :: string
  upa_Amount :: int
  upa_ActualCompletedAmount :: int

record UndelegationRecord =
  ur_StakerId :: string
  ur_AssetId :: string
  ur_OperatorAddr :: string
  ur_TxHash :: string
  ur_BlockNumber :: uint64
  ur_CompletedEpochIdentifier :: string
  ur_CompletedEpochNumber :: int
  ur_UndelegationId :: uint64
  ur_Amount :: int
  ur_ActualCompletedAmount :: int
  ur_InstantUnbonding :: bool
  ur_ApplySlash :: bool
  ur_InstantPenaltyAmount :: int
  ur_RewardAsset :: bool
  ur_RewardUndelegations :: "UndelegationAmountPerAVS list"

record UndelegationAndHoldCount =
  uh_Undelegation :: UndelegationRecord
  uh_HoldCount :: uint64

record DelegationParams =
  dp_InstantUndelegationPenalty :: uint32
  dp_MaxUndelegationCompletions :: uint32

text \<open>The prefix stores of the module.\<close>

record delegation_state =
  delegations :: "(bytes, DelegationAmounts) kv"
  stakersByOperator :: "(bytes, bytes) kv"
  undelegations :: "(bytes, UndelegationRecord) kv"
  stakerUndelegations :: "(bytes, bytes) kv"
  pendingUndelegations :: "(bytes, bytes) kv"
  undelegationsOnHold :: "(bytes, uint64) kv"
  associatedOperators :: "(bytes, string) kv"
  lastUndelegationID :: "uint64 option"
  delegationParams :: "DelegationParams option"

definition sentinelValue :: bytes where
  "sentinelValue = [char_of (1 :: nat)]"

section \<open>Parameters\<close>

text \<open>Parameters that were never stored unmarshal to the zero value.\<close>

definition GetDelegationParams :: "delegation_state \<Rightarrow> DelegationParams" where
  "GetDelegationParams s =
     (case delegationParams s of
        None \<Rightarrow> \<lparr>dp_InstantUndelegationPenalty = 0, dp_MaxUndelegationCompletions = 0\<rparr>
      | Some p \<Rightarrow> p)"

definition SetDelegationParams :: "DelegationParams \<Rightarrow> delegation_state \<Rightarrow> delegation_state" where
  "SetDelegationParams params s = s\<lparr>delegationParams := Some params\<rparr>"

definition GetInstantUndelegationPenalty :: "delegation_state \<Rightarrow> uint32" where
  "GetInstantUndelegationPenalty s = dp_InstantUndelegationPenalty (GetDelegationParams s)"

definition DelegationParams_Validate :: "DelegationParams \<Rightarrow> unit result" where
  "DelegationParams_Validate p =
     (if 100 < dp_InstantUndelegationPenalty p then Inl ErrInvalidParams else Inr ())"

definition UpdateDelegationParams ::
    "string \<Rightarrow> string \<Rightarrow> DelegationParams \<Rightarrow> delegation_state \<Rightarrow> delegation_state result" where
  "UpdateDelegationParams authority reqAuthority params s =
     (if authority \<noteq> reqAuthority then Inl ErrInvalidSigner
      else rbind (DelegationParams_Validate params) (\<lambda>_. Inr (SetDelegationParams params s)))"

section \<open>Delegations\<close>

definition AllDelegationStates :: "delegation_state \<Rightarrow> (string \<times> DelegationAmounts) list" where
  "AllDelegationStates s = kv_iterate [] (delegations s)"

definition SetAllDelegationStates ::
    "(string \<times> DelegationAmounts) list \<Rightarrow> delegation_state \<Rightarrow> delegation_state" where
  "SetAllDelegationStates delegationStates s =
     s\<lparr>delegations := fold (\<lambda>(key, states). kv_set key states) delegationStates (delegations s)\<rparr>"

text \<open>
  The callback gets the staker, the asset and the operator of the key, the amounts, and a state of
  its own that it threads; it returns whether to stop. The entries are those of the store when the
  iteration starts.
\<close>

type_synonym 'a delegation_op =
  "string \<times> string \<times> string \<Rightarrow> DelegationAmounts \<Rightarrow> 'a \<Rightarrow> (bool \<times> 'a) result"

definition IterateDelegations ::
    "delegation_state \<Rightarrow> bytes \<Rightarrow> 'a delegation_op option \<Rightarrow> 'a \<Rightarrow> 'a result" where
  "IterateDelegations s iteratorPrefix opFunc a =
     (case opFunc of
        None \<Rightarrow> Inl ErrInvalidInputParameter
      | Some f \<Rightarrow>
          riter (\<lambda>(key, amounts) a. rbind (ParseStakerAssetIDAndOperator key) (\<lambda>keys. f keys amounts a))
            (kv_iterate iteratorPrefix (delegations s)) a)"

definition IterateDelegationsForStakerAndAsset ::
    "delegation_state \<Rightarrow> string \<Rightarrow> string \<Rightarrow> 'a delegation_op option \<Rightarrow> 'a \<Rightarrow> 'a result" where
  "IterateDelegationsForStakerAndAsset s stakerID assetID opFunc a =
     (if stakerID = [] then Inl ErrInvalidInputParameter
      else if assetID = [] then Inl ErrInvalidInputParameter
      else IterateDelegations s (IteratorPrefixForStakerAsset stakerID assetID) opFunc a)"

definition IterateDelegationsForStaker ::
    "delegation_state \<Rightarrow> string \<Rightarrow> 'a delegation_op option \<Rightarrow> 'a \<Rightarrow> 'a result" where
  "IterateDelegationsForStaker s stakerID opFunc a =
     (if stakerID = [] then Inl ErrInvalidInputParameter
      else IterateDelegations s stakerID opFunc a)"

definition UndelegatableAmount ::
    "codec \<Rightarrow> dec_ops \<Rightarrow> assets_state \<Rightarrow> string \<Rightarrow> string \<Rightarrow> DelegationAmounts \<Rightarrow> (int \<times> int) result" where
  "UndelegatableAmount C D as assetID operator amounts =
     rbind (of_option ErrOperatorAddrIsNotAccAddr (accAddressFromBech32 C operator)) (\<lambda>opAccAddr.
     rbind (GetOperatorSpecifiedAssetInfo C as opAccAddr assetID) (\<lambda>operatorAsset.
     rbind (TokensFromShares D (da_UndelegatableShare amounts)
              (oa_TotalShare operatorAsset) (oa_TotalAmount operatorAsset)) (\<lambda>stakingAmount.
     rbind (TokensFromShares D (da_RewardUndelegatableShare amounts)
              (oa_TotalShare operatorAsset) (oa_TotalAmount operatorAsset)) (\<lambda>rewardAmount.
     Inr (stakingAmount, rewardAmount)))))"

definition TotalDelegatedAmountForStakingAsset ::
    "codec \<Rightarrow> dec_ops \<Rightarrow> assets_state \<Rightarrow> delegation_state \<Rightarrow> string \<Rightarrow> string \<Rightarrow> int result" where
  "TotalDelegatedAmountForStakingAsset C D as s stakerID assetID =
     IterateDelegationsForStakerAndAsset s stakerID assetID
       (Some (\<lambda>(_, _, operatorAddr) amounts amount.
          if da_UndelegatableShare amounts = 0 then Inr (False, amount)
          else rbind (UndelegatableAmount C D as assetID operatorAddr amounts)
                 (\<lambda>(stakingAssetAmount, _). Inr (False, amount + stakingAssetAmount)))) 0"

definition AllDelegatedInfoForStakerAsset ::
    "codec \<Rightarrow> dec_ops \<Rightarrow> assets_state \<Rightarrow> delegation_state \<Rightarrow> string \<Rightarrow> string \<Rightarrow> (string \<rightharpoonup> int) result" where
  "AllDelegatedInfoForStakerAsset C D as s stakerID assetID =
     IterateDelegationsForStakerAndAsset s stakerID assetID
       (Some (\<lambda>(_, _, operatorAddr) amounts ret.
          rbind (UndelegatableAmount C D as assetID operatorAddr amounts)
            (\<lambda>(stakingAssetAmount, _). Inr (False, ret(operatorAddr \<mapsto> stakingAssetAmount))))) Map.empty"

text \<open>The results are whether the share is zero now, and the amounts before the update.\<close>

definition UpdateDelegationState ::
    "codec \<Rightarrow> string \<Rightarrow> string \<Rightarrow> string \<Rightarrow> DeltaDelegationAmounts option \<Rightarrow> delegation_state
      \<Rightarrow> (bool \<times> DelegationAmounts \<times> delegation_state) result" where
  "UpdateDelegationState C stakerID assetID opAddr deltaAmounts s =
     (case deltaAmounts of
        None \<Rightarrow> Inl ErrInputPointerIsNil
      | Some d \<Rightarrow>
     (case accAddressFromBech32 C opAddr of
        None \<Rightarrow> Inl ErrOperatorAddrIsNotAccAddr
      | Some _ \<Rightarrow>
      let singleStateKey = GetJoinedStoreKey [stakerID, assetID, opAddr];
          delegationState = (case kv_get (delegations s) singleStateKey of
             None \<Rightarrow> zero_delegation | Some v \<Rightarrow> v)
      in
      rbind (UpdateAssetValue (Some (da_PendingUndelegationAmount delegationState))
               (Some (dda_PendingUndelegationAmount d))) (\<lambda>pending.
      rbind (UpdateAssetDecValue (Some (da_UndelegatableShare delegationState))
               (Some (dda_UndelegatableShare d))) (\<lambda>share.
      rbind (UpdateAssetValue (Some (da_RewardPendingUndelegationAmount delegationState))
               (Some (dda_RewardPendingUndelegationAmount d))) (\<lambda>rewardPending.
      rbind (UpdateAssetDecValue (Some (da_RewardUndelegatableShare delegationState))
               (Some (dda_RewardUndelegatableShare d))) (\<lambda>rewardShare.
      Inr (share + rewardShare = 0, delegationState,
           s\<lparr>delegations := kv_set singleStateKey
               \<lparr>da_UndelegatableShare = share, da_PendingUndelegationAmount = pending,
                da_RewardUndelegatableShare = rewardShare,
                da_RewardPendingUndelegationAmount = rewardPending\<rparr> (delegations s)\<rparr>)))))))"

definition GetSingleDelegationInfo ::
    "delegation_state \<Rightarrow> string \<Rightarrow> string \<Rightarrow> string \<Rightarrow> DelegationAmounts result" where
  "GetSingleDelegationInfo s stakerID assetID operatorAddr =
     of_option ErrNoKeyInTheStore
       (kv_get (delegations s) (GetJoinedStoreKey [stakerID, assetID, operatorAddr]))"

definition GetDelegationInfoWithAmounts ::
    "codec \<Rightarrow> dec_ops \<Rightarrow> assets_state \<Rightarrow> delegation_state \<Rightarrow> string \<Rightarrow> string \<Rightarrow> string
      \<Rightarrow> (DelegationAmounts \<times> int \<times> int) result" where
  "GetDelegationInfoWithAmounts C D as s stakerID assetID operatorAddr =
     rbind (GetSingleDelegationInfo s stakerID assetID operatorAddr) (\<lambda>delegationAmounts.
     rbind (UndelegatableAmount C D as assetID operatorAddr delegationAmounts)
       (\<lambda>(stakingAssetAmount, rewardAssetAmount).
     Inr (delegationAmounts, stakingAssetAmount, rewardAssetAmount)))"

record DelegationInfoAndOperator =
  dio_Operator :: string
  dio_DelegationAmounts :: DelegationAmounts
  dio_MaxUndelegatableAmount :: int
  dio_MaxUndelegatableRewardAmount :: int

definition GetDelegationInfo ::
    "codec \<Rightarrow> dec_ops \<Rightarrow> assets_state \<Rightarrow> delegation_state \<Rightarrow> string \<Rightarrow> string
      \<Rightarrow> DelegationInfoAndOperator list result" where
  "GetDelegationInfo C D as s stakerID assetID =
     IterateDelegationsForStakerAndAsset s stakerID assetID
       (Some (\<lambda>(_, _, operatorAddr) amounts ret.
          rbind (UndelegatableAmount C D as assetID operatorAddr amounts)
            (\<lambda>(stakingAssetAmount, rewardAssetAmount).
             Inr (False, ret @ [\<lparr>dio_Operator = operatorAddr, dio_DelegationAmounts = amounts,
                 dio_MaxUndelegatableAmount = stakingAssetAmount,
                 dio_MaxUndelegatableRewardAmount = rewardAssetAmount\<rparr>])))) []"

section \<open>Staker lists\<close>

definition AppendStakerForOperator ::
    "string \<Rightarrow> string \<Rightarrow> string \<Rightarrow> delegation_state \<Rightarrow> delegation_state" where
  "AppendStakerForOperator operator assetID stakerID s =
     s\<lparr>stakersByOperator :=
       kv_set (GetJoinedStoreKey [operator, assetID, stakerID]) sentinelValue (stakersByOperator s)\<rparr>"

definition DeleteStakerForOperator ::
    "string \<Rightarrow> string \<Rightarrow> string \<Rightarrow> delegation_state \<Rightarrow> delegation_state result" where
  "DeleteStakerForOperator operator assetID stakerID s =
     (let key = GetJoinedStoreKey [operator, assetID, stakerID] in
      if \<not> kv_has (stakersByOperator s) key then Inl ErrNoKeyInTheStore
      else Inr (s\<lparr>stakersByOperator := kv_delete key (stakersByOperator s)\<rparr>))"

text \<open>The three functions below iterate over the joined operator and asset as a bare prefix, without
  the delimiter after the asset.\<close>

definition DeleteStakersListForOperator ::
    "string \<Rightarrow> string \<Rightarrow> delegation_state \<Rightarrow> delegation_state result" where
  "DeleteStakersListForOperator operator assetID s =
     (let key = GetJoinedStoreKey [operator, assetID];
          matches = kv_iterate key (stakersByOperator s)
      in if matches = [] then Inl ErrNoKeyInTheStore
         else Inr (s\<lparr>stakersByOperator :=
                fold (\<lambda>(k, _). kv_delete k) matches (stakersByOperator s)\<rparr>))"

definition HasStakerList :: "delegation_state \<Rightarrow> string \<Rightarrow> string \<Rightarrow> bool" where
  "HasStakerList s operator assetID =
     (kv_iterate (GetJoinedStoreKey [operator, assetID]) (stakersByOperator s) \<noteq> [])"

definition GetStakersByOperator :: "delegation_state \<Rightarrow> string \<Rightarrow> string \<Rightarrow> string list result" where
  "GetStakersByOperator s operator assetID =
     rfold (\<lambda>(key, _) stakers.
         rbind (ParseJoinedKeyWithCount key 3) (\<lambda>keys. Inr (stakers @ [keys ! 2])))
       (kv_iterate (GetJoinedStoreKey [operator, assetID]) (stakersByOperator s)) []"

definition AllStakerList :: "delegation_state \<Rightarrow> string list" where
  "AllStakerList s = map fst (kv_iterate [] (stakersByOperator s))"

definition SetAllStakerList :: "string list \<Rightarrow> delegation_state \<Rightarrow> delegation_state" where
  "SetAllStakerList keyList s =
     s\<lparr>stakersByOperator := fold (\<lambda>key. kv_set key sentinelValue) keyList (stakersByOperator s)\<rparr>"

definition SetStakerShareToZero ::
    "string \<Rightarrow> string \<Rightarrow> string list \<Rightarrow> delegation_state \<Rightarrow> delegation_state" where
  "SetStakerShareToZero operator assetID stakers s =
     fold (\<lambda>stakerID s.
         let singleStateKey = GetJoinedStoreKey [stakerID, assetID, operator] in
         case kv_get (delegations s) singleStateKey of
           None \<Rightarrow> s
         | Some delegationState \<Rightarrow>
             s\<lparr>delegations := kv_set singleStateKey
                 (delegationState\<lparr>da_UndelegatableShare := 0, da_RewardUndelegatableShare := 0\<rparr>)
                 (delegations s)\<rparr>)
       stakers s"

definition DelegationStateByOperatorAssets ::
    "delegation_state \<Rightarrow> string \<Rightarrow> string set
      \<Rightarrow> (string \<rightharpoonup> (string \<rightharpoonup> DelegationAmounts)) result" where
  "DelegationStateByOperatorAssets s operatorAddr assetsFilter =
     rfold (\<lambda>(key, amounts) ret.
         rbind (ParseJoinedKeyWithCount key 3) (\<lambda>keys.
         let restakerID = keys ! 0; assetID = keys ! 1; findOperatorAddr = keys ! 2 in
         if operatorAddr \<noteq> findOperatorAddr then Inr ret
         else if assetID \<in> assetsFilter
         then let m = (case ret restakerID of None \<Rightarrow> Map.empty | Some m \<Rightarrow> m)
              in Inr (ret(restakerID \<mapsto> m(assetID \<mapsto> amounts)))
         else Inr ret))
       (kv_iterate [] (delegations s)) Map.empty"

section \<open>Associations\<close>

definition SetAssociatedOperator ::
    "codec \<Rightarrow> string \<Rightarrow> string \<Rightarrow> delegation_state \<Rightarrow> delegation_state result" where
  "SetAssociatedOperator C stakerID operatorAddr s =
     (case accAddressFromBech32 C operatorAddr of
        None \<Rightarrow> Inl ErrOperatorAddrIsNotAccAddr
      | Some _ \<Rightarrow>
          Inr (s\<lparr>associatedOperators := kv_set stakerID operatorAddr (associatedOperators s)\<rparr>))"

definition DeleteAssociatedOperator :: "string \<Rightarrow> delegation_state \<Rightarrow> delegation_state" where
  "DeleteAssociatedOperator stakerID s =
     s\<lparr>associatedOperators := kv_delete stakerID (associatedOperators s)\<rparr>"

definition GetAssociatedOperator :: "delegation_state \<Rightarrow> string \<Rightarrow> string" where
  "GetAssociatedOperator s stakerID =
     (case kv_get (associatedOperators s) stakerID of None \<Rightarrow> [] | Some v \<Rightarrow> v)"

definition GetAssociatedStakers :: "codec \<Rightarrow> delegation_state \<Rightarrow> string \<Rightarrow> string list result" where
  "GetAssociatedStakers C s operator =
     (case accAddressFromBech32 C operator of
        None \<Rightarrow> Inl ErrOperatorAddrIsNotAccAddr
      | Some _ \<Rightarrow>
          Inr (map fst (filter (\<lambda>(_, v). v = operator) (kv_iterate [] (associatedOperators s)))))"

definition GetAllAssociations :: "delegation_state \<Rightarrow> (string \<times> string) list" where
  "GetAllAssociations s = kv_iterate [] (associatedOperators s)"

section \<open>Hold counts and the undelegation id\<close>

definition MaxUint64 :: uint64 where
  "MaxUint64 = - 1"

definition GetUndelegationHoldCount :: "delegation_state \<Rightarrow> bytes \<Rightarrow> uint64" where
  "GetUndelegationHoldCount s recordKey =
     (case kv_get (undelegationsOnHold s) (GetUndelegationOnHoldKey recordKey) of
        None \<Rightarrow> 0 | Some n \<Rightarrow> n)"

definition IncrementUndelegationHoldCount :: "bytes \<Rightarrow> delegation_state \<Rightarrow> delegation_state result" where
  "IncrementUndelegationHoldCount recordKey s =
     (let prev = GetUndelegationHoldCount s recordKey in
      if prev = MaxUint64 then Inl ErrCannotIncHoldCount
      else Inr (s\<lparr>undelegationsOnHold :=
             kv_set (GetUndelegationOnHoldKey recordKey) (prev + 1) (undelegationsOnHold s)\<rparr>))"

definition DecrementUndelegationHoldCount :: "bytes \<Rightarrow> delegation_state \<Rightarrow> delegation_state result" where
  "DecrementUndelegationHoldCount recordKey s =
     (let prev = GetUndelegationHoldCount s recordKey in
      if prev = 0 then Inl ErrCannotDecHoldCount
      else Inr (s\<lparr>undelegationsOnHold :=
             kv_set (GetUndelegationOnHoldKey recordKey) (prev - 1) (undelegationsOnHold s)\<rparr>))"

definition GetLastUndelegationID :: "delegation_state \<Rightarrow> uint64" where
  "GetLastUndelegationID s = (case lastUndelegationID s of None \<Rightarrow> 0 | Some n \<Rightarrow> n)"

definition SetLastUndelegationID :: "uint64 \<Rightarrow> delegation_state \<Rightarrow> delegation_state" where
  "SetLastUndelegationID n s = s\<lparr>lastUndelegationID := Some n\<rparr>"

definition IncrementLastUndelegationID :: "delegation_state \<Rightarrow> delegation_state result" where
  "IncrementLastUndelegationID s =
     (let prev = GetLastUndelegationID s in
      if prev = MaxUint64 then Inl ErrCannotIncUndelegationID
      else Inr (s\<lparr>lastUndelegationID := Some (prev + 1)\<rparr>))"

section \<open>Undelegation records\<close>

definition AllUndelegations :: "delegation_state \<Rightarrow> UndelegationAndHoldCount list" where
  "AllUndelegations s =
     map (\<lambda>(key, undelegation).
         \<lparr>uh_Undelegation = undelegation, uh_HoldCount = GetUndelegationHoldCount s key\<rparr>)
       (kv_iterate [] (undelegations s))"

definition SetUndelegationRecord ::
    "codec \<Rightarrow> epochs_state \<Rightarrow> bool \<Rightarrow> UndelegationAndHoldCount \<Rightarrow> delegation_state \<Rightarrow> delegation_state result" where
  "SetUndelegationRecord C es isGenesis r s =
     (let undelegation = uh_Undelegation r in
      rbind (if ur_CompletedEpochIdentifier undelegation \<noteq> NullEpochIdentifier
             then (case GetEpochInfo es (ur_CompletedEpochIdentifier undelegation) of
                     None \<Rightarrow> Inl ErrEpochIdentifierNotExist
                   | Some epochInfo \<Rightarrow>
                       if ur_CompletedEpochNumber undelegation < ei_CurrentEpoch epochInfo
                       then Inl ErrInvalidCompletionEpoch else Inr ())
             else Inr ()) (\<lambda>_.
      rbind (GetUndelegationRecordKey C (ur_BlockNumber undelegation) (ur_UndelegationId undelegation)
               (ur_TxHash undelegation) (ur_OperatorAddr undelegation)) (\<lambda>singleRecKey.
      let stakerKey = GetStakerUndelegationRecordKey (ur_StakerId undelegation)
             (ur_AssetId undelegation) (ur_UndelegationId undelegation);
          pendingUndelegationKey = GetPendingUndelegationRecordKey C
             (ur_CompletedEpochIdentifier undelegation) (ur_CompletedEpochNumber undelegation)
             (ur_UndelegationId undelegation);
          s1 = s\<lparr>undelegations := kv_set singleRecKey undelegation (undelegations s),
                 stakerUndelegations := kv_set stakerKey singleRecKey (stakerUndelegations s),
                 pendingUndelegations := kv_set pendingUndelegationKey singleRecKey (pendingUndelegations s)\<rparr>
      in Inr (if isGenesis
              then s1\<lparr>undelegationsOnHold :=
                     kv_set (GetUndelegationOnHoldKey singleRecKey) (uh_HoldCount r) (undelegationsOnHold s1)\<rparr>
              else s1))))"

definition SetUndelegationRecords ::
    "codec \<Rightarrow> epochs_state \<Rightarrow> bool \<Rightarrow> UndelegationAndHoldCount list \<Rightarrow> delegation_state \<Rightarrow> delegation_state result" where
  "SetUndelegationRecords C es isGenesis records s = rfold (SetUndelegationRecord C es isGenesis) records s"

definition DeleteUndelegationRecord ::
    "codec \<Rightarrow> UndelegationRecord \<Rightarrow> delegation_state \<Rightarrow> delegation_state result" where
  "DeleteUndelegationRecord C record s =
     rbind (GetUndelegationRecordKey C (ur_BlockNumber record) (ur_UndelegationId record)
              (ur_TxHash record) (ur_OperatorAddr record)) (\<lambda>singleRecKey.
     let stakerKey = GetStakerUndelegationRecordKey (ur_StakerId record) (ur_AssetId record)
            (ur_UndelegationId record);
         pendingUndelegationKey = GetPendingUndelegationRecordKey C
            (ur_CompletedEpochIdentifier record) (ur_CompletedEpochNumber record)
            (ur_UndelegationId record)
     in Inr (s\<lparr>undelegations := kv_delete singleRecKey (undelegations s),
               stakerUndelegations := kv_delete stakerKey (stakerUndelegations s),
               pendingUndelegations := kv_delete pendingUndelegationKey (pendingUndelegations s),
               undelegationsOnHold :=
                 kv_delete (GetUndelegationOnHoldKey singleRecKey) (undelegationsOnHold s)\<rparr>))"

definition GetUndelegationRecords ::
    "delegation_state \<Rightarrow> bytes list \<Rightarrow> UndelegationAndHoldCount list result" where
  "GetUndelegationRecords s singleRecordKeys =
     rfold (\<lambda>singleRecordKey ret.
         rbind (of_option ErrNoKeyInTheStore (kv_get (undelegations s) singleRecordKey)) (\<lambda>record.
         Inr (ret @ [\<lparr>uh_Undelegation = record,
                      uh_HoldCount = GetUndelegationHoldCount s singleRecordKey\<rparr>])))
       singleRecordKeys []"

text \<open>
  The callback may change the record it is given, and threads a state of its own. With
  \<open>isUpdate\<close> the changed records are written back after the loop.
\<close>

definition IterateUndelegationsByOperator ::
    "codec \<Rightarrow> string \<Rightarrow> uint64 option \<Rightarrow> bool
      \<Rightarrow> (UndelegationRecord \<Rightarrow> 'a \<Rightarrow> (UndelegationRecord \<times> 'a) result) option
      \<Rightarrow> delegation_state \<Rightarrow> 'a \<Rightarrow> (delegation_state \<times> 'a) result" where
  "IterateUndelegationsByOperator C operator heightFilter isUpdate opFunc s a =
     (case opFunc of
        None \<Rightarrow> Inl ErrInvalidInputParameter
      | Some f \<Rightarrow>
          rbind (MustAccAddressFromBech32 C operator) (\<lambda>operatorAccAddress.
          rbind (rfold (\<lambda>(key, undelegation) (updatedKeyValues, a).
              rbind (case heightFilter of
                       None \<Rightarrow> Inr False
                     | Some h \<Rightarrow> rbind (ParseUndelegationRecordKey C key)
                                  (\<lambda>keyFields. Inr (kf_BlockHeight keyFields < h))) (\<lambda>skip.
              if skip then Inr (updatedKeyValues, a)
              else rbind (f undelegation a) (\<lambda>(undelegation', a').
                Inr (if isUpdate then updatedKeyValues @ [(key, undelegation')] else updatedKeyValues, a'))))
            (kv_iterate operatorAccAddress (undelegations s)) ([], a)) (\<lambda>(updatedKeyValues, a').
          Inr (s\<lparr>undelegations :=
                 fold (\<lambda>(key, v). kv_set key v) updatedKeyValues (undelegations s)\<rparr>, a'))))"

text \<open>The prefix has no delimiter after the asset.\<close>

definition GetStakerUndelegationRecKeys ::
    "delegation_state \<Rightarrow> string \<Rightarrow> string \<Rightarrow> bytes list result" where
  "GetStakerUndelegationRecKeys s stakerID assetID =
     (if stakerID = [] then Inl ErrInvalidInputParameter
      else if assetID = [] then Inl ErrInvalidInputParameter
      else Inr (map snd (kv_iterate (join ''/'' [stakerID, assetID]) (stakerUndelegations s))))"

definition GetUndelegationRecKey ::
    "delegation_state \<Rightarrow> string \<Rightarrow> string \<Rightarrow> uint64 \<Rightarrow> bytes option" where
  "GetUndelegationRecKey s stakerID assetID undelegationID =
     kv_get (stakerUndelegations s) (GetStakerUndelegationRecordKey stakerID assetID undelegationID)"

definition GetStakerUndelegationRecords ::
    "delegation_state \<Rightarrow> string \<Rightarrow> string \<Rightarrow> UndelegationAndHoldCount list result" where
  "GetStakerUndelegationRecords s stakerID assetID =
     rbind (GetStakerUndelegationRecKeys s stakerID assetID) (GetUndelegationRecords s)"

text \<open>
  Here the record is written back within the loop, into a store other than the iterated one; the
  callback threads a state of its own next to the undelegation store.
\<close>

definition IterateUndelegationsByStakerAndAsset ::
    "string \<Rightarrow> string \<Rightarrow> bool
      \<Rightarrow> (bytes \<Rightarrow> UndelegationRecord \<Rightarrow> 'a \<Rightarrow> (bool \<times> UndelegationRecord \<times> 'a) result) option
      \<Rightarrow> delegation_state \<Rightarrow> 'a \<Rightarrow> (delegation_state \<times> 'a) result" where
  "IterateUndelegationsByStakerAndAsset stakerID assetID isUpdate opFunc s a =
     (case opFunc of
        None \<Rightarrow> Inl ErrInvalidInputParameter
      | Some f \<Rightarrow>
          riter (\<lambda>(_, recordKey) (s, a).
              rbind (of_option ErrNoKeyInTheStore (kv_get (undelegations s) recordKey)) (\<lambda>undelegation.
              rbind (f recordKey undelegation a) (\<lambda>(isBreak, undelegation', a').
              Inr (isBreak,
                   if isUpdate
                   then s\<lparr>undelegations := kv_set recordKey undelegation' (undelegations s)\<rparr> else s,
                   a'))))
            (kv_iterate (IteratorPrefixForStakerAsset stakerID assetID) (stakerUndelegations s)) (s, a))"

definition GetPendingUndelegationFinalAmount ::
    "delegation_state \<Rightarrow> string \<Rightarrow> string \<Rightarrow> int result" where
  "GetPendingUndelegationFinalAmount s stakerID assetID =
     rbind (IterateUndelegationsByStakerAndAsset stakerID assetID False
              (Some (\<lambda>_ undelegation amount.
                 Inr (False, undelegation, amount + ur_ActualCompletedAmount undelegation))) s 0)
       (\<lambda>(_, amount). Inr amount)"

section \<open>Pending undelegations\<close>

text \<open>
  One element of the loop of \<^verbatim>\<open>IteratePendingUndelegations\<close>. It breaks at the first undelegation
  that has not expired, and when the callback asks to.
\<close>

definition pending_step ::
    "codec \<Rightarrow> delegation_state \<Rightarrow> bool \<Rightarrow> int
      \<Rightarrow> (bytes \<Rightarrow> UndelegationRecord \<Rightarrow> 'a \<Rightarrow> (bool \<times> 'a) result)
      \<Rightarrow> bytes \<times> bytes \<Rightarrow> 'a \<Rightarrow> (bool \<times> 'a) result" where
  "pending_step C s isCompletable currentEpoch f entry a =
     (case entry of (key, recordKey) \<Rightarrow>
      rbind (ParsePendingUndelegationKey C key) (\<lambda>keys.
      let record_step =
            rbind (of_option ErrNoKeyInTheStore (kv_get (undelegations s) recordKey))
              (\<lambda>undelegation. f recordKey undelegation a)
      in
      if isCompletable
      then if of_int currentEpoch \<le> pk_EpochNumber keys then Inr (True, a)
           else if 0 < GetUndelegationHoldCount s recordKey then Inr (False, a)
           else record_step
      else if pk_EpochNumber keys < of_int currentEpoch \<and> GetUndelegationHoldCount s recordKey = 0
           then Inr (False, a)
           else record_step))"

definition pending_prefix :: "codec \<Rightarrow> string \<Rightarrow> bytes" where
  "pending_prefix C epochIdentifier =
     AppendMany [Uint64ToBigEndian C (of_nat (length epochIdentifier)), epochIdentifier]"

definition IteratePendingUndelegations ::
    "codec \<Rightarrow> delegation_state \<Rightarrow> bool \<Rightarrow> string \<Rightarrow> int
      \<Rightarrow> (bytes \<Rightarrow> UndelegationRecord \<Rightarrow> 'a \<Rightarrow> (bool \<times> 'a) result) option \<Rightarrow> 'a \<Rightarrow> 'a result" where
  "IteratePendingUndelegations C s isCompletable epochIdentifier currentEpoch opFunc a =
     (case opFunc of
        None \<Rightarrow> Inl ErrInvalidInputParameter
      | Some f \<Rightarrow>
          riter (pending_step C s isCompletable currentEpoch f)
            (kv_iterate (pending_prefix C epochIdentifier) (pendingUndelegations s)) a)"

definition GetUnCompletableUndelegations ::
    "codec \<Rightarrow> delegation_state \<Rightarrow> string \<Rightarrow> int \<Rightarrow> UndelegationAndHoldCount list result" where
  "GetUnCompletableUndelegations C s epochIdentifier epochNumber =
     IteratePendingUndelegations C s False epochIdentifier epochNumber
       (Some (\<lambda>recordKey record records.
          Inr (False, records @ [\<lparr>uh_Undelegation = record,
                 uh_HoldCount = GetUndelegationHoldCount s recordKey\<rparr>]))) []"

definition completable_op ::
    "bool \<Rightarrow> uint32 \<Rightarrow> bytes \<Rightarrow> UndelegationRecord \<Rightarrow> UndelegationRecord list
      \<Rightarrow> (bool \<times> UndelegationRecord list) result" where
  "completable_op applyLimit limit recordKey record records =
     (if applyLimit \<and> limit \<noteq> 0 \<and> limit \<le> of_nat (length records) then Inr (True, records)
      else Inr (False, records @ [record]))"

definition GetCompletableUndelegations ::
    "codec \<Rightarrow> epochs_state \<Rightarrow> delegation_state \<Rightarrow> bool \<Rightarrow> UndelegationRecord list result" where
  "GetCompletableUndelegations C es s applyLimit =
     (let limit = (if applyLimit then dp_MaxUndelegationCompletions (GetDelegationParams s) else 0) in
      rbind (IteratePendingUndelegations C s True NullEpochIdentifier (NullEpochNumber + 1)
               (Some (completable_op applyLimit limit)) []) (\<lambda>records.
      riter (\<lambda>epochInfo records.
          if applyLimit \<and> limit \<noteq> 0 \<and> limit \<le> of_nat (length records) then Inr (True, records)
          else rbind (IteratePendingUndelegations C s True (ei_Identifier epochInfo)
                        (ei_CurrentEpoch epochInfo) (Some (completable_op applyLimit limit)) records)
                 (\<lambda>records'. Inr (False, records')))
        (AllEpochInfos es) records))"

section \<open>Views of the assets module\<close>

text \<open>
  For the native token the staker's state is derived: the bank balance is withdrawable, and the
  delegations and pending undelegations are added to it. \<open>balance\<close> is the bank's balance of the
  chain's token for an account.
\<close>

definition GetStakerSpecifiedAssetInfo ::
    "codec \<Rightarrow> dec_ops \<Rightarrow> (bytes \<Rightarrow> int) \<Rightarrow> assets_state \<Rightarrow> delegation_state \<Rightarrow> string \<Rightarrow> string
      \<Rightarrow> StakerAssetInfo result" where
  "GetStakerSpecifiedAssetInfo C D balance as s stakerID assetID =
     (if \<not> IsStakingAsset as assetID then Inl ErrNoClientChainAssetKey
      else if assetID = ImuachainAssetID
      then
        rbind (ParseID C stakerID) (\<lambda>(stakerAddrStr, _).
        rbind (of_option ErrParse (hexDecode C stakerAddrStr)) (\<lambda>stakerAccDecode.
        let info = \<lparr>sa_TotalDepositAmount = balance stakerAccDecode,
                    sa_WithdrawableAmount = balance stakerAccDecode,
                    sa_PendingUndelegationAmount = 0\<rparr>
        in
        rbind (GetDelegationInfo C D as s stakerID assetID) (\<lambda>delegationInfos.
        Inr (fold (\<lambda>delegationInfo info.
               let pending = da_PendingUndelegationAmount (dio_DelegationAmounts delegationInfo)
               in info\<lparr>sa_TotalDepositAmount := sa_TotalDepositAmount info +
                         dio_MaxUndelegatableAmount delegationInfo + pending,
                       sa_PendingUndelegationAmount := sa_PendingUndelegationAmount info + pending\<rparr>)
             delegationInfos info))))
      else of_option ErrNoStakerAssetKey
             (kv_get (stakerAssetInfos as) (GetJoinedStoreKey [stakerID, assetID])))"

definition GetStakerAssetInfos ::
    "codec \<Rightarrow> dec_ops \<Rightarrow> (bytes \<Rightarrow> int) \<Rightarrow> assets_state \<Rightarrow> delegation_state \<Rightarrow> string
      \<Rightarrow> DepositByAsset list result" where
  "GetStakerAssetInfos C D balance as s stakerID =
     (if stakerID = [] then Inl ErrInvalidInputParameter
      else
        rbind (rfold (\<lambda>(key, stateInfo) ret.
            rbind (ParseJoinedKeyWithCount key 2) (\<lambda>keyList.
            Inr (ret @ [\<lparr>dba_AssetID = keyList ! 1, dba_Info = stateInfo\<rparr>])))
          (kv_iterate stakerID (stakerAssetInfos as)) []) (\<lambda>ret.
        if \<not> IsStakingAsset as ImuachainAssetID then Inr ret
        else rbind (GetStakerSpecifiedAssetInfo C D balance as s stakerID ImuachainAssetID) (\<lambda>info.
          Inr (ret @ [\<lparr>dba_AssetID = ImuachainAssetID, dba_Info = info\<rparr>]))))"

record StakerBalance =
  sb_StakerId :: string
  sb_AssetId :: string
  sb_Balance :: int
  sb_Withdrawable :: int
  sb_Delegated :: int
  sb_PendingUndelegated :: int
  sb_TotalDeposited :: int

definition GetStakerBalanceByAsset ::
    "codec \<Rightarrow> dec_ops \<Rightarrow> (bytes \<Rightarrow> int) \<Rightarrow> assets_state \<Rightarrow> delegation_state \<Rightarrow> string \<Rightarrow> string
      \<Rightarrow> StakerBalance result" where
  "GetStakerBalanceByAsset C D balance as s stakerID assetID =
     rbind (GetStakerSpecifiedAssetInfo C D balance as s stakerID assetID) (\<lambda>stakerAssetInfo.
     rbind (TotalDelegatedAmountForStakingAsset C D as s stakerID assetID) (\<lambda>delegatedAmount.
     rbind (GetPendingUndelegationFinalAmount s stakerID assetID) (\<lambda>pendingUndelegationFinalAmount.
     Inr \<lparr>sb_StakerId = stakerID, sb_AssetId = assetID,
          sb_Balance = sa_WithdrawableAmount stakerAssetInfo + pendingUndelegationFinalAmount +
            delegatedAmount,
          sb_Withdrawable = sa_WithdrawableAmount stakerAssetInfo,
          sb_Delegated = delegatedAmount,
          sb_PendingUndelegated = sa_PendingUndelegationAmount stakerAssetInfo,
          sb_TotalDeposited = sa_TotalDepositAmount stakerAssetInfo\<rparr>)))"

end
