(* ===== verification/DelegationOps.thy ===== *)
theory DelegationOps
  imports Delegation
begin

text \<open>
  The operations of the delegation module: shares (\<^verbatim>\<open>keeper/share.go\<close>), delegating, undelegating and
  associating (\<^verbatim>\<open>keeper/delegation.go\<close>), completing undelegations at the end of a block
  (\<^verbatim>\<open>keeper/abci.go\<close>), balance changes of natively restaked tokens
  (\<^verbatim>\<open>keeper/update_native_restaking_balance.go\<close>), the message handlers and genesis.

  The chain state has the stores of the assets, epochs and delegation modules and \<open>world\<close>, the state
  of everything else. The functions of the other keepers are the fields of \<open>keepers\<close>: they may read
  the whole chain and change \<open>world\<close>, that is, a module behind these interfaces writes its own store.
\<close>

section \<open>The chain\<close>

record 'w chain =
  assets :: assets_state
  epochs :: epochs_state
  dlg :: delegation_state
  world :: 'w

record 'w delegation_hooks =
  h_AfterDelegation :: "string \<Rightarrow> string \<Rightarrow> bytes \<Rightarrow> int \<Rightarrow> OperatorAssetInfo \<Rightarrow> 'w chain \<Rightarrow> 'w result"
  h_AfterUndelegationStarted ::
    "string \<Rightarrow> string \<Rightarrow> bytes \<Rightarrow> bytes \<Rightarrow> int \<Rightarrow> OperatorAssetInfo \<Rightarrow> 'w chain \<Rightarrow> 'w result"
  h_AfterNSTDelegationSlashed ::
    "string \<Rightarrow> string \<Rightarrow> bytes \<Rightarrow> int \<Rightarrow> OperatorAssetInfo \<Rightarrow> 'w chain \<Rightarrow> 'w result"

text \<open>Several hooks run one after the other and stop at the first error.\<close>

definition run_hooks :: "('h \<Rightarrow> 'w chain \<Rightarrow> 'w result) \<Rightarrow> 'h list \<Rightarrow> 'w chain \<Rightarrow> 'w result" where
  "run_hooks call hs s =
     rbind (rfold (\<lambda>h s. rbind (call h s) (\<lambda>w. Inr (s\<lparr>world := w\<rparr>))) hs s) (\<lambda>s'. Inr (world s'))"

definition MultiDelegationHooks :: "'w delegation_hooks list \<Rightarrow> 'w delegation_hooks" where
  "MultiDelegationHooks hooks =
     \<lparr>h_AfterDelegation = (\<lambda>stakerID assetID operator pre prev.
        run_hooks (\<lambda>h. h_AfterDelegation h stakerID assetID operator pre prev) hooks),
      h_AfterUndelegationStarted = (\<lambda>stakerID assetID addr recordKey pre prev.
        run_hooks (\<lambda>h. h_AfterUndelegationStarted h stakerID assetID addr recordKey pre prev) hooks),
      h_AfterNSTDelegationSlashed = (\<lambda>stakerID assetID operator pre prev.
        run_hooks (\<lambda>h. h_AfterNSTDelegationSlashed h stakerID assetID operator pre prev) hooks)\<rparr>"

record 'w keepers =
  k_IsOperator :: "'w chain \<Rightarrow> bytes \<Rightarrow> bool"
  k_IsOperatorFrozen :: "'w chain \<Rightarrow> bytes \<Rightarrow> bool"
  k_GetUnbondingExpiration :: "'w chain \<Rightarrow> bytes \<Rightarrow> (string \<times> int \<times> uint64) result"
  k_GetInstantUnbondingExpiration :: "'w chain \<Rightarrow> bytes \<Rightarrow> (bool \<times> string \<times> int) result"
  k_GetBalance :: "'w \<Rightarrow> bytes \<Rightarrow> int"
  k_DelegateCoinsFromAccountToModule :: "bytes \<Rightarrow> int \<Rightarrow> 'w \<Rightarrow> 'w result"
  k_UndelegateCoinsFromModuleToAccount :: "bytes \<Rightarrow> int \<Rightarrow> 'w \<Rightarrow> 'w result"
  k_CompleteRewardUndelegation :: "UndelegationRecord \<Rightarrow> 'w chain \<Rightarrow> 'w result"
  k_hooks :: "'w delegation_hooks option"

definition Hooks :: "'w keepers \<Rightarrow> 'w delegation_hooks" where
  "Hooks K = (case k_hooks K of None \<Rightarrow> MultiDelegationHooks [] | Some h \<Rightarrow> h)"

section \<open>Shares\<close>

definition CalculateShare ::
    "codec \<Rightarrow> dec_ops \<Rightarrow> assets_state \<Rightarrow> bytes \<Rightarrow> string \<Rightarrow> int \<Rightarrow> int result" where
  "CalculateShare C D as operator assetID amount =
     (if \<not> IsOperatorAssetExist C as operator assetID then Inr (newDec D amount)
      else rbind (GetOperatorSpecifiedAssetInfo C as operator assetID) (\<lambda>info.
        if oa_TotalShare info = 0 then Inr (newDec D amount)
        else SharesFromTokens D (oa_TotalShare info) amount (oa_TotalAmount info)))"

definition ValidateUndelegationAmount ::
    "codec \<Rightarrow> dec_ops \<Rightarrow> assets_state \<Rightarrow> delegation_state \<Rightarrow> bool \<Rightarrow> bytes \<Rightarrow> string \<Rightarrow> string \<Rightarrow> int
      \<Rightarrow> int result" where
  "ValidateUndelegationAmount C D as ds rewardAsset operator stakerID assetID amount =
     (if amount \<le> 0 then Inl ErrAmountIsNotPositive
      else
        rbind (GetSingleDelegationInfo ds stakerID assetID (accAddressString C operator)) (\<lambda>delegationInfo.
        rbind (GetOperatorSpecifiedAssetInfo C as operator assetID) (\<lambda>info.
        rbind (SharesFromTokens D (oa_TotalShare info) amount (oa_TotalAmount info)) (\<lambda>share.
        if share = 0 then Inl ErrInsufficientShares
        else
          let undelegatableShare = (if rewardAsset then da_RewardUndelegatableShare delegationInfo
                                    else da_UndelegatableShare delegationInfo)
          in
          if undelegatableShare < share then Inl ErrInsufficientShares
          else
            rbind (SharesFromTokens D (oa_TotalShare info) 1 (oa_TotalAmount info)) (\<lambda>tolerance.
            if undelegatableShare - share < tolerance then Inr undelegatableShare else Inr share)))))"

definition CalculateSlashShare ::
    "codec \<Rightarrow> dec_ops \<Rightarrow> assets_state \<Rightarrow> delegation_state \<Rightarrow> bytes \<Rightarrow> string \<Rightarrow> string \<Rightarrow> int
      \<Rightarrow> int result" where
  "CalculateSlashShare C D as ds operator stakerID assetID slashAmount =
     (if slashAmount \<le> 0 then Inl ErrAmountIsNotPositive
      else
        rbind (GetSingleDelegationInfo ds stakerID assetID (accAddressString C operator)) (\<lambda>delegationInfo.
        rbind (GetOperatorSpecifiedAssetInfo C as operator assetID) (\<lambda>info.
        let slashAmount' = (if oa_TotalAmount info < slashAmount then oa_TotalAmount info else slashAmount) in
        rbind (SharesFromTokens D (oa_TotalShare info) slashAmount' (oa_TotalAmount info)) (\<lambda>shouldSlashShare.
        Inr (if da_UndelegatableShare delegationInfo < shouldSlashShare
             then da_UndelegatableShare delegationInfo else shouldSlashShare)))))"

definition RemoveShareFromOperator ::
    "codec \<Rightarrow> dec_ops \<Rightarrow> bool \<Rightarrow> bytes \<Rightarrow> string \<Rightarrow> string \<Rightarrow> int \<Rightarrow> 'w chain \<Rightarrow> (int \<times> 'w chain) result" where
  "RemoveShareFromOperator C D isUndelegation operator stakerID assetID share s =
     (if share \<le> 0 then Inl ErrAmountIsNotPositive
      else
        rbind (GetOperatorSpecifiedAssetInfo C (assets s) operator assetID) (\<lambda>operatorAssetState.
        if oa_TotalShare operatorAssetState < share then Inl ErrInsufficientShares
        else
          rbind (if oa_TotalShare operatorAssetState = share
                 then Inr (oa_TotalAmount operatorAssetState)
                 else TokensFromShares D share (oa_TotalShare operatorAssetState)
                        (oa_TotalAmount operatorAssetState)) (\<lambda>removedToken.
          let delta = no_operator_delta\<lparr>doa_TotalAmount := Some (- removedToken),
                                        doa_TotalShare := Some (- share)\<rparr>;
              getOperator = GetAssociatedOperator (dlg s) stakerID;
              delta1 = (if getOperator \<noteq> [] \<and> getOperator = accAddressString C operator
                        then delta\<lparr>doa_OperatorShare := Some (- share)\<rparr> else delta);
              delta2 = (if isUndelegation
                        then delta1\<lparr>doa_PendingUndelegationAmount := Some removedToken\<rparr> else delta1)
          in
          rbind (UpdateOperatorAssetState C operator assetID delta2 (assets s)) (\<lambda>(_, as').
          Inr (removedToken, s\<lparr>assets := as'\<rparr>)))))"

definition RemoveShare ::
    "codec \<Rightarrow> dec_ops \<Rightarrow> bool \<Rightarrow> bool \<Rightarrow> bytes \<Rightarrow> string \<Rightarrow> string \<Rightarrow> int \<Rightarrow> 'w chain
      \<Rightarrow> (int \<times> 'w chain) result" where
  "RemoveShare C D isUndelegation rewardAsset operator stakerID assetID share s =
     (if share \<le> 0 then Inl ErrAmountIsNotPositive
      else
        rbind (RemoveShareFromOperator C D isUndelegation operator stakerID assetID share s)
          (\<lambda>(removeToken, s1).
        rbind (if \<not> rewardAsset
               then
                 if isUndelegation
                 then
                   rbind (if assetID \<noteq> ImuachainAssetID
                          then rbind (UpdateStakerAssetState stakerID assetID
                                        (no_staker_delta\<lparr>dsa_PendingUndelegationAmount := Some removeToken\<rparr>)
                                        (assets s1)) (\<lambda>(_, as'). Inr (s1\<lparr>assets := as'\<rparr>))
                          else Inr s1) (\<lambda>s2.
                   Inr (no_delegation_delta\<lparr>dda_UndelegatableShare := Some (- share),
                          dda_PendingUndelegationAmount := Some removeToken\<rparr>, s2))
                 else Inr (no_delegation_delta\<lparr>dda_UndelegatableShare := Some (- share)\<rparr>, s1)
               else Inr (no_delegation_delta\<lparr>dda_RewardUndelegatableShare := Some (- share),
                           dda_RewardPendingUndelegationAmount := Some removeToken\<rparr>, s1))
          (\<lambda>(deltaAmount, s2).
        rbind (UpdateDelegationState C stakerID assetID (accAddressString C operator)
                 (Some deltaAmount) (dlg s2)) (\<lambda>(shareIsZero, _, ds').
        if shareIsZero
        then rbind (DeleteStakerForOperator (accAddressString C operator) assetID stakerID ds') (\<lambda>ds''.
               Inr (removeToken, s2\<lparr>dlg := ds''\<rparr>))
        else Inr (removeToken, s2\<lparr>dlg := ds'\<rparr>)))))"

section \<open>Delegating\<close>

text \<open>
  \<open>ReduceDelegationShare\<close> is a function of the caller, the distribution module, for undelegations of
  rewards; \<open>None\<close> when it is nil. A nil slice is \<open>None\<close>.
\<close>

record 'w DelegationOrUndelegationParams =
  du_ClientChainID :: uint64
  du_AssetsAddress :: "bytes option"
  du_OperatorAddress :: bytes
  du_StakerAddress :: "bytes option"
  du_OpAmount :: int
  du_TxHash :: bytes
  du_InstantUnbonding :: bool
  du_RewardAsset :: bool
  du_RewardAssetID :: string
  du_RewardStakerID :: string
  du_ReduceDelegationShare ::
    "(string \<Rightarrow> string \<Rightarrow> bytes \<Rightarrow> int \<Rightarrow> int \<Rightarrow> OperatorAssetInfo \<Rightarrow> 'w chain
       \<Rightarrow> (UndelegationAmountPerAVS list \<times> int \<times> 'w) result) option"
  du_RewardUndelegations :: "UndelegationAmountPerAVS list"

definition slice :: "bytes option \<Rightarrow> bytes" where
  "slice b = (case b of None \<Rightarrow> [] | Some x \<Rightarrow> x)"

definition params_ids :: "codec \<Rightarrow> 'w DelegationOrUndelegationParams \<Rightarrow> string \<times> string" where
  "params_ids C params =
     (if du_RewardAsset params then (du_RewardStakerID params, du_RewardAssetID params)
      else GetStakerIDAndAssetID C (du_ClientChainID params) (du_StakerAddress params)
             (du_AssetsAddress params))"

text \<open>The first part of \<open>delegateTo\<close>: the delegated amount leaves the staker.\<close>

definition take_from_staker ::
    "codec \<Rightarrow> dec_ops \<Rightarrow> 'w keepers \<Rightarrow> 'w DelegationOrUndelegationParams \<Rightarrow> string \<Rightarrow> string
      \<Rightarrow> 'w chain \<Rightarrow> 'w chain result" where
  "take_from_staker C D K params stakerID assetID s =
     (if du_RewardAsset params then Inr s
      else if assetID \<noteq> ImuachainAssetID
      then
        rbind (GetStakerSpecifiedAssetInfo C D (k_GetBalance K (world s)) (assets s) (dlg s)
                 stakerID assetID) (\<lambda>info.
        if sa_WithdrawableAmount info < du_OpAmount params then Inl ErrDelegationAmountTooBig
        else rbind (UpdateStakerAssetState stakerID assetID
                      (no_staker_delta\<lparr>dsa_WithdrawableAmount := Some (- du_OpAmount params)\<rparr>)
                      (assets s)) (\<lambda>(_, as'). Inr (s\<lparr>assets := as'\<rparr>)))
      else
        rbind (k_DelegateCoinsFromAccountToModule K (slice (du_StakerAddress params))
                 (du_OpAmount params) (world s)) (\<lambda>w'.
        let s1 = s\<lparr>world := w'\<rparr> in
        if slice (du_StakerAddress params) = du_OperatorAddress params
        then rbind (SetAssociatedOperator C stakerID (accAddressString C (du_OperatorAddress params))
                      (dlg s1)) (\<lambda>ds'. Inr (s1\<lparr>dlg := ds'\<rparr>))
        else Inr s1))"

definition delegateTo ::
    "codec \<Rightarrow> dec_ops \<Rightarrow> 'w keepers \<Rightarrow> 'w DelegationOrUndelegationParams \<Rightarrow> bool
      \<Rightarrow> 'w chain \<Rightarrow> (int \<times> int \<times> 'w chain) result" where
  "delegateTo C D K params notGenesis s =
     (if du_OpAmount params \<le> 0 then Inl ErrAmountIsNotPositive
      else if \<not> k_IsOperator K s (du_OperatorAddress params) then Inl ErrOperatorNotExist
      else if notGenesis \<and> k_IsOperatorFrozen K s (du_OperatorAddress params) then Inl ErrOperatorIsFrozen
      else
        let (stakerID, assetID) = params_ids C params;
            operatorStr = accAddressString C (du_OperatorAddress params)
        in
        rbind (take_from_staker C D K params stakerID assetID s) (\<lambda>s1.
        rbind (CalculateShare C D (assets s1) (du_OperatorAddress params) assetID (du_OpAmount params)) (\<lambda>share.
        let delta = no_operator_delta\<lparr>doa_TotalAmount := Some (du_OpAmount params),
                                      doa_TotalShare := Some share\<rparr>;
            deltaOperatorAsset =
              (if GetAssociatedOperator (dlg s1) stakerID = operatorStr
               then delta\<lparr>doa_OperatorShare := Some share\<rparr> else delta)
        in
        rbind (UpdateOperatorAssetState C (du_OperatorAddress params) assetID deltaOperatorAsset
                 (assets s1)) (\<lambda>(prevAssetState, as2).
        let deltaAmount =
              (if du_RewardAsset params
               then no_delegation_delta\<lparr>dda_RewardUndelegatableShare := Some share\<rparr>
               else no_delegation_delta\<lparr>dda_UndelegatableShare := Some share\<rparr>)
        in
        rbind (UpdateDelegationState C stakerID assetID operatorStr (Some deltaAmount) (dlg s1))
          (\<lambda>(_, preDelegationState, ds2).
        let s2 = s1\<lparr>assets := as2, dlg := AppendStakerForOperator operatorStr assetID stakerID ds2\<rparr>;
            totalDelegatableShare =
              da_UndelegatableShare preDelegationState + da_RewardUndelegatableShare preDelegationState
        in
        rbind (TokensFromShares D totalDelegatableShare (oa_TotalShare prevAssetState)
                 (oa_TotalAmount prevAssetState)) (\<lambda>preDelegatedAmount.
        if notGenesis
        then rbind (h_AfterDelegation (Hooks K) stakerID assetID (du_OperatorAddress params)
                      preDelegatedAmount prevAssetState s2) (\<lambda>w'.
               Inr (share, preDelegatedAmount, s2\<lparr>world := w'\<rparr>))
        else Inr (share, preDelegatedAmount, s2)))))))"

definition DelegateTo ::
    "codec \<Rightarrow> dec_ops \<Rightarrow> 'w keepers \<Rightarrow> 'w DelegationOrUndelegationParams
      \<Rightarrow> 'w chain \<Rightarrow> (int \<times> int \<times> 'w chain) result" where
  "DelegateTo C D K params s = delegateTo C D K params True s"

section \<open>Undelegating\<close>

text \<open>
  The completion time and, for an instant undelegation, the penalty: the results are the completion
  epoch, the slash ratio, and the record with its penalty applied.
\<close>

definition unbonding_terms ::
    "dec_ops \<Rightarrow> 'w keepers \<Rightarrow> 'w DelegationOrUndelegationParams \<Rightarrow> 'w chain \<Rightarrow> UndelegationRecord
      \<Rightarrow> (string \<times> int \<times> int \<times> UndelegationRecord) result" where
  "unbonding_terms D K params s r =
     (if du_InstantUnbonding params
      then
        rbind (k_GetInstantUnbondingExpiration K s (du_OperatorAddress params))
          (\<lambda>(applySlash, completedEpochID, completedEpochNumber).
        let r1 = r\<lparr>ur_InstantUnbonding := du_InstantUnbonding params\<rparr> in
        if applySlash
        then
          let penalty = GetInstantUndelegationPenalty (dlg s);
              instantSlashRatio = quoInt D (newDec D (uint penalty)) 100;
              penaltyAmount = truncateInt D (mulInt D instantSlashRatio (du_OpAmount params))
          in Inr (completedEpochID, completedEpochNumber, instantSlashRatio,
                  r1\<lparr>ur_ActualCompletedAmount := ur_ActualCompletedAmount r1 - penaltyAmount,
                     ur_ApplySlash := True, ur_InstantPenaltyAmount := penaltyAmount\<rparr>)
        else Inr (completedEpochID, completedEpochNumber, 0, r1))
      else
        rbind (k_GetUnbondingExpiration K s (du_OperatorAddress params))
          (\<lambda>(completedEpochID, completedEpochNumber, _).
        Inr (completedEpochID, completedEpochNumber, 0, r)))"

definition UndelegateFrom ::
    "codec \<Rightarrow> dec_ops \<Rightarrow> 'w keepers \<Rightarrow> block_ctx \<Rightarrow> 'w DelegationOrUndelegationParams
      \<Rightarrow> 'w chain \<Rightarrow> 'w chain result" where
  "UndelegateFrom C D K ctx params s =
     (if du_OpAmount params \<le> 0 then Inl ErrAmountIsNotPositive
      else if \<not> k_IsOperator K s (du_OperatorAddress params) then Inl ErrOperatorNotExist
      else
        let (stakerID, assetID) = params_ids C params;
            operatorStr = accAddressString C (du_OperatorAddress params)
        in
        rbind (ValidateUndelegationAmount C D (assets s) (dlg s) (du_RewardAsset params)
                 (du_OperatorAddress params) stakerID assetID (du_OpAmount params)) (\<lambda>share.
        rbind (GetOperatorSpecifiedAssetInfo C (assets s) (du_OperatorAddress params) assetID) (\<lambda>prevAssetState.
        rbind (GetSingleDelegationInfo (dlg s) stakerID assetID operatorStr) (\<lambda>preDelegationState.
        let totalDelegatableShare =
              da_UndelegatableShare preDelegationState + da_RewardUndelegatableShare preDelegationState
        in
        rbind (TokensFromShares D totalDelegatableShare (oa_TotalShare prevAssetState)
                 (oa_TotalAmount prevAssetState)) (\<lambda>preDelegatedAmount.
        rbind (RemoveShare C D True (du_RewardAsset params) (du_OperatorAddress params)
                 stakerID assetID share s) (\<lambda>(removeToken, s1).
        let undelegationID = GetLastUndelegationID (dlg s1);
            r = \<lparr>ur_StakerId = stakerID, ur_AssetId = assetID, ur_OperatorAddr = operatorStr,
                 ur_TxHash = hashString C (du_TxHash params),
                 ur_BlockNumber = of_int (BlockHeight ctx),
                 ur_CompletedEpochIdentifier = [], ur_CompletedEpochNumber = 0,
                 ur_UndelegationId = undelegationID,
                 ur_Amount = removeToken, ur_ActualCompletedAmount = removeToken,
                 ur_InstantUnbonding = False, ur_ApplySlash = False, ur_InstantPenaltyAmount = 0,
                 ur_RewardAsset = du_RewardAsset params,
                 ur_RewardUndelegations = du_RewardUndelegations params\<rparr>
        in
        rbind (unbonding_terms D K params s1 r)
          (\<lambda>(completedEpochID, completedEpochNumber, instantSlashRatio, r1).
        rbind (if du_RewardAsset params
               then (case du_ReduceDelegationShare params of
                       None \<Rightarrow> Inl ErrInvalidInputParameter
                     | Some reduce \<Rightarrow>
                         rbind (reduce (du_RewardStakerID params) (du_RewardAssetID params)
                                  (du_OperatorAddress params) instantSlashRatio (du_OpAmount params)
                                  prevAssetState s1) (\<lambda>(undelegationAmounts, _, w').
                         Inr (r1\<lparr>ur_RewardUndelegations := undelegationAmounts\<rparr>, s1\<lparr>world := w'\<rparr>)))
               else Inr (r1, s1)) (\<lambda>(r2, s2).
        let r3 = r2\<lparr>ur_CompletedEpochIdentifier := completedEpochID,
                    ur_CompletedEpochNumber := completedEpochNumber\<rparr>
        in
        rbind (SetUndelegationRecords C (epochs s2) False
                 [\<lparr>uh_Undelegation = r3, uh_HoldCount = 0\<rparr>] (dlg s2)) (\<lambda>ds3.
        rbind (IncrementLastUndelegationID ds3) (\<lambda>ds4.
        let s3 = s2\<lparr>dlg := ds4\<rparr> in
        rbind (GetUndelegationRecordKey C (ur_BlockNumber r3) (ur_UndelegationId r3)
                 (ur_TxHash r3) (ur_OperatorAddr r3)) (\<lambda>recordKey.
        rbind (h_AfterUndelegationStarted (Hooks K) stakerID assetID (du_OperatorAddress params)
                 recordKey preDelegatedAmount prevAssetState s3) (\<lambda>w'.
        Inr (s3\<lparr>world := w'\<rparr>)))))))))))))"

section \<open>Associating an operator with a staker\<close>

definition AssociateOperatorWithStaker ::
    "codec \<Rightarrow> 'w keepers \<Rightarrow> uint64 \<Rightarrow> bytes \<Rightarrow> bytes option \<Rightarrow> 'w chain \<Rightarrow> 'w chain result" where
  "AssociateOperatorWithStaker C K clientChainID operatorAddress stakerAddress s =
     (if \<not> ClientChainExists C (assets s) clientChainID then Inl ErrClientChainNotExist
      else if \<not> k_IsOperator K s operatorAddress then Inl ErrOperatorNotExist
      else
        let stakerID = fst (GetStakerIDAndAssetID C clientChainID stakerAddress None);
            operatorStr = accAddressString C operatorAddress
        in
        if GetAssociatedOperator (dlg s) stakerID \<noteq> [] then Inl ErrOperatorAlreadyAssociated
        else
          rbind (IterateDelegationsForStaker (dlg s) stakerID
                   (Some (\<lambda>(_, assetId, operatorAddr) amounts as.
                      if operatorAddr = operatorStr
                      then rbind (UpdateOperatorAssetState C operatorAddress assetId
                                    (no_operator_delta\<lparr>doa_OperatorShare := Some (da_UndelegatableShare amounts)\<rparr>) as)
                             (\<lambda>(_, as'). Inr (False, as'))
                      else Inr (False, as))) (assets s)) (\<lambda>as'.
          rbind (SetAssociatedOperator C stakerID operatorStr (dlg s)) (\<lambda>ds'.
          Inr (s\<lparr>assets := as', dlg := ds'\<rparr>))))"

definition DissociateOperatorFromStaker ::
    "codec \<Rightarrow> uint64 \<Rightarrow> bytes option \<Rightarrow> 'w chain \<Rightarrow> 'w chain result" where
  "DissociateOperatorFromStaker C clientChainID stakerAddress s =
     (let stakerID = fst (GetStakerIDAndAssetID C clientChainID stakerAddress None);
          associatedOperator = GetAssociatedOperator (dlg s) stakerID
      in
      if associatedOperator = [] then Inl ErrNoAssociatedOperatorByStaker
      else
        rbind (of_option ErrOperatorAddrIsNotAccAddr (accAddressFromBech32 C associatedOperator))
          (\<lambda>oldOperatorAccAddr.
        rbind (IterateDelegationsForStaker (dlg s) stakerID
                 (Some (\<lambda>(_, assetId, operatorAddr) amounts as.
                    if operatorAddr = associatedOperator
                    then rbind (UpdateOperatorAssetState C oldOperatorAccAddr assetId
                                  (no_operator_delta\<lparr>doa_OperatorShare := Some (- da_UndelegatableShare amounts)\<rparr>) as)
                           (\<lambda>(_, as'). Inr (False, as'))
                    else Inr (False, as))) (assets s)) (\<lambda>as'.
        Inr (s\<lparr>assets := as', dlg := DeleteAssociatedOperator stakerID (dlg s)\<rparr>))))"

section \<open>Completing undelegations\<close>

text \<open>
  The work for one record runs in a cached context: it is written back only when every step
  succeeded, and an error leaves the chain as it was. A panic is not caught. \<^verbatim>\<open>sdk.NewCoin\<close> panics on
  a negative amount.
\<close>

definition complete_record ::
    "codec \<Rightarrow> 'w keepers \<Rightarrow> UndelegationRecord \<Rightarrow> 'w chain \<Rightarrow> 'w chain result" where
  "complete_record C K record s =
     rbind (MustAccAddressFromBech32 C (ur_OperatorAddr record)) (\<lambda>operatorAccAddress.
     let recordAmountNeg = - ur_Amount record;
         deltaAmount =
           (if ur_RewardAsset record
            then no_delegation_delta\<lparr>dda_RewardPendingUndelegationAmount := Some recordAmountNeg\<rparr>
            else no_delegation_delta\<lparr>dda_PendingUndelegationAmount := Some recordAmountNeg\<rparr>)
     in
     rbind (UpdateDelegationState C (ur_StakerId record) (ur_AssetId record) (ur_OperatorAddr record)
              (Some deltaAmount) (dlg s)) (\<lambda>(_, _, ds1).
     let s1 = s\<lparr>dlg := ds1\<rparr> in
     rbind (if ur_RewardAsset record
            then rbind (k_CompleteRewardUndelegation K record s1) (\<lambda>w'. Inr (s1\<lparr>world := w'\<rparr>))
            else if ur_AssetId record = ImuachainAssetID
            then
              rbind (ParseID C (ur_StakerId record)) (\<lambda>(stakerAddrHex, _).
              rbind (of_option ErrParse (hexDecode C stakerAddrHex)) (\<lambda>stakerAddrBytes.
              if ur_ActualCompletedAmount record < 0 then Inl (Panic ''negative coin amount'')
              else rbind (k_UndelegateCoinsFromModuleToAccount K stakerAddrBytes
                            (ur_ActualCompletedAmount record) (world s1)) (\<lambda>w'. Inr (s1\<lparr>world := w'\<rparr>))))
            else
              rbind (UpdateStakerAssetState (ur_StakerId record) (ur_AssetId record)
                       (no_staker_delta\<lparr>dsa_WithdrawableAmount := Some (ur_ActualCompletedAmount record),
                          dsa_PendingUndelegationAmount := Some recordAmountNeg\<rparr>) (assets s1))
                (\<lambda>(_, as'). Inr (s1\<lparr>assets := as'\<rparr>))) (\<lambda>s2.
     rbind (UpdateOperatorAssetState C operatorAccAddress (ur_AssetId record)
              (no_operator_delta\<lparr>doa_PendingUndelegationAmount := Some recordAmountNeg\<rparr>) (assets s2))
       (\<lambda>(_, as3).
     rbind (DeleteUndelegationRecord C record (dlg s2)) (\<lambda>ds3.
     Inr (s2\<lparr>assets := as3, dlg := ds3\<rparr>))))))"

definition cached :: "('s \<Rightarrow> 's result) \<Rightarrow> 's \<Rightarrow> 's result" where
  "cached f s = (case f s of Inr s' \<Rightarrow> Inr s' | Inl (Panic m) \<Rightarrow> Inl (Panic m) | Inl _ \<Rightarrow> Inr s)"

definition EndBlock :: "codec \<Rightarrow> 'w keepers \<Rightarrow> 'w chain \<Rightarrow> 'w chain result" where
  "EndBlock C K s =
     (case GetCompletableUndelegations C (epochs s) (dlg s) True of
        Inl (Panic m) \<Rightarrow> Inl (Panic m)
      | Inl _ \<Rightarrow> Inr s
      | Inr records \<Rightarrow> rfold (\<lambda>record. cached (complete_record C K record)) records s)"

section \<open>Balance changes of natively restaked tokens\<close>

definition MaxSlashProportion :: int where
  "MaxSlashProportion = 1"

text \<open>The callback that slashes one pending undelegation; it threads the assets and the amount left.\<close>

definition nst_undelegation_op ::
    "string \<Rightarrow> string \<Rightarrow> bytes \<Rightarrow> UndelegationRecord \<Rightarrow> assets_state \<times> int
      \<Rightarrow> (bool \<times> UndelegationRecord \<times> assets_state \<times> int) result" where
  "nst_undelegation_op stakerID assetID undelegationKey undelegation a =
     (case a of (as, pendingSlashAmount) \<Rightarrow>
      let pendingSlashAmount' = pendingSlashAmount - ur_ActualCompletedAmount undelegation;
          slashAmount = (if 0 < pendingSlashAmount' then ur_ActualCompletedAmount undelegation
                         else pendingSlashAmount);
          undelegation' = undelegation\<lparr>ur_ActualCompletedAmount :=
                            ur_ActualCompletedAmount undelegation - slashAmount\<rparr>
      in
      rbind (UpdateStakerAssetState stakerID assetID
               (no_staker_delta\<lparr>dsa_TotalDepositAmount := Some (- slashAmount)\<rparr>) as) (\<lambda>(_, as').
      Inr (\<not> 0 < pendingSlashAmount', undelegation', as', pendingSlashAmount')))"

text \<open>The callback that slashes the share delegated to one operator.\<close>

definition nst_delegation_op ::
    "codec \<Rightarrow> dec_ops \<Rightarrow> 'w keepers \<Rightarrow> string \<Rightarrow> string \<Rightarrow> int \<Rightarrow> ('w chain \<times> int) delegation_op" where
  "nst_delegation_op C D K stakerID assetID slashProportion keys delegationAmount a =
     (case (keys, a) of ((_, _, operatorAddr), (s, pendingSlashAmount)) \<Rightarrow>
      rbind (of_option (ErrExternal ''invalid bech32 address'') (accAddressFromBech32 C operatorAddr)) (\<lambda>opAccAddr.
      rbind (GetOperatorSpecifiedAssetInfo C (assets s) opAccAddr assetID) (\<lambda>prevAssetState.
      rbind (GetSingleDelegationInfo (dlg s) stakerID assetID operatorAddr) (\<lambda>preDelegationState.
      rbind (TokensFromShares D (da_UndelegatableShare preDelegationState)
               (oa_TotalShare prevAssetState) (oa_TotalAmount prevAssetState)) (\<lambda>preDelegatedAmount.
      let slashShare = mulDec D (da_UndelegatableShare delegationAmount) slashProportion in
      rbind (RemoveShare C D False False opAccAddr stakerID assetID slashShare s) (\<lambda>(actualSlashAmount, s1).
      rbind (UpdateStakerAssetState stakerID assetID
               (no_staker_delta\<lparr>dsa_TotalDepositAmount := Some (- actualSlashAmount)\<rparr>) (assets s1)) (\<lambda>(_, as2).
      let s2 = s1\<lparr>assets := as2\<rparr> in
      rbind (h_AfterNSTDelegationSlashed (Hooks K) stakerID assetID opAccAddr preDelegatedAmount
               prevAssetState s2) (\<lambda>w'.
      Inr (False, s2\<lparr>world := w'\<rparr>, pendingSlashAmount - actualSlashAmount)))))))))"

definition UpdateNSTBalance ::
    "codec \<Rightarrow> dec_ops \<Rightarrow> 'w keepers \<Rightarrow> string \<Rightarrow> string \<Rightarrow> int \<Rightarrow> 'w chain \<Rightarrow> 'w chain result" where
  "UpdateNSTBalance C D K stakerID assetID amount s =
     (if 0 < amount
      then
        rbind (UpdateStakerAssetState stakerID assetID
                 (no_staker_delta\<lparr>dsa_TotalDepositAmount := Some amount,
                    dsa_WithdrawableAmount := Some amount\<rparr>) (assets s)) (\<lambda>(_, as1).
        rbind (UpdateStakingAssetTotalAmount assetID (Some amount) as1) (\<lambda>as2.
        Inr (s\<lparr>assets := as2\<rparr>)))
      else if amount < 0
      then
        rbind (GetStakerSpecifiedAssetInfo C D (k_GetBalance K (world s)) (assets s) (dlg s)
                 stakerID assetID) (\<lambda>assetInfo.
        let remaining = - amount - sa_WithdrawableAmount assetInfo;
            slashFromWithdrawable = (if 0 < remaining then sa_WithdrawableAmount assetInfo else - amount);
            pendingSlashAmount = (if 0 < remaining then remaining else 0)
        in
        rbind (UpdateStakerAssetState stakerID assetID
                 (no_staker_delta\<lparr>dsa_TotalDepositAmount := Some (- slashFromWithdrawable),
                    dsa_WithdrawableAmount := Some (- slashFromWithdrawable)\<rparr>) (assets s)) (\<lambda>(_, as1).
        let s1 = s\<lparr>assets := as1\<rparr> in
        rbind (if 0 < pendingSlashAmount
               then rbind (IterateUndelegationsByStakerAndAsset stakerID assetID True
                             (Some (nst_undelegation_op stakerID assetID)) (dlg s1)
                             (assets s1, pendingSlashAmount)) (\<lambda>(ds2, as2, pendingSlashAmount2).
                      Inr (s1\<lparr>assets := as2, dlg := ds2\<rparr>, pendingSlashAmount2))
               else Inr (s1, pendingSlashAmount)) (\<lambda>(s2, pendingSlashAmount2).
        if 0 < pendingSlashAmount2
        then
          rbind (TotalDelegatedAmountForStakingAsset C D (assets s2) (dlg s2) stakerID assetID)
            (\<lambda>totalDelegatedAmount.
          if totalDelegatedAmount \<noteq> 0
          then
            let proportion = quoDec D (newDec D pendingSlashAmount2) (newDec D totalDelegatedAmount);
                slashProportion = (if newDec D MaxSlashProportion < proportion
                                   then newDec D MaxSlashProportion else proportion)
            in
            rbind (IterateDelegationsForStakerAndAsset (dlg s2) stakerID assetID
                     (Some (nst_delegation_op C D K stakerID assetID slashProportion))
                     (s2, pendingSlashAmount2)) (\<lambda>(s3, _). Inr s3)
          else Inr s2)
        else Inr s2)))
      else Inr s)"

section \<open>Messages and genesis\<close>

definition NewDelegationOrUndelegationParams ::
    "uint64 \<Rightarrow> bytes option \<Rightarrow> bytes \<Rightarrow> bytes option \<Rightarrow> int \<Rightarrow> bytes \<Rightarrow> bool
      \<Rightarrow> 'w DelegationOrUndelegationParams" where
  "NewDelegationOrUndelegationParams clientChainID assetsAddress operatorAddress stakerAddress
     opAmount txHash instantUnbonding =
     \<lparr>du_ClientChainID = clientChainID, du_AssetsAddress = assetsAddress,
      du_OperatorAddress = operatorAddress, du_StakerAddress = stakerAddress,
      du_OpAmount = opAmount, du_TxHash = txHash, du_InstantUnbonding = instantUnbonding,
      du_RewardAsset = False, du_RewardAssetID = [], du_RewardStakerID = [],
      du_ReduceDelegationShare = None, du_RewardUndelegations = []\<rparr>"

definition ImuachainAssetAddr :: string where
  "ImuachainAssetAddr = ''0x0000000000000000000000000000000000000000''"

definition ImuachainLzID :: uint64 where
  "ImuachainLzID = 0"

definition newDelegationOrUndelegationParams ::
    "codec \<Rightarrow> string \<Rightarrow> (string \<times> int) list \<Rightarrow> string \<Rightarrow> uint64 \<Rightarrow> bytes \<Rightarrow> bool
      \<Rightarrow> 'w DelegationOrUndelegationParams list result" where
  "newDelegationOrUndelegationParams C fromAddress perOperatorAmounts assetAddrStr clientChainLzID
     txHash instantUnbonding =
     rbind (MustAccAddressFromBech32 C fromAddress) (\<lambda>stakerAddr.
     rfold (\<lambda>(operator, amount) res.
         rbind (MustAccAddressFromBech32 C operator) (\<lambda>operatorAddr.
         Inr (res @ [NewDelegationOrUndelegationParams clientChainLzID
                (Some (hexToAddress C assetAddrStr)) operatorAddr (Some stakerAddr) amount
                txHash instantUnbonding])))
       perOperatorAmounts [])"

text \<open>The zero hash of a delegation.\<close>

definition DelegateAssetToOperator ::
    "codec \<Rightarrow> dec_ops \<Rightarrow> 'w keepers \<Rightarrow> string \<Rightarrow> (string \<times> int) list \<Rightarrow> 'w chain \<Rightarrow> 'w chain result" where
  "DelegateAssetToOperator C D K fromAddress perOperatorAmounts s =
     rbind (newDelegationOrUndelegationParams C fromAddress perOperatorAmounts ImuachainAssetAddr
              ImuachainLzID (replicate HashLength (char_of (0 :: nat))) False) (\<lambda>delegationParamsList.
     rfold (\<lambda>delegationParams s.
         rbind (DelegateTo C D K delegationParams s) (\<lambda>(_, _, s'). Inr s')) delegationParamsList s)"

text \<open>
  \<open>getSequence\<close> is the account keeper's sequence number, \<open>sha256\<close> the hash of the hashing package, and
  \<open>txBytes\<close> the bytes of the transaction.
\<close>

definition UndelegateAssetFromOperator ::
    "codec \<Rightarrow> dec_ops \<Rightarrow> 'w keepers \<Rightarrow> ('w chain \<Rightarrow> bytes \<Rightarrow> uint64 result) \<Rightarrow> (bytes \<Rightarrow> bytes) \<Rightarrow> block_ctx
      \<Rightarrow> bytes \<Rightarrow> string \<Rightarrow> (string \<times> int) list \<Rightarrow> bool \<Rightarrow> 'w chain \<Rightarrow> 'w chain result" where
  "UndelegateAssetFromOperator C D K getSequence sha256 ctx txBytes fromAddress perOperatorAmounts
     instantUnbonding s =
     rbind (MustAccAddressFromBech32 C fromAddress) (\<lambda>fromAddr.
     rbind (getSequence s fromAddr) (\<lambda>nonce.
     let txHash = sha256 txBytes;
         combined = txHash @ ''-'' @ decimal (unat nonce);
         uniqueHash = sha256 combined
     in
     rbind (newDelegationOrUndelegationParams C fromAddress perOperatorAmounts ImuachainAssetAddr
              ImuachainLzID uniqueHash instantUnbonding) (\<lambda>inputParamsList.
     rfold (\<lambda>inputParams. UndelegateFrom C D K ctx inputParams) inputParamsList s)))"

record DelegationGenesis =
  dg_Associations :: "(string \<times> string) list"
  dg_DelegationStates :: "(string \<times> DeltaDelegationAmounts) list"
  dg_StakersByOperator :: "string list"
  dg_LastUndelegationId :: uint64
  dg_Undelegations :: "UndelegationAndHoldCount list"
  dg_Params :: DelegationParams

text \<open>
  The amounts of a delegation may be missing in a genesis file; a nil amount is encoded as zero.
\<close>

definition amounts_of :: "DeltaDelegationAmounts \<Rightarrow> DelegationAmounts" where
  "amounts_of d = \<lparr>da_UndelegatableShare = amount_of (dda_UndelegatableShare d),
     da_PendingUndelegationAmount = amount_of (dda_PendingUndelegationAmount d),
     da_RewardUndelegatableShare = amount_of (dda_RewardUndelegatableShare d),
     da_RewardPendingUndelegationAmount = amount_of (dda_RewardPendingUndelegationAmount d)\<rparr>"

definition amounts_genesis :: "DelegationAmounts \<Rightarrow> DeltaDelegationAmounts" where
  "amounts_genesis a = \<lparr>dda_UndelegatableShare = Some (da_UndelegatableShare a),
     dda_PendingUndelegationAmount = Some (da_PendingUndelegationAmount a),
     dda_RewardUndelegatableShare = Some (da_RewardUndelegatableShare a),
     dda_RewardPendingUndelegationAmount = Some (da_RewardPendingUndelegationAmount a)\<rparr>"

text \<open>
  An error is a panic here. The parts of an association were validated before: where the source
  ignores the error of a parser it goes on with the zero value. \<^verbatim>\<open>common.FromHex\<close> of an address
  that passed validation is what \<^verbatim>\<open>hexutil.Decode\<close> gives.
\<close>

definition or_panic :: "'a result \<Rightarrow> 'a result" where
  "or_panic r = (case r of Inr x \<Rightarrow> Inr x | Inl (Panic m) \<Rightarrow> Inl (Panic m) | Inl _ \<Rightarrow> Inl (Panic ''genesis''))"

definition init_association ::
    "codec \<Rightarrow> 'w keepers \<Rightarrow> string \<times> string \<Rightarrow> 'w chain \<Rightarrow> 'w chain result" where
  "init_association C K association s =
     (let (stakerID, operatorAddress) = association;
          (stakerAddress, clientChainID) =
            (case ParseID C stakerID of Inl _ \<Rightarrow> ([], 0) | Inr p \<Rightarrow> p);
          stakerAddressBytes = hexDecode C stakerAddress;
          accAddress = slice (accAddressFromBech32 C operatorAddress)
      in or_panic (AssociateOperatorWithStaker C K clientChainID accAddress stakerAddressBytes s))"

definition delegation_InitGenesis ::
    "codec \<Rightarrow> 'w keepers \<Rightarrow> DelegationGenesis \<Rightarrow> 'w chain \<Rightarrow> 'w chain result" where
  "delegation_InitGenesis C K gs s =
     rbind (rfold (init_association C K) (dg_Associations gs) s) (\<lambda>s1.
     let ds2 = SetAllStakerList (dg_StakersByOperator gs)
                 (SetAllDelegationStates (map (\<lambda>(k, d). (k, amounts_of d)) (dg_DelegationStates gs)) (dlg s1))
     in
     rbind (or_panic (SetUndelegationRecords C (epochs s1) True (dg_Undelegations gs) ds2)) (\<lambda>ds3.
     Inr (s1\<lparr>dlg := SetDelegationParams (dg_Params gs)
                      (SetLastUndelegationID (dg_LastUndelegationId gs) ds3)\<rparr>)))"

definition delegation_ExportGenesis :: "delegation_state \<Rightarrow> DelegationGenesis" where
  "delegation_ExportGenesis s =
     \<lparr>dg_Associations = GetAllAssociations s, dg_DelegationStates = map (\<lambda>(k, a). (k, amounts_genesis a)) (AllDelegationStates s),
      dg_StakersByOperator = AllStakerList s, dg_LastUndelegationId = GetLastUndelegationID s,
      dg_Undelegations = AllUndelegations s, dg_Params = GetDelegationParams s\<rparr>"

end
