(* ===== verification/Slash.thy ===== *)
theory Slash
  imports DelegationOps
begin

text \<open>
  Executing a slash, from \<^verbatim>\<open>x/operator/keeper/slash.go\<close>: the checks on the input, slashing the pending
  undelegations of the operator, and slashing its asset pools. What the operator's assets are worth
  (\<^verbatim>\<open>usd_value.go\<close>) and the distribution module's part are arguments, in \<open>slash_env\<close>.
\<close>

record SlashInputInfo =
  si_IsDogFood :: bool
  si_Power :: int
  si_SlashType :: uint32
  si_Operator :: bytes
  si_AVSAddr :: string
  si_SlashContract :: string
  si_SlashID :: string
  si_SlashEventHeight :: int
  si_SlashProportion :: int

record SlashFromUndelegationInfo =
  sfu_StakerID :: string
  sfu_AssetID :: string
  sfu_Amount :: int
  sfu_UndelegationId :: uint64
  sfu_RewardAsset :: bool

record SlashAssetAmount =
  saa_AssetID :: string
  saa_Amount :: int

record 'r SlashExecutionInfo =
  se_SlashProportion :: int
  se_SlashValue :: int
  se_SlashUndelegations :: "SlashFromUndelegationInfo list"
  se_SlashAssetsPool :: "SlashAssetAmount list"
  se_UndelegationFilterHeight :: int
  se_HistoricalVotingPower :: int
  se_SlashUnclaimedRewards :: "'r list"

text \<open>
  \<open>sv_value\<close> gives \<^verbatim>\<open>StakingAndWaitUnbonding\<close>, the value of the operator's pools and of what waits to
  be unbonded, with the sources of its compounding rewards, \<open>'c\<close>. \<open>sv_SlashRewardUndelegation\<close>
  adjusts the reward part of a record.
\<close>

record ('w, 'c, 'r) slash_env =
  sv_value :: "'w chain \<Rightarrow> string \<Rightarrow> (int \<times> 'c) result"
  sv_SlashRewardUndelegation :: "UndelegationRecord \<Rightarrow> int \<Rightarrow> 'w chain \<Rightarrow> (UndelegationRecord \<times> 'w) result"
  sv_SlashOperatorUnclaimedRewards :: "string \<Rightarrow> 'c \<Rightarrow> int \<Rightarrow> 'w chain \<Rightarrow> ('r list \<times> 'w) result"

definition GetSlashIDForDogfood :: "codec \<Rightarrow> uint32 \<Rightarrow> int \<Rightarrow> string" where
  "GetSlashIDForDogfood C infraction infractionHeight =
     hexEncode C (AppendMany
       [Uint32ToBigEndian infraction, Uint64ToBigEndian C (of_int infractionHeight)])"

definition CheckSlashParameter :: "block_ctx \<Rightarrow> SlashInputInfo \<Rightarrow> unit result" where
  "CheckSlashParameter ctx parameter =
     (let height = BlockHeight ctx in
      if height < si_SlashEventHeight parameter then Inl ErrSlashOccurredHeight
      else if si_IsDogFood parameter
      then (if si_Power parameter \<le> 0 then Inl ErrInvalidSlashPower else Inr ())
      else (if si_Power parameter \<noteq> 0 then Inl ErrInvalidSlashPower else Inr ()))"

text \<open>\<open>None\<close> is the nil result for a record with nothing left to slash.\<close>

definition SlashFromUndelegation ::
    "dec_ops \<Rightarrow> ('w, 'c, 'r) slash_env \<Rightarrow> UndelegationRecord \<Rightarrow> int \<Rightarrow> 'w chain
      \<Rightarrow> (SlashFromUndelegationInfo option \<times> UndelegationRecord \<times> 'w chain) result" where
  "SlashFromUndelegation D V undelegation slashProportion s =
     (if ur_ActualCompletedAmount undelegation = 0 then Inr (None, undelegation, s)
      else
        let slashAmount0 = truncateInt D (mulInt D slashProportion (ur_Amount undelegation));
            (slashAmount, undelegation1) =
              (if ur_ActualCompletedAmount undelegation \<le> slashAmount0
               then (ur_ActualCompletedAmount undelegation, undelegation\<lparr>ur_ActualCompletedAmount := 0\<rparr>)
               else (slashAmount0, undelegation\<lparr>ur_ActualCompletedAmount :=
                       ur_ActualCompletedAmount undelegation - slashAmount0\<rparr>))
        in
        rbind (if ur_RewardAsset undelegation1
               then rbind (sv_SlashRewardUndelegation V undelegation1 slashProportion s)
                      (\<lambda>(u, w'). Inr (u, s\<lparr>world := w'\<rparr>))
               else Inr (undelegation1, s)) (\<lambda>(undelegation2, s').
        Inr (Some \<lparr>sfu_StakerID = ur_StakerId undelegation2, sfu_AssetID = ur_AssetId undelegation2,
                   sfu_Amount = slashAmount, sfu_UndelegationId = ur_UndelegationId undelegation2,
                   sfu_RewardAsset = ur_RewardAsset undelegation2\<rparr>, undelegation2, s')))"

text \<open>
  The callback for one asset pool, threading the delegation state and the list of slashed amounts.
\<close>

definition slash_pool_op ::
    "dec_ops \<Rightarrow> string \<Rightarrow> int \<Rightarrow> string \<Rightarrow> OperatorAssetInfo \<Rightarrow> delegation_state \<times> SlashAssetAmount list
      \<Rightarrow> (OperatorAssetInfo \<times> delegation_state \<times> SlashAssetAmount list) result" where
  "slash_pool_op D operator newSlashProportion assetID state a =
     (case a of (ds, pool) \<Rightarrow>
      let slashAmount = truncateInt D (mulInt D newSlashProportion (oa_TotalAmount state)) in
      if slashAmount \<le> 0 then Inr (state, ds, pool)
      else
        let remainingAmount = oa_TotalAmount state - slashAmount in
        rbind (if remainingAmount = 0 \<and> HasStakerList ds operator assetID
               then
                 rbind (GetStakersByOperator ds operator assetID) (\<lambda>stakerList.
                 rbind (DeleteStakersListForOperator operator assetID
                          (SetStakerShareToZero operator assetID stakerList ds)) (\<lambda>ds'.
                 Inr (state\<lparr>oa_TotalShare := 0, oa_OperatorShare := 0\<rparr>, ds')))
               else Inr (state, ds)) (\<lambda>(state', ds').
        Inr (state'\<lparr>oa_TotalAmount := remainingAmount\<rparr>, ds',
             pool @ [\<lparr>saa_AssetID = assetID, saa_Amount = slashAmount\<rparr>])))"

definition slash_undelegation_op ::
    "dec_ops \<Rightarrow> ('w, 'c, 'r) slash_env \<Rightarrow> int \<Rightarrow> UndelegationRecord
      \<Rightarrow> 'w chain \<times> SlashFromUndelegationInfo list
      \<Rightarrow> (UndelegationRecord \<times> 'w chain \<times> SlashFromUndelegationInfo list) result" where
  "slash_undelegation_op D V newSlashProportion undelegation a =
     (case a of (s, infos) \<Rightarrow>
      rbind (SlashFromUndelegation D V undelegation newSlashProportion s) (\<lambda>(info, undelegation', s').
      Inr (undelegation', s', case info of None \<Rightarrow> infos | Some i \<Rightarrow> infos @ [i])))"

text \<open>\<^verbatim>\<open>LegacyDec.Quo\<close> panics when the divisor is zero.\<close>

definition SlashAssets ::
    "codec \<Rightarrow> dec_ops \<Rightarrow> ('w, 'c, 'r) slash_env \<Rightarrow> block_ctx \<Rightarrow> int \<Rightarrow> SlashInputInfo
      \<Rightarrow> 'w chain \<Rightarrow> ('r SlashExecutionInfo \<times> 'w chain) result" where
  "SlashAssets C D V ctx snapshotHeight parameter s =
     (let slashUSDValue = mulDec D (newDec D (si_Power parameter)) (si_SlashProportion parameter);
          operator = accAddressString C (si_Operator parameter)
      in
      rbind (sv_value V s operator) (\<lambda>(stakingAndWaitUnbonding, sources).
      if stakingAndWaitUnbonding = 0 then Inl (Panic ''division by zero'')
      else
        let newSlashProportion = min (newDec D 1) (quoDec D slashUSDValue stakingAndWaitUnbonding) in
        rbind (if si_SlashEventHeight parameter < BlockHeight ctx
               then rbind (IterateUndelegationsByOperator C operator (Some (of_int snapshotHeight)) True
                             (Some (slash_undelegation_op D V newSlashProportion)) (dlg s) (s, []))
                      (\<lambda>(ds1, s1, infos). Inr (s1\<lparr>dlg := ds1\<rparr>, infos))
               else Inr (s, [])) (\<lambda>(s2, slashUndelegations).
        rbind (IterateAssetsForOperator C True operator None
                 (Some (slash_pool_op D operator newSlashProportion)) (assets s2) (dlg s2, []))
          (\<lambda>(as3, ds3, slashAssetsPool).
        let s3 = s2\<lparr>assets := as3, dlg := ds3\<rparr> in
        rbind (sv_SlashOperatorUnclaimedRewards V operator sources newSlashProportion s3)
          (\<lambda>(slashFromUnclaimedRewards, w').
        Inr (\<lparr>se_SlashProportion = newSlashProportion, se_SlashValue = slashUSDValue,
              se_SlashUndelegations = slashUndelegations, se_SlashAssetsPool = slashAssetsPool,
              se_UndelegationFilterHeight = snapshotHeight,
              se_HistoricalVotingPower = si_Power parameter,
              se_SlashUnclaimedRewards = slashFromUnclaimedRewards\<rparr>, s3\<lparr>world := w'\<rparr>))))))"

end
