(* ===== verification/DelegationOpsProps.thy ===== *)
theory DelegationOpsProps
  imports DelegationProps
begin

text \<open>
  What the operations of the delegation module do: the effect of removing a share, of delegating, of
  undelegating and of completing an undelegation on every amount, and the invariant that the share
  of every pool is the sum of the shares delegated to it, in every state that these operations reach.
\<close>

section \<open>Removing a share\<close>

definition remove_operator_delta :: "bool \<Rightarrow> bool \<Rightarrow> int \<Rightarrow> int \<Rightarrow> DeltaOperatorSingleAsset" where
  "remove_operator_delta isUndelegation isOwn share token =
     \<lparr>doa_TotalAmount = Some (- token),
      doa_PendingUndelegationAmount = (if isUndelegation then Some token else None),
      doa_TotalShare = Some (- share),
      doa_OperatorShare = (if isOwn then Some (- share) else None)\<rparr>"

definition owns :: "codec \<Rightarrow> delegation_state \<Rightarrow> string \<Rightarrow> bytes \<Rightarrow> bool" where
  "owns C ds stakerID opAcc \<longleftrightarrow>
     GetAssociatedOperator ds stakerID \<noteq> [] \<and> GetAssociatedOperator ds stakerID = accAddressString C opAcc"

definition removed_token :: "dec_ops \<Rightarrow> OperatorAssetInfo \<Rightarrow> int \<Rightarrow> int result" where
  "removed_token D info share =
     (if oa_TotalShare info = share then Inr (oa_TotalAmount info)
      else TokensFromShares D share (oa_TotalShare info) (oa_TotalAmount info))"

lemma RemoveShareFromOperator_Inr:
  "RemoveShareFromOperator C D u opAcc st a share s = Inr (tok, s') \<longleftrightarrow>
     0 < share \<and>
     (\<exists>info prev as'. GetOperatorSpecifiedAssetInfo C (assets s) opAcc a = Inr info \<and>
        share \<le> oa_TotalShare info \<and> removed_token D info share = Inr tok \<and>
        UpdateOperatorAssetState C opAcc a
          (remove_operator_delta u (owns C (dlg s) st opAcc) share tok) (assets s) = Inr (prev, as') \<and>
        s' = s\<lparr>assets := as'\<rparr>)"
  unfolding RemoveShareFromOperator_def removed_token_def [symmetric]
  by (auto simp: rbind_eq_Inr_iff not_less not_le Let_def remove_operator_delta_def no_operator_delta_def
      owns_def split: if_splits)

definition remove_delta :: "bool \<Rightarrow> bool \<Rightarrow> int \<Rightarrow> int \<Rightarrow> DeltaDelegationAmounts" where
  "remove_delta isUndelegation rewardAsset share token =
     (if rewardAsset
      then no_delegation_delta\<lparr>dda_RewardUndelegatableShare := Some (- share),
             dda_RewardPendingUndelegationAmount := Some token\<rparr>
      else if isUndelegation
      then no_delegation_delta\<lparr>dda_UndelegatableShare := Some (- share),
             dda_PendingUndelegationAmount := Some token\<rparr>
      else no_delegation_delta\<lparr>dda_UndelegatableShare := Some (- share)\<rparr>)"

definition staker_pending_step :: "bool \<Rightarrow> bool \<Rightarrow> string \<Rightarrow> string \<Rightarrow> int \<Rightarrow> assets_state \<Rightarrow> assets_state result" where
  "staker_pending_step u r st a tok as =
     (if \<not> r \<and> u \<and> a \<noteq> ImuachainAssetID
      then staker_upd (st, a) (no_staker_delta\<lparr>dsa_PendingUndelegationAmount := Some tok\<rparr>) as
      else Inr as)"

definition drop_staker :: "bool \<Rightarrow> string \<Rightarrow> string \<Rightarrow> string \<Rightarrow> delegation_state \<Rightarrow> delegation_state result" where
  "drop_staker z opAddr a st ds = (if z then DeleteStakerForOperator opAddr a st ds else Inr ds)"

lemma RemoveShare_eq:
  "RemoveShare C D u r opAcc st a share s =
     (if share \<le> 0 then Inl ErrAmountIsNotPositive
      else rbind (RemoveShareFromOperator C D u opAcc st a share s) (\<lambda>(tok, s1).
        rbind (staker_pending_step u r st a tok (assets s1)) (\<lambda>as2.
        rbind (UpdateDelegationState C st a (accAddressString C opAcc)
                 (Some (remove_delta u r share tok)) (dlg s1)) (\<lambda>(z, _, ds1).
        rbind (drop_staker z (accAddressString C opAcc) a st ds1) (\<lambda>ds2.
        Inr (tok, s1\<lparr>assets := as2, dlg := ds2\<rparr>))))))"
  unfolding RemoveShare_def
  by (intro if_cong refl arg_cong2 [where f = rbind] ext)
     (auto simp: remove_delta_def staker_pending_step_def staker_upd_def drop_staker_def
       rbind_def split: sum.splits)

lemma RemoveShare_Inr:
  "RemoveShare C D u r opAcc st a share s = Inr (tok, s') \<longleftrightarrow>
     (\<exists>s1 as2 z prev ds1 ds2.
        RemoveShareFromOperator C D u opAcc st a share s = Inr (tok, s1) \<and>
        staker_pending_step u r st a tok (assets s1) = Inr as2 \<and>
        UpdateDelegationState C st a (accAddressString C opAcc) (Some (remove_delta u r share tok)) (dlg s1) =
          Inr (z, prev, ds1) \<and>
        drop_staker z (accAddressString C opAcc) a st ds1 = Inr ds2 \<and>
        s' = s1\<lparr>assets := as2, dlg := ds2\<rparr>)"
proof -
  have pos: "RemoveShareFromOperator C D u opAcc st a share s = Inr (tok, s1) \<Longrightarrow> 0 < share" for s1
    by (simp add: RemoveShareFromOperator_Inr)
  show ?thesis
  proof (cases "share \<le> 0")
    case True
    then show ?thesis using pos by (auto simp: RemoveShare_eq)
  next
    case False
    then show ?thesis
      by (auto simp: RemoveShare_eq rbind_eq_Inr_iff)
  qed
qed

lemma RemoveShare_parts:
  assumes "RemoveShare C D u r opAcc st a share s = Inr (tok, s')"
  obtains info prev as1 as2 z prev' ds1 ds2 where
    "0 < share" "share \<le> oa_TotalShare info"
    "GetOperatorSpecifiedAssetInfo C (assets s) opAcc a = Inr info" "removed_token D info share = Inr tok"
    "UpdateOperatorAssetState C opAcc a (remove_operator_delta u (owns C (dlg s) st opAcc) share tok)
       (assets s) = Inr (prev, as1)"
    "staker_pending_step u r st a tok as1 = Inr as2"
    "UpdateDelegationState C st a (accAddressString C opAcc) (Some (remove_delta u r share tok)) (dlg s) =
       Inr (z, prev', ds1)"
    "drop_staker z (accAddressString C opAcc) a st ds1 = Inr ds2"
    "s' = s\<lparr>assets := as2, dlg := ds2\<rparr>"
  using assms by (auto simp: RemoveShare_Inr RemoveShareFromOperator_Inr)

section \<open>Delegating and undelegating\<close>

definition delegate_operator_delta :: "bool \<Rightarrow> int \<Rightarrow> int \<Rightarrow> DeltaOperatorSingleAsset" where
  "delegate_operator_delta isOwn share amount =
     \<lparr>doa_TotalAmount = Some amount, doa_PendingUndelegationAmount = None,
      doa_TotalShare = Some share, doa_OperatorShare = (if isOwn then Some share else None)\<rparr>"

definition delegate_delta :: "bool \<Rightarrow> int \<Rightarrow> DeltaDelegationAmounts" where
  "delegate_delta rewardAsset share =
     (if rewardAsset then no_delegation_delta\<lparr>dda_RewardUndelegatableShare := Some share\<rparr>
      else no_delegation_delta\<lparr>dda_UndelegatableShare := Some share\<rparr>)"

lemma delegate_operator_delta_fold:
  "(if c then no_operator_delta\<lparr>doa_TotalAmount := Some n, doa_TotalShare := Some m, doa_OperatorShare := Some m\<rparr>
    else no_operator_delta\<lparr>doa_TotalAmount := Some n, doa_TotalShare := Some m\<rparr>) =
   delegate_operator_delta c m n"
  by (simp add: delegate_operator_delta_def no_operator_delta_def)

lemma hook_fold:
  "(if g then rbind h (\<lambda>w'. Inr (x, y, s\<lparr>world := w'\<rparr>)) else Inr (x, y, s)) =
   rbind (if g then h else Inr (world s)) (\<lambda>w'. Inr (x, y, s\<lparr>world := w'\<rparr>))"
  by simp

lemma delegateTo_eq:
  assumes "params_ids C params = (st, a)"
  shows "delegateTo C D K params notGenesis s =
     (if du_OpAmount params \<le> 0 then Inl ErrAmountIsNotPositive
      else if \<not> k_IsOperator K s (du_OperatorAddress params) then Inl ErrOperatorNotExist
      else if notGenesis \<and> k_IsOperatorFrozen K s (du_OperatorAddress params) then Inl ErrOperatorIsFrozen
      else
        rbind (take_from_staker C D K params st a s) (\<lambda>s1.
        rbind (CalculateShare C D (assets s1) (du_OperatorAddress params) a (du_OpAmount params)) (\<lambda>share.
        rbind (UpdateOperatorAssetState C (du_OperatorAddress params) a
                 (delegate_operator_delta
                   (GetAssociatedOperator (dlg s1) st = accAddressString C (du_OperatorAddress params))
                   share (du_OpAmount params)) (assets s1)) (\<lambda>(prev, as2).
        rbind (UpdateDelegationState C st a (accAddressString C (du_OperatorAddress params))
                 (Some (delegate_delta (du_RewardAsset params) share)) (dlg s1)) (\<lambda>(_, pd, ds2).
        let s2 = s1\<lparr>assets := as2,
                    dlg := AppendStakerForOperator (accAddressString C (du_OperatorAddress params)) a st ds2\<rparr>
        in
        rbind (TokensFromShares D (da_UndelegatableShare pd + da_RewardUndelegatableShare pd)
                 (oa_TotalShare prev) (oa_TotalAmount prev)) (\<lambda>pre.
        rbind (if notGenesis
               then h_AfterDelegation (Hooks K) st a (du_OperatorAddress params) pre prev s2
               else Inr (world s2)) (\<lambda>w'.
        Inr (share, pre, s2\<lparr>world := w'\<rparr>))))))))"
  unfolding delegateTo_def assms
  by (simp only: Let_def prod.case delegate_operator_delta_fold delegate_delta_def [symmetric] hook_fold)

lemma delegateTo_Inr:
  assumes "delegateTo C D K params notGenesis s = Inr (share, pre, s')" "params_ids C params = (st, a)"
  obtains s1 prev as2 z pd ds2 w where
    "0 < du_OpAmount params" "k_IsOperator K s (du_OperatorAddress params)"
    "take_from_staker C D K params st a s = Inr s1"
    "CalculateShare C D (assets s1) (du_OperatorAddress params) a (du_OpAmount params) = Inr share"
    "UpdateOperatorAssetState C (du_OperatorAddress params) a
       (delegate_operator_delta
         (GetAssociatedOperator (dlg s1) st = accAddressString C (du_OperatorAddress params))
         share (du_OpAmount params)) (assets s1) = Inr (prev, as2)"
    "UpdateDelegationState C st a (accAddressString C (du_OperatorAddress params))
       (Some (delegate_delta (du_RewardAsset params) share)) (dlg s1) = Inr (z, pd, ds2)"
    "TokensFromShares D (da_UndelegatableShare pd + da_RewardUndelegatableShare pd)
       (oa_TotalShare prev) (oa_TotalAmount prev) = Inr pre"
    "s' = s1\<lparr>assets := as2,
             dlg := AppendStakerForOperator (accAddressString C (du_OperatorAddress params)) a st ds2,
             world := w\<rparr>"
  using assms(1) unfolding delegateTo_eq [OF assms(2)] Let_def
  by (auto simp: if_err_iff rbind_eq_Inr_iff not_le simp del: if_split)

definition new_record ::
    "codec \<Rightarrow> block_ctx \<Rightarrow> 'w DelegationOrUndelegationParams \<Rightarrow> string \<Rightarrow> string \<Rightarrow> uint64 \<Rightarrow> int \<Rightarrow> UndelegationRecord" where
  "new_record C ctx params st a uid token =
     \<lparr>ur_StakerId = st, ur_AssetId = a,
      ur_OperatorAddr = accAddressString C (du_OperatorAddress params),
      ur_TxHash = hashString C (du_TxHash params), ur_BlockNumber = of_int (BlockHeight ctx),
      ur_CompletedEpochIdentifier = [], ur_CompletedEpochNumber = 0, ur_UndelegationId = uid,
      ur_Amount = token, ur_ActualCompletedAmount = token,
      ur_InstantUnbonding = False, ur_ApplySlash = False, ur_InstantPenaltyAmount = 0,
      ur_RewardAsset = du_RewardAsset params, ur_RewardUndelegations = du_RewardUndelegations params\<rparr>"

definition reward_step ::
    "'w DelegationOrUndelegationParams \<Rightarrow> int \<Rightarrow> OperatorAssetInfo \<Rightarrow> UndelegationRecord \<Rightarrow> 'w chain
      \<Rightarrow> (UndelegationRecord \<times> 'w chain) result" where
  "reward_step params ratio prev r s =
     (if du_RewardAsset params
      then (case du_ReduceDelegationShare params of
              None \<Rightarrow> Inl ErrInvalidInputParameter
            | Some reduce \<Rightarrow>
                rbind (reduce (du_RewardStakerID params) (du_RewardAssetID params)
                         (du_OperatorAddress params) ratio (du_OpAmount params) prev s)
                  (\<lambda>(undelegationAmounts, _, w').
                Inr (r\<lparr>ur_RewardUndelegations := undelegationAmounts\<rparr>, s\<lparr>world := w'\<rparr>)))
      else Inr (r, s))"

lemma UndelegateFrom_Inr:
  assumes "UndelegateFrom C D K ctx params s = Inr s'" "params_ids C params = (st, a)"
  obtains share prev token s1 cid cno ratio r1 r2 s2 ds3 ds4 w' where
    "0 < du_OpAmount params" "k_IsOperator K s (du_OperatorAddress params)"
    "ValidateUndelegationAmount C D (assets s) (dlg s) (du_RewardAsset params)
       (du_OperatorAddress params) st a (du_OpAmount params) = Inr share"
    "GetOperatorSpecifiedAssetInfo C (assets s) (du_OperatorAddress params) a = Inr prev"
    "RemoveShare C D True (du_RewardAsset params) (du_OperatorAddress params) st a share s = Inr (token, s1)"
    "unbonding_terms D K params s1 (new_record C ctx params st a (GetLastUndelegationID (dlg s1)) token) =
       Inr (cid, cno, ratio, r1)"
    "reward_step params ratio prev r1 s1 = Inr (r2, s2)"
    "SetUndelegationRecords C (epochs s2) False
       [\<lparr>uh_Undelegation = r2\<lparr>ur_CompletedEpochIdentifier := cid, ur_CompletedEpochNumber := cno\<rparr>,
         uh_HoldCount = 0\<rparr>] (dlg s2) = Inr ds3"
    "IncrementLastUndelegationID ds3 = Inr ds4"
    "s' = s2\<lparr>dlg := ds4, world := w'\<rparr>"
  using assms(1)
  unfolding UndelegateFrom_def assms(2) Let_def prod.case new_record_def [symmetric] reward_step_def [symmetric]
  by (auto simp: if_err_iff rbind_eq_Inr_iff not_le simp del: if_split)

text \<open>What identifies a record, and the amount that waits; the rest may change while it waits.\<close>

definition same_undelegation :: "UndelegationRecord \<Rightarrow> UndelegationRecord \<Rightarrow> bool" where
  "same_undelegation r r' \<longleftrightarrow>
     ur_StakerId r' = ur_StakerId r \<and> ur_AssetId r' = ur_AssetId r \<and>
     ur_OperatorAddr r' = ur_OperatorAddr r \<and> ur_TxHash r' = ur_TxHash r \<and>
     ur_BlockNumber r' = ur_BlockNumber r \<and> ur_UndelegationId r' = ur_UndelegationId r \<and>
     ur_Amount r' = ur_Amount r \<and> ur_RewardAsset r' = ur_RewardAsset r"

lemma unbonding_terms_same:
  "unbonding_terms D K params s r = Inr (cid, cno, ratio, r1) \<Longrightarrow> same_undelegation r r1"
  by (auto simp: unbonding_terms_def same_undelegation_def rbind_eq_Inr_iff Let_def split: if_splits)

lemma reward_step_same:
  assumes "reward_step params ratio prev r s = Inr (r', s')"
  shows "same_undelegation r r'" "\<exists>w. s' = s\<lparr>world := w\<rparr>"
  using assms
  by (auto simp: reward_step_def same_undelegation_def rbind_eq_Inr_iff split: if_splits option.splits)
     (metis chain.surjective chain.update_convs(4))

text \<open>An undelegation removes a share and files a record for what the share was worth.\<close>

lemma UndelegateFrom_effect:
  assumes "UndelegateFrom C D K ctx params s = Inr s'" "params_ids C params = (st, a)"
  obtains share token s1 r ds3 ds4 w where
    "0 < du_OpAmount params"
    "ValidateUndelegationAmount C D (assets s) (dlg s) (du_RewardAsset params)
       (du_OperatorAddress params) st a (du_OpAmount params) = Inr share"
    "RemoveShare C D True (du_RewardAsset params) (du_OperatorAddress params) st a share s = Inr (token, s1)"
    "same_undelegation (new_record C ctx params st a (GetLastUndelegationID (dlg s1)) token) r"
    "SetUndelegationRecord C (epochs s) False \<lparr>uh_Undelegation = r, uh_HoldCount = 0\<rparr> (dlg s1) = Inr ds3"
    "IncrementLastUndelegationID ds3 = Inr ds4"
    "s' = s1\<lparr>dlg := ds4, world := w\<rparr>"
proof (rule UndelegateFrom_Inr [OF assms], goal_cases)
  case (1 share prev token s1 cid cno ratio r1 r2 s2 ds3 ds4 w')
  obtain w where s2: "s2 = s1\<lparr>world := w\<rparr>" using reward_step_same(2) [OF 1(8)] by blast
  let ?r = "r2\<lparr>ur_CompletedEpochIdentifier := cid, ur_CompletedEpochNumber := cno\<rparr>"
  have same: "same_undelegation (new_record C ctx params st a (GetLastUndelegationID (dlg s1)) token) ?r"
    using unbonding_terms_same [OF 1(7)] reward_step_same(1) [OF 1(8)]
    by (simp add: same_undelegation_def)
  have "epochs s1 = epochs s" using 1(6) by (auto simp: RemoveShare_Inr RemoveShareFromOperator_Inr)
  then have set: "SetUndelegationRecord C (epochs s) False \<lparr>uh_Undelegation = ?r, uh_HoldCount = 0\<rparr> (dlg s1) = Inr ds3"
    using 1(9) by (simp add: SetUndelegationRecords_def s2 rbind_eq_Inr_iff)
  show thesis
    by (rule 1(1) [OF 1(2,4,6) same set 1(10)]) (simp add: 1(11) s2)
qed

section \<open>Completing an undelegation\<close>

definition complete_delta :: "bool \<Rightarrow> int \<Rightarrow> DeltaDelegationAmounts" where
  "complete_delta rewardAsset amount =
     (if rewardAsset then no_delegation_delta\<lparr>dda_RewardPendingUndelegationAmount := Some (- amount)\<rparr>
      else no_delegation_delta\<lparr>dda_PendingUndelegationAmount := Some (- amount)\<rparr>)"

definition pay_back :: "codec \<Rightarrow> 'w keepers \<Rightarrow> UndelegationRecord \<Rightarrow> 'w chain \<Rightarrow> 'w chain result" where
  "pay_back C K r s =
     (if ur_RewardAsset r
      then rbind (k_CompleteRewardUndelegation K r s) (\<lambda>w'. Inr (s\<lparr>world := w'\<rparr>))
      else if ur_AssetId r = ImuachainAssetID
      then
        rbind (ParseID C (ur_StakerId r)) (\<lambda>(stakerAddrHex, _).
        rbind (of_option ErrParse (hexDecode C stakerAddrHex)) (\<lambda>stakerAddrBytes.
        if ur_ActualCompletedAmount r < 0 then Inl (Panic ''negative coin amount'')
        else rbind (k_UndelegateCoinsFromModuleToAccount K stakerAddrBytes
                      (ur_ActualCompletedAmount r) (world s)) (\<lambda>w'. Inr (s\<lparr>world := w'\<rparr>))))
      else
        rbind (UpdateStakerAssetState (ur_StakerId r) (ur_AssetId r)
                 (no_staker_delta\<lparr>dsa_WithdrawableAmount := Some (ur_ActualCompletedAmount r),
                    dsa_PendingUndelegationAmount := Some (- ur_Amount r)\<rparr>) (assets s))
          (\<lambda>(_, as'). Inr (s\<lparr>assets := as'\<rparr>)))"

lemma complete_record_eq:
  "complete_record C K r s =
     rbind (MustAccAddressFromBech32 C (ur_OperatorAddr r)) (\<lambda>opAcc.
     rbind (UpdateDelegationState C (ur_StakerId r) (ur_AssetId r) (ur_OperatorAddr r)
              (Some (complete_delta (ur_RewardAsset r) (ur_Amount r))) (dlg s)) (\<lambda>(_, _, ds1).
     rbind (pay_back C K r (s\<lparr>dlg := ds1\<rparr>)) (\<lambda>s2.
     rbind (UpdateOperatorAssetState C opAcc (ur_AssetId r)
              (no_operator_delta\<lparr>doa_PendingUndelegationAmount := Some (- ur_Amount r)\<rparr>) (assets s2))
       (\<lambda>(_, as3).
     rbind (DeleteUndelegationRecord C r (dlg s2)) (\<lambda>ds3.
     Inr (s2\<lparr>assets := as3, dlg := ds3\<rparr>))))))"
  unfolding complete_record_def Let_def complete_delta_def [symmetric] pay_back_def [symmetric] ..

lemma pay_back_frame:
  assumes "pay_back C K r s = Inr s'"
  shows "dlg s' = dlg s" "epochs s' = epochs s" "operatorAssetInfos (assets s') = operatorAssetInfos (assets s)"
  using assms
  by (auto simp: pay_back_def rbind_eq_Inr_iff dest: UpdateStakerAssetState_frame(3) split: if_splits)

lemma DeleteUndelegationRecord_frame:
  assumes "DeleteUndelegationRecord C r ds = Inr ds'"
  shows "delegations ds' = delegations ds" "stakersByOperator ds' = stakersByOperator ds"
    "associatedOperators ds' = associatedOperators ds" "lastUndelegationID ds' = lastUndelegationID ds"
    "delegationParams ds' = delegationParams ds"
  using assms by (auto simp: DeleteUndelegationRecord_def rbind_eq_Inr_iff Let_def)

lemma complete_record_Inr:
  assumes "complete_record C K r s = Inr s'"
  obtains opAcc z prev ds1 s2 prev' as3 ds3 where
    "accAddressFromBech32 C (ur_OperatorAddr r) = Some opAcc"
    "UpdateDelegationState C (ur_StakerId r) (ur_AssetId r) (ur_OperatorAddr r)
       (Some (complete_delta (ur_RewardAsset r) (ur_Amount r))) (dlg s) = Inr (z, prev, ds1)"
    "pay_back C K r (s\<lparr>dlg := ds1\<rparr>) = Inr s2" 
    "UpdateOperatorAssetState C opAcc (ur_AssetId r)
       (no_operator_delta\<lparr>doa_PendingUndelegationAmount := Some (- ur_Amount r)\<rparr>) (assets s2) = Inr (prev', as3)"
    "DeleteUndelegationRecord C r ds1 = Inr ds3" "dlg s2 = ds1"
    "s' = s2\<lparr>assets := as3, dlg := ds3\<rparr>"
proof -
  obtain opAcc z prev ds1 s2 prev' as3 ds3 where *:
    "accAddressFromBech32 C (ur_OperatorAddr r) = Some opAcc"
    "UpdateDelegationState C (ur_StakerId r) (ur_AssetId r) (ur_OperatorAddr r)
       (Some (complete_delta (ur_RewardAsset r) (ur_Amount r))) (dlg s) = Inr (z, prev, ds1)"
    "pay_back C K r (s\<lparr>dlg := ds1\<rparr>) = Inr s2" 
    "UpdateOperatorAssetState C opAcc (ur_AssetId r)
       (no_operator_delta\<lparr>doa_PendingUndelegationAmount := Some (- ur_Amount r)\<rparr>) (assets s2) = Inr (prev', as3)"
    "DeleteUndelegationRecord C r (dlg s2) = Inr ds3" 
    "s' = s2\<lparr>assets := as3, dlg := ds3\<rparr>"
    using assms unfolding complete_record_eq MustAccAddressFromBech32_def
    by (auto simp: rbind_eq_Inr_iff)
  have "dlg s2 = ds1" using pay_back_frame(1) [OF *(3)] by simp
  with * show thesis using that by simp
qed

lemma take_from_staker_frame:
  assumes "take_from_staker C D K params st a s = Inr s'"
  shows "delegations (dlg s') = delegations (dlg s)" "epochs s' = epochs s"
    "operatorAssetInfos (assets s') = operatorAssetInfos (assets s)"
    "undelegations (dlg s') = undelegations (dlg s)"
    "stakerUndelegations (dlg s') = stakerUndelegations (dlg s)"
    "pendingUndelegations (dlg s') = pendingUndelegations (dlg s)"
    "undelegationsOnHold (dlg s') = undelegationsOnHold (dlg s)"
    "lastUndelegationID (dlg s') = lastUndelegationID (dlg s)"
    "\<And>k. staker_comp (assets s') k F_PendingUndelegation = staker_comp (assets s) k F_PendingUndelegation"
  using assms
  by (auto simp: take_from_staker_def rbind_eq_Inr_iff Let_def SetAssociatedOperator_def
        UpdateStakerAssetState_comp no_staker_delta_def
      dest: UpdateStakerAssetState_frame(3) split: if_splits option.splits)

end
