(* ===== verification/Balance.thy ===== *)
theory Balance
  imports DelegationOpsProps
begin

text \<open>
  Every operation on the assets and delegation stores keeps the balance of shares: the total share
  of an operator's pool is the sum of the shares that stakers hold in it. \<open>chain_step\<close> is the relation of
  all those operations, and the balance holds in every state that it reaches from a balanced one.
\<close>

section \<open>The loops\<close>

lemma IterateDelegations_invariant:
  assumes "IterateDelegations ds p (Some f) x = Inr y" "I x"
    and "\<And>keys v x b x'. I x \<Longrightarrow> f keys v x = Inr (b, x') \<Longrightarrow> I x'"
  shows "I y"
  using assms(1) unfolding IterateDelegations_def option.case
  by (rule riter_invariant [where I = I, OF _ assms(2)]) (auto simp: rbind_eq_Inr_iff intro: assms(3))

lemma IterateDelegationsForStaker_invariant:
  assumes "IterateDelegationsForStaker ds st (Some f) x = Inr y" "I x"
    and "\<And>keys v x b x'. I x \<Longrightarrow> f keys v x = Inr (b, x') \<Longrightarrow> I x'"
  shows "I y"
proof -
  have "IterateDelegations ds st (Some f) x = Inr y"
    using assms(1) by (simp add: IterateDelegationsForStaker_def split: if_splits)
  from IterateDelegations_invariant [where I = I, OF this assms(2,3)] show ?thesis .
qed

lemma IterateDelegationsForStakerAndAsset_invariant:
  assumes "IterateDelegationsForStakerAndAsset ds st a (Some f) x = Inr y" "I x"
    and "\<And>keys v x b x'. I x \<Longrightarrow> f keys v x = Inr (b, x') \<Longrightarrow> I x'"
  shows "I y"
proof -
  have "IterateDelegations ds (IteratorPrefixForStakerAsset st a) (Some f) x = Inr y"
    using assms(1) by (simp add: IterateDelegationsForStakerAndAsset_def split: if_splits)
  from IterateDelegations_invariant [where I = I, OF this assms(2,3)] show ?thesis .
qed

lemma IterateUndelegationsByStakerAndAsset_invariant:
  assumes "IterateUndelegationsByStakerAndAsset st a True (Some f) ds x = Inr (ds', x')" "I ds x"
    and "\<And>ds x k r b r' x'. I ds x \<Longrightarrow> kv_get (undelegations ds) k = Some r \<Longrightarrow> f k r x = Inr (b, r', x') \<Longrightarrow>
           I (ds\<lparr>undelegations := kv_set k r' (undelegations ds)\<rparr>) x'"
  shows "I ds' x'"
proof -
  have "case (ds', x') of (ds, x) \<Rightarrow> I ds x"
    using assms(1) unfolding IterateUndelegationsByStakerAndAsset_def option.case
    by (rule riter_invariant) (auto simp: rbind_eq_Inr_iff assms(2) intro: assms(3))
  then show ?thesis by simp
qed

section \<open>The operations keep the balance\<close>

text \<open>Neither the staker's pending amount nor the staker list is part of the balance.\<close>

abbreviation balanced :: "'w chain \<Rightarrow> bool" where
  "balanced s \<equiv> shares_balanced (assets s) (dlg s)"

lemma operator_comp_cong: "operatorAssetInfos as' = operatorAssetInfos as \<Longrightarrow> operator_comp as' = operator_comp as"
  by (intro ext) (simp add: operator_comp_def)

lemma staker_pending_step_frame:
  "staker_pending_step u r st a tok as = Inr as' \<Longrightarrow> operatorAssetInfos as' = operatorAssetInfos as"
  by (auto simp: staker_pending_step_def staker_upd_def rbind_eq_Inr_iff
      dest: UpdateStakerAssetState_frame(3) split: if_splits)

lemma drop_staker_frame:
  assumes "drop_staker z opAddr a st ds = Inr ds'"
  shows "delegations ds' = delegations ds" "undelegations ds' = undelegations ds"
    "stakerUndelegations ds' = stakerUndelegations ds" "pendingUndelegations ds' = pendingUndelegations ds"
    "undelegationsOnHold ds' = undelegationsOnHold ds" "associatedOperators ds' = associatedOperators ds"
    "lastUndelegationID ds' = lastUndelegationID ds" "delegationParams ds' = delegationParams ds"
  using assms by (auto simp: drop_staker_def DeleteStakerForOperator_def Let_def split: if_splits)

lemma RemoveShare_balanced:
  assumes "chain_codec C" "balanced s" "key_part st" "key_part a"
    and "RemoveShare C D u r opAcc st a share s = Inr (tok, s')"
  shows "balanced s'"
proof -
  obtain prev as1 as2 z prev' ds1 ds2 where
      o: "UpdateOperatorAssetState C opAcc a (remove_operator_delta u (owns C (dlg s) st opAcc) share tok)
            (assets s) = Inr (prev, as1)"
    and p: "staker_pending_step u r st a tok as1 = Inr as2"
    and d: "UpdateDelegationState C st a (accAddressString C opAcc) (Some (remove_delta u r share tok)) (dlg s) =
          Inr (z, prev', ds1)"
    and z: "drop_staker z (accAddressString C opAcc) a st ds1 = Inr ds2"
    and s': "s' = s\<lparr>assets := as2, dlg := ds2\<rparr>"
    by (rule RemoveShare_parts [OF assms(5)])
  have "shares_balanced as1 ds1"
    by (rule shares_balanced_update [OF assms(2,1) o d _ assms(3,4)])
       (auto simp: remove_operator_delta_def remove_delta_def no_delegation_delta_def)
  then show ?thesis
    unfolding s' using shares_balanced_cong drop_staker_frame(1) [OF z]
      operator_comp_cong [OF staker_pending_step_frame [OF p]] by simp
qed

lemma delegateTo_balanced:
  assumes "chain_codec C" "balanced s" "params_ids C params = (st, a)" "key_part st" "key_part a"
    and "delegateTo C D K params notGenesis s = Inr (share, pre, s')"
  shows "balanced s'"
proof (rule delegateTo_Inr [OF assms(6,3)], goal_cases)
  case (1 s1 prev as2 z pd ds2 w)
  have "balanced s1"
    by (rule shares_balanced_cong [OF assms(2) take_from_staker_frame(1) [OF 1(3)]])
       (simp add: operator_comp_cong [OF take_from_staker_frame(3) [OF 1(3)]])
  then have "shares_balanced as2 ds2"
    by (rule shares_balanced_update [OF _ assms(1) 1(5,6) _ assms(4,5)])
       (simp add: delegate_operator_delta_def delegate_delta_def no_delegation_delta_def)
  then show ?case
    unfolding 1(8) by (rule shares_balanced_cong) (simp_all add: AppendStakerForOperator_def)
qed

lemma SetUndelegationRecord_frame:
  assumes "SetUndelegationRecord C es g r ds = Inr ds'"
  shows "delegations ds' = delegations ds" "stakersByOperator ds' = stakersByOperator ds"
    "associatedOperators ds' = associatedOperators ds" "lastUndelegationID ds' = lastUndelegationID ds"
    "delegationParams ds' = delegationParams ds"
  using assms by (auto simp: SetUndelegationRecord_def Let_def rbind_eq_Inr_iff)

lemma IncrementLastUndelegationID_Inr:
  "IncrementLastUndelegationID ds = Inr ds' \<longleftrightarrow>
     GetLastUndelegationID ds \<noteq> MaxUint64 \<and>
     ds' = ds\<lparr>lastUndelegationID := Some (GetLastUndelegationID ds + 1)\<rparr>"
  by (auto simp: IncrementLastUndelegationID_def Let_def)

lemma UndelegateFrom_balanced:
  assumes "chain_codec C" "balanced s" "params_ids C params = (st, a)" "key_part st" "key_part a"
    and "UndelegateFrom C D K ctx params s = Inr s'"
  shows "balanced s'"
proof (rule UndelegateFrom_effect [OF assms(6,3)], goal_cases)
  case (1 share token s1 r ds3 ds4 w)
  have "balanced s1" by (rule RemoveShare_balanced [OF assms(1,2,4,5) 1(3)])
  then show ?case
    unfolding 1(7)
    by (rule shares_balanced_cong)
       (use 1(6) SetUndelegationRecord_frame(1) [OF 1(5)] in \<open>auto simp: IncrementLastUndelegationID_Inr\<close>)
qed

lemma share_sum_neutral:
  assumes "UpdateDelegationState C st a opAddr (Some d) s = Inr (z, prev, s')" "kv_wf (delegations s)"
    and "delegation_delta d G_Share = 0" "delegation_delta d G_RewardShare = 0"
  shows "share_sum s' o' a' = share_sum s o' a'"
proof -
  let ?k = "delegation_key st a opAddr"
  obtain v where v: "delegations s' = kv_set ?k v (delegations s)"
    using UpdateDelegationState_frame(12) [OF assms(1)] by blast
  have new: "da_UndelegatableShare v = delegation_comp s ?k G_Share"
    "da_RewardUndelegatableShare v = delegation_comp s ?k G_RewardShare"
    using UpdateDelegationState_comp [OF assms(1), of ?k G_Share]
      UpdateDelegationState_comp [OF assms(1), of ?k G_RewardShare] v assms(3,4)
    by (simp_all add: delegation_comp_def)
  then show ?thesis
    unfolding share_sum_def v kv.total_put [OF assms(2)]
    by (auto simp: share_in_def delegation_comp_def split: option.splits sum.splits)
qed

lemma complete_record_balanced:
  assumes "balanced s" "complete_record C K r s = Inr s'"
  shows "balanced s'"
proof (rule complete_record_Inr [OF assms(2)], goal_cases)
  case (1 opAcc z prev ds1 s2 prev' as3 ds3)
  have "shares_balanced (assets s) ds1"
    using assms(1) share_sum_neutral [OF 1(2)] UpdateDelegationState_frame(9) [OF 1(2)]
    by (simp add: shares_balanced_def complete_delta_def no_delegation_delta_def)
  moreover have "operator_comp as3 k O_TotalShare = operator_comp (assets s) k O_TotalShare" for k
    using UpdateOperatorAssetState_comp [OF 1(4)] operator_comp_cong [OF pay_back_frame(3) [OF 1(3)]]
    by (simp add: no_operator_delta_def)
  ultimately show ?case
    unfolding 1(7) using shares_balanced_cong DeleteUndelegationRecord_frame(1) [OF 1(5)] by simp
qed

lemma cached_invariant: "cached f s = Inr s' \<Longrightarrow> P s \<Longrightarrow> (\<And>s'. f s = Inr s' \<Longrightarrow> P s') \<Longrightarrow> P s'"
  by (auto simp: cached_def split: sum.splits error.splits)

lemma EndBlock_invariant:
  assumes "EndBlock C K s = Inr s'" "I s"
    and "\<And>r s s'. I s \<Longrightarrow> complete_record C K r s = Inr s' \<Longrightarrow> I s'"
  shows "I s'"
proof (cases "GetCompletableUndelegations C (epochs s) (dlg s) True")
  case (Inl e)
  then show ?thesis using assms(1,2) by (auto simp: EndBlock_def split: error.splits)
next
  case (Inr rs)
  then have "rfold (\<lambda>r. cached (complete_record C K r)) rs s = Inr s'" using assms(1) by (simp add: EndBlock_def)
  then show ?thesis
    by (rule rfold_invariant [where I = I, OF _ assms(2)]) (blast intro: cached_invariant assms(3))
qed

lemma EndBlock_balanced: "EndBlock C K s = Inr s' \<Longrightarrow> balanced s \<Longrightarrow> balanced s'"
  by (rule EndBlock_invariant [where I = balanced]) (auto intro: complete_record_balanced)

text \<open>Associating and dissociating only move the operator's own share.\<close>

definition own_share_only :: "assets_state \<Rightarrow> assets_state \<Rightarrow> bool" where
  "own_share_only as as' \<longleftrightarrow> stakerAssetInfos as' = stakerAssetInfos as \<and>
     (\<forall>k f. f \<noteq> O_OperatorShare \<longrightarrow> operator_comp as' k f = operator_comp as k f) \<and>
     ((\<forall>k f. 0 \<le> operator_comp as k f) \<longrightarrow> (\<forall>k f. 0 \<le> operator_comp as' k f))"

lemma own_share_only_refl: "own_share_only as as"
  by (simp add: own_share_only_def)

lemma own_share_only_step:
  assumes "own_share_only as as1"
    and "UpdateOperatorAssetState C opAcc a (no_operator_delta\<lparr>doa_OperatorShare := Some n\<rparr>) as1 = Inr (prev, as2)"
  shows "own_share_only as as2"
proof -
  have upd: "operator_upd C (opAcc, a) (no_operator_delta\<lparr>doa_OperatorShare := Some n\<rparr>) as1 = Inr as2"
    using assms(2) by (simp add: operator_upd_def)
  have "operator_comp as2 k f = operator_comp as1 k f" if "f \<noteq> O_OperatorShare" for k f
    using that UpdateOperatorAssetState_comp [OF assms(2), of k f] by (cases f) (simp_all add: no_operator_delta_def)
  moreover have "(\<forall>k f. 0 \<le> operator_comp as1 k f) \<longrightarrow> (\<forall>k f. 0 \<le> operator_comp as2 k f)"
    using operators.upd_nonneg [OF _ upd] by simp
  ultimately show ?thesis
    using assms(1) UpdateOperatorAssetState_frame(3) [OF assms(2)] by (simp add: own_share_only_def)
qed

lemma AssociateOperatorWithStaker_Inr:
  assumes "AssociateOperatorWithStaker C K n opAcc stAddr s = Inr s'"
  obtains as' ao where "own_share_only (assets s) as'"
    "s' = s\<lparr>assets := as', dlg := (dlg s)\<lparr>associatedOperators := ao\<rparr>\<rparr>"
proof -
  let ?st = "fst (GetStakerIDAndAssetID C n stAddr None)"
  obtain f as' ds' where
      it: "IterateDelegationsForStaker (dlg s) ?st (Some f) (assets s) = Inr as'"
    and f: "f = (\<lambda>(_, assetId, operatorAddr) amounts as.
                      if operatorAddr = accAddressString C opAcc
                      then rbind (UpdateOperatorAssetState C opAcc assetId
                                    (no_operator_delta\<lparr>doa_OperatorShare := Some (da_UndelegatableShare amounts)\<rparr>) as)
                             (\<lambda>(_, as'). Inr (False, as'))
                      else Inr (False, as))"
    and ds: "SetAssociatedOperator C ?st (accAddressString C opAcc) (dlg s) = Inr ds'"
    and s': "s' = s\<lparr>assets := as', dlg := ds'\<rparr>"
    using assms(1)
    by (auto simp: AssociateOperatorWithStaker_def Let_def if_err_iff rbind_eq_Inr_iff simp del: if_split split_paired_Ex)
  have "own_share_only (assets s) as'"
    by (rule IterateDelegationsForStaker_invariant [where I = "own_share_only (assets s)", OF it own_share_only_refl])
       (auto simp: f rbind_eq_Inr_iff split: if_splits dest: own_share_only_step)
  then show thesis
    using that ds s' by (auto simp: SetAssociatedOperator_def split: option.splits)
qed

lemma DissociateOperatorFromStaker_Inr:
  assumes "DissociateOperatorFromStaker C n stAddr s = Inr s'"
  obtains as' ao where "own_share_only (assets s) as'"
    "s' = s\<lparr>assets := as', dlg := (dlg s)\<lparr>associatedOperators := ao\<rparr>\<rparr>"
proof -
  let ?st = "fst (GetStakerIDAndAssetID C n stAddr None)"
  obtain f opAcc as' where
      it: "IterateDelegationsForStaker (dlg s) ?st (Some f) (assets s) = Inr as'"
    and f: "f = (\<lambda>(_, assetId, operatorAddr) amounts as.
                    if operatorAddr = GetAssociatedOperator (dlg s) ?st
                    then rbind (UpdateOperatorAssetState C opAcc assetId
                                  (no_operator_delta\<lparr>doa_OperatorShare := Some (- da_UndelegatableShare amounts)\<rparr>) as)
                           (\<lambda>(_, as'). Inr (False, as'))
                    else Inr (False, as))"
    and s': "s' = s\<lparr>assets := as', dlg := DeleteAssociatedOperator ?st (dlg s)\<rparr>"
    using assms(1)
    by (auto simp: DissociateOperatorFromStaker_def Let_def if_err_iff rbind_eq_Inr_iff
        simp del: if_split split_paired_Ex)
  have "own_share_only (assets s) as'"
    by (rule IterateDelegationsForStaker_invariant [where I = "own_share_only (assets s)", OF it own_share_only_refl])
       (auto simp: f rbind_eq_Inr_iff split: if_splits dest: own_share_only_step)
  then show thesis
    using that s' by (auto simp: DeleteAssociatedOperator_def)
qed

lemma own_share_balanced:
  assumes "balanced s" "own_share_only (assets s) as'" "s' = s\<lparr>assets := as', dlg := (dlg s)\<lparr>associatedOperators := ao\<rparr>\<rparr>"
  shows "balanced s'"
  unfolding assms(3) using assms(2)
  by (intro shares_balanced_cong [OF assms(1)]) (simp_all add: own_share_only_def)

lemma AssociateOperatorWithStaker_balanced:
  assumes "AssociateOperatorWithStaker C K n opAcc stAddr s = Inr s'" "balanced s"
  shows "balanced s'"
  by (rule AssociateOperatorWithStaker_Inr [OF assms(1)]) (rule own_share_balanced [OF assms(2)])

lemma DissociateOperatorFromStaker_balanced:
  assumes "DissociateOperatorFromStaker C n stAddr s = Inr s'" "balanced s"
  shows "balanced s'"
  by (rule DissociateOperatorFromStaker_Inr [OF assms(1)]) (rule own_share_balanced [OF assms(2)])

text \<open>A change of the stakers' amounts or of the undelegation records.\<close>

lemma same_pools_balanced:
  assumes "balanced s" "operatorAssetInfos as' = operatorAssetInfos (assets s)"
    and "delegations ds' = delegations (dlg s)"
  shows "shares_balanced as' ds'"
  using shares_balanced_cong [OF assms(1,3)] operator_comp_cong [OF assms(2)] by simp

lemma nst_undelegation_op_frame:
  "nst_undelegation_op st a k r (as, n) = Inr (b, r', as', n') \<Longrightarrow>
     operatorAssetInfos as' = operatorAssetInfos as"
  by (auto simp: nst_undelegation_op_def Let_def rbind_eq_Inr_iff dest: UpdateStakerAssetState_frame(3))

lemma nst_delegation_op_Inr:
  assumes "nst_delegation_op C D K st a ratio keys v (s, n) = Inr (b, s', n')"
  obtains opAcc tok s1 info as2 w where
    "accAddressFromBech32 C (snd (snd keys)) = Some opAcc"
    "RemoveShare C D False False opAcc st a (mulDec D (da_UndelegatableShare v) ratio) s = Inr (tok, s1)"
    "UpdateStakerAssetState st a (no_staker_delta\<lparr>dsa_TotalDepositAmount := Some (- tok)\<rparr>) (assets s1) = Inr (info, as2)"
    "s' = s1\<lparr>assets := as2, world := w\<rparr>" "n' = n - tok" "\<not> b"
  using assms unfolding nst_delegation_op_def
  by (cases keys) (auto simp: Let_def rbind_eq_Inr_iff)

lemma nst_delegation_op_balanced:
  assumes "chain_codec C" "key_part st" "key_part a" "balanced s"
    and "nst_delegation_op C D K st a ratio keys v (s, n) = Inr (b, s', n')"
  shows "balanced s'"
proof (rule nst_delegation_op_Inr [OF assms(5)], goal_cases)
  case (1 opAcc tok s1 info as2 w)
  have "balanced s1" by (rule RemoveShare_balanced [OF assms(1,4,2,3) 1(2)])
  then show ?case
    unfolding 1(4) by (rule same_pools_balanced) (simp_all add: UpdateStakerAssetState_frame(3) [OF 1(3)])
qed

text \<open>The three stages of a decrease.\<close>

definition nst_slash_pending ::
    "string \<Rightarrow> string \<Rightarrow> int \<Rightarrow> 'w chain \<Rightarrow> ('w chain \<times> int) result" where
  "nst_slash_pending st a n s =
     (if 0 < n
      then rbind (IterateUndelegationsByStakerAndAsset st a True (Some (nst_undelegation_op st a)) (dlg s)
                    (assets s, n)) (\<lambda>(ds2, as2, n2). Inr (s\<lparr>assets := as2, dlg := ds2\<rparr>, n2))
      else Inr (s, n))"

definition nst_slash_delegated ::
    "codec \<Rightarrow> dec_ops \<Rightarrow> 'w keepers \<Rightarrow> string \<Rightarrow> string \<Rightarrow> int \<Rightarrow> 'w chain \<Rightarrow> 'w chain result" where
  "nst_slash_delegated C D K st a n s =
     (if 0 < n
      then
        rbind (TotalDelegatedAmountForStakingAsset C D (assets s) (dlg s) st a) (\<lambda>total.
        if total \<noteq> 0
        then
          rbind (IterateDelegationsForStakerAndAsset (dlg s) st a
                   (Some (nst_delegation_op C D K st a
                     (min (newDec D MaxSlashProportion) (quoDec D (newDec D n) (newDec D total))))) (s, n))
            (\<lambda>(s3, _). Inr s3)
        else Inr s)
      else Inr s)"

lemma UpdateNSTBalance_eq:
  "UpdateNSTBalance C D K st a amount s =
     (if 0 < amount
      then
        rbind (UpdateStakerAssetState st a (deposit_delta amount) (assets s)) (\<lambda>(_, as1).
        rbind (UpdateStakingAssetTotalAmount a (Some amount) as1) (\<lambda>as2. Inr (s\<lparr>assets := as2\<rparr>)))
      else if amount < 0
      then
        rbind (GetStakerSpecifiedAssetInfo C D (k_GetBalance K (world s)) (assets s) (dlg s) st a) (\<lambda>info.
        let n = min (- amount) (sa_WithdrawableAmount info) in
        rbind (UpdateStakerAssetState st a (deposit_delta (- n)) (assets s)) (\<lambda>(_, as1).
        rbind (nst_slash_pending st a (- amount - n) (s\<lparr>assets := as1\<rparr>)) (\<lambda>(s2, n2).
        nst_slash_delegated C D K st a n2 s2)))
      else Inr s)"
proof -
  have m: "(if 0 < - amount - w then w else - amount) = min (- amount) w"
    "(if 0 < - amount - w then - amount - w else 0) = - amount - min (- amount) w" for w :: int
    by auto
  have p: "(if x < y then x else y) = min x y" for x y :: int by auto
  have d: "no_staker_delta\<lparr>dsa_TotalDepositAmount := Some n, dsa_WithdrawableAmount := Some n\<rparr> = deposit_delta n" for n
    by (simp add: deposit_delta_def)
  show ?thesis
    unfolding UpdateNSTBalance_def Let_def m p d nst_slash_pending_def nst_slash_delegated_def by simp
qed

lemma nst_slash_pending_frame:
  assumes "nst_slash_pending st a n s = Inr (s', n')"
  shows "operatorAssetInfos (assets s') = operatorAssetInfos (assets s)"
    "delegations (dlg s') = delegations (dlg s)"
proof -
  let ?I = "\<lambda>ds x. operatorAssetInfos (fst x) = operatorAssetInfos (assets s) \<and> delegations ds = delegations (dlg s)"
  have "?I ds2 (as2, n2)"
    if "IterateUndelegationsByStakerAndAsset st a True (Some (nst_undelegation_op st a)) (dlg s) (assets s, n) =
          Inr (ds2, as2, n2)" for ds2 as2 n2
    by (rule IterateUndelegationsByStakerAndAsset_invariant [where I = ?I, OF that])
       (auto dest: nst_undelegation_op_frame)
  then show "operatorAssetInfos (assets s') = operatorAssetInfos (assets s)"
    "delegations (dlg s') = delegations (dlg s)"
    using assms by (auto simp: nst_slash_pending_def rbind_eq_Inr_iff split: if_splits)
qed

lemma nst_slash_delegated_invariant:
  assumes "nst_slash_delegated C D K st a n s = Inr s'" "I s"
    and "\<And>ratio keys v s m b s' m'. I s \<Longrightarrow>
      nst_delegation_op C D K st a ratio keys v (s, m) = Inr (b, s', m') \<Longrightarrow> I s'"
  shows "I s'"
proof -
  have "I s3"
    if "IterateDelegationsForStakerAndAsset (dlg s) st a (Some (nst_delegation_op C D K st a ratio)) (s, n) =
          Inr (s3, m)" for ratio s3 m
    using IterateDelegationsForStakerAndAsset_invariant [where I = "\<lambda>x. I (fst x)", OF that] assms(2,3)
    by (metis fst_conv surj_pair)
  then show ?thesis
    using assms(1,2) by (auto simp: nst_slash_delegated_def rbind_eq_Inr_iff split: if_splits)
qed

lemma UpdateNSTBalance_balanced:
  assumes "chain_codec C" "key_part st" "key_part a" "balanced s"
    and "UpdateNSTBalance C D K st a amount s = Inr s'"
  shows "balanced s'"
proof -
  consider "amount = 0" | (pos) "0 < amount" | (neg) "amount < 0" by linarith
  then show ?thesis
  proof cases
    case pos
    then obtain info as1 as2 where "UpdateStakerAssetState st a (deposit_delta amount) (assets s) = Inr (info, as1)"
      "UpdateStakingAssetTotalAmount a (Some amount) as1 = Inr as2" "s' = s\<lparr>assets := as2\<rparr>"
      using assms(5) by (auto simp: UpdateNSTBalance_eq rbind_eq_Inr_iff)
    then show ?thesis
      using same_pools_balanced [OF assms(4)] UpdateStakerAssetState_frame(3) staking_total_update(3) by simp
  next
    case neg
    then obtain info as1 n m s2 n2 where
        u: "UpdateStakerAssetState st a (deposit_delta m) (assets s) = Inr (info, as1)"
      and p: "nst_slash_pending st a n (s\<lparr>assets := as1\<rparr>) = Inr (s2, n2)"
      and d: "nst_slash_delegated C D K st a n2 s2 = Inr s'"
      using assms(5) by (auto simp: UpdateNSTBalance_eq rbind_eq_Inr_iff Let_def)
    have "balanced s2"
      using same_pools_balanced [OF assms(4)] UpdateStakerAssetState_frame(3) [OF u] nst_slash_pending_frame [OF p]
      by simp
    then show ?thesis
      using nst_slash_delegated_invariant [where I = balanced, OF d]
        nst_delegation_op_balanced [OF assms(1-3)] by blast
  qed (use assms(4,5) in \<open>simp add: UpdateNSTBalance_eq\<close>)
qed

section \<open>Runs of the chain\<close>

text \<open>
  Accounts of the chain have addresses of one length. The identifiers of an undelegation of rewards
  come from the caller; like every identifier of the chain they do not contain the delimiter of the
  joined keys.
\<close>

definition good_params :: "'w DelegationOrUndelegationParams \<Rightarrow> bool" where
  "good_params params \<longleftrightarrow>
     length (du_OperatorAddress params) = AccAddressLength \<and>
     (du_RewardAsset params \<longrightarrow> key_part (du_RewardStakerID params) \<and> key_part (du_RewardAssetID params))"

lemma params_ids_parts:
  assumes "chain_codec C" "good_params params" "params_ids C params = (st, a)"
  shows "key_part st" "key_part a"
  using assms(2,3) chain_codec.hex_part(1) [OF assms(1)] chain_codec.hex64_part(1) [OF assms(1)]
  by (auto simp: params_ids_def good_params_def GetStakerIDAndAssetID_def no_char_def DelimiterForID_def
      DelimiterForCombinedKey_def Let_def split: if_splits option.splits)

text \<open>
  One operation on the stores of the assets and delegation modules, as the message handlers, the
  gateway, the oracle and the blocks run them; \<open>other_modules\<close> is any step of the rest of the chain.
  What a hook of an epoch does to these stores are steps of its own.
\<close>

inductive chain_step :: "codec \<Rightarrow> dec_ops \<Rightarrow> 'w keepers \<Rightarrow> 'w chain \<Rightarrow> 'w chain \<Rightarrow> bool" for C D K where
  deposit_or_withdraw:
    "PerformDepositOrWithdraw C p (assets s) = Inr (t, as') \<Longrightarrow> chain_step C D K s (s\<lparr>assets := as'\<rparr>)"
| delegate:
    "good_params params \<Longrightarrow> delegateTo C D K params notGenesis s = Inr (share, pre, s') \<Longrightarrow> chain_step C D K s s'"
| undelegate:
    "good_params params \<Longrightarrow> UndelegateFrom C D K ctx params s = Inr s' \<Longrightarrow> chain_step C D K s s'"
| associate:
    "AssociateOperatorWithStaker C K n opAcc stAddr s = Inr s' \<Longrightarrow> chain_step C D K s s'"
| dissociate:
    "DissociateOperatorFromStaker C n stAddr s = Inr s' \<Longrightarrow> chain_step C D K s s'"
| update_nst:
    "key_part st \<Longrightarrow> key_part a \<Longrightarrow> UpdateNSTBalance C D K st a amount s = Inr s' \<Longrightarrow> chain_step C D K s s'"
| end_block:
    "EndBlock C K s = Inr s' \<Longrightarrow> chain_step C D K s s'"
| hold:
    "IncrementUndelegationHoldCount k (dlg s) = Inr ds' \<Longrightarrow> chain_step C D K s (s\<lparr>dlg := ds'\<rparr>)"
| release:
    "DecrementUndelegationHoldCount k (dlg s) = Inr ds' \<Longrightarrow> chain_step C D K s (s\<lparr>dlg := ds'\<rparr>)"
| params:
    "UpdateDelegationParams auth req ps (dlg s) = Inr ds' \<Longrightarrow> chain_step C D K s (s\<lparr>dlg := ds'\<rparr>)"
| begin_block:
    "BeginBlocker ctx H (epochs s, world s) = (es, w) \<Longrightarrow> chain_step C D K s (s\<lparr>epochs := es, world := w\<rparr>)"
| other_modules:
    "chain_step C D K s (s\<lparr>world := w\<rparr>)"

abbreviation chain_run :: "codec \<Rightarrow> dec_ops \<Rightarrow> 'w keepers \<Rightarrow> 'w chain \<Rightarrow> 'w chain \<Rightarrow> bool" where
  "chain_run C D K \<equiv> (chain_step C D K)\<^sup>*\<^sup>*"

lemma chain_run_invariant:
  assumes "chain_run C D K s s'" "I s" "\<And>s s'. I s \<Longrightarrow> chain_step C D K s s' \<Longrightarrow> I s'"
  shows "I s'"
  using assms by (induction rule: rtranclp_induct) auto

lemma chain_step_balanced:
  assumes "chain_codec C" "balanced s" "chain_step C D K s s'"
  shows "balanced s'"
  using assms(3,2)
proof cases
  case (deposit_or_withdraw p t as')
  then have "operatorAssetInfos as' = operatorAssetInfos (assets s)"
    using UpdateStakerAssetState_frame(3) staking_total_update(3) by (fastforce simp: PerformDepositOrWithdraw_Inr)
  then show ?thesis
    unfolding deposit_or_withdraw(1) by (intro same_pools_balanced [OF assms(2)]) simp_all
next
  case (delegate params notGenesis share pre)
  then show ?thesis
    using delegateTo_balanced [OF assms(1,2)] params_ids_parts [OF assms(1)]
    by (metis surj_pair)
next
  case (undelegate params ctx)
  then show ?thesis
    using UndelegateFrom_balanced [OF assms(1,2)] params_ids_parts [OF assms(1)]
    by (metis surj_pair)
qed (auto intro: AssociateOperatorWithStaker_balanced DissociateOperatorFromStaker_balanced
      UpdateNSTBalance_balanced assms(1,2) EndBlock_balanced same_pools_balanced
      simp: IncrementUndelegationHoldCount_def DecrementUndelegationHoldCount_def Let_def
        UpdateDelegationParams_def SetDelegationParams_def rbind_eq_Inr_iff split: if_splits)

section \<open>What the operations do\<close>

text \<open>C1: in every state that the operations of the assets and delegation modules reach from a
  balanced one, the total share of an operator's pool is the sum of the shares, staked and from
  rewards, that the delegations to that operator hold of the asset.\<close>

theorem shares_stay_balanced:
  assumes "chain_codec C" "shares_balanced (assets s) (dlg s)" "chain_run C D K s s'"
    and "key_part opAddr" "key_part assetID"
  shows "pool_share (assets s') opAddr assetID = share_sum (dlg s') opAddr assetID"
proof -
  have "balanced s'"
    by (rule chain_run_invariant [where I = balanced, OF assms(3,2)])
       (rule chain_step_balanced [OF assms(1)])
  with assms(4,5) show ?thesis by (simp add: shares_balanced_def)
qed


text \<open>The effect of removing a share on every amount.\<close>

lemma RemoveShare_comp:
  assumes "RemoveShare C D u r opAcc st a share s = Inr (tok, s')"
  shows "operator_comp (assets s') k f = operator_comp (assets s) k f +
      (if k = operator_key C opAcc a
       then operator_delta (remove_operator_delta u (owns C (dlg s) st opAcc) share tok) f else 0)"
    "staker_comp (assets s') k g = staker_comp (assets s) k g +
      (if \<not> r \<and> u \<and> a \<noteq> ImuachainAssetID \<and> k = staker_key st a \<and> g = F_PendingUndelegation then tok else 0)"
    "delegation_comp (dlg s') k h = delegation_comp (dlg s) k h +
      (if k = delegation_key st a (accAddressString C opAcc)
       then delegation_delta (remove_delta u r share tok) h else 0)"
    "0 < share"
proof -
  obtain prev as1 as2 z prev' ds1 ds2 where 0: "0 < share"
    and 1: "UpdateOperatorAssetState C opAcc a (remove_operator_delta u (owns C (dlg s) st opAcc) share tok)
            (assets s) = Inr (prev, as1)"
    and 2: "staker_pending_step u r st a tok as1 = Inr as2"
    and 3: "UpdateDelegationState C st a (accAddressString C opAcc) (Some (remove_delta u r share tok)) (dlg s) =
          Inr (z, prev', ds1)"
    and 4: "drop_staker z (accAddressString C opAcc) a st ds1 = Inr ds2"
    and s': "s' = s\<lparr>assets := as2, dlg := ds2\<rparr>"
    by (rule RemoveShare_parts [OF assms])
  show "0 < share" by fact
  show "operator_comp (assets s') k f = operator_comp (assets s) k f +
      (if k = operator_key C opAcc a
       then operator_delta (remove_operator_delta u (owns C (dlg s) st opAcc) share tok) f else 0)"
    using UpdateOperatorAssetState_comp [OF 1] operator_comp_cong [OF staker_pending_step_frame [OF 2]]
    by (simp add: s')
  have "staker_comp as1 = staker_comp (assets s)"
    by (intro ext) (simp add: staker_comp_def UpdateOperatorAssetState_frame(3) [OF 1])
  then show "staker_comp (assets s') k g = staker_comp (assets s) k g +
      (if \<not> r \<and> u \<and> a \<noteq> ImuachainAssetID \<and> k = staker_key st a \<and> g = F_PendingUndelegation then tok else 0)"
    using 2 by (cases g) (auto simp: s' staker_pending_step_def staker_upd_def rbind_eq_Inr_iff
        UpdateStakerAssetState_comp no_staker_delta_def split: if_splits)
  show "delegation_comp (dlg s') k h = delegation_comp (dlg s) k h +
      (if k = delegation_key st a (accAddressString C opAcc)
       then delegation_delta (remove_delta u r share tok) h else 0)"
    using UpdateDelegationState_comp [OF 3] drop_staker_frame(1) [OF 4] by (simp add: s' delegation_comp_def)
qed

lemma UpdateDelegationState_valid:
  "UpdateDelegationState C st a opAddr (Some d) s = Inr x \<Longrightarrow> accAddressFromBech32 C opAddr \<noteq> None"
  by (auto simp: UpdateDelegationState_cases split: if_splits)

lemma RemoveShare_frame:
  assumes "RemoveShare C D u r opAcc st a share s = Inr (tok, s')"
  shows "epochs s' = epochs s" "world s' = world s" "undelegations (dlg s') = undelegations (dlg s)"
    "stakerUndelegations (dlg s') = stakerUndelegations (dlg s)"
    "pendingUndelegations (dlg s') = pendingUndelegations (dlg s)"
    "undelegationsOnHold (dlg s') = undelegationsOnHold (dlg s)"
    "lastUndelegationID (dlg s') = lastUndelegationID (dlg s)"
    "accAddressFromBech32 C (accAddressString C opAcc) \<noteq> None"
  using assms UpdateDelegationState_frame(2-5,7) drop_staker_frame(2-5,7) UpdateDelegationState_valid
  by (auto simp: RemoveShare_Inr RemoveShareFromOperator_Inr)

lemma SetUndelegationRecord_stores:
  assumes "SetUndelegationRecord C es g h ds = Inr ds'"
  shows "\<exists>key. GetUndelegationRecordKey C (ur_BlockNumber (uh_Undelegation h)) (ur_UndelegationId (uh_Undelegation h))
       (ur_TxHash (uh_Undelegation h)) (ur_OperatorAddr (uh_Undelegation h)) = Inr key \<and>
     kv_get (undelegations ds') key = Some (uh_Undelegation h)"
  using assms by (auto simp: SetUndelegationRecord_def Let_def rbind_eq_Inr_iff)

lemma unat_Suc_no_max: "w \<noteq> MaxUint64 \<Longrightarrow> unat (w + 1) = unat w + 1"
  unfolding MaxUint64_def by (metis add.commute add.right_neutral eq_neg_iff_add_eq_0 unatSuc Suc_eq_plus1)


section \<open>An example\<close>

definition ex_op :: bytes where
  "ex_op = replicate 20 CHR ''o''"

definition ex_staker :: string where
  "ex_staker = ''0x6262_0x65''"

definition ex_keepers :: "unit keepers" where
  "ex_keepers = \<lparr>k_IsOperator = (\<lambda>_ _. True), k_IsOperatorFrozen = (\<lambda>_ _. False),
     k_GetUnbondingExpiration = (\<lambda>_ _. Inr (NullEpochIdentifier, NullEpochNumber, 0)),
     k_GetInstantUnbondingExpiration = (\<lambda>_ _. Inr (True, NullEpochIdentifier, NullEpochNumber)),
     k_GetBalance = (\<lambda>_ _. 0), k_DelegateCoinsFromAccountToModule = (\<lambda>_ _ w. Inr w),
     k_UndelegateCoinsFromModuleToAccount = (\<lambda>_ _ w. Inr w),
     k_CompleteRewardUndelegation = (\<lambda>_ _. Inr ()), k_hooks = None\<rparr>"

definition ex_chain :: "unit chain" where
  "ex_chain = \<lparr>assets = ex_assets\<lparr>stakerAssetInfos := [(staker_key ex_staker ex_asset,
        \<lparr>sa_TotalDepositAmount = 100, sa_WithdrawableAmount = 100, sa_PendingUndelegationAmount = 0\<rparr>)]\<rparr>,
     epochs = [],
     dlg = \<lparr>delegations = [], stakersByOperator = [], undelegations = [], stakerUndelegations = [],
        pendingUndelegations = [], undelegationsOnHold = [], associatedOperators = [],
        lastUndelegationID = None, delegationParams = None\<rparr>,
     world = ()\<rparr>"

definition ex_params :: "int \<Rightarrow> unit DelegationOrUndelegationParams" where
  "ex_params n = NewDelegationOrUndelegationParams 101 (Some ''aa'') ex_op (Some ''bb'') n [] False"

lemma ex_params_ids: "params_ids ref_codec (ex_params n) = (ex_staker, ex_asset)"
  using ex_ids [of DepositLST n]
  by (simp add: params_ids_def ex_params_def NewDelegationOrUndelegationParams_def dw_ids_def ex_dw_def ex_staker_def)

lemma ex_op_bech32: "accAddressFromBech32 ref_codec (accAddressString ref_codec ex_op) = Some ex_op"
  by (rule rc.acc_roundtrip) (simp add: ex_op_def AccAddressLength_def)

lemma ex_not_empty: "accAddressString ref_codec ex_op \<noteq> []"
  by (simp add: ref_codec_def)

lemma ex_delegate_ok: "is_ok (delegateTo ref_codec legacy_dec ex_keepers (ex_params 60) True ex_chain)"
  unfolding delegateTo_eq [OF ex_params_ids]
  by (simp add: take_from_staker_def ex_params_def NewDelegationOrUndelegationParams_def ex_keepers_def
    ex_asset_not_native GetStakerSpecifiedAssetInfo_def ex_chain_def ex_assets_def IsStakingAsset_def kv_has_def
    kv_get_def UpdateStakerAssetState_def no_staker_delta_def result_simps CalculateShare_def
    IsOperatorAssetExist_def UpdateOperatorAssetState_def zero_operator_asset_def delegate_operator_delta_def
    delegate_delta_def UpdateDelegationState_def ex_op_bech32 zero_delegation_def no_delegation_delta_def
    GetAssociatedOperator_def ex_not_empty Let_def legacy_dec_def dec_precision_def TokensFromShares_def
    Hooks_def MultiDelegationHooks_def run_hooks_def)


lemma ex_chain_balanced: "balanced ex_chain"
  by (simp add: shares_balanced_def ex_chain_def ex_assets_def pool_share_def share_sum_def kv_total_def operator_comp_def)

theorem shares_stay_balanced_witness:
  "\<exists>share pre s'. delegateTo ref_codec legacy_dec ex_keepers (ex_params 60) True ex_chain = Inr (share, pre, s') \<and>
     pool_share (assets s') (accAddressString ref_codec ex_op) ex_asset =
     share_sum (dlg s') (accAddressString ref_codec ex_op) ex_asset"
proof -
  obtain share pre s' where d: "delegateTo ref_codec legacy_dec ex_keepers (ex_params 60) True ex_chain = Inr (share, pre, s')"
    using ex_delegate_ok by (auto simp: is_ok_iff)
  have "good_params (ex_params 60)" by (simp add: good_params_def ex_params_def NewDelegationOrUndelegationParams_def
        ex_op_def AccAddressLength_def)
  then have "chain_run ref_codec legacy_dec ex_keepers ex_chain s'"
    using d by (intro r_into_rtranclp chain_step.delegate)
  moreover have "key_part ex_asset"
    by (simp add: ex_asset_def no_char_def DelimiterForCombinedKey_def)
  ultimately show ?thesis
    using shares_stay_balanced [OF chain_codec_ref ex_chain_balanced] rc.acc_part d by blast
qed


text \<open>The chain when 60 of the 100 tokens have been delegated.\<close>

definition ex_delegated :: "unit chain" where
  "ex_delegated = ex_chain
     \<lparr>assets := ex_assets\<lparr>
        stakerAssetInfos := [(staker_key ex_staker ex_asset,
          \<lparr>sa_TotalDepositAmount = 100, sa_WithdrawableAmount = 40, sa_PendingUndelegationAmount = 0\<rparr>)],
        operatorAssetInfos := [(operator_key ref_codec ex_op ex_asset,
          \<lparr>oa_TotalAmount = 60, oa_PendingUndelegationAmount = 0,
           oa_TotalShare = 60 * dec_precision, oa_OperatorShare = 0\<rparr>)]\<rparr>,
      dlg := (dlg ex_chain)\<lparr>
        delegations := [(delegation_key ex_staker ex_asset (accAddressString ref_codec ex_op),
          \<lparr>da_UndelegatableShare = 60 * dec_precision, da_PendingUndelegationAmount = 0,
           da_RewardUndelegatableShare = 0, da_RewardPendingUndelegationAmount = 0\<rparr>)],
        stakersByOperator := [(GetJoinedStoreKey [accAddressString ref_codec ex_op, ex_asset, ex_staker],
          sentinelValue)]\<rparr>\<rparr>"

lemmas ex_chain_eval = ex_params_def NewDelegationOrUndelegationParams_def ex_keepers_def
    ex_asset_not_native ex_delegated_def ex_chain_def ex_assets_def IsStakingAsset_def kv_has_def
    kv_get_def UpdateStakerAssetState_def no_staker_delta_def result_simps
    UpdateOperatorAssetState_def no_operator_delta_def UpdateDelegationState_def ex_op_bech32 no_delegation_delta_def
    GetAssociatedOperator_def ex_not_empty Let_def legacy_dec_def dec_precision_def TokensFromShares_def
    Hooks_def MultiDelegationHooks_def run_hooks_def

lemma ex_undelegate_ok: "is_ok (UndelegateFrom ref_codec legacy_dec ex_keepers \<lparr>BlockTime = 0, BlockHeight = 7\<rparr> (ex_params 60) ex_delegated)"
  unfolding UndelegateFrom_def ex_params_ids
  by (simp add: ex_chain_eval ValidateUndelegationAmount_def GetSingleDelegationInfo_def GetOperatorSpecifiedAssetInfo_def
     SharesFromTokens_def tdiv_def RemoveShare_def RemoveShareFromOperator_def DeleteStakerForOperator_def unbonding_terms_def
     GetLastUndelegationID_def SetUndelegationRecords_def SetUndelegationRecord_def GetUndelegationRecordKey_def
     MustAccAddressFromBech32_def IncrementLastUndelegationID_def MaxUint64_def)


end
