(* ===== verification/Records.thy ===== *)
theory Records
  imports Balance EpochProps
begin

text \<open>
  Undelegation records. A record is found through its own key and through two indexes, by staker and by
  completion epoch; storing and deleting keep the three stores in step. What waits in the records adds up
  to the pending amounts of the pools, the delegations and the stakers. The iteration over the completable
  undelegations picks stored records, each once.
\<close>

section \<open>Keys of a record\<close>

definition record_key :: "codec \<Rightarrow> UndelegationRecord \<Rightarrow> bytes result" where
  "record_key C r =
     GetUndelegationRecordKey C (ur_BlockNumber r) (ur_UndelegationId r) (ur_TxHash r) (ur_OperatorAddr r)"

definition staker_index :: "UndelegationRecord \<Rightarrow> bytes" where
  "staker_index r = GetStakerUndelegationRecordKey (ur_StakerId r) (ur_AssetId r) (ur_UndelegationId r)"

definition pending_index :: "codec \<Rightarrow> UndelegationRecord \<Rightarrow> bytes" where
  "pending_index C r =
     GetPendingUndelegationRecordKey C (ur_CompletedEpochIdentifier r) (ur_CompletedEpochNumber r) (ur_UndelegationId r)"

text \<open>Decimal numbers contain no delimiter and are read back.\<close>

definition digits_value :: "string \<Rightarrow> nat" where
  "digits_value s = foldl (\<lambda>n c. 10 * n + (of_char c - 48)) 0 s"

lemma of_char_digit: "d < 10 \<Longrightarrow> (of_char (char_of (48 + d) :: char) :: nat) = 48 + d"
  by simp

lemma digits_value_decimal: "digits_value (decimal n) = n"
proof (induction n rule: decimal.induct)
  case (1 n)
  show ?case
  proof (cases "n < 10")
    case True
    then show ?thesis by (subst decimal.simps) (simp add: digits_value_def)
  next
    case False
    then have "digits_value (decimal n) = 10 * digits_value (decimal (n div 10)) + n mod 10"
      by (subst decimal.simps) (simp add: digits_value_def)
    then show ?thesis using 1 False by simp
  qed
qed

lemma digits_value_zeros: "digits_value (replicate k (CHR ''0'') @ s) = digits_value s"
proof -
  have "foldl (\<lambda>n c. 10 * n + (of_char c - 48)) 0 (replicate k (CHR ''0'')) = (0 :: nat)"
    by (induction k) simp_all
  then show ?thesis by (simp add: digits_value_def)
qed

lemma decimal21_inj: "decimal21 v = decimal21 w \<longleftrightarrow> v = w"
proof
  assume "decimal21 v = decimal21 w"
  then have "digits_value (decimal21 v) = digits_value (decimal21 w)" by simp
  then show "v = w"
    by (auto simp: decimal21_def Let_def digits_value_zeros digits_value_decimal intro: unsigned_word_eqI)
qed simp

lemma decimal_part: "key_part (decimal n)"
proof (induction n rule: decimal.induct)
  case (1 n)
  have d: "char_of (48 + d) \<noteq> CHR ''/''" if "d < 10" for d :: nat
  proof
    assume "char_of (48 + d) = CHR ''/''"
    then have "(of_char (char_of (48 + d) :: char) :: nat) = of_char (CHR ''/'')" by simp
    with that show False by simp
  qed
  show ?case
    using 1 d [of n] d [of "n mod 10"]
    by (subst decimal.simps) (auto simp: no_char_def DelimiterForCombinedKey_def)
qed

lemma decimal21_part: "key_part (decimal21 w)"
  using decimal_part [of "unat w"]
  by (auto simp: decimal21_def Let_def no_char_def DelimiterForCombinedKey_def)

lemma staker_index_inj:
  assumes "key_part (ur_StakerId r)" "key_part (ur_AssetId r)" "key_part (ur_StakerId r')" "key_part (ur_AssetId r')"
  shows "staker_index r = staker_index r' \<longleftrightarrow>
    ur_StakerId r = ur_StakerId r' \<and> ur_AssetId r = ur_AssetId r' \<and> ur_UndelegationId r = ur_UndelegationId r'"
  using GetJoinedStoreKey_inj [of "[ur_StakerId r, ur_AssetId r, decimal21 (ur_UndelegationId r)]"
      "[ur_StakerId r', ur_AssetId r', decimal21 (ur_UndelegationId r')]"] assms decimal21_part
  by (auto simp: staker_index_def GetStakerUndelegationRecordKey_def GetJoinedStoreKey_def
      DelimiterForCombinedKey_def decimal21_inj)

context chain_codec
begin

lemma record_key_id:
  assumes "record_key C r = Inr k" "record_key C r' = Inr k"
  shows "ur_UndelegationId r = ur_UndelegationId r'"
proof -
  obtain a a' where "k = a @ Uint64ToBigEndian C (ur_BlockNumber r) @ Uint64ToBigEndian C (ur_UndelegationId r) @ hexToHash C (ur_TxHash r)"
     "k = a' @ Uint64ToBigEndian C (ur_BlockNumber r') @ Uint64ToBigEndian C (ur_UndelegationId r') @ hexToHash C (ur_TxHash r')"
    using assms by (auto simp: record_key_def GetUndelegationRecordKey_def rbind_eq_Inr_iff AppendMany_def)
  then have "Uint64ToBigEndian C (ur_UndelegationId r) = Uint64ToBigEndian C (ur_UndelegationId r')"
    by (simp add: append_eq_append_conv hash_length be64_length flip: append_assoc)
  then show ?thesis by (simp add: be64_inj)
qed

lemma pending_index_id:
  "pending_index C r = pending_index C r' \<Longrightarrow> ur_UndelegationId r = ur_UndelegationId r'"
  by (simp add: pending_index_def GetPendingUndelegationRecordKey_def AppendMany_def be64_length be64_inj flip: append_assoc)

end

section \<open>The records and their indexes\<close>

text \<open>
  Every record is stored under its own key, and the two indexes hold exactly the keys of the stored
  records. The ids of the stored records differ and have been handed out.
\<close>

definition indexes :: "('v \<Rightarrow> 'i) \<Rightarrow> ('k \<rightharpoonup> 'v) \<Rightarrow> ('i \<rightharpoonup> 'k) \<Rightarrow> bool" where
  "indexes f m ix \<longleftrightarrow> (\<forall>i k. ix i = Some k \<longleftrightarrow> (\<exists>v. m k = Some v \<and> f v = i))"

lemma indexesD: "indexes f m ix \<Longrightarrow> ix i = Some k \<longleftrightarrow> (\<exists>v. m k = Some v \<and> f v = i)"
  by (simp add: indexes_def)

lemma indexes_inj: "indexes f m ix \<Longrightarrow> m k = Some v \<Longrightarrow> m k' = Some v' \<Longrightarrow> f v = f v' \<Longrightarrow> k = k'"
  by (metis indexesD option.inject)

lemma indexes_put:
  assumes "indexes f m ix" "m k = None" "\<And>k' v'. m k' = Some v' \<Longrightarrow> f v' \<noteq> f v"
  shows "indexes f (m(k \<mapsto> v)) (ix(f v \<mapsto> k))"
  using assms by (auto simp: indexes_def)

lemma indexes_del:
  assumes "indexes f m ix" "m k = Some v"
  shows "indexes f (m(k := None)) (ix(f v := None))"
  using assms indexes_inj [OF assms(1)] by (auto simp: indexes_def)

lemma indexes_change:
  assumes "indexes f m ix" "m k = Some v" "f v' = f v"
  shows "indexes f (m(k \<mapsto> v')) ix"
  using assms by (auto simp: indexes_def)

lemma kv_get_map [simp]:
  "kv_get (kv_set k v s) = (kv_get s)(k \<mapsto> v)" "kv_get (kv_delete k s) = (kv_get s)(k := None)"
  by (auto simp: fun_eq_iff)

definition good_record :: "codec \<Rightarrow> UndelegationRecord \<Rightarrow> bool" where
  "good_record C r \<longleftrightarrow>
     key_part (ur_StakerId r) \<and> key_part (ur_AssetId r) \<and> 0 \<le> ur_Amount r \<and>
     (\<exists>opAcc. length opAcc = AccAddressLength \<and> ur_OperatorAddr r = accAddressString C opAcc)"

definition records_ok :: "codec \<Rightarrow> delegation_state \<Rightarrow> bool" where
  "records_ok C ds \<longleftrightarrow>
     kv_wf (undelegations ds) \<and> kv_wf (stakerUndelegations ds) \<and> kv_wf (pendingUndelegations ds) \<and>
     (\<forall>k r. kv_get (undelegations ds) k = Some r \<longrightarrow>
        good_record C r \<and> record_key C r = Inr k \<and> ur_UndelegationId r < GetLastUndelegationID ds) \<and>
     (\<forall>k r k' r'. kv_get (undelegations ds) k = Some r \<longrightarrow> kv_get (undelegations ds) k' = Some r' \<longrightarrow>
        ur_UndelegationId r = ur_UndelegationId r' \<longrightarrow> k = k') \<and>
     indexes staker_index (kv_get (undelegations ds)) (kv_get (stakerUndelegations ds)) \<and>
     indexes (pending_index C) (kv_get (undelegations ds)) (kv_get (pendingUndelegations ds))"

lemma records_okD:
  assumes "records_ok C ds"
  shows "kv_wf (undelegations ds)" "kv_wf (stakerUndelegations ds)" "kv_wf (pendingUndelegations ds)"
    "kv_get (undelegations ds) k = Some r \<Longrightarrow> good_record C r"
    "kv_get (undelegations ds) k = Some r \<Longrightarrow> record_key C r = Inr k"
    "kv_get (undelegations ds) k = Some r \<Longrightarrow> ur_UndelegationId r < GetLastUndelegationID ds"
    "kv_get (undelegations ds) k = Some r \<Longrightarrow> kv_get (undelegations ds) k' = Some r' \<Longrightarrow>
       ur_UndelegationId r = ur_UndelegationId r' \<Longrightarrow> k = k'"
    "indexes staker_index (kv_get (undelegations ds)) (kv_get (stakerUndelegations ds))"
    "indexes (pending_index C) (kv_get (undelegations ds)) (kv_get (pendingUndelegations ds))"
  using assms unfolding records_ok_def by blast+

lemma GetLastUndelegationID_set [simp]: "GetLastUndelegationID (ds\<lparr>lastUndelegationID := Some n\<rparr>) = n"
  by (simp add: GetLastUndelegationID_def)

lemma records_ok_cong:
  assumes "records_ok C ds" "undelegations ds' = undelegations ds"
    "stakerUndelegations ds' = stakerUndelegations ds" "pendingUndelegations ds' = pendingUndelegations ds"
    "GetLastUndelegationID ds' = GetLastUndelegationID ds"
  shows "records_ok C ds'"
  using assms by (simp add: records_ok_def)

lemma SetUndelegationRecord_Inr:
  assumes "SetUndelegationRecord C es False h ds = Inr ds'"
  obtains k where "record_key C (uh_Undelegation h) = Inr k"
    "ds' = ds\<lparr>undelegations := kv_set k (uh_Undelegation h) (undelegations ds),
             stakerUndelegations := kv_set (staker_index (uh_Undelegation h)) k (stakerUndelegations ds),
             pendingUndelegations := kv_set (pending_index C (uh_Undelegation h)) k (pendingUndelegations ds)\<rparr>"
  using assms
  by (auto simp: SetUndelegationRecord_def Let_def rbind_eq_Inr_iff record_key_def staker_index_def pending_index_def)

lemma DeleteUndelegationRecord_Inr:
  assumes "DeleteUndelegationRecord C r ds = Inr ds'"
  obtains k where "record_key C r = Inr k"
    "ds' = ds\<lparr>undelegations := kv_delete k (undelegations ds),
             stakerUndelegations := kv_delete (staker_index r) (stakerUndelegations ds),
             pendingUndelegations := kv_delete (pending_index C r) (pendingUndelegations ds),
             undelegationsOnHold := kv_delete (GetUndelegationOnHoldKey k) (undelegationsOnHold ds)\<rparr>"
  using assms
  by (auto simp: DeleteUndelegationRecord_def Let_def rbind_eq_Inr_iff record_key_def staker_index_def pending_index_def)

text \<open>Filing a record under the next id and taking the id keeps the stores in step.\<close>

lemma file_record_ok:
  assumes "chain_codec C" "records_ok C ds" "good_record C r" "ur_UndelegationId r = GetLastUndelegationID ds"
    and "SetUndelegationRecord C es False \<lparr>uh_Undelegation = r, uh_HoldCount = n\<rparr> ds = Inr ds1"
    and "IncrementLastUndelegationID ds1 = Inr ds2"
  shows "records_ok C ds2" "kv_get (undelegations ds) k = Some r' \<Longrightarrow> record_key C r \<noteq> Inr k"
proof -
  obtain k0 where k0: "record_key C r = Inr k0"
    and ds1: "ds1 = ds\<lparr>undelegations := kv_set k0 r (undelegations ds),
             stakerUndelegations := kv_set (staker_index r) k0 (stakerUndelegations ds),
             pendingUndelegations := kv_set (pending_index C r) k0 (pendingUndelegations ds)\<rparr>"
    using SetUndelegationRecord_Inr [OF assms(5)] by auto
  have fresh: "ur_UndelegationId r' \<noteq> ur_UndelegationId r" if "kv_get (undelegations ds) k = Some r'" for k r'
    using records_okD(6) [OF assms(2) that] assms(4) by simp
  then show "kv_get (undelegations ds) k = Some r' \<Longrightarrow> record_key C r \<noteq> Inr k"
    using records_okD(5) [OF assms(2)] chain_codec.record_key_id [OF assms(1)] by blast
  then have new: "kv_get (undelegations ds) k0 = None"
    using k0 fresh records_okD(5) [OF assms(2)] chain_codec.record_key_id [OF assms(1)]
    by (metis option.exhaust)
  have ix: "staker_index r' \<noteq> staker_index r" "pending_index C r' \<noteq> pending_index C r"
    if "kv_get (undelegations ds) k = Some r'" for k r'
    using fresh [OF that] records_okD(4) [OF assms(2) that] assms(3) staker_index_inj
      chain_codec.pending_index_id [OF assms(1)] unfolding good_record_def by blast+
  have last: "GetLastUndelegationID ds \<noteq> MaxUint64"
    "ds2 = ds1\<lparr>lastUndelegationID := Some (GetLastUndelegationID ds + 1)\<rparr>"
    using assms(6) by (auto simp: IncrementLastUndelegationID_Inr ds1 GetLastUndelegationID_def)
  have less: "w < GetLastUndelegationID ds \<or> w = GetLastUndelegationID ds \<Longrightarrow> w < GetLastUndelegationID ds2" for w
    using unat_Suc_no_max [OF last(1)] by (auto simp: last(2) word_less_nat_alt)
  note R = records_okD [OF assms(2)]
  show "records_ok C ds2"
    unfolding records_ok_def
  proof (intro conjI allI impI)
    fix k r' assume "kv_get (undelegations ds2) k = Some r'"
    then have "k = k0 \<and> r' = r \<or> kv_get (undelegations ds) k = Some r'"
      by (auto simp: last(2) ds1 split: if_splits)
    then show "good_record C r'" "record_key C r' = Inr k" "ur_UndelegationId r' < GetLastUndelegationID ds2"
      using R(4-6) assms(3,4) k0 less by blast+
  next
    fix k r1 k' r2
    assume "kv_get (undelegations ds2) k = Some r1" "kv_get (undelegations ds2) k' = Some r2"
      "ur_UndelegationId r1 = ur_UndelegationId r2"
    then show "k = k'"
      using R(7) by (auto simp: last(2) ds1 split: if_splits dest: fresh)
  qed (use R(1-3) indexes_put [OF R(8) new] indexes_put [OF R(9) new] ix in
        \<open>auto simp: last(2) ds1\<close>)
qed

lemma delete_record_ok:
  assumes "records_ok C ds" "kv_get (undelegations ds) k = Some r" "DeleteUndelegationRecord C r ds = Inr ds'"
  shows "records_ok C ds'" "undelegations ds' = kv_delete k (undelegations ds)"
proof -
  note R = records_okD [OF assms(1)]
  obtain k' where "record_key C r = Inr k'"
    and ds': "ds' = ds\<lparr>undelegations := kv_delete k' (undelegations ds),
             stakerUndelegations := kv_delete (staker_index r) (stakerUndelegations ds),
             pendingUndelegations := kv_delete (pending_index C r) (pendingUndelegations ds),
             undelegationsOnHold := kv_delete (GetUndelegationOnHoldKey k') (undelegationsOnHold ds)\<rparr>"
    using DeleteUndelegationRecord_Inr [OF assms(3)] by blast
  then have k': "k' = k" using R(5) [OF assms(2)] by simp
  then show "undelegations ds' = kv_delete k (undelegations ds)" by (simp add: ds')
  have "GetLastUndelegationID ds' = GetLastUndelegationID ds" by (simp add: ds' GetLastUndelegationID_def)
  then show "records_ok C ds'"
    unfolding records_ok_def
    using R(1-7) indexes_del [OF R(8) assms(2)] indexes_del [OF R(9) assms(2)]
    by (auto simp: ds' k' split: if_splits)
qed

lemma change_record_ok:
  assumes "records_ok C ds" "kv_get (undelegations ds) k = Some r" "same_undelegation r r'"
    and "pending_index C r' = pending_index C r"
  shows "records_ok C (ds\<lparr>undelegations := kv_set k r' (undelegations ds)\<rparr>)"
proof -
  note R = records_okD [OF assms(1)]
  have r': "good_record C r'" "record_key C r' = Inr k" "ur_UndelegationId r' = ur_UndelegationId r"
     "staker_index r' = staker_index r"
    using R(4,5) [OF assms(2)] assms(3)
    by (auto simp: same_undelegation_def good_record_def record_key_def staker_index_def)
  have "GetLastUndelegationID (ds\<lparr>undelegations := kv_set k r' (undelegations ds)\<rparr>) = GetLastUndelegationID ds"
    by (simp add: GetLastUndelegationID_def)
  then show ?thesis
    unfolding records_ok_def
    using R(1-7) r'(1-3) indexes_change [OF R(8) assms(2) r'(4)] indexes_change [OF R(9) assms(2,4)] assms(2)
    by (auto split: if_splits)
qed

section \<open>Pending amounts\<close>

text \<open>
  Where an amount that waits to be completed is accounted: in the operator's pool, in the delegation
  (staked and reward amounts apart), and with the staker.
\<close>

datatype account = Pool string string | Staked string string string | Reward string string string
  | Staker string string

fun pending_of :: "assets_state \<Rightarrow> delegation_state \<Rightarrow> account \<Rightarrow> int" where
  "pending_of as ds (Pool opAddr a) = operator_comp as (GetJoinedStoreKey [opAddr, a]) O_Pending"
| "pending_of as ds (Staked st a opAddr) = delegation_comp ds (delegation_key st a opAddr) G_Pending"
| "pending_of as ds (Reward st a opAddr) = delegation_comp ds (delegation_key st a opAddr) G_RewardPending"
| "pending_of as ds (Staker st a) = staker_comp as (staker_key st a) F_PendingUndelegation"

fun concerns :: "account \<Rightarrow> UndelegationRecord \<Rightarrow> bool" where
  "concerns (Pool opAddr a) r \<longleftrightarrow> ur_OperatorAddr r = opAddr \<and> ur_AssetId r = a"
| "concerns (Staked st a opAddr) r \<longleftrightarrow> \<not> ur_RewardAsset r \<and> ur_StakerId r = st \<and> ur_AssetId r = a \<and> ur_OperatorAddr r = opAddr"
| "concerns (Reward st a opAddr) r \<longleftrightarrow> ur_RewardAsset r \<and> ur_StakerId r = st \<and> ur_AssetId r = a \<and> ur_OperatorAddr r = opAddr"
| "concerns (Staker st a) r \<longleftrightarrow> \<not> ur_RewardAsset r \<and> ur_StakerId r = st \<and> ur_AssetId r = a"

text \<open>The staker's pending amount of the native token is not stored.\<close>

fun account_ok :: "account \<Rightarrow> bool" where
  "account_ok (Pool opAddr a) \<longleftrightarrow> key_part opAddr \<and> key_part a"
| "account_ok (Staked st a opAddr) \<longleftrightarrow> key_part st \<and> key_part a \<and> key_part opAddr"
| "account_ok (Reward st a opAddr) \<longleftrightarrow> key_part st \<and> key_part a \<and> key_part opAddr"
| "account_ok (Staker st a) \<longleftrightarrow> key_part st \<and> key_part a \<and> a \<noteq> ImuachainAssetID"

definition waiting :: "account \<Rightarrow> bytes \<Rightarrow> UndelegationRecord \<Rightarrow> int" where
  "waiting w k r = (if concerns w r then ur_Amount r else 0)"

definition waiting_for :: "delegation_state \<Rightarrow> account \<Rightarrow> int" where
  "waiting_for ds w = kv_total (waiting w) (undelegations ds)"

definition pending_balanced :: "assets_state \<Rightarrow> delegation_state \<Rightarrow> bool" where
  "pending_balanced as ds \<longleftrightarrow> (\<forall>w. account_ok w \<longrightarrow> pending_of as ds w = waiting_for ds w)"

lemma concerns_same: "same_undelegation r r' \<Longrightarrow> concerns w r' = concerns w r"
  by (cases w) (auto simp: same_undelegation_def)

lemma waiting_same: "same_undelegation r r' \<Longrightarrow> waiting w k r' = waiting w k r"
  by (simp add: waiting_def concerns_same) (simp add: same_undelegation_def)

lemma waiting_for_put:
  assumes "kv_wf (undelegations ds)"
  shows "kv_total (waiting w) (kv_set k r (undelegations ds)) =
    waiting_for ds w - (case kv_get (undelegations ds) k of None \<Rightarrow> 0 | Some r' \<Rightarrow> waiting w k r') + waiting w k r"
  by (simp add: waiting_for_def kv.total_put [OF assms])

lemma waiting_for_del:
  assumes "kv_wf (undelegations ds)" "kv_get (undelegations ds) k = Some r"
  shows "kv_total (waiting w) (kv_delete k (undelegations ds)) = waiting_for ds w - waiting w k r"
  by (simp add: waiting_for_def kv.total_del [OF assms(1)] assms(2))

text \<open>Removing a share for an undelegation adds the tokens to every account of the record, and
  without one it adds nothing.\<close>

lemma RemoveShare_pending:
  assumes "chain_codec C" "RemoveShare C D u rew opAcc st a share s = Inr (tok, s')"
    and "key_part st" "key_part a" "account_ok w" "\<not> u \<longrightarrow> \<not> rew"
    and "ur_StakerId r = st" "ur_AssetId r = a" "ur_OperatorAddr r = accAddressString C opAcc"
      "ur_RewardAsset r = rew"
  shows "pending_of (assets s') (dlg s') w = pending_of (assets s) (dlg s) w + (if u \<and> concerns w r then tok else 0)"
  using assms(3-) chain_codec.acc_part [OF assms(1), of opAcc] RemoveShare_comp(1-3) [OF assms(2)]
  by (cases w)
     (auto simp: joined_eq remove_operator_delta_def remove_delta_def no_delegation_delta_def)

section \<open>Completable undelegations\<close>

lemma iterate_collect:
  "iterate_from i (\<lambda>_ e es. (False, es @ [e])) xs acc = acc @ map snd xs"
  by (induction xs arbitrary: i acc) auto

lemma AllEpochInfos_eq: "AllEpochInfos es = map snd es"
  by (simp add: AllEpochInfos_def IterateEpochInfos_def iterate_collect)

definition epochs_ok :: "epochs_state \<Rightarrow> bool" where
  "epochs_ok es \<longleftrightarrow> keys_ok es \<and>
     (\<forall>k e. kv_get es k = Some e \<longrightarrow> k \<noteq> [] \<and> k \<noteq> NullEpochIdentifier \<and> length k < 2 ^ 63)"

lemma epochs_ok_BeginBlocker: "epochs_ok es \<Longrightarrow> epochs_ok (fst (BeginBlocker ctx H (es, w)))"
  by (auto simp: epochs_ok_def epochs_advance_step keys_ok_BeginBlocker)

text \<open>The identifiers whose pending undelegations are looked at, and what the loops pick.\<close>

definition epoch_ids :: "epochs_state \<Rightarrow> string list" where
  "epoch_ids es = NullEpochIdentifier # map fst es"

lemma epoch_ids_ok:
  assumes "epochs_ok es"
  shows "distinct (epoch_ids es)" "\<forall>i\<in>set (epoch_ids es). i \<noteq> [] \<and> length i < 2 ^ 63"
  using assms kv_wf_distinct [of es] in_kv_entries [of es]
  by (fastforce simp: epoch_ids_def epochs_ok_def keys_ok_def NullEpochIdentifier_def)+

definition pending_entries :: "codec \<Rightarrow> delegation_state \<Rightarrow> string \<Rightarrow> (bytes \<times> bytes) list" where
  "pending_entries C ds i = kv_iterate (pending_prefix C i) (pendingUndelegations ds)"

text \<open>What was picked are entries of the list, in its order, with the records they point to.\<close>

definition picked :: "delegation_state \<Rightarrow> (bytes \<times> bytes) list \<Rightarrow> UndelegationRecord list \<Rightarrow> bool" where
  "picked ds es rs \<longleftrightarrow>
     (\<exists>fs. subseq fs es \<and> map (\<lambda>e. kv_get (undelegations ds) (snd e)) fs = map Some rs)"

lemma picked_Nil [simp]: "picked ds es []"
  by (auto simp: picked_def)

lemma picked_skip: "picked ds es rs \<Longrightarrow> picked ds (e # es) rs"
  by (auto simp: picked_def)

lemma picked_Cons: "picked ds es rs \<Longrightarrow> kv_get (undelegations ds) (snd e) = Some r \<Longrightarrow> picked ds (e # es) (r # rs)"
proof -
  assume "picked ds es rs" and r: "kv_get (undelegations ds) (snd e) = Some r"
  then obtain fs where "subseq fs es" "map (\<lambda>e. kv_get (undelegations ds) (snd e)) fs = map Some rs"
    by (auto simp: picked_def)
  with r show ?thesis unfolding picked_def by (intro exI [of _ "e # fs"]) simp
qed

lemma picked_append:
  assumes "picked ds es rs" "picked ds es' rs'"
  shows "picked ds (es @ es') (rs @ rs')"
proof -
  obtain fs fs' where "subseq fs es" "map (\<lambda>e. kv_get (undelegations ds) (snd e)) fs = map Some rs"
    "subseq fs' es'" "map (\<lambda>e. kv_get (undelegations ds) (snd e)) fs' = map Some rs'"
    using assms by (auto simp: picked_def)
  then show ?thesis
    unfolding picked_def by (intro exI [of _ "fs @ fs'"]) (simp add: list_emb_append_mono)
qed

lemma completable_op_Inr:
  "completable_op al lim k r acc = Inr (b, acc') \<Longrightarrow> b \<and> acc' = acc \<or> \<not> b \<and> acc' = acc @ [r]"
  by (auto simp: completable_op_def split: if_splits)

lemma pending_step_Inr:
  assumes "pending_step C ds True cur (completable_op al lim) e acc = Inr (b, acc')"
  shows "acc' = acc \<or> \<not> b \<and> (\<exists>r. kv_get (undelegations ds) (snd e) = Some r \<and> acc' = acc @ [r])"
  using assms unfolding pending_step_def
  by (cases e) (auto simp: Let_def rbind_eq_Inr_iff dest!: completable_op_Inr split: if_splits)

lemma pending_picked:
  assumes "riter (pending_step C ds True cur (completable_op al lim)) es acc = Inr rs"
  shows "\<exists>rs'. rs = acc @ rs' \<and> picked ds es rs'"
  using assms
proof (induction es arbitrary: acc)
  case Nil
  then show ?case by simp
next
  case (Cons e es)
  from Cons.prems obtain b acc' where s: "pending_step C ds True cur (completable_op al lim) e acc = Inr (b, acc')"
    and r: "(if b then Inr acc' else riter (pending_step C ds True cur (completable_op al lim)) es acc') = Inr rs"
    by (auto simp: rbind_eq_Inr_iff)
  show ?case
  proof (cases b)
    case True
    then show ?thesis using pending_step_Inr [OF s] r by auto
  next
    case False
    then obtain rs' where rs': "rs = acc' @ rs'" "picked ds es rs'" using r Cons.IH by auto
    from pending_step_Inr [OF s] show ?thesis
    proof (elim disjE conjE exE)
      assume "acc' = acc"
      with rs' picked_skip show ?thesis by blast
    next
      fix r assume "kv_get (undelegations ds) (snd e) = Some r" "acc' = acc @ [r]"
      with rs' picked_Cons [OF rs'(2)] show ?thesis by auto
    qed
  qed
qed

lemma IteratePending_picked:
  "IteratePendingUndelegations C ds True i cur (Some (completable_op al lim)) acc = Inr acc' \<Longrightarrow>
    \<exists>rs'. acc' = acc @ rs' \<and> picked ds (pending_entries C ds i) rs'"
  using pending_picked by (simp add: IteratePendingUndelegations_def pending_entries_def)

definition completable_step ::
    "codec \<Rightarrow> delegation_state \<Rightarrow> bool \<Rightarrow> uint32 \<Rightarrow> EpochInfo \<Rightarrow> UndelegationRecord list
      \<Rightarrow> (bool \<times> UndelegationRecord list) result" where
  "completable_step C ds al lim e records =
     (if al \<and> lim \<noteq> 0 \<and> lim \<le> of_nat (length records) then Inr (True, records)
      else rbind (IteratePendingUndelegations C ds True (ei_Identifier e)
                    (ei_CurrentEpoch e) (Some (completable_op al lim)) records)
             (\<lambda>records'. Inr (False, records')))"

lemma GetCompletable_eq:
  "GetCompletableUndelegations C es ds al =
     (let limit = (if al then dp_MaxUndelegationCompletions (GetDelegationParams ds) else 0) in
      rbind (IteratePendingUndelegations C ds True NullEpochIdentifier (NullEpochNumber + 1)
               (Some (completable_op al limit)) []) (\<lambda>records.
      riter (completable_step C ds al limit) (map snd es) records))"
  unfolding GetCompletableUndelegations_def completable_step_def AllEpochInfos_eq ..

lemma completable_step_picked:
  assumes "completable_step C ds al lim x acc = Inr (b, acc')"
  shows "\<exists>rs'. acc' = acc @ rs' \<and> picked ds (pending_entries C ds (ei_Identifier x)) rs'"
proof (cases "acc' = acc")
  case False
  then have "IteratePendingUndelegations C ds True (ei_Identifier x) (ei_CurrentEpoch x)
      (Some (completable_op al lim)) acc = Inr acc'"
    using assms by (auto simp: completable_step_def rbind_eq_Inr_iff split: if_splits)
  then show ?thesis by (rule IteratePending_picked)
qed simp

lemma completable_steps_picked:
  assumes "riter (completable_step C ds al lim) xs acc = Inr rs"
  shows "\<exists>rs'. rs = acc @ rs' \<and> picked ds (concat (map (\<lambda>x. pending_entries C ds (ei_Identifier x)) xs)) rs'"
  using assms
proof (induction xs arbitrary: acc)
  case (Cons x xs)
  from Cons.prems obtain b acc' where s: "completable_step C ds al lim x acc = Inr (b, acc')"
    and r: "(if b then Inr acc' else riter (completable_step C ds al lim) xs acc') = Inr rs"
    by (auto simp: rbind_eq_Inr_iff)
  obtain rs1 where rs1: "acc' = acc @ rs1" "picked ds (pending_entries C ds (ei_Identifier x)) rs1"
    using completable_step_picked [OF s] by blast
  obtain rs2 where "rs = acc' @ rs2" "picked ds (concat (map (\<lambda>x. pending_entries C ds (ei_Identifier x)) xs)) rs2"
  proof (cases b)
    case True
    with r that [of "[]"] show thesis by simp
  next
    case False
    with r Cons.IH [of acc'] that show thesis by auto
  qed
  then show ?case using picked_append [OF rs1(2)] rs1(1) by auto
qed simp

lemma GetCompletable_picked:
  assumes "GetCompletableUndelegations C es ds al = Inr rs" "keys_ok es"
  shows "picked ds (concat (map (pending_entries C ds) (epoch_ids es))) rs"
proof -
  obtain lim rs0 where rs0: "IteratePendingUndelegations C ds True NullEpochIdentifier (NullEpochNumber + 1)
      (Some (completable_op al lim)) [] = Inr rs0"
    and r: "riter (completable_step C ds al lim) (map snd es) rs0 = Inr rs"
    using assms(1) unfolding GetCompletable_eq Let_def rbind_eq_Inr_iff by blast
  obtain rs' where rs': "rs = rs0 @ rs'"
    "picked ds (concat (map (\<lambda>x. pending_entries C ds (ei_Identifier x)) (map snd es))) rs'"
    using completable_steps_picked [OF r] by blast
  have ids: "map (\<lambda>x. pending_entries C ds (ei_Identifier x)) (map snd es) = map (pending_entries C ds) (map fst es)"
    using assms(2) by (auto simp: keys_ok_def)
  have "picked ds (pending_entries C ds NullEpochIdentifier) rs0" using IteratePending_picked [OF rs0] by simp
  from picked_append [OF this rs'(2)] show ?thesis
    unfolding rs'(1) ids epoch_ids_def list.map concat.simps .
qed

context chain_codec
begin

lemma pending_prefix_inj:
  assumes "prefix (pending_prefix C i) k" "prefix (pending_prefix C j) k" "length i < 2 ^ 63" "length j < 2 ^ 63"
  shows "i = j"
proof -
  have "\<exists>u. k = Uint64ToBigEndian C (of_nat (length i)) @ i @ u"
    "\<exists>v. k = Uint64ToBigEndian C (of_nat (length j)) @ j @ v"
    using assms(1,2) by (simp_all add: pending_prefix_def AppendMany_def prefix_def)
  then obtain u v where k: "k = Uint64ToBigEndian C (of_nat (length i)) @ i @ u"
    "k = Uint64ToBigEndian C (of_nat (length j)) @ j @ v" by blast
  then have "Uint64ToBigEndian C (of_nat (length i)) = Uint64ToBigEndian C (of_nat (length j))" and r: "i @ u = j @ v"
    by (simp_all add: append_eq_append_conv be64_length)
  then have "(of_nat (length i) :: uint64) = of_nat (length j)" by (simp add: be64_inj)
  then have "unat (of_nat (length i) :: uint64) = unat (of_nat (length j) :: uint64)" by simp
  then have "length i = length j" using assms(3,4) by (simp add: unat_of_nat take_bit_nat_eq_self)
  with r show ?thesis by (simp add: append_eq_append_conv)
qed

end

lemma pending_entriesD:
  assumes "records_ok C ds" "e \<in> set (pending_entries C ds i)"
  shows "\<exists>r. kv_get (undelegations ds) (snd e) = Some r \<and> pending_index C r = fst e"
    "prefix (pending_prefix C i) (fst e)"
proof -
  note R = records_okD [OF assms(1)]
  have "kv_get (pendingUndelegations ds) (fst e) = Some (snd e) \<and> prefix (pending_prefix C i) (fst e)"
    using assms(2) in_kv_iterate [OF R(3), of "fst e" "snd e"] by (simp add: pending_entries_def)
  then show "\<exists>r. kv_get (undelegations ds) (snd e) = Some r \<and> pending_index C r = fst e"
    "prefix (pending_prefix C i) (fst e)"
    by (simp_all add: indexesD [OF R(9)])
qed

lemma entries_distinct:
  assumes "chain_codec C" "records_ok C ds" "epochs_ok es"
  shows "distinct (map snd (concat (map (pending_entries C ds) (epoch_ids es))))"
proof -
  let ?P = "concat (map (pending_entries C ds) (epoch_ids es))"
  note E = pending_entriesD [OF assms(2)]
  have "\<exists>r. kv_get (undelegations ds) (snd e) = Some r \<and> pending_index C r = fst e" if "e \<in> set ?P" for e
    using that E(1) by auto
  then have inj: "inj_on snd (set ?P)"
    by (intro inj_onI prod_eqI) (metis option.inject, assumption)
  have "distinct (pending_entries C ds i)" for i
    unfolding pending_entries_def
    using kv_wf_distinct [OF kv_iterate_sorted [OF records_okD(3) [OF assms(2)]]] by (simp add: distinct_map)
  moreover have "set (pending_entries C ds i) \<inter> set (pending_entries C ds j) = {}"
    if "i \<in> set (epoch_ids es)" "j \<in> set (epoch_ids es)" "i \<noteq> j" for i j
    using that E(2) chain_codec.pending_prefix_inj [OF assms(1)] epoch_ids_ok(2) [OF assms(3)] by blast
  ultimately have "distinct ?P"
    using epoch_ids_ok(1) [OF assms(3)] by (intro distinct_concat_map) auto
  with inj show ?thesis by (simp add: distinct_map)
qed

text \<open>What the end of a block completes are stored records, each once.\<close>

lemma completable_sound:
  assumes "chain_codec C" "records_ok C ds" "epochs_ok es" "GetCompletableUndelegations C es ds al = Inr rs"
  shows "distinct rs" "\<forall>r\<in>set rs. \<exists>k. kv_get (undelegations ds) k = Some r"
proof -
  have "keys_ok es" using assms(3) by (simp add: epochs_ok_def)
  from GetCompletable_picked [OF assms(4) this] obtain fs where
      fs: "subseq fs (concat (map (pending_entries C ds) (epoch_ids es)))"
    and rs: "map (\<lambda>e. kv_get (undelegations ds) (snd e)) fs = map Some rs"
    by (auto simp: picked_def)
  have "subseq (map snd fs) (map snd (concat (map (pending_entries C ds) (epoch_ids es))))"
    using fs by (rule subseq_map)
  then have d: "distinct (map snd fs)"
    using entries_distinct [OF assms(1-3)] by (metis distinct_nthsI subseq_conv_nths)
  have eq: "map (kv_get (undelegations ds)) (map snd fs) = map Some rs" using rs by (simp add: comp_def)
  have "inj_on (kv_get (undelegations ds)) (set (map snd fs))"
  proof (rule inj_onI)
    fix k k' assume k: "k \<in> set (map snd fs)" and k': "kv_get (undelegations ds) k = kv_get (undelegations ds) k'"
    have "kv_get (undelegations ds) k \<in> set (map Some rs)" unfolding eq [symmetric] using k by auto
    then obtain r where r: "kv_get (undelegations ds) k = Some r" by auto
    show "k = k'"
      using records_okD(5) [OF assms(2) r] records_okD(5) [OF assms(2), of k' r] r k' by simp
  qed
  then have "distinct (map (kv_get (undelegations ds)) (map snd fs))"
    using d by (blast intro: distinct_map [THEN iffD2])
  then show "distinct rs" unfolding eq by (simp add: distinct_map)
  have "Some r \<in> set (map (kv_get (undelegations ds)) (map snd fs))" if "r \<in> set rs" for r
    unfolding eq using that by simp
  then show "\<forall>r\<in>set rs. \<exists>k. kv_get (undelegations ds) k = Some r" by fastforce
qed

end
