(* ===== verification/Undelegations.thy ===== *)
theory Undelegations
  imports Records
begin

text \<open>
  Undelegations along the operations of the chain. Every operation keeps the records, their indexes and
  the pending amounts in step, so that the amounts always add up.
\<close>

section \<open>The invariant of the undelegations\<close>

definition pools_nonneg :: "assets_state \<Rightarrow> bool" where
  "pools_nonneg as \<longleftrightarrow> (\<forall>k f. 0 \<le> operator_comp as k f)"

definition undelegations_ok :: "codec \<Rightarrow> 'w chain \<Rightarrow> bool" where
  "undelegations_ok C s \<longleftrightarrow> records_ok C (dlg s) \<and> pending_balanced (assets s) (dlg s) \<and>
     pools_nonneg (assets s) \<and> epochs_ok (epochs s)"

lemma pools_nonneg_update:
  assumes "pools_nonneg as" "UpdateOperatorAssetState C opAcc a d as = Inr (prev, as')"
  shows "pools_nonneg as'"
proof -
  have "operator_upd C (opAcc, a) d as = Inr as'" using assms(2) by (simp add: operator_upd_def)
  from operators.upd_nonneg [OF _ this] assms(1) show ?thesis by (simp add: pools_nonneg_def)
qed

lemma pools_nonneg_cong: "operatorAssetInfos as' = operatorAssetInfos as \<Longrightarrow> pools_nonneg as' = pools_nonneg as"
  by (simp add: pools_nonneg_def operator_comp_cong [of as' as])

lemma GetOperatorSpecifiedAssetInfo_comp:
  "GetOperatorSpecifiedAssetInfo C as opAcc a = Inr info \<Longrightarrow>
     operator_amount info f = operator_comp as (operator_key C opAcc a) f"
  by (cases f) (auto simp: GetOperatorSpecifiedAssetInfo_def operator_comp_def split: option.splits)

lemma RemoveShare_token:
  assumes "dec_arith D" "pools_nonneg (assets s)" "RemoveShare C D u r opAcc st a share s = Inr (tok, s')"
  shows "0 \<le> tok" "tok \<le> operator_comp (assets s) (operator_key C opAcc a) O_TotalAmount"
proof -
  obtain info where 0: "0 < share" "share \<le> oa_TotalShare info"
    and i: "GetOperatorSpecifiedAssetInfo C (assets s) opAcc a = Inr info" and t: "removed_token D info share = Inr tok"
    by (rule RemoveShare_parts [OF assms(3)])
  have T: "oa_TotalAmount info = operator_comp (assets s) (operator_key C opAcc a) O_TotalAmount"
    using GetOperatorSpecifiedAssetInfo_comp [OF i, of O_TotalAmount] by simp
  then have "0 \<le> oa_TotalAmount info" using assms(2) by (simp add: pools_nonneg_def)
  then have "0 \<le> tok \<and> tok \<le> oa_TotalAmount info"
    using t 0 dec_arith.tokens_bounds [OF assms(1), of share "oa_TotalShare info" "oa_TotalAmount info" tok]
    by (cases "oa_TotalShare info = share") (simp_all add: removed_token_def)
  then show "0 \<le> tok" "tok \<le> operator_comp (assets s) (operator_key C opAcc a) O_TotalAmount"
    by (simp_all add: T)
qed

lemma RemoveShare_nonneg:
  assumes "pools_nonneg (assets s)" "RemoveShare C D u r opAcc st a share s = Inr (tok, s')"
  shows "pools_nonneg (assets s')"
proof -
  obtain d prev as1 as2 ds2 where o: "UpdateOperatorAssetState C opAcc a d (assets s) = Inr (prev, as1)"
    and p: "staker_pending_step u r st a tok as1 = Inr as2" and s': "s' = s\<lparr>assets := as2, dlg := ds2\<rparr>"
    by (rule RemoveShare_parts [OF assms(2)])
  then show ?thesis
    using pools_nonneg_update [OF assms(1) o] pools_nonneg_cong [OF staker_pending_step_frame [OF p]] by simp
qed

text \<open>Operations that neither touch a pending amount nor a record.\<close>

lemma pending_of_cong:
  assumes "\<And>k. operator_comp as' k O_Pending = operator_comp as k O_Pending"
    and "\<And>k. staker_comp as' k F_PendingUndelegation = staker_comp as k F_PendingUndelegation"
    and "\<And>k. delegation_comp ds' k G_Pending = delegation_comp ds k G_Pending"
    and "\<And>k. delegation_comp ds' k G_RewardPending = delegation_comp ds k G_RewardPending"
  shows "pending_of as' ds' w = pending_of as ds w"
  using assms by (cases w) simp_all

definition same_pending :: "'w chain \<Rightarrow> 'w chain \<Rightarrow> bool" where
  "same_pending s s' \<longleftrightarrow>
     (\<forall>w. pending_of (assets s') (dlg s') w = pending_of (assets s) (dlg s) w) \<and>
     undelegations (dlg s') = undelegations (dlg s) \<and>
     stakerUndelegations (dlg s') = stakerUndelegations (dlg s) \<and>
     pendingUndelegations (dlg s') = pendingUndelegations (dlg s) \<and>
     GetLastUndelegationID (dlg s') = GetLastUndelegationID (dlg s)"

lemma same_pending_ok:
  assumes "undelegations_ok C s" "same_pending s s'" "pools_nonneg (assets s')" "epochs_ok (epochs s')"
  shows "undelegations_ok C s'"
  using assms records_ok_cong [of C "dlg s" "dlg s'"]
  by (simp add: undelegations_ok_def same_pending_def pending_balanced_def waiting_for_def)

lemma delegateTo_undelegations:
  assumes "undelegations_ok C s" "delegateTo C D K params notGenesis s = Inr (share, pre, s')"
  shows "undelegations_ok C s'"
proof -
  obtain st a where ids: "params_ids C params = (st, a)" by (cases "params_ids C params")
  show ?thesis
  proof (rule delegateTo_Inr [OF assms(2) ids], goal_cases)
    case A: (1 s1 prev as2 z pd ds2 w)
    note T = take_from_staker_frame [OF A(3)] and d = UpdateDelegationState_frame [OF A(6)]
    have op1: "operator_comp (assets s1) = operator_comp (assets s)" by (rule operator_comp_cong [OF T(3)])
    have st2: "staker_comp as2 = staker_comp (assets s1)"
      by (intro ext) (simp add: staker_comp_def UpdateOperatorAssetState_frame(3) [OF A(5)])
    have dl1: "delegation_comp (dlg s1) = delegation_comp (dlg s)"
      by (intro ext) (simp add: delegation_comp_def T(1))
    have dl2: "delegation_comp (dlg s') = delegation_comp ds2"
      by (intro ext) (simp add: delegation_comp_def A(8) AppendStakerForOperator_def)
    have "pending_of (assets s') (dlg s') w = pending_of (assets s) (dlg s) w" for w
      using UpdateOperatorAssetState_comp [OF A(5)] UpdateDelegationState_comp [OF A(6)] T(9)
      by (intro pending_of_cong)
         (simp_all add: A(8) op1 st2 dl1 dl2 [unfolded A(8), simplified] delegate_operator_delta_def
           delegate_delta_def no_delegation_delta_def)
    then have sp: "same_pending s s'"
      using T(4-6,8) d(2-4,7)
      by (simp add: same_pending_def A(8) AppendStakerForOperator_def GetLastUndelegationID_def)
    have "pools_nonneg (assets s')"
      using pools_nonneg_update [OF _ A(5)] pools_nonneg_cong [OF T(3)] assms(1)
      by (simp add: A(8) undelegations_ok_def)
    then show ?case
      by (rule same_pending_ok [OF assms(1) sp]) (use assms(1) T(2) in \<open>simp add: A(8) undelegations_ok_def\<close>)
  qed
qed

text \<open>Undelegating: the new record waits for exactly the tokens that have become pending.\<close>

lemma good_new_record:
  assumes "same_undelegation (new_record C ctx params st a uid tok) r" "good_params params"
    and "key_part st" "key_part a" "0 \<le> tok"
  shows "good_record C r"
  using assms by (auto simp: good_record_def same_undelegation_def new_record_def good_params_def)

lemma UndelegateFrom_undelegations:
  assumes "chain_codec C" "dec_arith D" "undelegations_ok C s" "good_params params"
    and "UndelegateFrom C D K ctx params s = Inr s'"
  shows "undelegations_ok C s'"
proof -
  obtain st a where ids: "params_ids C params = (st, a)" by (cases "params_ids C params")
  note parts = params_ids_parts [OF assms(1,4) ids]
  have ok: "records_ok C (dlg s)" "pending_balanced (assets s) (dlg s)" "pools_nonneg (assets s)" "epochs_ok (epochs s)"
    using assms(3) by (simp_all add: undelegations_ok_def)
  show ?thesis
  proof (rule UndelegateFrom_effect [OF assms(5) ids], goal_cases)
    case A: (1 share token s1 r ds3 ds4 w)
    note F = RemoveShare_frame [OF A(3)]
    have last: "GetLastUndelegationID (dlg s1) = GetLastUndelegationID (dlg s)" by (simp add: GetLastUndelegationID_def F(7))
    have rec1: "records_ok C (dlg s1)" by (rule records_ok_cong [OF ok(1) F(3-5) last])
    have good: "good_record C r"
      by (rule good_new_record [OF A(4) assms(4) parts RemoveShare_token(1) [OF assms(2) ok(3) A(3)]])
    have r: "ur_UndelegationId r = GetLastUndelegationID (dlg s1)" "ur_Amount r = token" "ur_StakerId r = st" "ur_AssetId r = a"
      "ur_OperatorAddr r = accAddressString C (du_OperatorAddress params)" "ur_RewardAsset r = du_RewardAsset params"
      using A(4) by (simp_all add: same_undelegation_def new_record_def)
    have rec4: "records_ok C ds4" by (rule file_record_ok(1) [OF assms(1) rec1 good r(1) A(5,6)])
    obtain k where k: "record_key C r = Inr k" and ds3: "undelegations ds3 = kv_set k r (undelegations (dlg s1))"
      "delegations ds3 = delegations (dlg s1)"
      by (rule SetUndelegationRecord_Inr [OF A(5)]) simp
    have new: "kv_get (undelegations (dlg s1)) k = None"
      using file_record_ok(2) [OF assms(1) rec1 good r(1) A(5,6), of k] k by (cases "kv_get (undelegations (dlg s1)) k") auto
    have ds4: "undelegations ds4 = undelegations ds3" "delegations ds4 = delegations ds3"
      using A(6) by (auto simp: IncrementLastUndelegationID_Inr)
    have "pending_of (assets s') (dlg s') v = waiting_for (dlg s') v" if v: "account_ok v" for v
    proof -
      have "pending_of (assets s') (dlg s') v = pending_of (assets s1) (dlg s1) v"
        by (intro pending_of_cong) (simp_all add: A(7) delegation_comp_def ds4 ds3(2))
      also have "\<dots> = pending_of (assets s) (dlg s) v + waiting v k r"
        using RemoveShare_pending [OF assms(1) A(3) parts v _ r(3-6)] by (simp add: waiting_def r(2))
      also have "\<dots> = waiting_for (dlg s1) v + waiting v k r"
        using ok(2) v by (simp add: pending_balanced_def waiting_for_def F(3))
      also have "\<dots> = waiting_for (dlg s') v"
        using waiting_for_put [OF records_okD(1) [OF rec1], of v k r] new
        by (simp add: A(7) waiting_for_def [of ds4] ds4 ds3(1))
      finally show ?thesis .
    qed
    then show ?case
      using rec4 RemoveShare_nonneg [OF ok(3) A(3)] ok(4) F(1)
      by (simp add: undelegations_ok_def pending_balanced_def A(7))
  qed
qed

section \<open>Completing undelegations\<close>

text \<open>Completing a stored record takes its amount out of the accounts it concerns.\<close>

lemma pay_back_pending:
  assumes "pay_back C K r s = Inr s'"
  shows "staker_comp (assets s') k F_PendingUndelegation = staker_comp (assets s) k F_PendingUndelegation -
    (if \<not> ur_RewardAsset r \<and> ur_AssetId r \<noteq> ImuachainAssetID \<and> k = staker_key (ur_StakerId r) (ur_AssetId r)
     then ur_Amount r else 0)"
  using assms
  by (auto simp: pay_back_def rbind_eq_Inr_iff UpdateStakerAssetState_comp no_staker_delta_def split: if_splits)

lemma complete_record_pending:
  assumes "chain_codec C" "good_record C r" "complete_record C K r s = Inr s'" "account_ok v"
  shows "pending_of (assets s') (dlg s') v = pending_of (assets s) (dlg s) v - waiting v k r"
proof (rule complete_record_Inr [OF assms(3)], goal_cases)
  case A: (1 opAcc z prev ds1 s2 prev' as3 ds3)
  obtain o' where o': "length o' = AccAddressLength" "ur_OperatorAddr r = accAddressString C o'"
    and parts: "key_part (ur_StakerId r)" "key_part (ur_AssetId r)"
    using assms(2) by (auto simp: good_record_def)
  then have op: "accAddressString C opAcc = ur_OperatorAddr r"
    using A(1) chain_codec.acc_roundtrip [OF assms(1) o'(1)] by simp
  have opart: "key_part (ur_OperatorAddr r)" using chain_codec.acc_part [OF assms(1)] o'(2) by simp
  have st: "staker_comp as3 = staker_comp (assets s2)"
    by (intro ext) (simp add: staker_comp_def UpdateOperatorAssetState_frame(3) [OF A(4)])
  have oc: "operator_comp (assets s2) = operator_comp (assets s)"
    by (intro ext) (simp add: operator_comp_def pay_back_frame(3) [OF A(3)])
  have dl: "delegation_comp ds3 = delegation_comp ds1"
    by (intro ext) (simp add: delegation_comp_def DeleteUndelegationRecord_frame(1) [OF A(5)])
  show ?case
    using assms(4) parts opart pay_back_pending [OF A(3)] UpdateOperatorAssetState_comp [OF A(4)]
      UpdateDelegationState_comp [OF A(2)]
    by (cases v)
       (auto simp: A(7) st oc dl op waiting_def joined_eq complete_delta_def no_delegation_delta_def no_operator_delta_def)
qed

lemma complete_record_undelegations:
  assumes "chain_codec C" "undelegations_ok C s" "kv_get (undelegations (dlg s)) k = Some r"
    and "complete_record C K r s = Inr s'"
  shows "undelegations_ok C s'" "undelegations (dlg s') = kv_delete k (undelegations (dlg s))"
proof -
  have ok: "records_ok C (dlg s)" "pending_balanced (assets s) (dlg s)" "pools_nonneg (assets s)" "epochs_ok (epochs s)"
    using assms(2) by (simp_all add: undelegations_ok_def)
  have good: "good_record C r" by (rule records_okD(4) [OF ok(1) assms(3)])
  obtain opAcc z prev ds1 s2 prev' as3 ds3 where A:
    "UpdateDelegationState C (ur_StakerId r) (ur_AssetId r) (ur_OperatorAddr r)
       (Some (complete_delta (ur_RewardAsset r) (ur_Amount r))) (dlg s) = Inr (z, prev, ds1)"
    "pay_back C K r (s\<lparr>dlg := ds1\<rparr>) = Inr s2"
    "UpdateOperatorAssetState C opAcc (ur_AssetId r)
       (no_operator_delta\<lparr>doa_PendingUndelegationAmount := Some (- ur_Amount r)\<rparr>) (assets s2) = Inr (prev', as3)"
    "DeleteUndelegationRecord C r ds1 = Inr ds3" "dlg s2 = ds1" "s' = s2\<lparr>assets := as3, dlg := ds3\<rparr>"
    by (rule complete_record_Inr [OF assms(4)])
  note F = UpdateDelegationState_frame [OF A(1)]
  have rec1: "records_ok C ds1"
    by (rule records_ok_cong [OF ok(1) F(2-4)]) (simp add: GetLastUndelegationID_def F(7))
  have k1: "kv_get (undelegations ds1) k = Some r" using assms(3) by (simp add: F(2))
  note del = delete_record_ok [OF rec1 k1 A(4)]
  show und: "undelegations (dlg s') = kv_delete k (undelegations (dlg s))" by (simp add: A(6) del(2) F(2))
  have "pools_nonneg (assets s2)"
    using pools_nonneg_cong [OF pay_back_frame(3) [OF A(2)]] ok(3) by simp
  then have "pools_nonneg as3" by (rule pools_nonneg_update [OF _ A(3)])
  moreover have "pending_of (assets s') (dlg s') v = waiting_for (dlg s') v" if "account_ok v" for v
    using complete_record_pending [OF assms(1) good assms(4) that, of k] ok(2) that
      waiting_for_del [OF records_okD(1) [OF ok(1)] assms(3), of v]
    by (simp add: pending_balanced_def waiting_for_def [of "dlg s'"] und)
  ultimately show "undelegations_ok C s'"
    using del(1) ok(4) pay_back_frame(2) [OF A(2)] by (simp add: undelegations_ok_def pending_balanced_def A(6))
qed

text \<open>A block that ends completes stored records only, so it keeps the invariant.\<close>

definition stored :: "delegation_state \<Rightarrow> UndelegationRecord \<Rightarrow> bool" where
  "stored ds r \<longleftrightarrow> (\<exists>k. kv_get (undelegations ds) k = Some r)"

lemma complete_records_undelegations:
  assumes "chain_codec C" "undelegations_ok C s" "distinct rs" "\<forall>r\<in>set rs. stored (dlg s) r"
    and "rfold (\<lambda>r. cached (complete_record C K r)) rs s = Inr s'"
  shows "undelegations_ok C s'"
  using assms(2-)
proof (induction rs arbitrary: s)
  case (Cons r rs)
  obtain k where k: "kv_get (undelegations (dlg s)) k = Some r" using Cons.prems(3) by (auto simp: stored_def)
  obtain s1 where s1: "cached (complete_record C K r) s = Inr s1"
    and rest: "rfold (\<lambda>r. cached (complete_record C K r)) rs s1 = Inr s'"
    using Cons.prems(4) by (auto simp: rbind_eq_Inr_iff)
  consider "s1 = s" | "complete_record C K r s = Inr s1"
    using s1 by (auto simp: cached_def split: sum.splits error.splits)
  then show ?case
  proof cases
    case 1
    then show ?thesis using Cons.IH [OF Cons.prems(1) _ _ rest [unfolded 1]] Cons.prems(2,3) by simp
  next
    case 2
    note C = complete_record_undelegations [OF assms(1) Cons.prems(1) k 2]
    have key: "record_key C r = Inr k"
      using Cons.prems(1) k records_okD(5) by (auto simp: undelegations_ok_def)
    have "stored (dlg s1) r'" if r': "r' \<in> set rs" for r'
    proof -
      obtain k' where k': "kv_get (undelegations (dlg s)) k' = Some r'"
        using Cons.prems(3) r' by (auto simp: stored_def)
      have "k' \<noteq> k" using k k' r' Cons.prems(2) by auto
      then show ?thesis using k' by (auto simp: stored_def C(2))
    qed
    then show ?thesis using Cons.IH [OF C(1) _ _ rest] Cons.prems(2) by simp
  qed
qed simp

lemma EndBlock_undelegations:
  assumes "chain_codec C" "undelegations_ok C s" "EndBlock C K s = Inr s'"
  shows "undelegations_ok C s'"
proof (cases "GetCompletableUndelegations C (epochs s) (dlg s) True")
  case (Inl e)
  then show ?thesis using assms(2,3) by (auto simp: EndBlock_def split: error.splits)
next
  case (Inr rs)
  have "records_ok C (dlg s)" "epochs_ok (epochs s)" using assms(2) by (simp_all add: undelegations_ok_def)
  note S = completable_sound [OF assms(1) this Inr]
  show ?thesis
    by (rule complete_records_undelegations [OF assms(1,2) S(1)])
       (use S(2) Inr assms(3) in \<open>simp_all add: stored_def EndBlock_def\<close>)
qed

section \<open>The other operations\<close>

lemma own_share_undelegations:
  assumes "undelegations_ok C s" "own_share_only (assets s) as'" "s' = s\<lparr>assets := as', dlg := (dlg s)\<lparr>associatedOperators := ao\<rparr>\<rparr>"
  shows "undelegations_ok C s'"
proof -
  have "pending_of (assets s') (dlg s') w = pending_of (assets s) (dlg s) w" for w
    using assms(2) by (intro pending_of_cong) (simp_all add: assms(3) own_share_only_def staker_comp_def delegation_comp_def)
  then have "same_pending s s'" by (simp add: same_pending_def assms(3) GetLastUndelegationID_def)
  then show ?thesis
    by (rule same_pending_ok [OF assms(1)])
       (use assms(1,2) in \<open>simp_all add: assms(3) undelegations_ok_def own_share_only_def pools_nonneg_def\<close>)
qed

text \<open>Changing the deposits or what a staker can withdraw.\<close>

lemma UpdateStakerAssetState_undelegations:
  assumes "undelegations_ok C s" "UpdateStakerAssetState st a d (assets s) = Inr (info, as')"
    and "staker_delta d F_PendingUndelegation = 0"
  shows "undelegations_ok C (s\<lparr>assets := as'\<rparr>)"
proof -
  have o: "operator_comp as' = operator_comp (assets s)" by (rule operator_comp_cong [OF UpdateStakerAssetState_frame(3) [OF assms(2)]])
  have "same_pending s (s\<lparr>assets := as'\<rparr>)"
    unfolding same_pending_def using UpdateStakerAssetState_comp [OF assms(2)] assms(3)
    by (auto intro!: pending_of_cong simp: o)
  then show ?thesis
    by (rule same_pending_ok [OF assms(1)]) (use assms(1) in \<open>simp_all add: undelegations_ok_def pools_nonneg_def o\<close>)
qed

lemma staking_total_undelegations:
  assumes "undelegations_ok C s" "UpdateStakingAssetTotalAmount a (Some n) (assets s) = Inr as'"
  shows "undelegations_ok C (s\<lparr>assets := as'\<rparr>)"
proof -
  have o: "operator_comp as' = operator_comp (assets s)" "staker_comp as' = staker_comp (assets s)"
    using staking_total_update(2,3) [OF assms(2)] by (auto simp: operator_comp_def staker_comp_def fun_eq_iff)
  have "same_pending s (s\<lparr>assets := as'\<rparr>)"
    unfolding same_pending_def by (auto intro!: pending_of_cong simp: o)
  then show ?thesis
    by (rule same_pending_ok [OF assms(1)]) (use assms(1) in \<open>simp_all add: undelegations_ok_def pools_nonneg_def o\<close>)
qed

text \<open>A record that is only slashed still waits for the same amount.\<close>

lemma change_record_undelegations:
  assumes "undelegations_ok C s" "kv_get (undelegations (dlg s)) k = Some r" "same_undelegation r r'"
    and "pending_index C r' = pending_index C r"
  shows "undelegations_ok C (s\<lparr>dlg := (dlg s)\<lparr>undelegations := kv_set k r' (undelegations (dlg s))\<rparr>\<rparr>)"
proof -
  let ?ds = "(dlg s)\<lparr>undelegations := kv_set k r' (undelegations (dlg s))\<rparr>"
  have ok: "records_ok C (dlg s)" using assms(1) by (simp add: undelegations_ok_def)
  have "waiting_for ?ds w = waiting_for (dlg s) w" for w
    using waiting_for_put [OF records_okD(1) [OF ok], of w k r'] assms(2) waiting_same [OF assms(3)]
    by (simp add: waiting_for_def [of ?ds])
  moreover have "pending_of (assets s) ?ds w = pending_of (assets s) (dlg s) w" for w
    by (intro pending_of_cong) (simp_all add: delegation_comp_def)
  ultimately show ?thesis
    using assms(1) change_record_ok [OF ok assms(2-4)] by (simp add: undelegations_ok_def pending_balanced_def)
qed

lemma nst_undelegation_op_undelegations:
  assumes "undelegations_ok C (s\<lparr>assets := as, dlg := ds\<rparr>)" "kv_get (undelegations ds) k = Some r"
    and "nst_undelegation_op st a k r (as, n) = Inr (b, r', as', n')"
  shows "undelegations_ok C (s\<lparr>assets := as', dlg := ds\<lparr>undelegations := kv_set k r' (undelegations ds)\<rparr>\<rparr>)"
proof -
  obtain m x info where u: "UpdateStakerAssetState st a (no_staker_delta\<lparr>dsa_TotalDepositAmount := Some m\<rparr>) as = Inr (info, as')"
    and r': "r' = r\<lparr>ur_ActualCompletedAmount := x\<rparr>"
    using assms(3) by (auto simp: nst_undelegation_op_def Let_def rbind_eq_Inr_iff)
  let ?s = "s\<lparr>assets := as, dlg := ds\<rparr>"
  have 1: "undelegations_ok C (?s\<lparr>assets := as'\<rparr>)"
    by (rule UpdateStakerAssetState_undelegations [OF assms(1), of st a "no_staker_delta\<lparr>dsa_TotalDepositAmount := Some m\<rparr>" info])
       (use u in \<open>simp_all add: no_staker_delta_def\<close>)
  have "same_undelegation r r'" "pending_index C r' = pending_index C r"
    by (simp_all add: r' same_undelegation_def pending_index_def)
  from change_record_undelegations [OF 1 _ this] assms(2) show ?thesis by simp
qed

lemma nst_slash_pending_undelegations:
  assumes "undelegations_ok C s" "nst_slash_pending st a n s = Inr (s', n')"
  shows "undelegations_ok C s'"
proof -
  let ?I = "\<lambda>ds x. undelegations_ok C (s\<lparr>assets := fst x, dlg := ds\<rparr>)"
  have "?I ds2 (as2, n2)"
    if "IterateUndelegationsByStakerAndAsset st a True (Some (nst_undelegation_op st a)) (dlg s) (assets s, n) =
          Inr (ds2, as2, n2)" for ds2 as2 n2
  proof (rule IterateUndelegationsByStakerAndAsset_invariant [where I = ?I, OF that])
    show "?I (dlg s) (assets s, n)" using assms(1) by simp
  next
    fix ds x k r b r' x'
    assume "?I ds x" "kv_get (undelegations ds) k = Some r" "nst_undelegation_op st a k r x = Inr (b, r', x')"
    then show "?I (ds\<lparr>undelegations := kv_set k r' (undelegations ds)\<rparr>) x'"
      using nst_undelegation_op_undelegations by (cases x; cases x') simp
  qed
  then show ?thesis
    using assms by (auto simp: nst_slash_pending_def rbind_eq_Inr_iff split: if_splits)
qed

lemma RemoveShare_slash_undelegations:
  assumes "chain_codec C" "undelegations_ok C s" "key_part st" "key_part a"
    and "RemoveShare C D False False opAcc st a share s = Inr (tok, s')"
  shows "undelegations_ok C s'"
proof -
  note F = RemoveShare_frame [OF assms(5)]
  have "pending_of (assets s') (dlg s') w = waiting_for (dlg s') w" if "account_ok w" for w
    using assms(2) that RemoveShare_pending [OF assms(1,5,3,4) that, of "\<lparr>ur_StakerId = st, ur_AssetId = a,
        ur_OperatorAddr = accAddressString C opAcc, ur_TxHash = [], ur_BlockNumber = 0,
        ur_CompletedEpochIdentifier = [], ur_CompletedEpochNumber = 0, ur_UndelegationId = 0, ur_Amount = 0,
        ur_ActualCompletedAmount = 0, ur_InstantUnbonding = False, ur_ApplySlash = False,
        ur_InstantPenaltyAmount = 0, ur_RewardAsset = False, ur_RewardUndelegations = []\<rparr>"]
    by (simp add: undelegations_ok_def pending_balanced_def waiting_for_def F(3))
  then show ?thesis
    using assms(2) records_ok_cong [OF _ F(3-5), of C] RemoveShare_nonneg [OF _ assms(5)] F(1,7)
    by (simp add: undelegations_ok_def pending_balanced_def GetLastUndelegationID_def)
qed

lemma undelegations_ok_world [simp]: "undelegations_ok C (s\<lparr>world := w\<rparr>) = undelegations_ok C s"
  by (simp add: undelegations_ok_def)

lemma nst_delegation_op_undelegations:
  assumes "chain_codec C" "key_part st" "key_part a" "undelegations_ok C s"
    and "nst_delegation_op C D K st a ratio keys v (s, n) = Inr (b, s', n')"
  shows "undelegations_ok C s'"
proof (rule nst_delegation_op_Inr [OF assms(5)], goal_cases)
  case A: (1 opAcc tok s1 info as2 w)
  have "undelegations_ok C s1" by (rule RemoveShare_slash_undelegations [OF assms(1,4,2,3) A(2)])
  then have "undelegations_ok C (s1\<lparr>assets := as2\<rparr>)"
    by (rule UpdateStakerAssetState_undelegations [OF _ A(3)]) (simp add: no_staker_delta_def)
  then show ?case
    by (simp add: A(4) undelegations_ok_def)
qed

lemma UpdateNSTBalance_undelegations:
  assumes "chain_codec C" "key_part st" "key_part a" "undelegations_ok C s"
    and "UpdateNSTBalance C D K st a amount s = Inr s'"
  shows "undelegations_ok C s'"
proof -
  consider "amount = 0" | (pos) "0 < amount" | (neg) "amount < 0" by linarith
  then show ?thesis
  proof cases
    case pos
    then obtain info as1 as2 where u: "UpdateStakerAssetState st a (deposit_delta amount) (assets s) = Inr (info, as1)"
      and v: "UpdateStakingAssetTotalAmount a (Some amount) as1 = Inr as2" and s': "s' = s\<lparr>assets := as2\<rparr>"
      using assms(5) by (auto simp: UpdateNSTBalance_eq rbind_eq_Inr_iff)
    have "undelegations_ok C (s\<lparr>assets := as1\<rparr>)"
      by (rule UpdateStakerAssetState_undelegations [OF assms(4) u]) simp
    from staking_total_undelegations [OF this, of a amount as2] v show ?thesis by (simp add: s')
  next
    case neg
    then obtain info as1 n m s2 n2 where
        u: "UpdateStakerAssetState st a (deposit_delta m) (assets s) = Inr (info, as1)"
      and p: "nst_slash_pending st a n (s\<lparr>assets := as1\<rparr>) = Inr (s2, n2)"
      and d: "nst_slash_delegated C D K st a n2 s2 = Inr s'"
      using assms(5) by (auto simp: UpdateNSTBalance_eq rbind_eq_Inr_iff Let_def)
    have "undelegations_ok C (s\<lparr>assets := as1\<rparr>)"
      by (rule UpdateStakerAssetState_undelegations [OF assms(4) u]) simp
    then have "undelegations_ok C s2" by (rule nst_slash_pending_undelegations [OF _ p])
    then show ?thesis
      using nst_slash_delegated_invariant [where I = "undelegations_ok C", OF d]
        nst_delegation_op_undelegations [OF assms(1-3)] by blast
  qed (use assms(4,5) in \<open>simp add: UpdateNSTBalance_eq\<close>)
qed

lemma deposit_undelegations:
  assumes "undelegations_ok C s" "PerformDepositOrWithdraw C p (assets s) = Inr (t, as')"
  shows "undelegations_ok C (s\<lparr>assets := as'\<rparr>)"
proof -
  obtain n info as1 where
      u: "UpdateStakerAssetState (fst (dw_ids C p)) (snd (dw_ids C p)) (deposit_delta n) (assets s) = Inr (info, as1)"
    and v: "UpdateStakingAssetTotalAmount (snd (dw_ids C p)) (Some n) as1 = Inr as'"
    using assms(2) by (auto simp: PerformDepositOrWithdraw_Inr)
  have "undelegations_ok C (s\<lparr>assets := as1\<rparr>)"
    by (rule UpdateStakerAssetState_undelegations [OF assms(1) u]) simp
  from staking_total_undelegations [OF this, of "snd (dw_ids C p)" n as'] v show ?thesis by simp
qed

lemma other_store_undelegations:
  assumes "undelegations_ok C s" "delegations ds' = delegations (dlg s)" "undelegations ds' = undelegations (dlg s)"
    "stakerUndelegations ds' = stakerUndelegations (dlg s)" "pendingUndelegations ds' = pendingUndelegations (dlg s)"
    "lastUndelegationID ds' = lastUndelegationID (dlg s)"
  shows "undelegations_ok C (s\<lparr>dlg := ds'\<rparr>)"
proof -
  have "pending_of (assets s) ds' w = pending_of (assets s) (dlg s) w" for w
    by (intro pending_of_cong) (simp_all add: delegation_comp_def assms(2))
  then have "same_pending s (s\<lparr>dlg := ds'\<rparr>)"
    using assms(2-) by (simp add: same_pending_def GetLastUndelegationID_def)
  then show ?thesis
    by (rule same_pending_ok [OF assms(1)]) (use assms(1) in \<open>simp_all add: undelegations_ok_def\<close>)
qed

lemma chain_step_undelegations:
  assumes "chain_codec C" "dec_arith D" "undelegations_ok C s" "chain_step C D K s s'"
  shows "undelegations_ok C s'"
  using assms(4)
proof cases
  case (associate n opAcc stAddr)
  show ?thesis
    by (rule AssociateOperatorWithStaker_Inr [OF associate]) (rule own_share_undelegations [OF assms(3)])
next
  case (dissociate n stAddr)
  show ?thesis
    by (rule DissociateOperatorFromStaker_Inr [OF dissociate]) (rule own_share_undelegations [OF assms(3)])
next
  case (hold k ds')
  then show ?thesis
    by (auto intro!: other_store_undelegations [OF assms(3)] simp: IncrementUndelegationHoldCount_def Let_def split: if_splits)
next
  case (release k ds')
  then show ?thesis
    by (auto intro!: other_store_undelegations [OF assms(3)] simp: DecrementUndelegationHoldCount_def Let_def split: if_splits)
next
  case (params auth req ps ds')
  then show ?thesis
    by (auto intro!: other_store_undelegations [OF assms(3)]
        simp: UpdateDelegationParams_def SetDelegationParams_def rbind_eq_Inr_iff split: if_splits)
next
  case (begin_block ctx H es w)
  then have "epochs_ok es"
    using assms(3) epochs_ok_BeginBlocker [of "epochs s" ctx H "world s"] by (simp add: undelegations_ok_def)
  then show ?thesis using assms(3) begin_block(1) by (simp add: undelegations_ok_def)
qed (use assms in \<open>auto intro: deposit_undelegations delegateTo_undelegations UndelegateFrom_undelegations
      UpdateNSTBalance_undelegations EndBlock_undelegations\<close>)

end
