(* ===== verification/Completion.thy ===== *)
theory Completion
  imports Undelegations
begin

text \<open>
  The end of a block. The iteration over the pending undelegations finds exactly those that are due, in
  the order of their epochs and up to the limit of the parameters; completing one never fails for staked
  client-chain tokens, because its amount is covered by the pending amounts it is counted in.
\<close>

section \<open>The undelegations that are due\<close>

definition record_of :: "delegation_state \<Rightarrow> bytes \<times> bytes \<Rightarrow> UndelegationRecord" where
  "record_of ds e = the (kv_get (undelegations ds) (snd e))"

definition epoch_of :: "UndelegationRecord \<Rightarrow> uint64" where
  "epoch_of r = of_int (ur_CompletedEpochNumber r)"

text \<open>The undelegations of one epoch identifier that are due before an epoch and that no module holds back.\<close>

definition due :: "codec \<Rightarrow> delegation_state \<Rightarrow> string \<Rightarrow> int \<Rightarrow> UndelegationRecord list" where
  "due C ds i cur = map (record_of ds)
     (filter (\<lambda>e. epoch_of (record_of ds e) < of_int cur \<and> GetUndelegationHoldCount ds (snd e) = 0) (pending_entries C ds i))"

definition all_due :: "codec \<Rightarrow> epochs_state \<Rightarrow> delegation_state \<Rightarrow> UndelegationRecord list" where
  "all_due C es ds = due C ds NullEpochIdentifier (NullEpochNumber + 1) @
     concat (map (\<lambda>e. due C ds (ei_Identifier e) (ei_CurrentEpoch e)) (map snd es))"

definition cap :: "bool \<Rightarrow> uint32 \<Rightarrow> 'a list \<Rightarrow> 'a list" where
  "cap al lim xs = (if al \<and> lim \<noteq> 0 then take (unat lim) xs else xs)"

lemma cap_full:
  "(al \<and> lim \<noteq> 0 \<and> lim \<le> of_nat (length (cap al lim xs))) \<longleftrightarrow> (al \<and> lim \<noteq> 0 \<and> unat lim \<le> length xs)"
proof -
  have "unat (of_nat (min (length xs) (unat lim)) :: uint32) = min (length xs) (unat lim)"
    using unsigned_less [of lim, where ?'a = nat] by (simp add: unat_of_nat take_bit_nat_eq_self min_def)
  then show ?thesis by (auto simp: cap_def word_le_nat_alt)
qed

lemma cap_simps [simp]: "cap al lim [] = []" "cap al (if al then lim else 0) xs = cap al lim xs"
  by (simp_all add: cap_def)

lemma cap_stays: "al \<and> lim \<noteq> 0 \<and> unat lim \<le> length xs \<Longrightarrow> cap al lim (xs @ ys) = cap al lim xs"
  by (simp add: cap_def)

lemma cap_grows: "\<not> (al \<and> lim \<noteq> 0 \<and> unat lim \<le> length xs) \<Longrightarrow> cap al lim xs @ [y] = cap al lim (xs @ [y])"
  by (auto simp: cap_def)

definition entry_ok :: "codec \<Rightarrow> delegation_state \<Rightarrow> bytes \<times> bytes \<Rightarrow> bool" where
  "entry_ok C ds e \<longleftrightarrow> kv_get (undelegations ds) (snd e) = Some (record_of ds e) \<and>
     (\<exists>pk. ParsePendingUndelegationKey C (fst e) = Inr pk \<and> pk_EpochNumber pk = epoch_of (record_of ds e))"

lemma pending_loop:
  assumes "\<forall>e\<in>set es. entry_ok C ds e" "sorted (map (\<lambda>e. epoch_of (record_of ds e)) es)"
  shows "riter (pending_step C ds True cur (completable_op al lim)) es (cap al lim acc) =
    Inr (cap al lim (acc @ map (record_of ds)
      (filter (\<lambda>e. epoch_of (record_of ds e) < of_int cur \<and> GetUndelegationHoldCount ds (snd e) = 0) es)))"
  using assms
proof (induction es arbitrary: acc)
  case (Cons e es)
  let ?due = "\<lambda>e. epoch_of (record_of ds e) < of_int cur \<and> GetUndelegationHoldCount ds (snd e) = 0"
  have e: "entry_ok C ds e" using Cons.prems(1) by simp
  then obtain pk where pk: "ParsePendingUndelegationKey C (fst e) = Inr pk" "pk_EpochNumber pk = epoch_of (record_of ds e)"
    "kv_get (undelegations ds) (snd e) = Some (record_of ds e)" by (auto simp: entry_ok_def)
  have step: "pending_step C ds True cur (completable_op al lim) e x =
     (if of_int cur \<le> epoch_of (record_of ds e) then Inr (True, x)
      else if 0 < GetUndelegationHoldCount ds (snd e) then Inr (False, x)
      else if al \<and> lim \<noteq> 0 \<and> lim \<le> of_nat (length x) then Inr (True, x)
      else Inr (False, x @ [record_of ds e]))" for x
    by (cases e) (use pk in \<open>simp add: pending_step_def completable_op_def\<close>)
  have later: "\<not> ?due e'" if "of_int cur \<le> epoch_of (record_of ds e)" "e' \<in> set es" for e'
  proof -
    have "epoch_of (record_of ds e) \<le> epoch_of (record_of ds e')" using Cons.prems(2) that(2) by simp
    then have "of_int cur \<le> epoch_of (record_of ds e')" by (rule order_trans [OF that(1)])
    then show ?thesis by (simp add: leD)
  qed
  consider (late) "of_int cur \<le> epoch_of (record_of ds e)"
    | (held) "epoch_of (record_of ds e) < of_int cur" "0 < GetUndelegationHoldCount ds (snd e)"
    | (due) "?due e"
    by (cases "of_int cur \<le> epoch_of (record_of ds e)"; cases "GetUndelegationHoldCount ds (snd e) = 0")
       (simp_all add: not_le word_gt_0)
  then show ?case
  proof cases
    case late
    then have "filter ?due (e # es) = []" using later [OF late] by (auto simp: filter_empty_conv)
    then show ?thesis by (simp only: riter.simps step late if_True) simp
  next
    case held
    then have "\<not> of_int cur \<le> epoch_of (record_of ds e)" "GetUndelegationHoldCount ds (snd e) \<noteq> 0"
      by (simp_all add: not_le word_gt_0)
    then show ?thesis using Cons held(2) by (simp add: step)
  next
    case due
    show ?thesis
    proof (cases "al \<and> lim \<noteq> 0 \<and> unat lim \<le> length acc")
      case True
      then have "pending_step C ds True cur (completable_op al lim) e (cap al lim acc) = Inr (True, cap al lim acc)"
        unfolding step using due cap_full [of al lim acc] by (simp add: not_le)
      then show ?thesis using cap_stays [OF True] by simp
    next
      case False
      then show ?thesis
        using due cap_full [of al lim acc] cap_grows [OF False] Cons
        by (simp add: step not_le if_not_P)
    qed
  qed
qed simp

text \<open>The entries of an epoch identifier lead to stored records, in the order of their epochs.\<close>

lemma pending_entry_of:
  assumes "chain_codec C" "records_ok C ds" "i \<noteq> []" "length i < 2 ^ 63"
    and "\<forall>k r. kv_get (undelegations ds) k = Some r \<longrightarrow> length (ur_CompletedEpochIdentifier r) < 2 ^ 63"
    and "e \<in> set (pending_entries C ds i)"
  shows "kv_get (undelegations ds) (snd e) = Some (record_of ds e)" "pending_index C (record_of ds e) = fst e"
    "ur_CompletedEpochIdentifier (record_of ds e) = i"
proof -
  obtain r where r: "kv_get (undelegations ds) (snd e) = Some r" "pending_index C r = fst e"
    using pending_entriesD(1) [OF assms(2,6)] by blast
  then have rec: "record_of ds e = r" by (simp add: record_of_def)
  with r show "kv_get (undelegations ds) (snd e) = Some (record_of ds e)" "pending_index C (record_of ds e) = fst e" by simp_all
  have "prefix (pending_prefix C (ur_CompletedEpochIdentifier r)) (fst e)"
    by (simp add: r(2) [symmetric] pending_index_def GetPendingUndelegationRecordKey_def pending_prefix_def AppendMany_def)
  then show "ur_CompletedEpochIdentifier (record_of ds e) = i"
    using chain_codec.pending_prefix_inj [OF assms(1) _ pending_entriesD(2) [OF assms(2,6)] _ assms(4)] assms(5) r(1)
    unfolding rec by blast
qed

lemma parse_pending_index:
  assumes "chain_codec C" "ur_CompletedEpochIdentifier r \<noteq> []" "length (ur_CompletedEpochIdentifier r) < 2 ^ 63"
  shows "\<exists>pk. ParsePendingUndelegationKey C (pending_index C r) = Inr pk \<and> pk_EpochNumber pk = epoch_of r"
proof -
  have n: "unat (of_nat (length (ur_CompletedEpochIdentifier r)) :: uint64) = length (ur_CompletedEpochIdentifier r)"
    using assms(3) by (simp add: unat_of_nat take_bit_nat_eq_self)
  show ?thesis
    using assms(2)
    by (simp add: pending_index_def epoch_of_def ParsePendingUndelegationKey_def GetPendingUndelegationRecordKey_def
        AppendMany_def Let_def chain_codec.be64_length [OF assms(1)] chain_codec.be64_roundtrip [OF assms(1)]
        ByteLengthForUint64_def n)
qed

lemma less_append_iff:
  assumes "length u = length v"
  shows "(u @ x < v @ y) \<longleftrightarrow> u < v \<or> u = v \<and> (x :: 'a::linorder list) < y"
  using assms
proof (induction u v rule: list_induct2)
  case (Cons a u b v)
  then show ?case by (auto simp: Cons_less_Cons)
qed simp

lemma pending_index_order:
  assumes "chain_codec C" "pending_index C r < pending_index C r'"
    and "ur_CompletedEpochIdentifier r = ur_CompletedEpochIdentifier r'"
  shows "epoch_of r \<le> epoch_of r'"
proof -
  have "Uint64ToBigEndian C (epoch_of r) @ Uint64ToBigEndian C (ur_UndelegationId r) <
      Uint64ToBigEndian C (epoch_of r') @ Uint64ToBigEndian C (ur_UndelegationId r')"
    using assms(2,3)
    by (simp add: pending_index_def GetPendingUndelegationRecordKey_def AppendMany_def less_append_iff epoch_of_def)
  then have "Uint64ToBigEndian C (epoch_of r) \<le> Uint64ToBigEndian C (epoch_of r')"
    by (auto simp: less_append_iff chain_codec.be64_length [OF assms(1)])
  then show ?thesis by (simp add: chain_codec.be64_mono [OF assms(1)])
qed


lemma entries_in_order:
  assumes "chain_codec C" "records_ok C ds" "i \<noteq> []" "length i < 2 ^ 63"
    and "\<forall>k r. kv_get (undelegations ds) k = Some r \<longrightarrow> length (ur_CompletedEpochIdentifier r) < 2 ^ 63"
  shows "\<forall>e\<in>set (pending_entries C ds i). entry_ok C ds e"
    "sorted (map (\<lambda>e. epoch_of (record_of ds e)) (pending_entries C ds i))"
proof -
  note E = pending_entry_of [OF assms]
  show "\<forall>e\<in>set (pending_entries C ds i). entry_ok C ds e"
  proof
    fix e assume e: "e \<in> set (pending_entries C ds i)"
    show "entry_ok C ds e"
      using E [OF e] parse_pending_index [OF assms(1), of "record_of ds e"] assms(3,4) by (simp add: entry_ok_def)
  qed
  have "sorted_wrt (\<lambda>e e'. fst e < fst e') (pending_entries C ds i)"
    using kv_iterate_sorted [OF records_okD(3) [OF assms(2)]] by (simp add: pending_entries_def kv_wf_def sorted_wrt_map)
  then have "sorted_wrt (\<lambda>e e'. epoch_of (record_of ds e) \<le> epoch_of (record_of ds e')) (pending_entries C ds i)"
  proof (rule sorted_wrt_mono_rel [rotated])
    fix e e' assume e: "e \<in> set (pending_entries C ds i)" "e' \<in> set (pending_entries C ds i)" and "fst e < fst e'"
    then show "epoch_of (record_of ds e) \<le> epoch_of (record_of ds e')"
      using E [OF e(1)] E [OF e(2)] pending_index_order [OF assms(1)] by simp
  qed
  then show "sorted (map (\<lambda>e. epoch_of (record_of ds e)) (pending_entries C ds i))"
    by (simp add: sorted_wrt_map)
qed

lemma IteratePending_due:
  assumes "chain_codec C" "records_ok C ds" "i \<noteq> []" "length i < 2 ^ 63"
    and "\<forall>k r. kv_get (undelegations ds) k = Some r \<longrightarrow> length (ur_CompletedEpochIdentifier r) < 2 ^ 63"
  shows "IteratePendingUndelegations C ds True i cur (Some (completable_op al lim)) (cap al lim acc) =
    Inr (cap al lim (acc @ due C ds i cur))"
  using pending_loop [OF entries_in_order [OF assms]]
  by (simp add: IteratePendingUndelegations_def pending_entries_def due_def)

lemma completable_loop:
  assumes "\<And>x acc. x \<in> set xs \<Longrightarrow> IteratePendingUndelegations C ds True (ei_Identifier x) (ei_CurrentEpoch x)
      (Some (completable_op al lim)) (cap al lim acc) = Inr (cap al lim (acc @ due C ds (ei_Identifier x) (ei_CurrentEpoch x)))"
  shows "riter (completable_step C ds al lim) xs (cap al lim acc) =
    Inr (cap al lim (acc @ concat (map (\<lambda>e. due C ds (ei_Identifier e) (ei_CurrentEpoch e)) xs)))"
  using assms
proof (induction xs arbitrary: acc)
  case (Cons x xs)
  show ?case
  proof (cases "al \<and> lim \<noteq> 0 \<and> unat lim \<le> length acc")
    case True
    then show ?thesis using cap_full [of al lim acc] cap_stays [OF True] by (simp add: completable_step_def)
  next
    case False
    then have "completable_step C ds al lim x (cap al lim acc) =
        Inr (False, cap al lim (acc @ due C ds (ei_Identifier x) (ei_CurrentEpoch x)))"
      using cap_full [of al lim acc] Cons.prems by (simp add: completable_step_def if_not_P)
    then show ?thesis using Cons by simp
  qed
qed simp

lemma GetCompletable_due:
  assumes "chain_codec C" "records_ok C ds" "epochs_ok es"
    and "\<forall>k r. kv_get (undelegations ds) k = Some r \<longrightarrow> length (ur_CompletedEpochIdentifier r) < 2 ^ 63"
  shows "GetCompletableUndelegations C es ds al =
    Inr (cap al (dp_MaxUndelegationCompletions (GetDelegationParams ds)) (all_due C es ds))"
proof -
  let ?lim = "if al then dp_MaxUndelegationCompletions (GetDelegationParams ds) else 0"
  have I: "IteratePendingUndelegations C ds True i cur (Some (completable_op al ?lim)) (cap al ?lim acc) =
      Inr (cap al ?lim (acc @ due C ds i cur))" if "i \<in> set (epoch_ids es)" for i cur acc
    using IteratePending_due [OF assms(1,2) _ _ assms(4)] epoch_ids_ok(2) [OF assms(3)] that by blast
  have ids: "ei_Identifier x \<in> set (epoch_ids es)" if "x \<in> set (map snd es)" for x
    using assms(3) that by (auto simp: epochs_ok_def keys_ok_def epoch_ids_def) force
  have "riter (completable_step C ds al ?lim) (map snd es) (cap al ?lim (due C ds NullEpochIdentifier (NullEpochNumber + 1))) =
      Inr (cap al ?lim (all_due C es ds))"
    unfolding all_due_def by (rule completable_loop) (rule I [OF ids])
  moreover have "IteratePendingUndelegations C ds True NullEpochIdentifier (NullEpochNumber + 1)
      (Some (completable_op al ?lim)) [] = Inr (cap al ?lim (due C ds NullEpochIdentifier (NullEpochNumber + 1)))"
    using I [of NullEpochIdentifier "NullEpochNumber + 1" "[]"] unfolding epoch_ids_def cap_simps by simp
  ultimately show ?thesis
    unfolding GetCompletable_eq Let_def cap_simps by simp
qed

text \<open>Which records these are.\<close>

definition is_due :: "epochs_state \<Rightarrow> delegation_state \<Rightarrow> bytes \<Rightarrow> UndelegationRecord \<Rightarrow> bool" where
  "is_due es ds k r \<longleftrightarrow> GetUndelegationHoldCount ds k = 0 \<and>
     (if ur_CompletedEpochIdentifier r = NullEpochIdentifier then epoch_of r = 0
      else \<exists>e. kv_get es (ur_CompletedEpochIdentifier r) = Some e \<and> epoch_of r < of_int (ei_CurrentEpoch e))"

lemma in_due:
  assumes "chain_codec C" "records_ok C ds" "i \<noteq> []" "length i < 2 ^ 63"
    and "\<forall>k r. kv_get (undelegations ds) k = Some r \<longrightarrow> length (ur_CompletedEpochIdentifier r) < 2 ^ 63"
  shows "r \<in> set (due C ds i cur) \<longleftrightarrow>
    (\<exists>k. kv_get (undelegations ds) k = Some r \<and> ur_CompletedEpochIdentifier r = i \<and>
       epoch_of r < of_int cur \<and> GetUndelegationHoldCount ds k = 0)"
proof
  assume "r \<in> set (due C ds i cur)"
  then obtain e where "e \<in> set (pending_entries C ds i)" "r = record_of ds e"
    "epoch_of r < of_int cur" "GetUndelegationHoldCount ds (snd e) = 0" by (auto simp: due_def)
  then show "\<exists>k. kv_get (undelegations ds) k = Some r \<and> ur_CompletedEpochIdentifier r = i \<and>
       epoch_of r < of_int cur \<and> GetUndelegationHoldCount ds k = 0"
    using pending_entry_of [OF assms] by blast
next
  assume "\<exists>k. kv_get (undelegations ds) k = Some r \<and> ur_CompletedEpochIdentifier r = i \<and>
       epoch_of r < of_int cur \<and> GetUndelegationHoldCount ds k = 0"
  then obtain k where k: "kv_get (undelegations ds) k = Some r" "ur_CompletedEpochIdentifier r = i"
    "epoch_of r < of_int cur" "GetUndelegationHoldCount ds k = 0" by blast
  note R = records_okD [OF assms(2)]
  have "kv_get (pendingUndelegations ds) (pending_index C r) = Some k" using k(1) indexesD [OF R(9)] by blast
  moreover have "prefix (pending_prefix C i) (pending_index C r)"
    by (simp add: k(2) [symmetric] pending_index_def GetPendingUndelegationRecordKey_def pending_prefix_def AppendMany_def)
  ultimately have "(pending_index C r, k) \<in> set (pending_entries C ds i)"
    unfolding pending_entries_def using in_kv_iterate [OF R(3)] by blast
  moreover have "record_of ds (pending_index C r, k) = r" by (simp add: record_of_def k(1))
  ultimately show "r \<in> set (due C ds i cur)" using k(3,4) by (force simp: due_def)
qed

lemma in_all_due:
  assumes "chain_codec C" "records_ok C ds" "epochs_ok es"
    and "\<forall>k r. kv_get (undelegations ds) k = Some r \<longrightarrow> length (ur_CompletedEpochIdentifier r) < 2 ^ 63"
  shows "r \<in> set (all_due C es ds) \<longleftrightarrow> (\<exists>k. kv_get (undelegations ds) k = Some r \<and> is_due es ds k r)"
proof -
  have keys: "kv_wf es" "\<And>k e. kv_get es k = Some e \<Longrightarrow> ei_Identifier e = k \<and> k \<noteq> [] \<and> k \<noteq> NullEpochIdentifier \<and> length k < 2 ^ 63"
    using assms(3) keys_ok_get [of es] by (auto simp: epochs_ok_def) (simp add: keys_ok_def)
  have D: "r \<in> set (due C ds i cur) \<longleftrightarrow>
    (\<exists>k. kv_get (undelegations ds) k = Some r \<and> ur_CompletedEpochIdentifier r = i \<and>
       epoch_of r < of_int cur \<and> GetUndelegationHoldCount ds k = 0)" if "i \<in> set (epoch_ids es)" for i cur
    using in_due [OF assms(1,2) _ _ assms(4)] epoch_ids_ok(2) [OF assms(3)] that by blast
  have one: "epoch_of r < 1 \<longleftrightarrow> epoch_of r = 0" by (simp add: word_less_1 )
  have A: "r \<in> set (all_due C es ds) \<longleftrightarrow> r \<in> set (due C ds NullEpochIdentifier (NullEpochNumber + 1)) \<or>
      (\<exists>i e. kv_get es i = Some e \<and> r \<in> set (due C ds i (ei_CurrentEpoch e)))"
  proof -
    have "((i, e) \<in> set es \<and> r \<in> set (due C ds (ei_Identifier e) (ei_CurrentEpoch e))) \<longleftrightarrow>
        (kv_get es i = Some e \<and> r \<in> set (due C ds i (ei_CurrentEpoch e)))" for i e
      using keys(2) by (auto simp: in_kv_entries [OF keys(1)])
    then have "(\<exists>x\<in>set es. r \<in> set (due C ds (ei_Identifier (snd x)) (ei_CurrentEpoch (snd x)))) \<longleftrightarrow>
        (\<exists>i e. kv_get es i = Some e \<and> r \<in> set (due C ds i (ei_CurrentEpoch e)))"
      by (simp add: Bex_def split_paired_Ex)
    then show ?thesis by (simp add: all_due_def)
  qed
  have B: "(\<exists>i e. kv_get es i = Some e \<and> r \<in> set (due C ds i (ei_CurrentEpoch e))) \<longleftrightarrow>
      (\<exists>e k. kv_get es (ur_CompletedEpochIdentifier r) = Some e \<and> ur_CompletedEpochIdentifier r \<noteq> NullEpochIdentifier \<and>
         kv_get (undelegations ds) k = Some r \<and> epoch_of r < of_int (ei_CurrentEpoch e) \<and> GetUndelegationHoldCount ds k = 0)"
  proof -
    have "i \<in> set (epoch_ids es) \<and> i \<noteq> NullEpochIdentifier" if e: "kv_get es i = Some e" for i e
    proof -
      have "(i, e) \<in> set es" using in_kv_entries [OF keys(1), of i e] e by simp
      then have "i \<in> fst ` set es" by (rule image_eqI [rotated]) simp
      then show ?thesis using keys(2) [OF e] by (simp add: epoch_ids_def)
    qed
    then have X: "(kv_get es i = Some e \<and> r \<in> set (due C ds i (ei_CurrentEpoch e))) \<longleftrightarrow>
        (\<exists>k. kv_get es i = Some e \<and> i = ur_CompletedEpochIdentifier r \<and> i \<noteq> NullEpochIdentifier \<and>
         kv_get (undelegations ds) k = Some r \<and> epoch_of r < of_int (ei_CurrentEpoch e) \<and> GetUndelegationHoldCount ds k = 0)" for i e
      using D [of i "ei_CurrentEpoch e"] by (cases "kv_get es i = Some e") (blast, simp)
    show ?thesis unfolding X by blast
  qed
  have N: "r \<in> set (due C ds NullEpochIdentifier (NullEpochNumber + 1)) \<longleftrightarrow>
      (\<exists>k. kv_get (undelegations ds) k = Some r \<and> ur_CompletedEpochIdentifier r = NullEpochIdentifier \<and>
         epoch_of r = 0 \<and> GetUndelegationHoldCount ds k = 0)"
    using D [of NullEpochIdentifier "NullEpochNumber + 1"] by (simp add: epoch_ids_def NullEpochNumber_def one)
  show ?thesis unfolding A B N is_due_def by auto
qed

section \<open>Due undelegations are paid\<close>

lemma waiting_covers:
  assumes "records_ok C ds" "kv_get (undelegations ds) k = Some r" "concerns w r"
  shows "ur_Amount r \<le> waiting_for ds w"
proof -
  have "0 \<le> kv_total (waiting w) (kv_delete k (undelegations ds))"
    unfolding kv_total_def using records_okD(1,4) [OF assms(1)]
    by (intro sum_list_nonneg) (auto simp: waiting_def good_record_def kv_delete_def in_kv_entries)
  then show ?thesis using waiting_for_del [OF records_okD(1) [OF assms(1)] assms(2), of w] assms(3) by (simp add: waiting_def)
qed

lemma pending_covers:
  assumes "chain_codec C" "undelegations_ok C s" "kv_get (undelegations (dlg s)) k = Some r" "concerns w r" "account_ok w"
  shows "ur_Amount r \<le> pending_of (assets s) (dlg s) w"
  using assms(2,5) waiting_covers [OF _ assms(3,4), of C] by (simp add: undelegations_ok_def pending_balanced_def)

text \<open>A client-chain undelegation, of staked tokens, that no slash has driven below zero.\<close>

definition payable :: "UndelegationRecord \<Rightarrow> bool" where
  "payable r \<longleftrightarrow> \<not> ur_RewardAsset r \<and> ur_AssetId r \<noteq> ImuachainAssetID \<and> 0 \<le> ur_ActualCompletedAmount r"

lemma UpdateStaker_ok:
  assumes "0 \<le> m" "0 \<le> n" "n \<le> staker_comp as (staker_key st a) F_PendingUndelegation"
  shows "\<exists>x. UpdateStakerAssetState st a
    (no_staker_delta\<lparr>dsa_WithdrawableAmount := Some m, dsa_PendingUndelegationAmount := Some (- n)\<rparr>) as = Inr x"
  using assms
  by (auto simp: UpdateStakerAssetState_def no_staker_delta_def result_simps Let_def staker_comp_def split: option.splits)

lemma UpdateOperator_ok:
  assumes "0 \<le> n" "n \<le> operator_comp as (operator_key C opAcc a) O_Pending"
  shows "\<exists>x. UpdateOperatorAssetState C opAcc a
    (no_operator_delta\<lparr>doa_PendingUndelegationAmount := Some (- n)\<rparr>) as = Inr x"
  using assms
  by (auto simp: UpdateOperatorAssetState_def no_operator_delta_def result_simps Let_def operator_comp_def
      zero_operator_asset_def split: option.splits)

lemma UpdateDelegation_ok:
  assumes "accAddressFromBech32 C opAddr = Some opAcc" "0 \<le> n" "n \<le> delegation_comp ds (delegation_key st a opAddr) G_Pending"
  shows "\<exists>x. UpdateDelegationState C st a opAddr (Some (complete_delta False n)) ds = Inr x"
  using assms
  by (auto simp: UpdateDelegationState_def complete_delta_def no_delegation_delta_def result_simps Let_def delegation_comp_def
      zero_delegation_def split: option.splits)

lemma complete_record_succeeds:
  assumes "chain_codec C" "undelegations_ok C s" "kv_get (undelegations (dlg s)) k = Some r" "payable r"
  shows "\<exists>s'. complete_record C K r s = Inr s'"
proof -
  have ok: "records_ok C (dlg s)" using assms(2) by (simp add: undelegations_ok_def)
  have good: "good_record C r" and key: "record_key C r = Inr k"
    using records_okD(4,5) [OF ok assms(3)] by simp_all
  then obtain opAcc where o: "accAddressFromBech32 C (ur_OperatorAddr r) = Some opAcc" "ur_OperatorAddr r = accAddressString C opAcc"
    and p: "key_part (ur_StakerId r)" "key_part (ur_AssetId r)" "0 \<le> ur_Amount r"
    using chain_codec.acc_roundtrip [OF assms(1)] by (auto simp: good_record_def)
  have op: "key_part (ur_OperatorAddr r)" using chain_codec.acc_part [OF assms(1)] o(2) by simp
  note cov = pending_covers [OF assms(1-3)] and pay = assms(4) [unfolded payable_def]
  have c: "ur_Amount r \<le> delegation_comp (dlg s) (delegation_key (ur_StakerId r) (ur_AssetId r) (ur_OperatorAddr r)) G_Pending"
    "ur_Amount r \<le> staker_comp (assets s) (staker_key (ur_StakerId r) (ur_AssetId r)) F_PendingUndelegation"
    "ur_Amount r \<le> operator_comp (assets s) (operator_key C opAcc (ur_AssetId r)) O_Pending"
    using cov [of "Staked (ur_StakerId r) (ur_AssetId r) (ur_OperatorAddr r)"] cov [of "Staker (ur_StakerId r) (ur_AssetId r)"]
      cov [of "Pool (ur_OperatorAddr r) (ur_AssetId r)"] pay p op o(2) by simp_all
  obtain z prev ds1 where d: "UpdateDelegationState C (ur_StakerId r) (ur_AssetId r) (ur_OperatorAddr r)
       (Some (complete_delta False (ur_Amount r))) (dlg s) = Inr (z, prev, ds1)"
    using UpdateDelegation_ok [OF o(1) p(3) c(1)] by (metis prod_cases3)
  obtain info as2 where u: "UpdateStakerAssetState (ur_StakerId r) (ur_AssetId r)
      (no_staker_delta\<lparr>dsa_WithdrawableAmount := Some (ur_ActualCompletedAmount r),
                    dsa_PendingUndelegationAmount := Some (- ur_Amount r)\<rparr>) (assets s) = Inr (info, as2)"
    using UpdateStaker_ok [OF _ p(3) c(2), of "ur_ActualCompletedAmount r"] pay by (metis prod.exhaust)
  have oc: "operator_comp as2 = operator_comp (assets s)"
    by (rule operator_comp_cong [OF UpdateStakerAssetState_frame(3) [OF u]])
  obtain prev' as3 where v: "UpdateOperatorAssetState C opAcc (ur_AssetId r)
       (no_operator_delta\<lparr>doa_PendingUndelegationAmount := Some (- ur_Amount r)\<rparr>) as2 = Inr (prev', as3)"
    using UpdateOperator_ok [OF p(3), of as2 C opAcc "ur_AssetId r"] c(3) unfolding oc by (metis prod.exhaust)
  show ?thesis
    using pay key
    by (simp add: complete_record_eq MustAccAddressFromBech32_def o(1) d pay_back_def u v DeleteUndelegationRecord_def record_key_def)
qed


lemma complete_record_withdrawable:
  assumes "complete_record C K r s = Inr s'"
  shows "staker_comp (assets s') key F_Withdrawable = staker_comp (assets s) key F_Withdrawable +
    (if \<not> ur_RewardAsset r \<and> ur_AssetId r \<noteq> ImuachainAssetID \<and> key = staker_key (ur_StakerId r) (ur_AssetId r)
     then ur_ActualCompletedAmount r else 0)"
proof (rule complete_record_Inr [OF assms], goal_cases)
  case A: (1 opAcc z prev ds1 s2 prev' as3 ds3)
  have "staker_comp as3 = staker_comp (assets s2)"
    by (intro ext) (simp add: staker_comp_def UpdateOperatorAssetState_frame(3) [OF A(4)])
  then show ?case
    using A(3)
    by (auto simp: A(7) pay_back_def rbind_eq_Inr_iff UpdateStakerAssetState_comp no_staker_delta_def split: if_splits)
qed

definition paid_to :: "string \<Rightarrow> string \<Rightarrow> UndelegationRecord list \<Rightarrow> int" where
  "paid_to st a rs = sum_list (map ur_ActualCompletedAmount
     (filter (\<lambda>r. \<not> ur_RewardAsset r \<and> ur_StakerId r = st \<and> ur_AssetId r = a) rs))"

lemma cached_Inr: "cached f s = Inr s' \<Longrightarrow> f s = Inr s' \<or> s' = s \<and> (\<nexists>x. f s = Inr x)"
  by (auto simp: cached_def split: sum.splits error.splits)

lemma stored_delete:
  assumes "records_ok C ds" "kv_get (undelegations ds) k = Some r" "undelegations ds' = kv_delete k (undelegations ds)"
  shows "stored ds' r' \<longleftrightarrow> stored ds r' \<and> r' \<noteq> r"
proof -
  have k: "k' = k" if "kv_get (undelegations ds) k' = Some r" for k'
    using records_okD(5) [OF assms(1) that] records_okD(5) [OF assms(1,2)] by simp
  have "kv_get (undelegations ds') k' = Some r' \<longleftrightarrow> kv_get (undelegations ds) k' = Some r' \<and> r' \<noteq> r" for k'
    using assms(2) k [of k'] by (cases "k' = k") (auto simp: assms(3))
  then show ?thesis by (simp add: stored_def)
qed

lemma complete_records_pay:
  assumes "chain_codec C" "undelegations_ok C s" "distinct rs" "\<forall>r\<in>set rs. stored (dlg s) r"
    and "\<forall>r\<in>set rs. 0 \<le> ur_ActualCompletedAmount r"
    and "rfold (\<lambda>r. cached (complete_record C K r)) rs s = Inr s'" "key_part st" "key_part a" "a \<noteq> ImuachainAssetID"
  shows "(\<forall>r\<in>set rs. payable r \<longrightarrow> \<not> stored (dlg s') r) \<and> (\<forall>r. stored (dlg s') r \<longrightarrow> stored (dlg s) r) \<and>
    staker_comp (assets s') (staker_key st a) F_Withdrawable =
    staker_comp (assets s) (staker_key st a) F_Withdrawable + paid_to st a rs"
  using assms(2-6)
proof (induction rs arbitrary: s)
  case Nil
  then show ?case by (simp add: paid_to_def)
next
  case (Cons r rs)
  obtain k where k: "kv_get (undelegations (dlg s)) k = Some r" using Cons.prems(3) by (auto simp: stored_def)
  have ok: "records_ok C (dlg s)" using Cons.prems(1) by (simp add: undelegations_ok_def)
  have good: "good_record C r" and key: "record_key C r = Inr k" using records_okD(4,5) [OF ok k] by simp_all
  obtain s1 where s1: "cached (complete_record C K r) s = Inr s1"
    and rest: "rfold (\<lambda>r. cached (complete_record C K r)) rs s1 = Inr s'"
    using Cons.prems(5) by (auto simp: rbind_eq_Inr_iff)
  consider (skipped) "s1 = s" "\<not> payable r" | (paid) "complete_record C K r s = Inr s1"
    using cached_Inr [OF s1] complete_record_succeeds [OF assms(1) Cons.prems(1) k] by blast
  then show ?case
  proof cases
    case skipped
    then have "\<not> (\<not> ur_RewardAsset r \<and> ur_AssetId r = a)" using Cons.prems(4) assms(9) by (auto simp: payable_def)
    then have "paid_to st a (r # rs) = paid_to st a rs" by (auto simp: paid_to_def)
    then show ?thesis
      using Cons.IH [OF Cons.prems(1) _ _ _ rest [unfolded skipped(1)]] Cons.prems(2-4) skipped(2) by simp
  next
    case paid
    note R = complete_record_undelegations [OF assms(1) Cons.prems(1) k paid]
    have st1: "stored (dlg s1) r' \<longleftrightarrow> stored (dlg s) r' \<and> r' \<noteq> r" for r'
      by (rule stored_delete [OF ok k R(2)])
    have IH: "(\<forall>r\<in>set rs. payable r \<longrightarrow> \<not> stored (dlg s') r) \<and> (\<forall>r. stored (dlg s') r \<longrightarrow> stored (dlg s1) r) \<and>
      staker_comp (assets s') (staker_key st a) F_Withdrawable =
      staker_comp (assets s1) (staker_key st a) F_Withdrawable + paid_to st a rs"
      by (rule Cons.IH [OF R(1) _ _ _ rest]) (use Cons.prems(2-4) st1 in auto)
    have eq: "staker_key st a = staker_key (ur_StakerId r) (ur_AssetId r) \<longleftrightarrow> ur_StakerId r = st \<and> ur_AssetId r = a"
      using good assms(7,8) by (auto simp: joined_eq good_record_def)
    have "staker_comp (assets s1) (staker_key st a) F_Withdrawable + paid_to st a rs =
        staker_comp (assets s) (staker_key st a) F_Withdrawable + paid_to st a (r # rs)"
      using complete_record_withdrawable [OF paid, of "staker_key st a"] assms(9) unfolding eq by (auto simp: paid_to_def)
    moreover have "\<forall>r'\<in>set (r # rs). payable r' \<longrightarrow> \<not> stored (dlg s') r'" "\<forall>r'. stored (dlg s') r' \<longrightarrow> stored (dlg s) r'"
      using IH unfolding st1 by auto
    ultimately show ?thesis using IH by simp
  qed
qed

section \<open>An example\<close>

definition ex_record :: UndelegationRecord where
  "ex_record = \<lparr>ur_StakerId = ex_staker, ur_AssetId = ex_asset, ur_OperatorAddr = accAddressString ref_codec ex_op,
     ur_TxHash = [], ur_BlockNumber = 7, ur_CompletedEpochIdentifier = NullEpochIdentifier,
     ur_CompletedEpochNumber = NullEpochNumber, ur_UndelegationId = 0, ur_Amount = 60, ur_ActualCompletedAmount = 60,
     ur_InstantUnbonding = False, ur_ApplySlash = True, ur_InstantPenaltyAmount = 0, ur_RewardAsset = False,
     ur_RewardUndelegations = []\<rparr>"

definition ex_record_key :: bytes where
  "ex_record_key = projr (record_key ref_codec ex_record)"

text \<open>The chain when the 60 delegated tokens wait to be completed.\<close>

definition ex_waiting :: "unit chain" where
  "ex_waiting = ex_chain
     \<lparr>assets := ex_assets\<lparr>
        stakerAssetInfos := [(staker_key ex_staker ex_asset,
          \<lparr>sa_TotalDepositAmount = 100, sa_WithdrawableAmount = 40, sa_PendingUndelegationAmount = 60\<rparr>)],
        operatorAssetInfos := [(operator_key ref_codec ex_op ex_asset,
          \<lparr>oa_TotalAmount = 0, oa_PendingUndelegationAmount = 60, oa_TotalShare = 0, oa_OperatorShare = 0\<rparr>)]\<rparr>,
      dlg := (dlg ex_chain)\<lparr>
        delegations := [(delegation_key ex_staker ex_asset (accAddressString ref_codec ex_op),
          \<lparr>da_UndelegatableShare = 0, da_PendingUndelegationAmount = 60,
           da_RewardUndelegatableShare = 0, da_RewardPendingUndelegationAmount = 0\<rparr>)],
        undelegations := [(ex_record_key, ex_record)],
        stakerUndelegations := [(staker_index ex_record, ex_record_key)],
        pendingUndelegations := [(pending_index ref_codec ex_record, ex_record_key)],
        lastUndelegationID := Some 1\<rparr>\<rparr>"

lemma ex_record_key: "record_key ref_codec ex_record = Inr ex_record_key"
  by (simp add: ex_record_key_def record_key_def GetUndelegationRecordKey_def ex_record_def MustAccAddressFromBech32_def
      ex_op_bech32 of_option_def)

lemma ex_parts: "key_part ex_staker" "key_part ex_asset"
  by (simp_all add: ex_staker_def ex_asset_def no_char_def DelimiterForCombinedKey_def)

lemma kv_single [simp]: "kv_wf [x]" "kv_get [(k, v)] j = (if j = k then Some v else None)"
  by (simp_all add: kv_wf_def kv_get_def)

lemma ex_waiting_ok: "undelegations_ok ref_codec ex_waiting"
proof -
  have "good_record ref_codec ex_record"
    using ex_parts by (auto simp: good_record_def ex_record_def intro!: exI [of _ ex_op]) (simp add: ex_op_def AccAddressLength_def)
  then have 1: "records_ok ref_codec (dlg ex_waiting)"
    using ex_record_key
    by (auto simp: records_ok_def ex_waiting_def indexes_def GetLastUndelegationID_def ex_record_def split: if_splits)
  have 2: "pending_balanced (assets ex_waiting) (dlg ex_waiting)"
    unfolding pending_balanced_def
  proof (intro allI impI)
    fix w assume "account_ok w"
    then show "pending_of (assets ex_waiting) (dlg ex_waiting) w = waiting_for (dlg ex_waiting) w"
      using ex_parts rc.acc_part
      by (cases w) (auto simp: waiting_for_def kv_total_def waiting_def ex_waiting_def ex_record_def operator_comp_def
          staker_comp_def delegation_comp_def joined_eq)
  qed
  have 3: "pools_nonneg (assets ex_waiting)"
    unfolding pools_nonneg_def
  proof (intro allI)
    fix k f show "0 \<le> operator_comp (assets ex_waiting) k f"
      by (cases f) (simp_all add: ex_waiting_def operator_comp_def)
  qed
  show ?thesis using 1 2 3 by (simp add: undelegations_ok_def ex_waiting_def ex_chain_def epochs_ok_def keys_ok_def)
qed


lemma ex_waiting_simps:
  "undelegations (dlg ex_waiting) = [(ex_record_key, ex_record)]" "epochs ex_waiting = []"
  "GetUndelegationHoldCount (dlg ex_waiting) k = 0"
  "staker_comp (assets ex_waiting) (staker_key ex_staker ex_asset) F_Withdrawable = 40"
  by (simp_all add: ex_waiting_def ex_chain_def GetUndelegationHoldCount_def staker_comp_def)

lemma distinct_single: "distinct xs \<Longrightarrow> set xs \<subseteq> {x} \<Longrightarrow> xs = [] \<or> xs = [x]"
  by (cases xs; cases "tl xs") auto

lemma cap_single: "cap al lim [x] = [x]"
  by (cases "unat lim") (simp_all add: cap_def unat_eq_zero)

lemma ex_end_block: "\<exists>s'. EndBlock ref_codec ex_keepers ex_waiting = Inr s'"
proof -
  have ok: "records_ok ref_codec (dlg ex_waiting)" "epochs_ok (epochs ex_waiting)"
    using ex_waiting_ok by (simp_all add: undelegations_ok_def)
  have k: "kv_get (undelegations (dlg ex_waiting)) ex_record_key = Some ex_record" by (simp add: ex_waiting_simps)
  have "length (ur_CompletedEpochIdentifier ex_record) < 2 ^ 63" by (simp add: ex_record_def NullEpochIdentifier_def)
  then have "\<forall>k r. kv_get (undelegations (dlg ex_waiting)) k = Some r \<longrightarrow> length (ur_CompletedEpochIdentifier r) < 2 ^ 63"
    by (simp add: ex_waiting_simps)
  from GetCompletable_due [OF chain_codec_ref ok this]
  obtain rs where rs: "GetCompletableUndelegations ref_codec (epochs ex_waiting) (dlg ex_waiting) True = Inr rs" by blast
  note S = completable_sound [OF chain_codec_ref ok rs]
  have sub: "set rs \<subseteq> {ex_record}" using S(2) by (auto simp: ex_waiting_simps split: if_splits)
  have "rs = [] \<or> rs = [ex_record]" by (rule distinct_single [OF S(1) sub])
  moreover have "\<exists>s'. complete_record ref_codec ex_keepers ex_record ex_waiting = Inr s'"
    by (rule complete_record_succeeds [OF chain_codec_ref ex_waiting_ok k])
       (simp add: payable_def ex_record_def ex_asset_not_native)
  ultimately show ?thesis unfolding EndBlock_def rs by (elim disjE exE) (simp_all add: cached_def)
qed

section \<open>Properties\<close>

text \<open>C2: in every state that the operations reach from a well-formed one, what a pool, a delegation or
  a staker has pending is the sum of the amounts of the stored undelegation records that concern it,
  and the two indexes hold exactly the keys of the stored records.\<close>

theorem pending_matches_records:
  assumes "chain_codec C" "dec_arith D" "undelegations_ok C s" "chain_run C D K s s'"
  shows "records_ok C (dlg s') \<and>
    (\<forall>w. account_ok w \<longrightarrow> pending_of (assets s') (dlg s') w = waiting_for (dlg s') w)"
proof -
  have "undelegations_ok C s'"
    by (rule chain_run_invariant [where I = "undelegations_ok C", OF assms(4,3)])
       (rule chain_step_undelegations [OF assms(1,2)])
  then show ?thesis by (simp add: undelegations_ok_def pending_balanced_def)
qed

theorem pending_matches_records_witness:
  "\<exists>s'. EndBlock ref_codec ex_keepers ex_waiting = Inr s' \<and>
     operator_comp (assets s') (operator_key ref_codec ex_op ex_asset) O_Pending =
     waiting_for (dlg s') (Pool (accAddressString ref_codec ex_op) ex_asset)"
proof -
  obtain s' where e: "EndBlock ref_codec ex_keepers ex_waiting = Inr s'" using ex_end_block by blast
  then have "chain_run ref_codec legacy_dec ex_keepers ex_waiting s'" by (intro r_into_rtranclp chain_step.end_block)
  from pending_matches_records [OF chain_codec_ref dec_arith_legacy_dec ex_waiting_ok this]
  have "account_ok (Pool (accAddressString ref_codec ex_op) ex_asset) \<longrightarrow>
      pending_of (assets s') (dlg s') (Pool (accAddressString ref_codec ex_op) ex_asset) =
      waiting_for (dlg s') (Pool (accAddressString ref_codec ex_op) ex_asset)" by blast
  then show ?thesis using e ex_parts rc.acc_part by simp
qed

text \<open>C3: the end of a block completes the undelegations that are due, as many as the parameters allow:
  the list is the one the epochs, the hold counts and the limit determine, the staker can withdraw what the
  records of its undelegations promise, and the records of staked client-chain tokens are gone.\<close>

theorem due_undelegations_paid:
  assumes "chain_codec C" "undelegations_ok C s"
    and "\<forall>k r. kv_get (undelegations (dlg s)) k = Some r \<longrightarrow>
           0 \<le> ur_ActualCompletedAmount r \<and> length (ur_CompletedEpochIdentifier r) < 2 ^ 63"
    and "EndBlock C K s = Inr s'" "key_part st" "key_part a" "a \<noteq> ImuachainAssetID"
  shows "\<exists>rs all. distinct all \<and>
    (\<forall>r. r \<in> set all \<longleftrightarrow> (\<exists>k. kv_get (undelegations (dlg s)) k = Some r \<and> is_due (epochs s) (dlg s) k r)) \<and>
    rs = cap True (dp_MaxUndelegationCompletions (GetDelegationParams (dlg s))) all \<and>
    staker_comp (assets s') (staker_key st a) F_Withdrawable =
      staker_comp (assets s) (staker_key st a) F_Withdrawable + paid_to st a rs \<and>
    (\<forall>r\<in>set rs. \<not> ur_RewardAsset r \<and> ur_AssetId r \<noteq> ImuachainAssetID \<longrightarrow> \<not> stored (dlg s') r)"
proof -
  let ?all = "all_due C (epochs s) (dlg s)" and ?lim = "dp_MaxUndelegationCompletions (GetDelegationParams (dlg s))"
  have ok: "records_ok C (dlg s)" "epochs_ok (epochs s)" using assms(2) by (simp_all add: undelegations_ok_def)
  have len: "\<forall>k r. kv_get (undelegations (dlg s)) k = Some r \<longrightarrow> length (ur_CompletedEpochIdentifier r) < 2 ^ 63"
    using assms(3) by blast
  note G = GetCompletable_due [OF assms(1) ok len] and In = in_all_due [OF assms(1) ok len]
  have "GetCompletableUndelegations C (epochs s) (dlg s) False = Inr ?all" by (simp add: G cap_def)
  then have d: "distinct ?all" by (rule completable_sound(1) [OF assms(1) ok])
  have run: "rfold (\<lambda>r. cached (complete_record C K r)) (cap True ?lim ?all) s = Inr s'"
    using assms(4) by (simp add: EndBlock_def G)
  have sub: "set (cap True ?lim ?all) \<subseteq> set ?all" by (simp add: cap_def set_take_subset)
  then have rs: "\<forall>r\<in>set (cap True ?lim ?all). stored (dlg s) r" "\<forall>r\<in>set (cap True ?lim ?all). 0 \<le> ur_ActualCompletedAmount r"
    using In assms(3) unfolding stored_def by blast+
  have "distinct (cap True ?lim ?all)" using d by (simp add: cap_def)
  note P = complete_records_pay [OF assms(1,2) this rs run assms(5-7)]
  then have "\<forall>r\<in>set (cap True ?lim ?all). \<not> ur_RewardAsset r \<and> ur_AssetId r \<noteq> ImuachainAssetID \<longrightarrow> \<not> stored (dlg s') r"
    using rs(2) by (auto simp: payable_def)
  with P d In show ?thesis by blast
qed

theorem due_undelegations_paid_witness:
  "\<exists>s'. EndBlock ref_codec ex_keepers ex_waiting = Inr s' \<and>
     staker_comp (assets s') (staker_key ex_staker ex_asset) F_Withdrawable = 100"
proof -
  obtain s' where e: "EndBlock ref_codec ex_keepers ex_waiting = Inr s'" using ex_end_block by blast
  have "\<forall>k r. kv_get (undelegations (dlg ex_waiting)) k = Some r \<longrightarrow>
           0 \<le> ur_ActualCompletedAmount r \<and> length (ur_CompletedEpochIdentifier r) < 2 ^ 63"
    by (simp add: ex_waiting_simps ex_record_def NullEpochIdentifier_def)
  note P = due_undelegations_paid [OF chain_codec_ref ex_waiting_ok this e ex_parts ex_asset_not_native]
  have due: "(\<exists>k. kv_get (undelegations (dlg ex_waiting)) k = Some r \<and> is_due (epochs ex_waiting) (dlg ex_waiting) k r) \<longleftrightarrow>
      r = ex_record" for r
  proof -
    have "ur_CompletedEpochIdentifier ex_record = NullEpochIdentifier" "epoch_of ex_record = 0"
      by (simp_all add: ex_record_def epoch_of_def NullEpochNumber_def)
    then show ?thesis by (auto simp: ex_waiting_simps is_due_def)
  qed
  obtain rs all where a: "distinct all" "\<forall>r. r \<in> set all \<longleftrightarrow> r = ex_record"
    "rs = cap True (dp_MaxUndelegationCompletions (GetDelegationParams (dlg ex_waiting))) all"
    "staker_comp (assets s') (staker_key ex_staker ex_asset) F_Withdrawable = 40 + paid_to ex_staker ex_asset rs"
    using P unfolding due ex_waiting_simps(4) by (elim exE conjE) (rule that)
  have s: "set all = {ex_record}" using a(2) by blast
  have "all = [] \<or> all = [ex_record]" by (rule distinct_single [OF a(1)]) (simp add: s)
  then have "all = [ex_record]" using s by (elim disjE) simp_all
  then have "rs = [ex_record]" by (simp only: a(3) cap_single)
  moreover have "paid_to ex_staker ex_asset [ex_record] = 60" by (simp add: paid_to_def ex_record_def)
  ultimately show ?thesis using e a(4) by simp
qed

end
