(* ===== verification/AssetGenesis.thy ===== *)
theory AssetGenesis
  imports AssetProps
begin

text \<open>
  The genesis of the assets module: validation (\<^verbatim>\<open>x/assets/types/genesis.go\<close>), initialisation and export
  (\<^verbatim>\<open>x/assets/keeper/genesis.go\<close>). The amounts of a genesis file may be missing, which Go represents by a
  nil number: they are optional here, the deltas of \<open>Assets\<close> being the same structures with the same
  nil values. Arithmetic on a nil number panics.
\<close>

section \<open>Checking lists\<close>

definition CommonValidation ::
    "'t list \<Rightarrow> ('t \<Rightarrow> 'v \<times> 'd) \<Rightarrow> (nat \<Rightarrow> 't \<Rightarrow> unit result) \<Rightarrow> ('v \<rightharpoonup> 'd) result" where
  "CommonValidation elems seenFieldValue validation =
     rfold (\<lambda>(i, v) seen.
         let (field, value) = seenFieldValue v in
         if seen field \<noteq> None then Inl ErrParse
         else rbind (validation i v) (\<lambda>_. Inr (seen(field \<mapsto> value))))
       (enumerate 0 elems) Map.empty"

section \<open>The genesis state\<close>

record GenesisToken =
  gt_AssetBasicInfo :: AssetInfo
  gt_StakingTotalAmount :: "int option"

record GenesisDeposit =
  gd_AssetID :: string
  gd_Info :: DeltaStakerSingleAsset

record GenesisDeposits =
  gds_StakerID :: string
  gds_Deposits :: "GenesisDeposit list"

record GenesisOperatorAsset =
  goa_AssetID :: string
  goa_Info :: DeltaOperatorSingleAsset

record GenesisOperatorAssets =
  gos_Operator :: string
  gos_AssetsState :: "GenesisOperatorAsset list"

record AssetsGenesis =
  ag_Params :: Params
  ag_ClientChains :: "ClientChainInfo list"
  ag_Tokens :: "GenesisToken list"
  ag_Deposits :: "GenesisDeposits list"
  ag_OperatorAssets :: "GenesisOperatorAssets list"

section \<open>Validation\<close>

definition ValidateID :: "codec \<Rightarrow> string \<Rightarrow> bool \<Rightarrow> bool \<Rightarrow> (string \<times> uint64) result" where
  "ValidateID C key checkLowercase validateEth =
     (if checkLowercase \<and> key \<noteq> to_lower key then Inl ErrParseAssetsStateKey
      else (case ParseID C key of
              Inl _ \<Rightarrow> Inl ErrParseAssetsStateKey
            | Inr (clientAddress, lzID) \<Rightarrow>
                if validateEth \<and> \<not> isHexAddress C clientAddress then Inl ErrParseAssetsStateKey
                else Inr (clientAddress, lzID)))"

definition ValidateClientChains :: "AssetsGenesis \<Rightarrow> (uint64 \<rightharpoonup> unit) result" where
  "ValidateClientChains gs =
     CommonValidation (ag_ClientChains gs) (\<lambda>info. (cci_LayerZeroChainID info, ()))
       (\<lambda>i info.
          if cci_Name info = [] then Inl ErrInvalidGenesisData
          else if cci_AddressLength info = 0 then Inl ErrInvalidGenesisData
          else Inr ())"

text \<open>\<open>present\<close> is an amount that is used: a nil one panics.\<close>

definition present :: "'a option \<Rightarrow> 'a result" where
  "present v = of_option (Panic ''nil pointer dereference'') v"

definition ValidateTokens :: "codec \<Rightarrow> AssetsGenesis \<Rightarrow> (uint64 \<rightharpoonup> unit) \<Rightarrow> (string \<rightharpoonup> int) result" where
  "ValidateTokens C gs lzIDs =
     rbind (CommonValidation (ag_Tokens gs)
       (\<lambda>info. (snd (GetStakerIDAndAssetIDFromStr C (ai_LayerZeroChainID (gt_AssetBasicInfo info)) []
                  (ai_Address (gt_AssetBasicInfo info))), gt_StakingTotalAmount info))
       (\<lambda>_ info.
          if lzIDs (ai_LayerZeroChainID (gt_AssetBasicInfo info)) = None then Inl ErrInvalidGenesisData
          else if to_lower (ai_Address (gt_AssetBasicInfo info)) \<noteq> ai_Address (gt_AssetBasicInfo info)
          then Inl ErrInvalidGenesisData
          else if MaxDecimal < ai_Decimals (gt_AssetBasicInfo info) then Inl ErrInvalidGenesisData
          else (case gt_StakingTotalAmount info of
                  None \<Rightarrow> Inl ErrInvalidGenesisData
                | Some n \<Rightarrow> if n < 0 then Inl ErrInvalidGenesisData else Inr ())))
     (\<lambda>totalStaking. Inr (\<lambda>a. case totalStaking a of None \<Rightarrow> None | Some n \<Rightarrow> n))"

definition deposit_check ::
    "codec \<Rightarrow> (string \<rightharpoonup> int) \<Rightarrow> uint64 \<Rightarrow> GenesisDeposit \<Rightarrow> unit result" where
  "deposit_check C tokensTotalStaking stakerClientChainID deposit =
     (case tokensTotalStaking (gd_AssetID deposit) of
        None \<Rightarrow> Inl ErrInvalidGenesisData
      | Some tokenTotalStaking \<Rightarrow>
          let assetClientChainID = (case ParseID C (gd_AssetID deposit) of Inl _ \<Rightarrow> 0 | Inr (_, n) \<Rightarrow> n) in
          if assetClientChainID \<noteq> stakerClientChainID then Inl ErrInvalidGenesisData
          else
            (case (dsa_TotalDepositAmount (gd_Info deposit), dsa_WithdrawableAmount (gd_Info deposit),
                   dsa_PendingUndelegationAmount (gd_Info deposit)) of
               (Some deposited, Some withdrawable, Some pending) \<Rightarrow>
                 if deposited < 0 \<or> withdrawable < 0 \<or> pending < 0 then Inl ErrInvalidGenesisData
                 else if tokenTotalStaking < deposited then Inl ErrInvalidGenesisData
                 else if deposited < pending + withdrawable then Inl ErrInvalidGenesisData
                 else Inr ()
             | _ \<Rightarrow> Inl ErrInvalidGenesisData))"

definition ValidateDeposits ::
    "codec \<Rightarrow> AssetsGenesis \<Rightarrow> (uint64 \<rightharpoonup> unit) \<Rightarrow> (string \<rightharpoonup> int) \<Rightarrow> unit result" where
  "ValidateDeposits C gs lzIDs tokensTotalStaking =
     rbind (CommonValidation (ag_Deposits gs) (\<lambda>deposits. (gds_StakerID deposits, ()))
       (\<lambda>_ depositByStaker.
          case ValidateID C (gds_StakerID depositByStaker) True False of
            Inl _ \<Rightarrow> Inl ErrInvalidGenesisData
          | Inr (_, stakerClientChainID) \<Rightarrow>
              if lzIDs stakerClientChainID = None then Inl ErrInvalidGenesisData
              else rbind (CommonValidation (gds_Deposits depositByStaker) (\<lambda>deposit. (gd_AssetID deposit, ()))
                            (\<lambda>_. deposit_check C tokensTotalStaking stakerClientChainID))
                     (\<lambda>_. Inr ())))
     (\<lambda>_. Inr ())"

text \<open>\<^verbatim>\<open>LegacyDec.GT\<close> compares the two pointers before the numbers, so that two nil shares are equal.\<close>

definition operator_asset_check :: "(string \<rightharpoonup> int) \<Rightarrow> GenesisOperatorAsset \<Rightarrow> unit result" where
  "operator_asset_check tokensTotalStaking asset =
     (case tokensTotalStaking (goa_AssetID asset) of
        None \<Rightarrow> Inl ErrInvalidGenesisData
      | Some totalStaking \<Rightarrow>
          rbind (present (doa_TotalAmount (goa_Info asset))) (\<lambda>amount.
          rbind (present (doa_PendingUndelegationAmount (goa_Info asset))) (\<lambda>pending.
          if totalStaking < amount + pending \<and> goa_AssetID asset \<noteq> ImuachainAssetID
          then Inl ErrInvalidGenesisData
          else
            (case (doa_OperatorShare (goa_Info asset), doa_TotalShare (goa_Info asset)) of
               (None, None) \<Rightarrow> Inr ()
             | (Some own, Some share) \<Rightarrow> if share < own then Inl ErrInvalidGenesisData else Inr ()
             | _ \<Rightarrow> Inl (Panic ''nil pointer dereference'')))))"

definition ValidateOperatorAssets ::
    "codec \<Rightarrow> AssetsGenesis \<Rightarrow> (string \<rightharpoonup> int) \<Rightarrow> unit result" where
  "ValidateOperatorAssets C gs tokensTotalStaking =
     rbind (CommonValidation (ag_OperatorAssets gs) (\<lambda>as. (gos_Operator as, ()))
       (\<lambda>_ as.
          if accAddressFromBech32 C (gos_Operator as) = None then Inl ErrInvalidGenesisData
          else rbind (CommonValidation (gos_AssetsState as) (\<lambda>asset. (goa_AssetID asset, ()))
                        (\<lambda>_. operator_asset_check tokensTotalStaking))
                 (\<lambda>_. Inr ())))
     (\<lambda>_. Inr ())"

definition AssetsGenesis_Validate :: "codec \<Rightarrow> AssetsGenesis \<Rightarrow> unit result" where
  "AssetsGenesis_Validate C gs =
     rbind (ValidateClientChains gs) (\<lambda>lzIDs.
     rbind (ValidateTokens C gs lzIDs) (\<lambda>totalStaking.
     rbind (ValidateDeposits C gs lzIDs totalStaking) (\<lambda>_.
     rbind (ValidateOperatorAssets C gs totalStaking) (\<lambda>_.
     ValidateBasic C (ag_Params gs)))))"

section \<open>Initialisation and export\<close>

text \<open>\<open>must m r\<close> is \<^verbatim>\<open>if err != nil { panic(err) }\<close>.\<close>

definition must :: "string \<Rightarrow> 'a result \<Rightarrow> 'a result" where
  "must m r = (case r of Inl _ \<Rightarrow> Inl (Panic m) | Inr x \<Rightarrow> Inr x)"

text \<open>
  \<open>balance\<close> is what the bank holds of the native token for the pool of delegated tokens. The error of
  \<^verbatim>\<open>AccAddressFromBech32\<close> is ignored, which leaves an empty address.
\<close>

definition init_chain :: "codec \<Rightarrow> ClientChainInfo \<Rightarrow> assets_state \<Rightarrow> assets_state result" where
  "init_chain C info s =
     (let (updated, s') = SetClientChainInfo C info s in
      if updated then Inl (Panic ''duplicate client chain found'') else Inr s')"

definition init_token :: "codec \<Rightarrow> GenesisToken \<Rightarrow> assets_state \<Rightarrow> assets_state result" where
  "init_token C info s =
     rbind (present (gt_StakingTotalAmount info)) (\<lambda>amount.
     must ''failed to set staking asset info''
       (SetStakingAssetInfo C \<lparr>sai_AssetBasicInfo = gt_AssetBasicInfo info, sai_StakingTotalAmount = amount\<rparr> s))"

definition init_deposit :: "string \<Rightarrow> GenesisDeposit \<Rightarrow> assets_state \<Rightarrow> assets_state result" where
  "init_deposit stakerID depositsByStaker s =
     rbind (must ''failed to set deposit info''
       (UpdateStakerAssetState stakerID (gd_AssetID depositsByStaker) (gd_Info depositsByStaker) s))
     (\<lambda>(_, s'). Inr s')"

definition init_operator_asset ::
    "codec \<Rightarrow> string \<Rightarrow> GenesisOperatorAsset \<Rightarrow> assets_state \<times> int \<Rightarrow> (assets_state \<times> int) result" where
  "init_operator_asset C operator assetInfo st =
     (case st of (s, imuaDelegation) \<Rightarrow>
      let accAddress = (case accAddressFromBech32 C operator of None \<Rightarrow> [] | Some a \<Rightarrow> a) in
      rbind (must ''failed to set operator asset info''
        (UpdateOperatorAssetState C accAddress (goa_AssetID assetInfo) (goa_Info assetInfo) s)) (\<lambda>(_, s').
      if goa_AssetID assetInfo = ImuachainAssetID
      then rbind (present (doa_TotalAmount (goa_Info assetInfo))) (\<lambda>n. Inr (s', imuaDelegation + n))
      else Inr (s', imuaDelegation)))"

definition assets_InitGenesis ::
    "codec \<Rightarrow> int \<Rightarrow> AssetsGenesis \<Rightarrow> assets_state \<Rightarrow> assets_state result" where
  "assets_InitGenesis C balance data s0 =
     rbind (must ''params'' (SetParams (ag_Params data) s0)) (\<lambda>s1.
     rbind (rfold (init_chain C) (ag_ClientChains data) s1) (\<lambda>s2.
     rbind (rfold (init_token C) (ag_Tokens data) s2) (\<lambda>s3.
     rbind (rfold (\<lambda>deposit. rfold (init_deposit (gds_StakerID deposit)) (gds_Deposits deposit))
              (ag_Deposits data) s3) (\<lambda>s4.
     rbind (rfold (\<lambda>as. rfold (init_operator_asset C (gos_Operator as)) (gos_AssetsState as))
              (ag_OperatorAssets data) (s4, 0)) (\<lambda>(s5, imuaDelegation).
     if balance < imuaDelegation then Inl (Panic ''delegated pool account balance is too low'')
     else Inr s5)))))"

text \<open>A stored state as the genesis has it, with no nil amount.\<close>

definition token_genesis :: "StakingAssetInfo \<Rightarrow> GenesisToken" where
  "token_genesis t = \<lparr>gt_AssetBasicInfo = sai_AssetBasicInfo t, gt_StakingTotalAmount = Some (sai_StakingTotalAmount t)\<rparr>"

definition staker_genesis :: "StakerAssetInfo \<Rightarrow> DeltaStakerSingleAsset" where
  "staker_genesis i = \<lparr>dsa_TotalDepositAmount = Some (sa_TotalDepositAmount i),
     dsa_WithdrawableAmount = Some (sa_WithdrawableAmount i),
     dsa_PendingUndelegationAmount = Some (sa_PendingUndelegationAmount i)\<rparr>"

definition operator_genesis :: "OperatorAssetInfo \<Rightarrow> DeltaOperatorSingleAsset" where
  "operator_genesis i = \<lparr>doa_TotalAmount = Some (oa_TotalAmount i),
     doa_PendingUndelegationAmount = Some (oa_PendingUndelegationAmount i),
     doa_TotalShare = Some (oa_TotalShare i), doa_OperatorShare = Some (oa_OperatorShare i)\<rparr>"

definition deposits_genesis :: "DepositsByStaker \<Rightarrow> GenesisDeposits" where
  "deposits_genesis d = \<lparr>gds_StakerID = dbs_StakerID d,
     gds_Deposits = map (\<lambda>e. \<lparr>gd_AssetID = dba_AssetID e, gd_Info = staker_genesis (dba_Info e)\<rparr>) (dbs_Deposits d)\<rparr>"

definition operator_assets_genesis :: "AssetsByOperator \<Rightarrow> GenesisOperatorAssets" where
  "operator_assets_genesis d = \<lparr>gos_Operator = abo_Operator d,
     gos_AssetsState = map (\<lambda>e. \<lparr>goa_AssetID = abi_AssetID e, goa_Info = operator_genesis (abi_Info e)\<rparr>)
       (abo_AssetsState d)\<rparr>"

definition assets_ExportGenesis :: "assets_state \<Rightarrow> AssetsGenesis result" where
  "assets_ExportGenesis s =
     rbind (must ''failed to get parameter'' (GetParams s)) (\<lambda>params.
     rbind (must ''failed to get all client chains'' (GetAllClientChainInfo s)) (\<lambda>chains.
     rbind (must ''failed to get all deposits'' (AllDeposits s)) (\<lambda>deposits.
     rbind (must ''failed to get all assets info for the operators'' (AllOperatorAssets s)) (\<lambda>operators.
     Inr \<lparr>ag_Params = params, ag_ClientChains = chains,
          ag_Tokens = map token_genesis (GetAllStakingAssetsInfo s),
          ag_Deposits = map deposits_genesis deposits,
          ag_OperatorAssets = map operator_assets_genesis operators\<rparr>))))"

end
