(* ===== verification/AssetGenesisProps.thy ===== *)
theory AssetGenesisProps
  imports AssetGenesis
begin

text \<open>
  What the genesis of the assets module guarantees: an exported state is imported again unchanged, and a
  genesis that passes validation is accepted and stored completely.
\<close>

section \<open>Export and import\<close>

text \<open>Grouping consecutive entries with the same first part loses nothing.\<close>

lemma grouping:
  fixes flat :: "'g \<Rightarrow> (string \<times> 'a) list"
  assumes step: "\<And>e prev ret. e \<in> set es \<Longrightarrow>
      step e (prev, ret) = rbind (append_last (add e) (if prev \<noteq> owner e then ret @ [new (owner e)] else ret))
        (\<lambda>ret'. Inr (owner e, ret'))"
    and nonempty: "\<And>e. e \<in> set es \<Longrightarrow> owner e \<noteq> []"
    and flat: "\<And>o'. flat (new o') = []" "\<And>e g. flat (add e g) = flat g @ [(name g, item e)]"
      "\<And>o'. name (new o') = o'" "\<And>e g. name (add e g) = name g"
  shows "\<exists>prev ret. rfold step es ([], []) = Inr (prev, ret) \<and> concat (map flat ret) = map (\<lambda>e. (owner e, item e)) es"
proof -
  have "\<exists>prev' ret'. rfold step es (prev, ret) = Inr (prev', ret') \<and>
      concat (map flat ret') = concat (map flat ret) @ map (\<lambda>e. (owner e, item e)) es"
    if "if ret = [] then prev = [] else name (last ret) = prev" for prev ret
    using step nonempty that
  proof (induction es arbitrary: prev ret)
    case (Cons e es)
    let ?r = "if prev \<noteq> owner e then ret @ [new (owner e)] else ret"
    let ?ret = "butlast ?r @ [add e (last ?r)]"
    have r: "?r \<noteq> []" "name (last ?r) = owner e" "concat (map flat ?r) = concat (map flat ret)"
      using Cons.prems(2) [of e] Cons.prems(3) by (auto simp: flat split: if_splits)
    have "concat (map flat ?ret) = concat (map flat (butlast ?r @ [last ?r])) @ [(owner e, item e)]"
      by (simp add: flat r(2))
    then have c: "concat (map flat ?ret) = concat (map flat ret) @ [(owner e, item e)]"
      unfolding append_butlast_last_id [OF r(1)] r(3) .
    have s: "step e (prev, ret) = Inr (owner e, ?ret)"
      using Cons.prems(1) [of e prev ret] r(1) by (simp add: append_last_def)
    have "\<exists>prev' ret'. rfold step es (owner e, ?ret) = Inr (prev', ret') \<and>
        concat (map flat ret') = concat (map flat ?ret) @ map (\<lambda>e. (owner e, item e)) es"
      by (rule Cons.IH) (use Cons.prems(1,2) in \<open>simp_all add: flat r(2)\<close>)
    then show ?case unfolding c by (simp add: s)
  qed simp
  from this [of "[]" "[]"] show ?thesis by simp
qed

text \<open>
  The states that are exported and imported again: keys that the entries determine, amounts that are not
  negative, normalised parameters, and a native pool that the bank covers.
\<close>

definition nonneg_staker :: "StakerAssetInfo \<Rightarrow> bool" where
  "nonneg_staker i \<longleftrightarrow> 0 \<le> sa_TotalDepositAmount i \<and> 0 \<le> sa_WithdrawableAmount i \<and> 0 \<le> sa_PendingUndelegationAmount i"

definition nonneg_operator :: "OperatorAssetInfo \<Rightarrow> bool" where
  "nonneg_operator i \<longleftrightarrow> 0 \<le> oa_TotalAmount i \<and> 0 \<le> oa_PendingUndelegationAmount i \<and>
     0 \<le> oa_TotalShare i \<and> 0 \<le> oa_OperatorShare i"

definition native_share :: "bytes \<Rightarrow> OperatorAssetInfo \<Rightarrow> int" where
  "native_share k i = (case ParseJoinedKeyWithCount k 2 of
     Inr [_, a] \<Rightarrow> if a = ImuachainAssetID then oa_TotalAmount i else 0 | _ \<Rightarrow> 0)"

definition exportable :: "codec \<Rightarrow> int \<Rightarrow> assets_state \<Rightarrow> bool" where
  "exportable C balance s \<longleftrightarrow>
     kv_wf (clientChainInfos s) \<and> kv_wf (stakingAssetInfos s) \<and>
     kv_wf (stakerAssetInfos s) \<and> kv_wf (operatorAssetInfos s) \<and>
     (\<forall>(k, i)\<in>set (clientChainInfos s). k = hexEncodeUint64 C (cci_LayerZeroChainID i)) \<and>
     (\<forall>(k, t)\<in>set (stakingAssetInfos s). k = AssetID C (sai_AssetBasicInfo t) \<and>
        ai_Decimals (sai_AssetBasicInfo t) \<le> MaxDecimal \<and> 0 \<le> sai_StakingTotalAmount t) \<and>
     (\<forall>(k, i)\<in>set (stakerAssetInfos s). nonneg_staker i \<and>
        (\<exists>st a. k = staker_key st a \<and> key_part st \<and> key_part a \<and> st \<noteq> [])) \<and>
     (\<forall>(k, i)\<in>set (operatorAssetInfos s). nonneg_operator i \<and>
        (\<exists>opAcc a. k = operator_key C opAcc a \<and> length opAcc = AccAddressLength \<and> key_part a)) \<and>
     (\<exists>p. assetsParams s = Some p \<and> Normalize p = p \<and>
        (\<forall>g\<in>set (p_Gateways p). ValidateGatewayBusinessRules g = Inr ())) \<and>
     kv_total native_share (operatorAssetInfos s) \<le> balance"

definition empty_assets :: assets_state where
  "empty_assets = \<lparr>clientChainInfos = [], stakingAssetInfos = [], stakerAssetInfos = [], operatorAssetInfos = [],
     assetsParams = None\<rparr>"

lemma rfold_append_collect: "rfold (\<lambda>e acc. Inr (acc @ [g e])) es acc = Inr (acc @ map g es)"
  by (induction es arbitrary: acc) simp_all

lemma GetAllClientChainInfo_eq: "GetAllClientChainInfo s = Inr (map snd (clientChainInfos s))"
  using rfold_append_collect [of snd "clientChainInfos s" "[]"]
  by (simp add: GetAllClientChainInfo_def IterateAllClientChains_def case_prod_beta')

lemma chains_rebuilt:
  assumes "kv_wf es" "\<forall>(k, i)\<in>set es. k = hexEncodeUint64 C (cci_LayerZeroChainID i)"
  shows "rfold (init_chain C) (map snd es) (s\<lparr>clientChainInfos := []\<rparr>) = Inr (s\<lparr>clientChainInfos := es\<rparr>)"
  unfolding rfold_map
proof (rule rfold_prefixes [where mk = "\<lambda>p. s\<lparr>clientChainInfos := p\<rparr>"])
  fix p e q assume es: "es = p @ e # q"
  obtain k i where e: "e = (k, i)" by fastforce
  note W = kv_wf_split [OF assms(1) [unfolded es e]]
  have "k = hexEncodeUint64 C (cci_LayerZeroChainID i)" using assms(2) by (simp add: es e)
  then show "init_chain C (snd e) (s\<lparr>clientChainInfos := p\<rparr>) = Inr (s\<lparr>clientChainInfos := p @ [e]\<rparr>)"
    using W by (simp add: e init_chain_def SetClientChainInfo_def Let_def kv_has_iff)
qed

lemma tokens_rebuilt:
  assumes "kv_wf es" "\<forall>(k, t)\<in>set es. k = AssetID C (sai_AssetBasicInfo t) \<and>
        ai_Decimals (sai_AssetBasicInfo t) \<le> MaxDecimal \<and> 0 \<le> sai_StakingTotalAmount t"
  shows "rfold (init_token C) (map token_genesis (map snd es)) (s\<lparr>stakingAssetInfos := []\<rparr>) = Inr (s\<lparr>stakingAssetInfos := es\<rparr>)"
  unfolding rfold_map
proof (rule rfold_prefixes [where mk = "\<lambda>p. s\<lparr>stakingAssetInfos := p\<rparr>"])
  fix p e q assume es: "es = p @ e # q"
  obtain k t where e: "e = (k, t)" by fastforce
  note W = kv_wf_split [OF assms(1) [unfolded es e]]
  have "k = AssetID C (sai_AssetBasicInfo t) \<and> ai_Decimals (sai_AssetBasicInfo t) \<le> MaxDecimal \<and> 0 \<le> sai_StakingTotalAmount t"
    using assms(2) by (simp add: es e)
  then show "init_token C (token_genesis (snd e)) (s\<lparr>stakingAssetInfos := p\<rparr>) = Inr (s\<lparr>stakingAssetInfos := p @ [e]\<rparr>)"
    using W by (cases t) (simp add: e init_token_def token_genesis_def present_def must_def SetStakingAssetInfo_def
        Let_def kv_has_iff AssetID_def [symmetric] not_less)
qed

text \<open>An amount that is added to nothing is stored as it is.\<close>

definition staker_of :: "DeltaStakerSingleAsset \<Rightarrow> StakerAssetInfo" where
  "staker_of d = \<lparr>sa_TotalDepositAmount = amount_of (dsa_TotalDepositAmount d),
     sa_WithdrawableAmount = amount_of (dsa_WithdrawableAmount d),
     sa_PendingUndelegationAmount = amount_of (dsa_PendingUndelegationAmount d)\<rparr>"

definition operator_of :: "DeltaOperatorSingleAsset \<Rightarrow> OperatorAssetInfo" where
  "operator_of d = \<lparr>oa_TotalAmount = amount_of (doa_TotalAmount d),
     oa_PendingUndelegationAmount = amount_of (doa_PendingUndelegationAmount d),
     oa_TotalShare = amount_of (doa_TotalShare d), oa_OperatorShare = amount_of (doa_OperatorShare d)\<rparr>"

definition native_amount :: "GenesisOperatorAsset \<Rightarrow> int" where
  "native_amount e = (if goa_AssetID e = ImuachainAssetID then oa_TotalAmount (operator_of (goa_Info e)) else 0)"

lemma genesis_of [simp]: "staker_of (staker_genesis i) = i" "operator_of (operator_genesis j) = j"
  by (simp_all add: staker_of_def staker_genesis_def operator_of_def operator_genesis_def)

lemma init_deposit_new:
  assumes "kv_get p (staker_key st (gd_AssetID e)) = None" "nonneg_staker (staker_of (gd_Info e))"
  shows "init_deposit st e (s\<lparr>stakerAssetInfos := p\<rparr>) =
    Inr (s\<lparr>stakerAssetInfos := kv_set (staker_key st (gd_AssetID e)) (staker_of (gd_Info e)) p\<rparr>)"
  using assms
  by (simp add: init_deposit_def UpdateStakerAssetState_def staker_of_def result_simps nonneg_staker_def Let_def must_def)

lemma init_operator_asset_new:
  assumes "kv_get p (operator_key C opAcc (goa_AssetID e)) = None" "nonneg_operator (operator_of (goa_Info e))"
    and "accAddressFromBech32 C operator = Some opAcc" "doa_TotalAmount (goa_Info e) \<noteq> None"
  shows "init_operator_asset C operator e (s\<lparr>operatorAssetInfos := p\<rparr>, n) =
    Inr (s\<lparr>operatorAssetInfos := kv_set (operator_key C opAcc (goa_AssetID e)) (operator_of (goa_Info e)) p\<rparr>, n + native_amount e)"
  using assms
  by (auto simp: init_operator_asset_def UpdateOperatorAssetState_def operator_of_def result_simps nonneg_operator_def
      Let_def must_def zero_operator_asset_def native_amount_def present_def)

definition deposit_items :: "DepositsByStaker \<Rightarrow> (string \<times> string \<times> StakerAssetInfo) list" where
  "deposit_items d = map (\<lambda>e. (dbs_StakerID d, dba_AssetID e, dba_Info e)) (dbs_Deposits d)"

definition operator_items :: "AssetsByOperator \<Rightarrow> (string \<times> string \<times> OperatorAssetInfo) list" where
  "operator_items d = map (\<lambda>e. (abo_Operator d, abi_AssetID e, abi_Info e)) (abo_AssetsState d)"

definition parts_of :: "bytes \<Rightarrow> string list" where
  "parts_of k = (case ParseJoinedKeyWithCount k 2 of Inl _ \<Rightarrow> [] | Inr ks \<Rightarrow> ks)"

lemma parts_of_joined:
  assumes "key_part x" "key_part y"
  shows "ParseJoinedKeyWithCount (GetJoinedStoreKey [x, y]) 2 = Inr [x, y]" "parts_of (GetJoinedStoreKey [x, y]) = [x, y]"
  using ParseJoinedKeyWithCount_joined [of "[x, y]"] assms by (simp_all add: parts_of_def numeral_2_eq_2)

lemma AllDeposits_items:
  assumes "\<forall>(k, i)\<in>set (stakerAssetInfos s). \<exists>st a. k = staker_key st a \<and> key_part st \<and> key_part a \<and> st \<noteq> []"
  shows "\<exists>ds. AllDeposits s = Inr ds \<and>
    concat (map deposit_items ds) = map (\<lambda>(k, i). (parts_of k ! 0, parts_of k ! 1, i)) (stakerAssetInfos s)"
proof -
  have P: "ParseJoinedKeyWithCount (fst e) 2 = Inr (parts_of (fst e))" "parts_of (fst e) ! 0 \<noteq> []"
    if "e \<in> set (stakerAssetInfos s)" for e
    using assms that by (auto simp: parts_of_joined)
  have "\<exists>prev ret. rfold (\<lambda>(key, stateInfo) (previousStakerID, ret).
         rbind (ParseJoinedKeyWithCount key 2) (\<lambda>keyList.
         let stakerID = keyList ! 0; assetID = keyList ! 1;
             ret' = (if previousStakerID \<noteq> stakerID
                     then ret @ [\<lparr>dbs_StakerID = stakerID, dbs_Deposits = []\<rparr>] else ret)
         in rbind (append_last (\<lambda>d. d\<lparr>dbs_Deposits :=
                dbs_Deposits d @ [\<lparr>dba_AssetID = assetID, dba_Info = stateInfo\<rparr>]\<rparr>) ret')
              (\<lambda>ret''. Inr (stakerID, ret'')))) (stakerAssetInfos s) ([], []) = Inr (prev, ret) \<and>
      concat (map deposit_items ret) = map (\<lambda>e. (parts_of (fst e) ! 0, parts_of (fst e) ! 1, snd e)) (stakerAssetInfos s)"
    by (rule grouping [where new = "\<lambda>st. \<lparr>dbs_StakerID = st, dbs_Deposits = []\<rparr>" and name = dbs_StakerID
          and add = "\<lambda>e d. d\<lparr>dbs_Deposits := dbs_Deposits d @ [\<lparr>dba_AssetID = parts_of (fst e) ! 1, dba_Info = snd e\<rparr>]\<rparr>"])
       (use P in \<open>auto simp: deposit_items_def Let_def\<close>)
  then show ?thesis by (auto simp: AllDeposits_def case_prod_beta')
qed

lemma AllOperatorAssets_items:
  assumes "\<forall>(k, i)\<in>set (operatorAssetInfos s). \<exists>op a. k = GetJoinedStoreKey [op, a] \<and> key_part op \<and> key_part a \<and> op \<noteq> []"
  shows "\<exists>ds. AllOperatorAssets s = Inr ds \<and>
    concat (map operator_items ds) = map (\<lambda>(k, i). (parts_of k ! 0, parts_of k ! 1, i)) (operatorAssetInfos s)"
proof -
  have P: "ParseJoinedKeyWithCount (fst e) 2 = Inr (parts_of (fst e))" "parts_of (fst e) ! 0 \<noteq> []"
    if "e \<in> set (operatorAssetInfos s)" for e
    using assms that by (auto simp: parts_of_joined)
  have "\<exists>prev ret. rfold (\<lambda>(key, assetInfo) (previousOperator, ret).
         rbind (ParseJoinedKeyWithCount key 2) (\<lambda>keyList.
         let operator = keyList ! 0; assetID = keyList ! 1;
             ret' = (if previousOperator \<noteq> operator
                     then ret @ [\<lparr>abo_Operator = operator, abo_AssetsState = []\<rparr>] else ret)
         in rbind (append_last (\<lambda>d. d\<lparr>abo_AssetsState :=
                abo_AssetsState d @ [\<lparr>abi_AssetID = assetID, abi_Info = assetInfo\<rparr>]\<rparr>) ret')
              (\<lambda>ret''. Inr (operator, ret'')))) (operatorAssetInfos s) ([], []) = Inr (prev, ret) \<and>
      concat (map operator_items ret) = map (\<lambda>e. (parts_of (fst e) ! 0, parts_of (fst e) ! 1, snd e)) (operatorAssetInfos s)"
    by (rule grouping [where new = "\<lambda>st. \<lparr>abo_Operator = st, abo_AssetsState = []\<rparr>" and name = abo_Operator
          and add = "\<lambda>e d. d\<lparr>abo_AssetsState := abo_AssetsState d @ [\<lparr>abi_AssetID = parts_of (fst e) ! 1, abi_Info = snd e\<rparr>]\<rparr>"])
       (use P in \<open>auto simp: operator_items_def Let_def\<close>)
  then show ?thesis by (auto simp: AllOperatorAssets_def case_prod_beta')
qed

lemma deposits_rebuilt:
  assumes "kv_wf es" "concat (map deposit_items ds) = map (\<lambda>(k, i). (parts_of k ! 0, parts_of k ! 1, i)) es"
    and "\<forall>(k, i)\<in>set es. nonneg_staker i \<and> (\<exists>st a. k = staker_key st a \<and> key_part st \<and> key_part a \<and> st \<noteq> [])"
  shows "rfold (\<lambda>deposit. rfold (init_deposit (gds_StakerID deposit)) (gds_Deposits deposit)) (map deposits_genesis ds)
      (s\<lparr>stakerAssetInfos := []\<rparr>) = Inr (s\<lparr>stakerAssetInfos := es\<rparr>)"
proof -
  let ?h = "\<lambda>(st, a, i). init_deposit st \<lparr>gd_AssetID = a, gd_Info = staker_genesis i\<rparr>"
  have "rfold (\<lambda>deposit. rfold (init_deposit (gds_StakerID deposit)) (gds_Deposits deposit)) (map deposits_genesis ds) s0 =
      rfold ?h (concat (map deposit_items ds)) s0" for s0
    by (simp add: rfold_concat rfold_map deposits_genesis_def deposit_items_def)
  also have "rfold ?h (concat (map deposit_items ds)) (s\<lparr>stakerAssetInfos := []\<rparr>) = Inr (s\<lparr>stakerAssetInfos := es\<rparr>)"
    unfolding assms(2) rfold_map
  proof (rule rfold_prefixes [where mk = "\<lambda>p. s\<lparr>stakerAssetInfos := p\<rparr>"])
    fix p e q assume es: "es = p @ e # q"
    obtain k i where e: "e = (k, i)" by fastforce
    obtain st a where k: "k = staker_key st a" "key_part st" "key_part a" and i: "nonneg_staker i"
      using assms(3) by (auto simp: es e)
    note W = kv_wf_split [OF assms(1) [unfolded es e k(1)]]
    show "?h ((\<lambda>(k, i). (parts_of k ! 0, parts_of k ! 1, i)) e) (s\<lparr>stakerAssetInfos := p\<rparr>) = Inr (s\<lparr>stakerAssetInfos := p @ [e]\<rparr>)"
      using W i init_deposit_new [of p st "\<lparr>gd_AssetID = a, gd_Info = staker_genesis i\<rparr>" s]
      by (simp add: e k(1) parts_of_joined [OF k(2,3)])
  qed
  finally show ?thesis .
qed

lemma operators_rebuilt:
  assumes "chain_codec C" "kv_wf es" "concat (map operator_items ds) = map (\<lambda>(k, i). (parts_of k ! 0, parts_of k ! 1, i)) es"
    and "\<forall>(k, i)\<in>set es. nonneg_operator i \<and>
        (\<exists>opAcc a. k = operator_key C opAcc a \<and> length opAcc = AccAddressLength \<and> key_part a)"
  shows "rfold (\<lambda>as. rfold (init_operator_asset C (gos_Operator as)) (gos_AssetsState as)) (map operator_assets_genesis ds)
      (s\<lparr>operatorAssetInfos := []\<rparr>, 0) = Inr (s\<lparr>operatorAssetInfos := es\<rparr>, kv_total native_share es)"
proof -
  let ?h = "\<lambda>(op, a, i). init_operator_asset C op \<lparr>goa_AssetID = a, goa_Info = operator_genesis i\<rparr>"
  have "rfold (\<lambda>as. rfold (init_operator_asset C (gos_Operator as)) (gos_AssetsState as)) (map operator_assets_genesis ds) s0 =
      rfold ?h (concat (map operator_items ds)) s0" for s0
    by (simp add: rfold_concat rfold_map operator_assets_genesis_def operator_items_def)
  also have "rfold ?h (concat (map operator_items ds)) (s\<lparr>operatorAssetInfos := []\<rparr>, kv_total native_share []) =
      Inr (s\<lparr>operatorAssetInfos := es\<rparr>, kv_total native_share es)"
    unfolding assms(3) rfold_map
  proof (rule rfold_prefixes [where mk = "\<lambda>p. (s\<lparr>operatorAssetInfos := p\<rparr>, kv_total native_share p)"])
    fix p e q assume es: "es = p @ e # q"
    obtain k i where e: "e = (k, i)" by fastforce
    obtain opAcc a where k: "k = operator_key C opAcc a" "length opAcc = AccAddressLength" "key_part a" and i: "nonneg_operator i"
      using assms(4) by (auto simp: es e)
    note W = kv_wf_split [OF assms(2) [unfolded es e k(1)]]
    note parts = parts_of_joined [OF chain_codec.acc_part [OF assms(1), of opAcc] k(3)]
    have n: "doa_TotalAmount (operator_genesis i) = Some (oa_TotalAmount i)" by (simp add: operator_genesis_def)
    let ?e = "\<lparr>goa_AssetID = a, goa_Info = operator_genesis i\<rparr>"
    have "init_operator_asset C (accAddressString C opAcc) ?e (s\<lparr>operatorAssetInfos := p\<rparr>, kv_total native_share p) =
        Inr (s\<lparr>operatorAssetInfos := p @ [e]\<rparr>, kv_total native_share p + native_amount ?e)"
      using W i init_operator_asset_new [of p C opAcc ?e "accAddressString C opAcc" s "kv_total native_share p"]
      by (simp add: e k(1) n chain_codec.acc_roundtrip [OF assms(1) k(2)])
    moreover have "kv_total native_share (p @ [e]) = kv_total native_share p + native_amount ?e"
      by (simp add: e k(1) kv_total_def native_share_def parts native_amount_def)
    ultimately show "?h ((\<lambda>(k, i). (parts_of k ! 0, parts_of k ! 1, i)) e) (s\<lparr>operatorAssetInfos := p\<rparr>, kv_total native_share p) =
        Inr (s\<lparr>operatorAssetInfos := p @ [e]\<rparr>, kv_total native_share (p @ [e]))"
      by (simp add: e k(1) parts)
  qed
  finally show ?thesis by (simp add: kv_total_def)
qed

lemma rfold_checks: "\<forall>x\<in>set xs. f x = Inr () \<Longrightarrow> rfold (\<lambda>x _. f x) xs () = Inr ()"
  by (induction xs) simp_all

section \<open>A valid genesis is accepted\<close>

lemma CommonValidation_snoc:
  "CommonValidation (xs @ [x]) f val = rbind (CommonValidation xs f val) (\<lambda>seen.
     if seen (fst (f x)) \<noteq> None then Inl ErrParse
     else rbind (val (length xs) x) (\<lambda>_. Inr (seen(fst (f x) \<mapsto> snd (f x)))))"
  by (simp add: CommonValidation_def enumerate_append_eq rfold_snoc case_prod_beta' Let_def cong: if_cong)

lemma CommonValidation_Inr:
  assumes "CommonValidation xs f val = Inr m"
  shows "distinct (map (\<lambda>x. fst (f x)) xs)" "\<And>x. x \<in> set xs \<Longrightarrow> \<exists>i. val i x = Inr ()"
    "m = map_of (map f xs)"
proof -
  have "distinct (map (\<lambda>x. fst (f x)) xs) \<and> (\<forall>x\<in>set xs. \<exists>i. val i x = Inr ()) \<and> m = map_of (map f xs)"
    using assms
  proof (induction xs arbitrary: m rule: rev_induct)
    case Nil
    then show ?case by (simp add: CommonValidation_def)
  next
    case (snoc x xs)
    obtain seen where s: "CommonValidation xs f val = Inr seen" "seen (fst (f x)) = None" "val (length xs) x = Inr ()"
      and m: "m = seen(fst (f x) \<mapsto> snd (f x))"
      using snoc.prems by (auto simp: CommonValidation_snoc rbind_eq_Inr_iff split: if_splits)
    have IH: "distinct (map (\<lambda>x. fst (f x)) xs)" "\<forall>x\<in>set xs. \<exists>i. val i x = Inr ()" "seen = map_of (map f xs)"
      using snoc.IH [OF s(1)] by blast+
    have new: "fst (f x) \<notin> set (map (\<lambda>x. fst (f x)) xs)"
      using s(2) unfolding IH(3) map_of_eq_None_iff by (auto simp: image_image)
    have "m = map_of (map f (xs @ [x]))"
      using s(2) unfolding m IH(3) by (cases "f x") (auto simp: map_add_def fun_eq_iff split: option.splits)
    then show ?case using IH(1,2) new s(3) by auto
  qed
  then show "distinct (map (\<lambda>x. fst (f x)) xs)" "\<And>x. x \<in> set xs \<Longrightarrow> \<exists>i. val i x = Inr ()"
    "m = map_of (map f xs)" by blast+
qed

text \<open>Identifiers that a valid genesis refers to.\<close>

lemma AssetID_part:
  assumes "chain_codec C" "key_part x" "to_lower x = x"
  shows "key_part (snd (GetStakerIDAndAssetIDFromStr C n [] x))"
  using assms(2,3) chain_codec.hex64_part(1) [OF assms(1), of n]
  by (auto simp: GetStakerIDAndAssetIDFromStr_def Let_def no_char_def DelimiterForCombinedKey_def DelimiterForID_def)

definition importable :: "codec \<Rightarrow> int \<Rightarrow> AssetsGenesis \<Rightarrow> bool" where
  "importable C balance g \<longleftrightarrow>
     (\<forall>x\<in>set (p_Gateways (ag_Params g)). ValidateGatewayBusinessRules x = Inr ()) \<and>
     (\<forall>t\<in>set (ag_Tokens g). key_part (ai_Address (gt_AssetBasicInfo t))) \<and>
     (\<forall>d\<in>set (ag_Deposits g). key_part (gds_StakerID d)) \<and>
     (\<forall>d\<in>set (ag_OperatorAssets g). (\<exists>opAcc. length opAcc = AccAddressLength \<and> gos_Operator d = accAddressString C opAcc) \<and>
        (\<forall>e\<in>set (gos_AssetsState d). nonneg_operator (operator_of (goa_Info e)))) \<and>
     (\<Sum>d\<leftarrow>ag_OperatorAssets g. \<Sum>e\<leftarrow>gos_AssetsState d. native_amount e) \<le> balance"

lemma deposit_check_nonneg: "deposit_check C T n d = Inr () \<Longrightarrow> nonneg_staker (staker_of (gd_Info d)) \<and> T (gd_AssetID d) \<noteq> None"
  by (auto simp: deposit_check_def nonneg_staker_def staker_of_def Let_def split: option.splits if_splits)

lemma valid_tokens:
  assumes "ValidateTokens C g lzIDs = Inr T"
  shows "distinct (map (\<lambda>t. AssetID C (gt_AssetBasicInfo t)) (ag_Tokens g))"
    "\<And>t. t \<in> set (ag_Tokens g) \<Longrightarrow> to_lower (ai_Address (gt_AssetBasicInfo t)) = ai_Address (gt_AssetBasicInfo t) \<and>
       ai_Decimals (gt_AssetBasicInfo t) \<le> MaxDecimal \<and> (\<exists>n. gt_StakingTotalAmount t = Some n \<and> 0 \<le> n)"
    "\<And>a. T a \<noteq> None \<Longrightarrow> \<exists>t\<in>set (ag_Tokens g). a = AssetID C (gt_AssetBasicInfo t)"
proof -
  obtain m where m: "CommonValidation (ag_Tokens g)
       (\<lambda>info. (snd (GetStakerIDAndAssetIDFromStr C (ai_LayerZeroChainID (gt_AssetBasicInfo info)) []
                  (ai_Address (gt_AssetBasicInfo info))), gt_StakingTotalAmount info))
       (\<lambda>_ info.
          if lzIDs (ai_LayerZeroChainID (gt_AssetBasicInfo info)) = None then Inl ErrInvalidGenesisData
          else if to_lower (ai_Address (gt_AssetBasicInfo info)) \<noteq> ai_Address (gt_AssetBasicInfo info)
          then Inl ErrInvalidGenesisData
          else if MaxDecimal < ai_Decimals (gt_AssetBasicInfo info) then Inl ErrInvalidGenesisData
          else (case gt_StakingTotalAmount info of
                  None \<Rightarrow> Inl ErrInvalidGenesisData
                | Some n \<Rightarrow> if n < 0 then Inl ErrInvalidGenesisData else Inr ())) = Inr m"
    and T: "T = (\<lambda>a. case m a of None \<Rightarrow> None | Some n \<Rightarrow> n)"
    using assms by (auto simp: ValidateTokens_def rbind_eq_Inr_iff)
  note V = CommonValidation_Inr [OF m]
  show "distinct (map (\<lambda>t. AssetID C (gt_AssetBasicInfo t)) (ag_Tokens g))" using V(1) by (simp add: AssetID_def)
  show "to_lower (ai_Address (gt_AssetBasicInfo t)) = ai_Address (gt_AssetBasicInfo t) \<and>
       ai_Decimals (gt_AssetBasicInfo t) \<le> MaxDecimal \<and> (\<exists>n. gt_StakingTotalAmount t = Some n \<and> 0 \<le> n)"
    if "t \<in> set (ag_Tokens g)" for t
    using V(2) [OF that] by (auto simp: not_less split: if_splits option.splits)
  show "\<exists>t\<in>set (ag_Tokens g). a = AssetID C (gt_AssetBasicInfo t)" if "T a \<noteq> None" for a
    using that unfolding T V(3) by (auto simp: AssetID_def dest!: map_of_SomeD split: option.splits)
qed

lemma valid_deposits:
  assumes "ValidateDeposits C g lzIDs T = Inr ()"
  shows "distinct (map gds_StakerID (ag_Deposits g))"
    "\<And>d. d \<in> set (ag_Deposits g) \<Longrightarrow> distinct (map gd_AssetID (gds_Deposits d)) \<and>
       (\<forall>e\<in>set (gds_Deposits d). nonneg_staker (staker_of (gd_Info e)) \<and> T (gd_AssetID e) \<noteq> None)"
proof -
  obtain m where m: "CommonValidation (ag_Deposits g) (\<lambda>deposits. (gds_StakerID deposits, ()))
       (\<lambda>_ depositByStaker.
          case ValidateID C (gds_StakerID depositByStaker) True False of
            Inl _ \<Rightarrow> Inl ErrInvalidGenesisData
          | Inr (_, stakerClientChainID) \<Rightarrow>
              if lzIDs stakerClientChainID = None then Inl ErrInvalidGenesisData
              else rbind (CommonValidation (gds_Deposits depositByStaker) (\<lambda>deposit. (gd_AssetID deposit, ()))
                            (\<lambda>_. deposit_check C T stakerClientChainID))
                     (\<lambda>_. Inr ())) = Inr m"
    using assms by (auto simp: ValidateDeposits_def rbind_eq_Inr_iff)
  note V = CommonValidation_Inr [OF m]
  show "distinct (map gds_StakerID (ag_Deposits g))" using V(1) by simp
  fix d assume "d \<in> set (ag_Deposits g)"
  from V(2) [OF this] obtain n m' where
      "CommonValidation (gds_Deposits d) (\<lambda>deposit. (gd_AssetID deposit, ())) (\<lambda>_. deposit_check C T n) = Inr m'"
    by (auto simp: rbind_eq_Inr_iff split: sum.splits prod.splits if_splits)
  note W = CommonValidation_Inr [OF this]
  then show "distinct (map gd_AssetID (gds_Deposits d)) \<and>
       (\<forall>e\<in>set (gds_Deposits d). nonneg_staker (staker_of (gd_Info e)) \<and> T (gd_AssetID e) \<noteq> None)"
    using deposit_check_nonneg by fastforce
qed

lemma valid_operators:
  assumes "ValidateOperatorAssets C g T = Inr ()"
  shows "distinct (map gos_Operator (ag_OperatorAssets g))"
    "\<And>d. d \<in> set (ag_OperatorAssets g) \<Longrightarrow> distinct (map goa_AssetID (gos_AssetsState d)) \<and>
       (\<forall>e\<in>set (gos_AssetsState d). doa_TotalAmount (goa_Info e) \<noteq> None \<and> T (goa_AssetID e) \<noteq> None)"
proof -
  obtain m where m: "CommonValidation (ag_OperatorAssets g) (\<lambda>as. (gos_Operator as, ()))
       (\<lambda>_ as.
          if accAddressFromBech32 C (gos_Operator as) = None then Inl ErrInvalidGenesisData
          else rbind (CommonValidation (gos_AssetsState as) (\<lambda>asset. (goa_AssetID asset, ()))
                        (\<lambda>_. operator_asset_check T))
                 (\<lambda>_. Inr ())) = Inr m"
    using assms by (auto simp: ValidateOperatorAssets_def rbind_eq_Inr_iff)
  note V = CommonValidation_Inr [OF m]
  show "distinct (map gos_Operator (ag_OperatorAssets g))" using V(1) by simp
  fix d assume "d \<in> set (ag_OperatorAssets g)"
  from V(2) [OF this] obtain m' where
      "CommonValidation (gos_AssetsState d) (\<lambda>asset. (goa_AssetID asset, ())) (\<lambda>_. operator_asset_check T) = Inr m'"
    by (auto simp: rbind_eq_Inr_iff split: if_splits)
  note W = CommonValidation_Inr [OF this]
  have "operator_asset_check T e = Inr () \<Longrightarrow> doa_TotalAmount (goa_Info e) \<noteq> None \<and> T (goa_AssetID e) \<noteq> None" for e
    by (auto simp: operator_asset_check_def present_def rbind_eq_Inr_iff split: option.splits)
  with W show "distinct (map goa_AssetID (gos_AssetsState d)) \<and>
       (\<forall>e\<in>set (gos_AssetsState d). doa_TotalAmount (goa_Info e) \<noteq> None \<and> T (goa_AssetID e) \<noteq> None)"
    by fastforce
qed

text \<open>Keys made of an owner and an asset differ when the owners do and, for each owner, the assets do.\<close>

lemma distinct_pair_keys:
  assumes "distinct (map owner ds)" "\<And>d. d \<in> set ds \<Longrightarrow> key_part (owner d)"
    and "\<And>d. d \<in> set ds \<Longrightarrow> distinct (map asset (els d)) \<and> (\<forall>e\<in>set (els d). key_part (asset e))"
  shows "distinct (concat (map (\<lambda>d. map (\<lambda>e. GetJoinedStoreKey [owner d, asset e]) (els d)) ds))"
proof (rule distinct_concat_map)
  show "distinct ds" using assms(1) by (simp add: distinct_map)
  fix d assume d: "d \<in> set ds"
  have "inj_on (\<lambda>e. GetJoinedStoreKey [owner d, asset e]) (set (els d))"
  proof (rule inj_onI)
    fix e e' assume e: "e \<in> set (els d)" "e' \<in> set (els d)"
      "GetJoinedStoreKey [owner d, asset e] = GetJoinedStoreKey [owner d, asset e']"
    then have "asset e = asset e'" using assms(2,3) [OF d] by (simp add: joined_eq)
    then show "e = e'" using assms(3) [OF d] e(1,2) by (auto simp: distinct_map dest: inj_onD)
  qed
  then show "distinct (map (\<lambda>e. GetJoinedStoreKey [owner d, asset e]) (els d))"
    using assms(3) [OF d] by (simp add: distinct_map)
  fix d' assume d': "d' \<in> set ds" "d \<noteq> d'"
  then have "owner d \<noteq> owner d'" using assms(1) d by (auto simp: distinct_map inj_on_eq_iff)
  then show "set (map (\<lambda>e. GetJoinedStoreKey [owner d, asset e]) (els d)) \<inter>
      set (map (\<lambda>e. GetJoinedStoreKey [owner d', asset e]) (els d')) = {}"
    using assms(2,3) [OF d] assms(2,3) [OF d'(1)] by (auto simp: joined_eq)
qed


text \<open>The stores that a valid genesis fills.\<close>

definition chain_entries :: "codec \<Rightarrow> AssetsGenesis \<Rightarrow> (bytes \<times> ClientChainInfo) list" where
  "chain_entries C g = map (\<lambda>i. (hexEncodeUint64 C (cci_LayerZeroChainID i), i)) (ag_ClientChains g)"

definition token_entries :: "codec \<Rightarrow> AssetsGenesis \<Rightarrow> (bytes \<times> StakingAssetInfo) list" where
  "token_entries C g = map (\<lambda>t. (AssetID C (gt_AssetBasicInfo t),
     \<lparr>sai_AssetBasicInfo = gt_AssetBasicInfo t, sai_StakingTotalAmount = amount_of (gt_StakingTotalAmount t)\<rparr>)) (ag_Tokens g)"

definition deposit_entries :: "AssetsGenesis \<Rightarrow> (bytes \<times> StakerAssetInfo) list" where
  "deposit_entries g = concat (map (\<lambda>d. map (\<lambda>e.
     (staker_key (gds_StakerID d) (gd_AssetID e), staker_of (gd_Info e))) (gds_Deposits d)) (ag_Deposits g))"

definition operator_entries :: "AssetsGenesis \<Rightarrow> (bytes \<times> OperatorAssetInfo) list" where
  "operator_entries g = concat (map (\<lambda>d. map (\<lambda>e.
     (GetJoinedStoreKey [gos_Operator d, goa_AssetID e], operator_of (goa_Info e))) (gos_AssetsState d)) (ag_OperatorAssets g))"

lemma chains_stored:
  assumes "chain_codec C" "ValidateClientChains g = Inr lzIDs"
  shows "distinct (map fst (chain_entries C g))"
    "rfold (init_chain C) (ag_ClientChains g) (s\<lparr>clientChainInfos := []\<rparr>) =
     Inr (s\<lparr>clientChainInfos := put_all (chain_entries C g)\<rparr>)"
proof -
  have "distinct (map cci_LayerZeroChainID (ag_ClientChains g))"
    using CommonValidation_Inr(1) [OF assms(2) [unfolded ValidateClientChains_def]] by simp
  then show d: "distinct (map fst (chain_entries C g))"
    using chain_codec.hex64_inj [OF assms(1)] by (simp add: chain_entries_def distinct_map inj_on_def)
  show "rfold (init_chain C) (ag_ClientChains g) (s\<lparr>clientChainInfos := []\<rparr>) =
     Inr (s\<lparr>clientChainInfos := put_all (chain_entries C g)\<rparr>)"
    unfolding chain_entries_def
    by (rule rfold_put [where mk = "\<lambda>p. s\<lparr>clientChainInfos := p\<rparr>", OF d [unfolded chain_entries_def]])
       (simp add: init_chain_def SetClientChainInfo_def Let_def kv_has_iff)
qed

lemma tokens_stored:
  assumes "ValidateTokens C g lzIDs = Inr T"
  shows "distinct (map fst (token_entries C g))"
    "rfold (init_token C) (ag_Tokens g) (s\<lparr>stakingAssetInfos := []\<rparr>) =
     Inr (s\<lparr>stakingAssetInfos := put_all (token_entries C g)\<rparr>)"
proof -
  note V = valid_tokens [OF assms]
  show d: "distinct (map fst (token_entries C g))" using V(1) by (simp add: token_entries_def comp_def)
  show "rfold (init_token C) (ag_Tokens g) (s\<lparr>stakingAssetInfos := []\<rparr>) =
     Inr (s\<lparr>stakingAssetInfos := put_all (token_entries C g)\<rparr>)"
    unfolding token_entries_def
  proof (rule rfold_put [where mk = "\<lambda>p. s\<lparr>stakingAssetInfos := p\<rparr>", OF d [unfolded token_entries_def]])
    fix t :: GenesisToken and p :: "(bytes, StakingAssetInfo) kv"
    let ?e = "(AssetID C (gt_AssetBasicInfo t),
       \<lparr>sai_AssetBasicInfo = gt_AssetBasicInfo t, sai_StakingTotalAmount = amount_of (gt_StakingTotalAmount t)\<rparr>)"
    assume "t \<in> set (ag_Tokens g)" "kv_get p (fst ?e) = None"
    then show "init_token C t (s\<lparr>stakingAssetInfos := p\<rparr>) = Inr (s\<lparr>stakingAssetInfos := kv_set (fst ?e) (snd ?e) p\<rparr>)"
      using V(2) [of t]
      by (auto simp: init_token_def present_def must_def SetStakingAssetInfo_def Let_def kv_has_iff
          AssetID_def [symmetric] not_less)
  qed
qed

lemma deposits_stored:
  assumes "ValidateDeposits C g lzIDs T = Inr ()" "\<And>d. d \<in> set (ag_Deposits g) \<Longrightarrow> key_part (gds_StakerID d)"
    and "\<And>a. T a \<noteq> None \<Longrightarrow> key_part a"
  shows "distinct (map fst (deposit_entries g))"
    "rfold (\<lambda>deposit. rfold (init_deposit (gds_StakerID deposit)) (gds_Deposits deposit)) (ag_Deposits g)
       (s\<lparr>stakerAssetInfos := []\<rparr>) = Inr (s\<lparr>stakerAssetInfos := put_all (deposit_entries g)\<rparr>)"
proof -
  note V = valid_deposits [OF assms(1)]
  let ?xs = "concat (map (\<lambda>d. map (Pair (gds_StakerID d)) (gds_Deposits d)) (ag_Deposits g))"
  let ?entry = "\<lambda>(st, e). (staker_key st (gd_AssetID e), staker_of (gd_Info e))"
  have es: "deposit_entries g = map ?entry ?xs" by (simp add: deposit_entries_def map_concat comp_def)
  show d: "distinct (map fst (deposit_entries g))"
    unfolding deposit_entries_def map_concat map_map comp_def fst_conv
    by (rule distinct_pair_keys [OF V(1) assms(2)]) (use V(2) assms(3) in blast)+
  have "rfold (\<lambda>x. case x of (st, e) \<Rightarrow> init_deposit st e) ?xs (s\<lparr>stakerAssetInfos := []\<rparr>) =
      Inr (s\<lparr>stakerAssetInfos := put_all (deposit_entries g)\<rparr>)"
    unfolding es
  proof (rule rfold_put [where mk = "\<lambda>p. s\<lparr>stakerAssetInfos := p\<rparr>", OF d [unfolded es]])
    fix x and p :: "(bytes, StakerAssetInfo) kv" assume x: "x \<in> set ?xs" and n: "kv_get p (fst (?entry x)) = None"
    obtain st e where xe: "x = (st, e)" by fastforce
    then have "nonneg_staker (staker_of (gd_Info e))" using x V(2) by auto
    then show "(case x of (st, e) \<Rightarrow> init_deposit st e) (s\<lparr>stakerAssetInfos := p\<rparr>) =
        Inr (s\<lparr>stakerAssetInfos := kv_set (fst (?entry x)) (snd (?entry x)) p\<rparr>)"
      using n init_deposit_new [of p st e s] by (simp add: xe)
  qed
  then show "rfold (\<lambda>deposit. rfold (init_deposit (gds_StakerID deposit)) (gds_Deposits deposit)) (ag_Deposits g)
       (s\<lparr>stakerAssetInfos := []\<rparr>) = Inr (s\<lparr>stakerAssetInfos := put_all (deposit_entries g)\<rparr>)"
    by (simp add: rfold_concat rfold_map)
qed


lemma sum_list_concat: "sum_list (map f (concat (map h ds))) = (\<Sum>d\<leftarrow>ds. sum_list (map f (h d)))" for f :: "'a \<Rightarrow> int"
  by (induction ds) simp_all

lemma operators_stored:
  assumes "chain_codec C" "ValidateOperatorAssets C g T = Inr ()"
    and "\<And>d. d \<in> set (ag_OperatorAssets g) \<Longrightarrow>
      (\<exists>opAcc. length opAcc = AccAddressLength \<and> gos_Operator d = accAddressString C opAcc) \<and>
      (\<forall>e\<in>set (gos_AssetsState d). nonneg_operator (operator_of (goa_Info e)))"
    and "\<And>a. T a \<noteq> None \<Longrightarrow> key_part a"
  shows "distinct (map fst (operator_entries g))"
    "rfold (\<lambda>as. rfold (init_operator_asset C (gos_Operator as)) (gos_AssetsState as)) (ag_OperatorAssets g)
       (s\<lparr>operatorAssetInfos := []\<rparr>, 0) =
     Inr (s\<lparr>operatorAssetInfos := put_all (operator_entries g)\<rparr>,
       \<Sum>d\<leftarrow>ag_OperatorAssets g. \<Sum>e\<leftarrow>gos_AssetsState d. native_amount e)"
proof -
  note V = valid_operators [OF assms(2)]
  let ?xs = "concat (map (\<lambda>d. map (Pair (gos_Operator d)) (gos_AssetsState d)) (ag_OperatorAssets g))"
  let ?entry = "\<lambda>x. (GetJoinedStoreKey [fst x, goa_AssetID (snd x)], operator_of (goa_Info (snd x)))"
  have es: "operator_entries g = map ?entry ?xs" by (simp add: operator_entries_def map_concat comp_def)
  have part: "key_part (gos_Operator d)" if "d \<in> set (ag_OperatorAssets g)" for d
    using assms(3) [OF that] chain_codec.acc_part [OF assms(1)] by auto
  show d: "distinct (map fst (operator_entries g))"
    unfolding operator_entries_def map_concat map_map comp_def fst_conv
    by (rule distinct_pair_keys [OF V(1) part]) (use V(2) assms(4) in blast)+
  have "rfold (\<lambda>x. init_operator_asset C (fst x) (snd x)) ys (s\<lparr>operatorAssetInfos := []\<rparr>, 0) =
      Inr (s\<lparr>operatorAssetInfos := put_all (map ?entry ys)\<rparr>, sum_list (map (\<lambda>x. native_amount (snd x)) ys))"
    if "set ys \<subseteq> set ?xs" "distinct (map fst (map ?entry ys))" for ys
    using that
  proof (induction ys rule: rev_induct)
    case (snoc x ys)
    have IH: "rfold (\<lambda>x. init_operator_asset C (fst x) (snd x)) ys (s\<lparr>operatorAssetInfos := []\<rparr>, 0) =
      Inr (s\<lparr>operatorAssetInfos := put_all (map ?entry ys)\<rparr>, sum_list (map (\<lambda>x. native_amount (snd x)) ys))"
      by (rule snoc.IH) (use snoc.prems in auto)
    obtain d where d: "d \<in> set (ag_OperatorAssets g)" "fst x = gos_Operator d" "snd x \<in> set (gos_AssetsState d)"
      using snoc.prems(1) by auto
    obtain opAcc where o: "length opAcc = AccAddressLength" "fst x = accAddressString C opAcc"
      and x: "nonneg_operator (operator_of (goa_Info (snd x)))" "doa_TotalAmount (goa_Info (snd x)) \<noteq> None"
      using assms(3) [OF d(1)] V(2) [OF d(1)] d(2,3) by auto
    have "kv_get (put_all (map ?entry ys)) (fst (?entry x)) = None"
      using snoc.prems(2) by (subst kv_get_put_all) (auto simp: map_of_eq_None_iff image_image)
    then show ?case
      using IH init_operator_asset_new [OF _ x(1) _ x(2), of _ C opAcc "fst x" s] chain_codec.acc_roundtrip [OF assms(1) o(1)]
      by (simp add: rfold_snoc o(2))
  qed simp
  from this [OF subset_refl d [unfolded es]]
  have "rfold (\<lambda>x. init_operator_asset C (fst x) (snd x)) ?xs (s\<lparr>operatorAssetInfos := []\<rparr>, 0) =
      Inr (s\<lparr>operatorAssetInfos := put_all (operator_entries g)\<rparr>, sum_list (map (\<lambda>x. native_amount (snd x)) ?xs))"
    by (simp only: es)
  moreover have "sum_list (map (\<lambda>x. native_amount (snd x)) ?xs) =
      (\<Sum>d\<leftarrow>ag_OperatorAssets g. \<Sum>e\<leftarrow>gos_AssetsState d. native_amount e)"
    by (simp add: sum_list_concat comp_def)
  ultimately show "rfold (\<lambda>as. rfold (init_operator_asset C (gos_Operator as)) (gos_AssetsState as)) (ag_OperatorAssets g)
       (s\<lparr>operatorAssetInfos := []\<rparr>, 0) =
     Inr (s\<lparr>operatorAssetInfos := put_all (operator_entries g)\<rparr>,
       \<Sum>d\<leftarrow>ag_OperatorAssets g. \<Sum>e\<leftarrow>gos_AssetsState d. native_amount e)"
    by (simp add: rfold_concat rfold_map)
qed

section \<open>Examples\<close>

definition ex_genesis :: AssetsGenesis where
  "ex_genesis = \<lparr>ag_Params = \<lparr>p_Gateways = []\<rparr>,
     ag_ClientChains = [\<lparr>cci_Name = ''c'', cci_MetaInfo = [], cci_ChainId = 1, cci_ImuaChainIndex = 0,
        cci_FinalizationBlocks = 10, cci_LayerZeroChainID = 101, cci_SignatureType = [], cci_AddressLength = 20\<rparr>],
     ag_Tokens = [\<lparr>gt_AssetBasicInfo = \<lparr>ai_Name = ''n'', ai_Symbol = ''s'', ai_Address = ''0x6161'',
          ai_Decimals = 6, ai_LayerZeroChainID = 101, ai_ImuaChainIndex = 0, ai_MetaInfo = []\<rparr>,
        gt_StakingTotalAmount = Some 100\<rparr>],
     ag_Deposits = [\<lparr>gds_StakerID = ''0x6262_0x65'', gds_Deposits = [\<lparr>gd_AssetID = ex_asset,
        gd_Info = \<lparr>dsa_TotalDepositAmount = Some 100, dsa_WithdrawableAmount = Some 40,
          dsa_PendingUndelegationAmount = Some 0\<rparr>\<rparr>]\<rparr>],
     ag_OperatorAssets = [\<lparr>gos_Operator = accAddressString ref_codec (replicate 20 (CHR ''o'')),
        gos_AssetsState = [\<lparr>goa_AssetID = ex_asset, goa_Info = \<lparr>doa_TotalAmount = Some 60,
          doa_PendingUndelegationAmount = Some 0, doa_TotalShare = Some (60 * dec_precision),
          doa_OperatorShare = Some 0\<rparr>\<rparr>]\<rparr>]\<rparr>"

lemma ex_id_parses: "ParseID ref_codec ''0x6262_0x65'' = Inr (''0x6262'', 101)" "ParseID ref_codec ex_asset = Inr (''0x6161'', 101)"
  "snd (GetStakerIDAndAssetIDFromStr ref_codec 101 [] ''0x6161'') = ex_asset"
  "to_lower ''0x6262_0x65'' = ''0x6262_0x65''" "to_lower ''0x6161'' = ''0x6161''"
  by (simp_all add: ParseID_def ref_codec_def DelimiterForID_def ex_asset_def hex0x_def hex_val_def
      GetStakerIDAndAssetIDFromStr_def Let_def hex_nat.simps to_lower_def lower_char_def)

lemma ex_genesis_valid: "AssetsGenesis_Validate ref_codec ex_genesis = Inr ()"
proof -
  have o: "accAddressFromBech32 ref_codec (accAddressString ref_codec (replicate 20 (CHR ''o''))) = Some (replicate 20 (CHR ''o''))"
    by (rule rc.acc_roundtrip) (simp add: AccAddressLength_def)
  show ?thesis
    by (simp add: AssetsGenesis_Validate_def ex_genesis_def ValidateClientChains_def ValidateTokens_def ValidateDeposits_def
        ValidateOperatorAssets_def CommonValidation_def ex_id_parses o deposit_check_def operator_asset_check_def present_def
        ValidateID_def MaxDecimal_def ValidateBasic_def dec_precision_def Let_def)
qed

lemma ex_id_parts: "key_part ex_asset" "key_part ''0x6262_0x65''" "key_part ''0x6161''"
  by (simp_all add: ex_asset_def no_char_def DelimiterForCombinedKey_def)

definition ex_exported :: assets_state where
  "ex_exported = ex_assets\<lparr>
     stakerAssetInfos := [(staker_key ''0x6262_0x65'' ex_asset,
        \<lparr>sa_TotalDepositAmount = 100, sa_WithdrawableAmount = 40, sa_PendingUndelegationAmount = 0\<rparr>)],
     operatorAssetInfos := [(operator_key ref_codec (replicate 20 (CHR ''o'')) ex_asset,
        \<lparr>oa_TotalAmount = 60, oa_PendingUndelegationAmount = 0, oa_TotalShare = 60 * dec_precision, oa_OperatorShare = 0\<rparr>)],
     assetsParams := Some \<lparr>p_Gateways = []\<rparr>\<rparr>"

section \<open>Properties\<close>

text \<open>C24: exporting the state of the assets module and initialising an empty module with the export
  gives back the same state.\<close>

theorem assets_genesis_roundtrip:
  assumes "chain_codec C" "exportable C balance s"
  shows "\<exists>g. assets_ExportGenesis s = Inr g \<and> assets_InitGenesis C balance g empty_assets = Inr s"
proof -
  note E = assms(2) [unfolded exportable_def]
  obtain p where p: "assetsParams s = Some p" "Normalize p = p" "\<forall>g\<in>set (p_Gateways p). ValidateGatewayBusinessRules g = Inr ()"
    using E by blast
  have "\<forall>(k, i)\<in>set (stakerAssetInfos s). \<exists>st a. k = staker_key st a \<and> key_part st \<and> key_part a \<and> st \<noteq> []"
    using E by blast
  from AllDeposits_items [OF this] obtain ds where ds: "AllDeposits s = Inr ds"
    "concat (map deposit_items ds) = map (\<lambda>(k, i). (parts_of k ! 0, parts_of k ! 1, i)) (stakerAssetInfos s)" by blast
  have "\<forall>(k, i)\<in>set (operatorAssetInfos s). \<exists>op a. k = GetJoinedStoreKey [op, a] \<and> key_part op \<and> key_part a \<and> op \<noteq> []"
    using E chain_codec.acc_part [OF assms(1)] chain_codec.acc_nonempty [OF assms(1)] by blast
  from AllOperatorAssets_items [OF this] obtain os where os: "AllOperatorAssets s = Inr os"
    "concat (map operator_items os) = map (\<lambda>(k, i). (parts_of k ! 0, parts_of k ! 1, i)) (operatorAssetInfos s)" by blast
  let ?s1 = "empty_assets\<lparr>assetsParams := Some p\<rparr>"
  let ?s2 = "?s1\<lparr>clientChainInfos := clientChainInfos s\<rparr>"
  let ?s3 = "?s2\<lparr>stakingAssetInfos := stakingAssetInfos s\<rparr>"
  let ?s4 = "?s3\<lparr>stakerAssetInfos := stakerAssetInfos s\<rparr>"
  have par: "SetParams p empty_assets = Inr ?s1" using p(2,3) by (simp add: SetParams_def rfold_checks)
  have e: "?s1\<lparr>clientChainInfos := []\<rparr> = ?s1" "?s2\<lparr>stakingAssetInfos := []\<rparr> = ?s2"
    "?s3\<lparr>stakerAssetInfos := []\<rparr> = ?s3" "?s4\<lparr>operatorAssetInfos := []\<rparr> = ?s4" by (simp_all add: empty_assets_def)
  have full: "?s4\<lparr>operatorAssetInfos := operatorAssetInfos s\<rparr> = s"
    using p(1) by (cases s) (simp add: empty_assets_def)
  have "rfold (init_chain C) (map snd (clientChainInfos s)) ?s1 = Inr ?s2"
    using chains_rebuilt [of "clientChainInfos s" C ?s1] E unfolding e by blast
  moreover have "rfold (init_token C) (map token_genesis (map snd (stakingAssetInfos s))) ?s2 = Inr ?s3"
    using tokens_rebuilt [of "stakingAssetInfos s" C ?s2] E unfolding e by blast
  moreover have "rfold (\<lambda>deposit. rfold (init_deposit (gds_StakerID deposit)) (gds_Deposits deposit)) (map deposits_genesis ds) ?s3 = Inr ?s4"
    using deposits_rebuilt [OF _ ds(2), of ?s3] E unfolding e by blast
  moreover have "rfold (\<lambda>as. rfold (init_operator_asset C (gos_Operator as)) (gos_AssetsState as)) (map operator_assets_genesis os)
      (?s4, 0) = Inr (s, kv_total native_share (operatorAssetInfos s))"
    using operators_rebuilt [OF assms(1) _ os(2), of ?s4] E unfolding e full by blast
  moreover have "kv_total native_share (operatorAssetInfos s) \<le> balance" using E by blast
  ultimately show ?thesis
    by (simp add: assets_ExportGenesis_def assets_InitGenesis_def GetParams_def p(1) GetAllClientChainInfo_eq ds(1) os(1)
        must_def par GetAllStakingAssetsInfo_def)
qed

theorem assets_genesis_roundtrip_witness:
  "\<exists>g. assets_ExportGenesis ex_exported = Inr g \<and> assets_InitGenesis ref_codec 0 g empty_assets = Inr ex_exported"
proof (rule assets_genesis_roundtrip [OF chain_codec_ref])
  have op: "\<exists>opAcc a. operator_key ref_codec (replicate 20 (CHR ''o'')) ex_asset = operator_key ref_codec opAcc a \<and>
      length opAcc = AccAddressLength \<and> key_part a"
    using ex_id_parts(1) by (intro exI [of _ "replicate 20 (CHR ''o'')"] exI [of _ ex_asset]) (simp add: AccAddressLength_def)
  have st: "\<exists>st a. staker_key ''0x6262_0x65'' ex_asset = staker_key st a \<and> key_part st \<and> key_part a \<and> st \<noteq> []"
    using ex_id_parts by (intro exI [of _ "''0x6262_0x65''"] exI [of _ ex_asset]) simp
  have n: "native_share (operator_key ref_codec (replicate 20 (CHR ''o'')) ex_asset) i = 0" for i
    by (simp add: native_share_def parts_of_joined [OF rc.acc_part ex_id_parts(1)] ex_asset_not_native)
  show "exportable ref_codec 0 ex_exported"
    using op st n
    by (simp add: exportable_def ex_exported_def ex_assets_def kv_wf_def AssetID_def ex_id_parses MaxDecimal_def
        nonneg_staker_def nonneg_operator_def dec_precision_def Normalize_def kv_total_def)
qed



end
