(* ===== verification/DelegationGenesis.thy ===== *)
theory DelegationGenesis
  imports DelegationOps AssetGenesis
begin

text \<open>
  Checks of the delegation module that read no state: the validation of a genesis
  (\<^verbatim>\<open>x/delegation/types/genesis.go\<close>) and of the messages (\<^verbatim>\<open>x/delegation/types/msg.go\<close>). The amounts of an
  undelegation record are taken to be present: comparing a nil one panics.
\<close>

section \<open>Genesis\<close>

definition ValidateIDAndOperator :: "codec \<Rightarrow> string \<Rightarrow> string \<Rightarrow> string \<Rightarrow> unit result" where
  "ValidateIDAndOperator C stakerID assetID operator =
     (case accAddressFromBech32 C operator of
        None \<Rightarrow> Inl ErrParse
      | Some _ \<Rightarrow>
     (case ValidateID C stakerID True False of
        Inl _ \<Rightarrow> Inl ErrParse
      | Inr (_, stakerClientChainID) \<Rightarrow>
     (case ValidateID C assetID True False of
        Inl _ \<Rightarrow> Inl ErrParse
      | Inr (_, assetClientChainID) \<Rightarrow>
          if stakerClientChainID \<noteq> assetClientChainID then Inl ErrParse else Inr ())))"

definition ValidateAssociations :: "codec \<Rightarrow> DelegationGenesis \<Rightarrow> unit result" where
  "ValidateAssociations C gs =
     rbind (rfold (\<lambda>(stakerId, operator) associatedStakerIDs.
         if accAddressFromBech32 C operator = None then Inl ErrInvalidGenesisData
         else (case ValidateID C stakerId True True of
                 Inl _ \<Rightarrow> Inl ErrInvalidGenesisData
               | Inr _ \<Rightarrow>
                   if stakerId \<in> set associatedStakerIDs then Inl ErrInvalidGenesisData
                   else Inr (stakerId # associatedStakerIDs)))
       (dg_Associations gs) [])
     (\<lambda>_. Inr ())"

definition delegation_state_check :: "codec \<Rightarrow> string \<times> DeltaDelegationAmounts \<Rightarrow> unit result" where
  "delegation_state_check C info =
     (case info of (key, states) \<Rightarrow>
      (case ParseStakerAssetIDAndOperator key of
         Inl _ \<Rightarrow> Inl ErrInvalidGenesisData
       | Inr (stakerId, assetId, operatorAddr) \<Rightarrow>
      (case ValidateIDAndOperator C stakerId assetId operatorAddr of
         Inl _ \<Rightarrow> Inl ErrInvalidGenesisData
       | Inr _ \<Rightarrow>
      (case (dda_UndelegatableShare states, dda_PendingUndelegationAmount states) of
         (Some share, Some pending) \<Rightarrow>
           if share < 0 \<or> pending < 0 then Inl ErrInvalidGenesisData else Inr ()
       | _ \<Rightarrow> Inl ErrInvalidGenesisData))))"

definition ValidateDelegationStates :: "codec \<Rightarrow> DelegationGenesis \<Rightarrow> unit result" where
  "ValidateDelegationStates C gs =
     rbind (CommonValidation (dg_DelegationStates gs) (\<lambda>info. (fst info, ())) (\<lambda>_. delegation_state_check C))
       (\<lambda>_. Inr ())"

definition staker_list_check :: "codec \<Rightarrow> string \<Rightarrow> unit result" where
  "staker_list_check C key =
     (case ParseJoinedKeyWithCount key 3 of
        Inl _ \<Rightarrow> Inl ErrInvalidGenesisData
      | Inr stringList \<Rightarrow>
          if accAddressFromBech32 C (stringList ! 0) = None then Inl ErrInvalidGenesisData
          else
     (case ValidateID C (stringList ! 1) True False of
        Inl _ \<Rightarrow> Inl ErrInvalidGenesisData
      | Inr (_, assetClientChainID) \<Rightarrow>
     (case ValidateID C (stringList ! 2) True False of
        Inl _ \<Rightarrow> Inl ErrInvalidGenesisData
      | Inr (_, stakerClientChainID) \<Rightarrow>
          if stakerClientChainID \<noteq> assetClientChainID then Inl ErrInvalidGenesisData else Inr ())))"

definition ValidateStakerList :: "codec \<Rightarrow> DelegationGenesis \<Rightarrow> unit result" where
  "ValidateStakerList C gs =
     rbind (CommonValidation (dg_StakersByOperator gs) (\<lambda>info. (info, ())) (\<lambda>_. staker_list_check C))
       (\<lambda>_. Inr ())"

text \<open>
  \<^verbatim>\<open>hex.DecodeString\<close> of the standard library: pairs of hexadecimal digits of either case, an error for
  every other byte and for an odd length.
\<close>

definition fromHexChar :: "char \<Rightarrow> nat option" where
  "fromHexChar c = (let n = (of_char c :: nat) in
     if 48 \<le> n \<and> n \<le> 57 then Some (n - 48)
     else if 97 \<le> n \<and> n \<le> 102 then Some (n - 87)
     else if 65 \<le> n \<and> n \<le> 70 then Some (n - 55) else None)"

fun DecodeString :: "string \<Rightarrow> bytes option" where
  "DecodeString [] = Some []"
| "DecodeString [c] = None"
| "DecodeString (c # d # s) =
     (case (fromHexChar c, fromHexChar d, DecodeString s) of
        (Some x, Some y, Some bs) \<Rightarrow> Some (char_of (16 * x + y) # bs)
      | _ \<Rightarrow> None)"

text \<open>The epoch identifiers of \<^verbatim>\<open>x/epochs/types\<close> that a genesis may refer to.\<close>

definition genesis_epochs :: "string list" where
  "genesis_epochs = [NullEpochIdentifier, ''minute'', ''hour'', ''day'', ''week'']"

definition undelegation_check :: "codec \<Rightarrow> uint64 \<Rightarrow> UndelegationAndHoldCount \<Rightarrow> unit result" where
  "undelegation_check C lastUndelegationId undelegationRecord =
     (let undelegation = uh_Undelegation undelegationRecord in
      case ValidateIDAndOperator C (ur_StakerId undelegation) (ur_AssetId undelegation) (ur_OperatorAddr undelegation) of
        Inl _ \<Rightarrow> Inl ErrInvalidGenesisData
      | Inr _ \<Rightarrow>
     (case DecodeString (ur_TxHash undelegation) of
        None \<Rightarrow> Inl ErrInvalidGenesisData
      | Some bytes \<Rightarrow>
          if length bytes \<noteq> HashLength then Inl ErrInvalidGenesisData
          else if ur_Amount undelegation < ur_ActualCompletedAmount undelegation then Inl ErrInvalidGenesisData
          else if lastUndelegationId \<le> ur_UndelegationId undelegation then Inl ErrInvalidGenesisData
          else if ur_CompletedEpochNumber undelegation < 0 then Inl ErrInvalidGenesisData
          else if ur_CompletedEpochIdentifier undelegation \<in> set genesis_epochs then Inr ()
          else Inl ErrInvalidGenesisData))"

definition ValidateUndelegations :: "codec \<Rightarrow> DelegationGenesis \<Rightarrow> unit result" where
  "ValidateUndelegations C gs =
     rbind (CommonValidation (dg_Undelegations gs) (\<lambda>record. (ur_TxHash (uh_Undelegation record), ()))
              (\<lambda>_. undelegation_check C (dg_LastUndelegationId gs)))
       (\<lambda>_. Inr ())"

definition DelegationGenesis_Validate :: "codec \<Rightarrow> DelegationGenesis \<Rightarrow> unit result" where
  "DelegationGenesis_Validate C gs =
     rbind (ValidateAssociations C gs) (\<lambda>_.
     rbind (ValidateDelegationStates C gs) (\<lambda>_.
     rbind (ValidateStakerList C gs) (\<lambda>_.
     rbind (ValidateUndelegations C gs) (\<lambda>_.
     DelegationParams_Validate (dg_Params gs)))))"

section \<open>Messages\<close>

text \<open>A message names the asset, the sender, and an amount for each operator.\<close>

definition validateDelegationInfo :: "codec \<Rightarrow> string \<Rightarrow> string \<Rightarrow> (string \<times> int) list \<Rightarrow> unit result" where
  "validateDelegationInfo C assetID fromAddress perOperatorAmounts =
     (if assetID \<noteq> ImuachainAssetID then Inl ErrInvalidAssetID
      else if accAddressFromBech32 C fromAddress = None then Inl (ErrExternal ''invalid from address'')
      else if perOperatorAmounts = [] then Inl ErrInvalidInputParameter
      else rfold (\<lambda>(operator, amount) _.
             if accAddressFromBech32 C operator = None then Inl (ErrExternal ''invalid operator address delegateTo'')
             else if amount \<le> 0 then Inl ErrAmountIsNotPositive
             else Inr ()) perOperatorAmounts ())"

definition MsgUpdateParams_ValidateBasic :: "codec \<Rightarrow> string \<Rightarrow> DelegationParams \<Rightarrow> unit result" where
  "MsgUpdateParams_ValidateBasic C authority params =
     (if accAddressFromBech32 C authority = None then Inl (ErrExternal ''invalid authority address'')
      else DelegationParams_Validate params)"

end
