(* ===== verification/DelegationGenesisProps.thy ===== *)
theory DelegationGenesisProps
  imports DelegationGenesis Completion AssetGenesisProps
begin

text \<open>
  The genesis of the delegation module.  Exporting a state without overdue undelegations and
  initialising an empty module with it restores the state.  An export with an undelegation does not
  pass the validation of the module, because the transaction hash is stored with its prefix, and
  one with an overdue undelegation is not accepted by \<open>InitGenesis\<close>.
\<close>

section \<open>An export is not a valid genesis\<close>

lemma DecodeString_prefix: "take 2 s = ''0x'' \<Longrightarrow> DecodeString s = None"
proof (cases s rule: DecodeString.cases)
  case (3 c d s')
  moreover assume "take 2 s = ''0x''"
  ultimately show ?thesis by (simp add: fromHexChar_def)
qed simp_all

lemma in_AllUndelegations:
  assumes "kv_wf (undelegations ds)" "kv_get (undelegations ds) k = Some r"
  shows "\<lparr>uh_Undelegation = r, uh_HoldCount = GetUndelegationHoldCount ds k\<rparr> \<in> set (AllUndelegations ds)"
proof -
  have "(k, r) \<in> set (undelegations ds)" using assms in_kv_entries [of "undelegations ds" k r] by simp
  then show ?thesis by (auto simp: AllUndelegations_def intro!: image_eqI [of _ _ "(k, r)"])
qed

text \<open>C36: the hash of an undelegation is stored with the prefix \<open>0x\<close>, but the validation of a genesis
  decodes it without: the export of a state with an undelegation does not pass validation.\<close>

theorem exported_undelegation_rejected:
  assumes "chain_codec C" "kv_wf (undelegations ds)"
    and "kv_get (undelegations ds) k = Some r" "ur_TxHash r = hashString C h"
  shows "\<not> is_ok (DelegationGenesis_Validate C (delegation_ExportGenesis ds))"
proof
  assume "is_ok (DelegationGenesis_Validate C (delegation_ExportGenesis ds))"
  then have "is_ok (ValidateUndelegations C (delegation_ExportGenesis ds))"
    by (auto simp: DelegationGenesis_Validate_def is_ok_rbind)
  then obtain m where m: "CommonValidation (AllUndelegations ds) (\<lambda>record. (ur_TxHash (uh_Undelegation record), ()))
      (\<lambda>_. undelegation_check C (GetLastUndelegationID ds)) = Inr m"
    by (auto simp: ValidateUndelegations_def delegation_ExportGenesis_def is_ok_rbind)
  have "undelegation_check C (GetLastUndelegationID ds) \<lparr>uh_Undelegation = r, uh_HoldCount = GetUndelegationHoldCount ds k\<rparr> = Inr ()"
    using CommonValidation_Inr(2) [OF m in_AllUndelegations [OF assms(2,3)]] by blast
  then show False
    using DecodeString_prefix [OF chain_codec.hash_prefix [OF assms(1), of h]]
    by (simp add: undelegation_check_def assms(4) split: sum.splits)
qed

section \<open>Overdue undelegations\<close>

lemma or_panic_Inr [simp]: "or_panic r = Inr x \<longleftrightarrow> r = Inr x"
  by (auto simp: or_panic_def split: sum.splits error.splits)

lemma init_association_frame:
  assumes "init_association C K a s = Inr s'"
  shows "epochs s' = epochs s"
proof -
  have "\<exists>n opAcc st. AssociateOperatorWithStaker C K n opAcc st s = Inr s'"
    using assms unfolding init_association_def Let_def case_prod_beta' or_panic_Inr by blast
  then obtain n opAcc st where "AssociateOperatorWithStaker C K n opAcc st s = Inr s'" by blast
  then show ?thesis by (rule AssociateOperatorWithStaker_Inr) simp
qed

text \<open>C35: an undelegation that stays in the store after its epoch, because it is held back or because the
  limit of completions was reached, cannot be imported: initialising with an export that contains it
  fails.\<close>

theorem overdue_undelegation_not_importable:
  assumes "kv_wf (undelegations ds)" "kv_get (undelegations ds) k = Some r"
    and "ur_CompletedEpochIdentifier r \<noteq> NullEpochIdentifier"
    and "GetEpochInfo (epochs s) (ur_CompletedEpochIdentifier r) = Some e" "ur_CompletedEpochNumber r < ei_CurrentEpoch e"
  shows "\<not> is_ok (delegation_InitGenesis C K (delegation_ExportGenesis ds) s)"
proof
  assume "is_ok (delegation_InitGenesis C K (delegation_ExportGenesis ds) s)"
  then obtain s1 ds2 ds3 where s1: "rfold (init_association C K) (GetAllAssociations ds) s = Inr s1"
    and u: "rfold (SetUndelegationRecord C (epochs s1) True) (AllUndelegations ds) ds2 = Inr ds3"
    by (auto simp: delegation_InitGenesis_def delegation_ExportGenesis_def is_ok_rbind Let_def SetUndelegationRecords_def)
  have es: "epochs s1 = epochs s"
  proof (rule rfold_invariant [where I = "\<lambda>t. epochs t = epochs s", OF s1 refl])
    fix a t t' assume "epochs t = epochs s" "init_association C K a t = Inr t'"
    then show "epochs t' = epochs s" by (simp add: init_association_frame)
  qed
  from rfold_elem [OF u in_AllUndelegations [OF assms(1,2)]] show False
    using assms(3-5) by (auto simp: SetUndelegationRecord_def es)
qed


section \<open>Export and import\<close>

definition empty_delegation :: delegation_state where
  "empty_delegation = \<lparr>delegations = [], stakersByOperator = [], undelegations = [], stakerUndelegations = [],
     pendingUndelegations = [], undelegationsOnHold = [], associatedOperators = [],
     lastUndelegationID = None, delegationParams = None\<rparr>"

text \<open>
  The states that can be exported and imported: no undelegation is overdue, and the operators and
  client chains of the associations are known.
\<close>

definition not_overdue :: "epochs_state \<Rightarrow> UndelegationRecord \<Rightarrow> bool" where
  "not_overdue es r \<longleftrightarrow> ur_CompletedEpochIdentifier r = NullEpochIdentifier \<or>
     (\<exists>e. GetEpochInfo es (ur_CompletedEpochIdentifier r) = Some e \<and> ei_CurrentEpoch e \<le> ur_CompletedEpochNumber r)"

definition known_association :: "codec \<Rightarrow> 'w keepers \<Rightarrow> assets_state \<Rightarrow> string \<times> string \<Rightarrow> bool" where
  "known_association C K as a \<longleftrightarrow> (\<exists>chain addr opAcc.
     a = (fst (GetStakerIDAndAssetID C chain (Some addr) None), accAddressString C opAcc) \<and>
     length opAcc = AccAddressLength \<and> ClientChainExists C as chain \<and> (\<forall>s. k_IsOperator K s opAcc))"

definition delegation_exportable :: "codec \<Rightarrow> 'w keepers \<Rightarrow> 'w chain \<Rightarrow> bool" where
  "delegation_exportable C K s \<longleftrightarrow>
     records_ok C (dlg s) \<and> kv_wf (delegations (dlg s)) \<and>
     kv_wf (stakersByOperator (dlg s)) \<and> (\<forall>e\<in>set (stakersByOperator (dlg s)). snd e = sentinelValue) \<and>
     kv_wf (associatedOperators (dlg s)) \<and>
     (\<forall>a\<in>set (associatedOperators (dlg s)). known_association C K (assets s) a) \<and>
     (\<forall>e\<in>set (undelegations (dlg s)). not_overdue (epochs s) (snd e)) \<and>
     lastUndelegationID (dlg s) \<noteq> None \<and> delegationParams (dlg s) \<noteq> None"

lemma associations_rebuilt:
  assumes "chain_codec C" "kv_wf as" "\<forall>a\<in>set as. known_association C K (assets s) a"
    and "delegations (dlg s) = []"
  shows "rfold (init_association C K) as (s\<lparr>dlg := (dlg s)\<lparr>associatedOperators := []\<rparr>\<rparr>) =
    Inr (s\<lparr>dlg := (dlg s)\<lparr>associatedOperators := as\<rparr>\<rparr>)"
proof (rule rfold_prefixes [where mk = "\<lambda>p. s\<lparr>dlg := (dlg s)\<lparr>associatedOperators := p\<rparr>\<rparr>"])
  fix p a q assume as: "as = p @ a # q"
  obtain chain addr opAcc where a: "a = (fst (GetStakerIDAndAssetID C chain (Some addr) None), accAddressString C opAcc)"
    and o: "length opAcc = AccAddressLength" "ClientChainExists C (assets s) chain" "\<forall>s. k_IsOperator K s opAcc"
    using assms(3) by (auto simp: as known_association_def)
  let ?st = "fst (GetStakerIDAndAssetID C chain (Some addr) None)"
  have id: "?st = join [DelimiterForID] [hexEncode C addr, hexEncodeUint64 C chain]"
    by (simp add: GetStakerIDAndAssetID_def Let_def)
  have ne: "?st \<noteq> []" by (simp add: id)
  have "\<forall>k\<in>set [hexEncode C addr, hexEncodeUint64 C chain]. no_char DelimiterForID k"
    using chain_codec.hex_part(2) [OF assms(1)] chain_codec.hex64_part(2) [OF assms(1)] by simp
  then have "split_char DelimiterForID ?st = [hexEncode C addr, hexEncodeUint64 C chain]"
    unfolding id by (intro split_join) simp_all
  then have parse: "ParseID C ?st = Inr (hexEncode C addr, chain)"
    by (simp add: ParseID_def chain_codec.hex64_roundtrip [OF assms(1)] chain_codec.hex_nonempty [OF assms(1)])
  note W = kv_wf_split [OF assms(2) [unfolded as a]]
  show "init_association C K a (s\<lparr>dlg := (dlg s)\<lparr>associatedOperators := p\<rparr>\<rparr>) =
      Inr (s\<lparr>dlg := (dlg s)\<lparr>associatedOperators := p @ [a]\<rparr>\<rparr>)"
    using o W assms(4) ne
    by (simp add: a init_association_def parse chain_codec.hex_roundtrip [OF assms(1)] slice_def or_panic_def
        chain_codec.acc_roundtrip [OF assms(1) o(1)] AssociateOperatorWithStaker_def Let_def GetAssociatedOperator_def
        IterateDelegationsForStaker_def IterateDelegations_def kv_iterate_def SetAssociatedOperator_def)
qed


lemma index_rebuilt:
  assumes "kv_wf m" "kv_wf ix" "indexes f (kv_get m) (kv_get ix)"
  shows "put_all (map (\<lambda>(k, r). (f r, k)) m) = ix"
proof -
  let ?es = "map (\<lambda>(k, r). (f r, k)) m"
  have "inj_on (\<lambda>(k, r). f r) (set m)"
  proof (rule inj_onI)
    fix x y assume xy: "x \<in> set m" "y \<in> set m" "(case x of (k, r) \<Rightarrow> f r) = (case y of (k, r) \<Rightarrow> f r)"
    then have g: "kv_get m (fst x) = Some (snd x)" "kv_get m (fst y) = Some (snd y)"
      using in_kv_entries [OF assms(1), of "fst x" "snd x"] in_kv_entries [OF assms(1), of "fst y" "snd y"] by simp_all
    have "fst x = fst y" by (rule indexes_inj [OF assms(3) g]) (use xy(3) in \<open>simp add: case_prod_beta\<close>)
    then show "x = y" using g by (simp add: prod_eq_iff)
  qed
  moreover have eq: "map fst ?es = map (\<lambda>(k, r). f r) m" by (auto simp: comp_def)
  ultimately have d: "distinct (map fst ?es)"
    unfolding eq using kv_wf_distinct [OF assms(1)] by (simp add: distinct_map)
  have "map_of ?es i = kv_get ix i" for i
  proof -
    have "map_of ?es i = Some k \<longleftrightarrow> kv_get ix i = Some k" for k
      unfolding map_of_eq_Some_iff [OF d] indexesD [OF assms(3)] in_kv_entries [OF assms(1), symmetric] by force
    then show ?thesis by (metis option.exhaust)
  qed
  then show ?thesis by (intro kv_ext [OF kv_wf_put_all assms(2)]) (simp add: kv_get_put_all [OF d])
qed

definition with_records :: "codec \<Rightarrow> (bytes \<Rightarrow> uint64) \<Rightarrow> delegation_state \<Rightarrow> (bytes, UndelegationRecord) kv \<Rightarrow> delegation_state" where
  "with_records C hc ds p = ds\<lparr>undelegations := p,
     stakerUndelegations := put_all (map (\<lambda>(k, r). (staker_index r, k)) p),
     pendingUndelegations := put_all (map (\<lambda>(k, r). (pending_index C r, k)) p),
     undelegationsOnHold := put_all (map (\<lambda>(k, r). (GetUndelegationOnHoldKey k, hc k)) p)\<rparr>"

lemma records_rebuilt:
  assumes "kv_wf m" "\<forall>(k, r)\<in>set m. record_key C r = Inr k \<and> not_overdue es r"
  shows "SetUndelegationRecords C es True (map (\<lambda>(k, r). \<lparr>uh_Undelegation = r, uh_HoldCount = hc k\<rparr>) m) (with_records C hc ds []) =
    Inr (with_records C hc ds m)"
  unfolding SetUndelegationRecords_def rfold_map
proof (rule rfold_prefixes)
  fix p x q assume m: "m = p @ x # q"
  obtain k r where x: "x = (k, r)" by fastforce
  note W = kv_wf_split [OF assms(1) [unfolded m x]]
  have r: "record_key C r = Inr k" "not_overdue es r" using assms(2) by (simp_all add: m x)
  then show "SetUndelegationRecord C es True ((\<lambda>(k, r). \<lparr>uh_Undelegation = r, uh_HoldCount = hc k\<rparr>) x) (with_records C hc ds p) =
      Inr (with_records C hc ds (p @ [x]))"
    using W(2)
    by (auto simp: x SetUndelegationRecord_def with_records_def not_overdue_def Let_def record_key_def staker_index_def pending_index_def)
qed

lemma amounts_of_genesis: "amounts_of (amounts_genesis a) = a"
  by (simp add: amounts_of_def amounts_genesis_def)

lemma hold_rebuilt:
  assumes "kv_wf m" "kv_get m k = Some r"
  shows "kv_get (put_all (map (\<lambda>(k, r). (GetUndelegationOnHoldKey k, hc k)) m)) (GetUndelegationOnHoldKey k) = Some (hc k)"
proof -
  let ?es = "map (\<lambda>(k, r). (GetUndelegationOnHoldKey k, hc k)) m"
  have eq: "map fst ?es = map GetUndelegationOnHoldKey (map fst m)" by auto
  have "inj GetUndelegationOnHoldKey" by (simp add: inj_def GetUndelegationOnHoldKey_def)
  then have d: "distinct (map fst ?es)"
    unfolding eq using kv_wf_distinct [OF assms(1)] by (subst distinct_map) (simp add: inj_on_def)
  have "(k, r) \<in> set m" using assms(2) in_kv_entries [OF assms(1), of k r] by simp
  then have "(GetUndelegationOnHoldKey k, hc k) \<in> set ?es" by (auto intro!: image_eqI [of _ _ "(k, r)"])
  then show ?thesis by (simp add: kv_get_put_all [OF d] map_of_eq_Some_iff [OF d])
qed

text \<open>C25: exporting the delegations and initialising an empty module with the export gives back the
  same delegations, staker lists, associations, undelegations with their indexes, hold counts, last id
  and parameters, as long as no undelegation is overdue.\<close>

theorem delegation_genesis_roundtrip:
  assumes "chain_codec C" "delegation_exportable C K s"
  shows "\<exists>s'. delegation_InitGenesis C K (delegation_ExportGenesis (dlg s)) (s\<lparr>dlg := empty_delegation\<rparr>) = Inr s' \<and>
    s' = s\<lparr>dlg := (dlg s)\<lparr>undelegationsOnHold := undelegationsOnHold (dlg s')\<rparr>\<rparr> \<and>
    (\<forall>k r. kv_get (undelegations (dlg s)) k = Some r \<longrightarrow>
       GetUndelegationHoldCount (dlg s') k = GetUndelegationHoldCount (dlg s) k)"
proof -
  let ?ds = "dlg s" and ?hc = "GetUndelegationHoldCount (dlg s)"
  note E = assms(2) [unfolded delegation_exportable_def]
  have ok: "records_ok C ?ds" using E by blast
  note R = records_okD [OF ok]
  obtain n p where np: "lastUndelegationID ?ds = Some n" "delegationParams ?ds = Some p" using E by blast
  let ?d1 = "empty_delegation\<lparr>associatedOperators := associatedOperators ?ds\<rparr>"
  have a: "rfold (init_association C K) (associatedOperators ?ds) (s\<lparr>dlg := empty_delegation\<rparr>) = Inr (s\<lparr>dlg := ?d1\<rparr>)"
    using associations_rebuilt [OF assms(1), of "associatedOperators ?ds" K "s\<lparr>dlg := empty_delegation\<rparr>"] E
    by (simp add: empty_delegation_def)
  let ?d2 = "?d1\<lparr>delegations := delegations ?ds, stakersByOperator := stakersByOperator ?ds\<rparr>"
  have "map (\<lambda>k. (k, sentinelValue)) (map fst (stakersByOperator ?ds)) = stakersByOperator ?ds"
    unfolding map_map comp_def by (rule map_idI) (use E in \<open>auto simp: prod_eq_iff\<close>)
  then have st: "fold (\<lambda>key. kv_set key sentinelValue) (map fst (stakersByOperator ?ds)) [] = stakersByOperator ?ds"
    using put_all_sorted [of "stakersByOperator ?ds"] E by (metis put_all_keys)
  have am: "map (\<lambda>(k, d). (k, amounts_of d)) (map (\<lambda>(k, a). (k, amounts_genesis a)) (delegations ?ds)) = delegations ?ds"
    by (simp add: comp_def case_prod_beta' amounts_of_genesis)
  have dl: "fold (\<lambda>(key, states). kv_set key states) (delegations ?ds) [] = delegations ?ds"
    using put_all_sorted [of "delegations ?ds"] E by (simp add: put_all_def)
  have d2: "SetAllStakerList (AllStakerList ?ds) (SetAllDelegationStates
      (map (\<lambda>(k, d). (k, amounts_of d)) (map (\<lambda>(k, a). (k, amounts_genesis a)) (AllDelegationStates ?ds))) ?d1) = ?d2"
    using st dl am by (simp add: SetAllStakerList_def SetAllDelegationStates_def AllStakerList_def AllDelegationStates_def empty_delegation_def)
  let ?d3 = "with_records C ?hc ?d2 (undelegations ?ds)"
  have "\<forall>(k, r)\<in>set (undelegations ?ds). record_key C r = Inr k \<and> not_overdue (epochs s) r"
    using E R(5) in_kv_entries [OF R(1)] by fastforce
  from records_rebuilt [OF R(1) this, of ?hc ?d2]
  have r: "SetUndelegationRecords C (epochs s) True (AllUndelegations ?ds) ?d2 = Inr ?d3"
    by (simp add: AllUndelegations_def with_records_def empty_delegation_def)
  let ?s' = "s\<lparr>dlg := ?d3\<lparr>lastUndelegationID := Some n, delegationParams := Some p\<rparr>\<rparr>"
  have "delegation_InitGenesis C K (delegation_ExportGenesis ?ds) (s\<lparr>dlg := empty_delegation\<rparr>) = Inr ?s'"
    using np by (simp add: delegation_InitGenesis_def delegation_ExportGenesis_def GetAllAssociations_def a d2 r or_panic_def
        SetLastUndelegationID_def SetDelegationParams_def GetLastUndelegationID_def GetDelegationParams_def Let_def
        del: map_map)
  moreover have "?s' = s\<lparr>dlg := ?ds\<lparr>undelegationsOnHold := undelegationsOnHold (dlg ?s')\<rparr>\<rparr>"
    using np index_rebuilt [OF R(1,2,8)] index_rebuilt [OF R(1,3,9)]
    by (cases ?ds) (simp add: with_records_def empty_delegation_def)
  moreover have "GetUndelegationHoldCount (dlg ?s') k = ?hc k" if "kv_get (undelegations ?ds) k = Some x" for k x
  proof -
    have "undelegationsOnHold (dlg ?s') = put_all (map (\<lambda>(k, r). (GetUndelegationOnHoldKey k, ?hc k)) (undelegations ?ds))"
      by (simp add: with_records_def)
    then show ?thesis
      unfolding GetUndelegationHoldCount_def [of "dlg ?s'"] using hold_rebuilt [OF R(1) that, of ?hc] by simp
  qed
  ultimately show ?thesis by blast
qed


section \<open>Examples\<close>

definition ex_hashed :: UndelegationRecord where
  "ex_hashed = ex_record\<lparr>ur_TxHash := hashString ref_codec (replicate 32 (CHR ''h'')),
     ur_CompletedEpochIdentifier := ''day'', ur_CompletedEpochNumber := 5\<rparr>"

definition ex_hashed_state :: delegation_state where
  "ex_hashed_state = empty_delegation\<lparr>undelegations := [(''k'', ex_hashed)]\<rparr>"

theorem exported_undelegation_rejected_witness:
  "\<not> is_ok (DelegationGenesis_Validate ref_codec (delegation_ExportGenesis ex_hashed_state))"
  by (rule exported_undelegation_rejected [OF chain_codec_ref, of _ "''k''" ex_hashed "replicate 32 (CHR ''h'')"])
     (simp_all add: ex_hashed_state_def ex_hashed_def)

theorem overdue_undelegation_not_importable_witness:
  "\<not> is_ok (delegation_InitGenesis ref_codec ex_keepers (delegation_ExportGenesis ex_hashed_state)
      (ex_chain\<lparr>epochs := [(''day'', ex_running\<lparr>ei_CurrentEpoch := 9\<rparr>)]\<rparr>))"
  by (rule overdue_undelegation_not_importable [of _ "''k''" ex_hashed _ "ex_running\<lparr>ei_CurrentEpoch := 9\<rparr>"])
     (simp_all add: ex_hashed_state_def ex_hashed_def NullEpochIdentifier_def GetEpochInfo_def)

definition ex_stored :: "unit chain" where
  "ex_stored = ex_waiting\<lparr>dlg := (dlg ex_waiting)\<lparr>delegationParams :=
     Some \<lparr>dp_InstantUndelegationPenalty = 25, dp_MaxUndelegationCompletions = 0\<rparr>\<rparr>\<rparr>"

theorem delegation_genesis_roundtrip_witness:
  "\<exists>s'. delegation_InitGenesis ref_codec ex_keepers (delegation_ExportGenesis (dlg ex_stored))
     (ex_stored\<lparr>dlg := empty_delegation\<rparr>) = Inr s' \<and>
   kv_get (undelegations (dlg s')) ex_record_key = Some ex_record"
proof -
  have "records_ok ref_codec (dlg ex_stored)"
    using ex_waiting_ok records_ok_cong [of ref_codec "dlg ex_waiting" "dlg ex_stored"]
    by (simp add: undelegations_ok_def ex_stored_def GetLastUndelegationID_def)
  then have "delegation_exportable ref_codec ex_keepers ex_stored"
    by (simp add: delegation_exportable_def ex_stored_def ex_waiting_def ex_chain_def not_overdue_def ex_record_def)
  from delegation_genesis_roundtrip [OF chain_codec_ref this]
  obtain s' where s': "delegation_InitGenesis ref_codec ex_keepers (delegation_ExportGenesis (dlg ex_stored))
     (ex_stored\<lparr>dlg := empty_delegation\<rparr>) = Inr s'"
    "s' = ex_stored\<lparr>dlg := (dlg ex_stored)\<lparr>undelegationsOnHold := undelegationsOnHold (dlg s')\<rparr>\<rparr>" by blast
  have "undelegations (dlg s') = [(ex_record_key, ex_record)]"
    by (subst s'(2)) (simp add: ex_stored_def ex_waiting_simps)
  with s'(1) show ?thesis by simp
qed

end
