(* ===== verification/Node.thy ===== *)
theory Node
  imports DelegationOps
begin

text \<open>
  The state of the modules around the delegations: the AVSs (\<^verbatim>\<open>x/avs\<close>), the operators
  (\<^verbatim>\<open>x/operator\<close>) and the validators of the chain itself (\<^verbatim>\<open>x/dogfood\<close>). They make up
  the \<open>world\<close> of a \<open>chain\<close>, together with the state of the modules that are not modelled. The
  record \<open>node_env\<close> holds what these modules call outside: the oracle, the rewards, and
  \<^verbatim>\<open>x/slashing\<close> and \<^verbatim>\<open>x/staking\<close> of the Cosmos SDK.
\<close>

section \<open>AVSs\<close>

text \<open>The maps of reward assets, which the modelled code neither reads nor writes, are left out.\<close>

record AVSInfo =
  avs_Name :: string
  avs_AvsAddress :: string
  avs_MinStakeAmount :: uint64
  avs_TaskAddress :: string
  avs_SlashAddress :: string
  avs_RewardAddress :: string
  avs_AvsOwnerAddresses :: "string list"
  avs_AssetIDs :: "string list"
  avs_AvsUnbondingPeriod :: uint64
  avs_MinSelfDelegation :: uint64
  avs_EpochIdentifier :: string
  avs_MinOptInOperators :: uint64
  avs_MinTotalStakeAmount :: uint64
  avs_StartingEpoch :: uint64
  avs_ChainId :: string
  avs_AvsReward :: dec
  avs_AvsSlash :: dec
  avs_WhitelistAddresses :: "string list"

record avs_state =
  avsInfos :: "(bytes, AVSInfo) kv"
  avsChainIDs :: "(bytes, string) kv"

section \<open>Operators\<close>

record Description =
  de_Moniker :: string
  de_Identity :: string
  de_Website :: string
  de_SecurityContact :: string
  de_Details :: string

record Commission =
  co_Rate :: "dec option"
  co_MaxRate :: "dec option"
  co_MaxChangeRate :: "dec option"
  co_UpdateTime :: int

record OperatorInfo =
  oi_OperatorAddr :: string
  oi_Description :: Description
  oi_ClientChainEarningsAddr :: "(uint64 \<times> string) list option"
  oi_Commission :: Commission
  oi_DisableCompoundRewards :: bool

record OptedInfo =
  op_SlashContract :: string
  op_OptedInHeight :: uint64
  op_OptedOutHeight :: uint64
  op_Jailed :: bool
  op_JailToggleHeights :: "uint64 list"

record OperatorOptedUSDValue =
  ou_SelfUSDValue :: dec
  ou_TotalUSDValue :: dec
  ou_ActiveUSDValue :: dec

record OperatorVotingPower =
  vp_OperatorAddr :: string
  vp_VotingPower :: dec

record VotingPowerSnapshot =
  vs_TotalVotingPower :: dec
  vs_OperatorVotingPowers :: "OperatorVotingPower list"
  vs_LastChangedHeight :: int
  vs_EpochIdentifier :: string
  vs_EpochNumber :: int

record OperatorParams =
  opp_MinCommissionUpdateInterval :: int
  opp_MinCommissionRate :: "dec option"

text \<open>A consensus key is the ed25519 key that the wrapper of \<^verbatim>\<open>types/keys\<close> holds.\<close>

record operator_state =
  operatorInfos :: "(bytes, OperatorInfo) kv"
  optedInfos :: "(bytes, OptedInfo) kv"
  avsUSDValues :: "(bytes, dec) kv"
  operatorUSDValues :: "(bytes, OperatorOptedUSDValue) kv"
  consKeys :: "(bytes, bytes) kv"
  prevConsKeys :: "(bytes, bytes) kv"
  chainConsKeys :: "(bytes, bytes) kv"
  consAddrs :: "(bytes, bytes) kv"
  keyRemovals :: "(bytes, unit) kv"
  votingPowerSnapshots :: "(bytes, VotingPowerSnapshot) kv"
  snapshotHelpers :: "(bytes, int) kv"
  operatorAssetUSDValues :: "(bytes, dec) kv"
  avsAssetsPerEpoch :: "(bytes, string list) kv"
  rewardsUSDValues :: "(bytes, dec) kv"
  operatorParams :: "OperatorParams option"
  frozenOperators :: "(bytes, unit) kv"

section \<open>Validators\<close>

record ImuachainValidator =
  iv_Address :: bytes
  iv_Power :: int
  iv_Pubkey :: bytes

record HistoricalInfo =
  hi_Header :: block_ctx
  hi_Valset :: "(bytes \<times> int) list"

record DogfoodParams =
  fp_EpochsUntilUnbonded :: uint32
  fp_EpochIdentifier :: string
  fp_MaxValidators :: uint32
  fp_HistoricalEntries :: uint32
  fp_AssetIDs :: "string list"
  fp_MinSelfDelegation :: "int option"

record dogfood_state =
  valSet :: "(bytes, ImuachainValidator) kv"
  optOutsToFinish :: "(bytes, bytes list) kv"
  optOutFinishEpochs :: "(bytes, uint64) kv"
  consAddrsToPrune :: "(bytes, bytes list) kv"
  pendingOptOuts :: "bytes list option"
  pendingConsAddrs :: "bytes list option"
  updateValidatorSet :: bool
  historicalInfos :: "(bytes, HistoricalInfo) kv"
  lastTotalPower :: "int option"
  validatorUpdates :: "(bytes \<times> int) list option"
  dogfoodParams :: "DogfoodParams option"
  emitAvsEvent :: bool

section \<open>The node\<close>

record 'x node =
  avst :: avs_state
  opr :: operator_state
  dogf :: dogfood_state
  rest :: 'x

type_synonym 'x state = "'x node chain"

definition avs_of :: "'x state \<Rightarrow> avs_state" where
  "avs_of s = avst (world s)"

definition opr_of :: "'x state \<Rightarrow> operator_state" where
  "opr_of s = opr (world s)"

definition dog_of :: "'x state \<Rightarrow> dogfood_state" where
  "dog_of s = dogf (world s)"

definition rest_of :: "'x state \<Rightarrow> 'x" where
  "rest_of s = rest (world s)"

definition set_avs :: "avs_state \<Rightarrow> 'x state \<Rightarrow> 'x state" where
  "set_avs a s = s\<lparr>world := (world s)\<lparr>avst := a\<rparr>\<rparr>"

definition set_opr :: "operator_state \<Rightarrow> 'x state \<Rightarrow> 'x state" where
  "set_opr a s = s\<lparr>world := (world s)\<lparr>opr := a\<rparr>\<rparr>"

definition set_dog :: "dogfood_state \<Rightarrow> 'x state \<Rightarrow> 'x state" where
  "set_dog a s = s\<lparr>world := (world s)\<lparr>dogf := a\<rparr>\<rparr>"

definition set_rest :: "'x \<Rightarrow> 'x state \<Rightarrow> 'x state" where
  "set_rest a s = s\<lparr>world := (world s)\<lparr>rest := a\<rparr>\<rparr>"

lemma node_simps [simp]:
  "avs_of (set_avs a s) = a" "opr_of (set_avs a s) = opr_of s" "dog_of (set_avs a s) = dog_of s"
  "avs_of (set_opr b s) = avs_of s" "opr_of (set_opr b s) = b" "dog_of (set_opr b s) = dog_of s"
  "avs_of (set_dog d s) = avs_of s" "opr_of (set_dog d s) = opr_of s" "dog_of (set_dog d s) = d"
  "avs_of (set_rest x s) = avs_of s" "opr_of (set_rest x s) = opr_of s" "dog_of (set_rest x s) = dog_of s"
  "rest_of (set_avs a s) = rest_of s" "rest_of (set_opr b s) = rest_of s"
  "rest_of (set_dog d s) = rest_of s" "rest_of (set_rest x s) = x"
  "assets (set_avs a s) = assets s" "assets (set_opr b s) = assets s" "assets (set_dog d s) = assets s"
  "assets (set_rest x s) = assets s"
  "epochs (set_avs a s) = epochs s" "epochs (set_opr b s) = epochs s" "epochs (set_dog d s) = epochs s"
  "epochs (set_rest x s) = epochs s"
  "dlg (set_avs a s) = dlg s" "dlg (set_opr b s) = dlg s" "dlg (set_dog d s) = dlg s"
  "dlg (set_rest x s) = dlg s"
  by (simp_all add: avs_of_def opr_of_def dog_of_def rest_of_def set_avs_def set_opr_def set_dog_def set_rest_def)

section \<open>What the modules call\<close>

record Price =
  pr_Value :: int
  pr_Decimal :: "8 word"

text \<open>The signing information that \<^verbatim>\<open>x/slashing\<close> keeps for a consensus address.\<close>

record ValidatorSigningInfo =
  vi_Address :: bytes
  vi_StartHeight :: int
  vi_IndexOffset :: int
  vi_JailedUntil :: int
  vi_Tombstoned :: bool
  vi_MissedBlocksCounter :: int

text \<open>
  The callbacks of the operator module, for the modules that follow consensus keys and jailing
  (\<^verbatim>\<open>AfterSlash\<close> belongs to the execution of a slash and is not among them). A removal that is initiated
  reports no error, and can only panic.
\<close>

record 'x operator_hooks =
  oh_AfterOperatorKeySet :: "bytes \<Rightarrow> string \<Rightarrow> bytes \<Rightarrow> 'x state \<Rightarrow> 'x state result"
  oh_AfterOperatorKeyReplaced :: "bytes \<Rightarrow> bytes \<Rightarrow> bytes \<Rightarrow> string \<Rightarrow> 'x state \<Rightarrow> 'x state result"
  oh_AfterOperatorKeyRemovalInitiated :: "bytes \<Rightarrow> string \<Rightarrow> bytes \<Rightarrow> 'x state \<Rightarrow> 'x state result"
  oh_AfterJail :: "bytes \<Rightarrow> bool \<Rightarrow> string list \<Rightarrow> 'x state \<Rightarrow> 'x state"

text \<open>
  \<open>ne_RewardsUSDValues\<close> lists the positive USD values of the unclaimed rewards of an operator, by the AVS
  that paid them and their denomination, with the error that ended the list early, if any; the third argument
  restricts the assets of the rewards.
\<close>

record 'x node_env =
  ne_ChainID :: string
  ne_authority :: string
  ne_WrappedConsKeyFromJSON :: "string \<Rightarrow> bytes option"
  \<comment> \<open>\<open>x/staking\<close> types\<close>
  ne_EnsureLength :: "Description \<Rightarrow> bool"
  ne_UpdateDescription :: "Description \<Rightarrow> Description \<Rightarrow> Description result"
  ne_CommissionValidate :: "Commission \<Rightarrow> bool"
  ne_PubKeyString :: "bytes \<Rightarrow> string"
  ne_NewHistoricalInfo :: "block_ctx \<Rightarrow> (bytes \<times> int) list \<Rightarrow> HistoricalInfo"
  \<comment> \<open>\<open>x/oracle\<close>\<close>
  ne_GetSpecifiedAssetsPrice :: "'x state \<Rightarrow> string \<Rightarrow> Price \<times> error option"
  ne_GetMultipleAssetsPrices :: "'x state \<Rightarrow> string list \<Rightarrow> (string \<rightharpoonup> Price) \<times> error option"
  \<comment> \<open>\<open>x/feedistribution\<close>\<close>
  ne_RewardsUSDValues :: "'x state \<Rightarrow> string \<Rightarrow> string list option \<Rightarrow> (string \<times> string \<times> dec) list \<times> error option"
  ne_IsAVSAllRewardsClaimed :: "'x state \<Rightarrow> string \<Rightarrow> bool"
  \<comment> \<open>\<open>x/slashing\<close>\<close>
  ne_AfterValidatorCreated :: "bytes \<Rightarrow> 'x state \<Rightarrow> 'x result"
  ne_AfterValidatorRemoved :: "bytes \<Rightarrow> 'x state \<Rightarrow> 'x result"
  ne_AfterValidatorBonded :: "bytes \<Rightarrow> 'x state \<Rightarrow> 'x result"
  ne_IsTombstoned :: "'x \<Rightarrow> bytes \<Rightarrow> bool"
  ne_GetValidatorSigningInfo :: "'x \<Rightarrow> bytes \<Rightarrow> ValidatorSigningInfo option"
  ne_SetValidatorSigningInfo :: "bytes \<Rightarrow> ValidatorSigningInfo \<Rightarrow> 'x \<Rightarrow> 'x"
  ne_SetValidatorMissedBlockBitArray :: "bytes \<Rightarrow> int \<Rightarrow> bool \<Rightarrow> 'x \<Rightarrow> 'x"
  ne_DoubleSignJailEndTime :: int
  ne_DowntimeJailDuration :: "'x \<Rightarrow> int"
  ne_ClearValidatorMissedBlockBitArray :: "bytes \<Rightarrow> 'x \<Rightarrow> 'x"
  ne_ResetValidatorSigningInfo :: "bytes \<Rightarrow> 'x \<Rightarrow> 'x"
  \<comment> \<open>\<open>x/evm\<close>\<close>
  ne_SetAccount :: "bytes \<Rightarrow> 'x \<Rightarrow> 'x result"

text \<open>Callbacks run in order, and the first error stops them.\<close>

definition MultiOperatorHooks :: "'x operator_hooks list \<Rightarrow> 'x operator_hooks" where
  "MultiOperatorHooks hooks =
     \<lparr>oh_AfterOperatorKeySet = (\<lambda>addr chainID pubKey. rfold (\<lambda>h. oh_AfterOperatorKeySet h addr chainID pubKey) hooks),
      oh_AfterOperatorKeyReplaced = (\<lambda>addr oldKey newKey chainID.
        rfold (\<lambda>h. oh_AfterOperatorKeyReplaced h addr oldKey newKey chainID) hooks),
      oh_AfterOperatorKeyRemovalInitiated = (\<lambda>addr chainID key.
        rfold (\<lambda>h. oh_AfterOperatorKeyRemovalInitiated h addr chainID key) hooks),
      oh_AfterJail = (\<lambda>addr isUnjail affected. fold (\<lambda>h. oh_AfterJail h addr isUnjail affected) hooks)\<rparr>"

end
