(* ===== verification/Avs.thy ===== *)
theory Avs
  imports Node
begin

text \<open>
  The store of AVSs (\<^verbatim>\<open>x/avs/keeper/avs.go\<close> and the accessors of \<^verbatim>\<open>keeper.go\<close>), and the address of the
  AVS of a chain (\<^verbatim>\<open>utils/utils.go\<close>).
\<close>

section \<open>Chain identifiers\<close>

definition ChainIDPrefix :: bytes where
  "ChainIDPrefix = ''chain-id-prefix''"

text \<open>The text before the last \<open>-\<close>, if there is one.\<close>

definition before_last_dash :: "string \<Rightarrow> string" where
  "before_last_dash s = (if CHR ''-'' \<in> set s then rev (tl (dropWhile (\<lambda>c. c \<noteq> CHR ''-'') (rev s))) else s)"

definition ChainIDWithoutRevision :: "codec \<Rightarrow> string \<Rightarrow> string" where
  "ChainIDWithoutRevision C chainID =
     (if \<not> isRevisionFormat C chainID then chainID else before_last_dash chainID)"

definition GenerateAVSAddress :: "codec \<Rightarrow> string \<Rightarrow> string" where
  "GenerateAVSAddress C chainID =
     to_lower (addressHex C (bytesToAddress C (keccak256 C (ChainIDPrefix @ chainID))))"

lemma to_lower_idem [simp]: "to_lower (to_lower x) = to_lower x"
  by (auto simp: to_lower_def lower_char_def Let_def of_char_of)

section \<open>The store\<close>

definition SetAVSInfo :: "codec \<Rightarrow> AVSInfo \<Rightarrow> avs_state \<Rightarrow> avs_state" where
  "SetAVSInfo C avs av = av\<lparr>avsInfos := kv_set (hexToAddress C (avs_AvsAddress avs)) avs (avsInfos av)\<rparr>"

definition GetAVSInfo :: "codec \<Rightarrow> avs_state \<Rightarrow> string \<Rightarrow> AVSInfo result" where
  "GetAVSInfo C av addr = of_option ErrNoKeyInTheStore (kv_get (avsInfos av) (hexToAddress C addr))"

definition IsAVS :: "codec \<Rightarrow> avs_state \<Rightarrow> string \<Rightarrow> bool" where
  "IsAVS C av addr = kv_has (avsInfos av) (hexToAddress C addr)"

definition IsAVSByChainID :: "codec \<Rightarrow> avs_state \<Rightarrow> string \<Rightarrow> bool \<times> string" where
  "IsAVSByChainID C av chainID =
     (let avsAddrStr = GenerateAVSAddress C chainID in
      (kv_has (avsInfos av) (hexToAddress C avsAddrStr), avsAddrStr))"

definition DeleteAVSInfo :: "codec \<Rightarrow> string \<Rightarrow> avs_state \<Rightarrow> avs_state result" where
  "DeleteAVSInfo C addr av =
     (let hexAddr = hexToAddress C addr in
      if \<not> kv_has (avsInfos av) hexAddr then Inl ErrNoKeyInTheStore
      else Inr (av\<lparr>avsInfos := kv_delete hexAddr (avsInfos av)\<rparr>))"

text \<open>The values of the store in the order of their keys, up to the first that stops the iteration.\<close>

fun iterate_infos :: "(nat \<Rightarrow> AVSInfo \<Rightarrow> 'a \<Rightarrow> bool \<times> 'a) \<Rightarrow> nat \<Rightarrow> (bytes \<times> AVSInfo) list \<Rightarrow> 'a \<Rightarrow> 'a" where
  "iterate_infos fn i [] a = a"
| "iterate_infos fn i ((_, avs) # es) a =
     (case fn i avs a of (stop, a') \<Rightarrow> if stop then a' else iterate_infos fn (Suc i) es a')"

definition IterateAVSInfo :: "avs_state \<Rightarrow> (nat \<Rightarrow> AVSInfo \<Rightarrow> 'a \<Rightarrow> bool \<times> 'a) \<Rightarrow> 'a \<Rightarrow> 'a" where
  "IterateAVSInfo av fn = iterate_infos fn 0 (avsInfos av)"

text \<open>An identifier that the epochs module does not know gives an empty \<^verbatim>\<open>EpochInfo\<close> and no error.\<close>

definition no_epoch :: EpochInfo where
  "no_epoch = \<lparr>ei_Identifier = [], ei_StartTime = 0, ei_Duration = 0, ei_CurrentEpoch = 0,
     ei_CurrentEpochStartTime = 0, ei_EpochCountingStarted = False, ei_CurrentEpochStartHeight = 0\<rparr>"

definition GetAVSEpochInfo :: "codec \<Rightarrow> epochs_state \<Rightarrow> avs_state \<Rightarrow> string \<Rightarrow> EpochInfo result" where
  "GetAVSEpochInfo C es av addr =
     rbind (GetAVSInfo C av addr) (\<lambda>avsInfo.
     Inr (case GetEpochInfo es (avs_EpochIdentifier avsInfo) of None \<Rightarrow> no_epoch | Some e \<Rightarrow> e))"

definition GetAVSSupportedAssets ::
    "codec \<Rightarrow> assets_state \<Rightarrow> avs_state \<Rightarrow> string \<Rightarrow> string list result" where
  "GetAVSSupportedAssets C as av avsAddr =
     rbind (GetAVSInfo C av avsAddr) (\<lambda>avsInfo.
     if list_all (IsStakingAsset as) (avs_AssetIDs avsInfo) then Inr (avs_AssetIDs avsInfo)
     else Inl ErrInvalidAssetID)"

definition GetAVSAssetsList :: "codec \<Rightarrow> avs_state \<Rightarrow> string \<Rightarrow> string list result" where
  "GetAVSAssetsList C av avsAddr =
     (if \<not> isHexAddress C avsAddr then Inl (AvsErr ErrInvalidAddr)
      else rbind (GetAVSInfo C av avsAddr) (\<lambda>avsInfo. Inr (avs_AssetIDs avsInfo)))"

definition zero_address :: bytes where
  "zero_address = replicate 20 (char_of (0 :: nat))"

definition GetAVSSlashContract :: "codec \<Rightarrow> avs_state \<Rightarrow> string \<Rightarrow> string result" where
  "GetAVSSlashContract C av avsAddr =
     rbind (GetAVSInfo C av avsAddr) (\<lambda>avsInfo.
     if avs_SlashAddress avsInfo = addressHex C zero_address then Inr [] else Inr (avs_SlashAddress avsInfo))"

definition GetAVSMinimumSelfDelegation :: "codec \<Rightarrow> dec_ops \<Rightarrow> avs_state \<Rightarrow> string \<Rightarrow> dec result" where
  "GetAVSMinimumSelfDelegation C D av avsAddr =
     rbind (GetAVSInfo C av avsAddr) (\<lambda>avsInfo. Inr (newDec D (sint (avs_MinSelfDelegation avsInfo))))"

definition GetAVSUnbondingDuration :: "codec \<Rightarrow> avs_state \<Rightarrow> string \<Rightarrow> uint64 result" where
  "GetAVSUnbondingDuration C av avsAddr =
     rbind (GetAVSInfo C av avsAddr) (\<lambda>avsInfo. Inr (avs_AvsUnbondingPeriod avsInfo))"

definition GetEpochEndAVSs :: "avs_state \<Rightarrow> string \<Rightarrow> int \<Rightarrow> string list" where
  "GetEpochEndAVSs av epochIdentifier endingEpochNumber =
     IterateAVSInfo av (\<lambda>_ avsInfo avsList.
       (False,
        if epochIdentifier = avs_EpochIdentifier avsInfo \<and> sint (avs_StartingEpoch avsInfo - 1) \<le> endingEpochNumber
        then avsList @ [to_lower (avs_AvsAddress avsInfo)] else avsList)) []"

definition GetEpochsUsedByAllAVSs :: "avs_state \<Rightarrow> string list" where
  "GetEpochsUsedByAllAVSs av =
     IterateAVSInfo av (\<lambda>_ avsInfo ids.
       (False, if avs_EpochIdentifier avsInfo \<in> set ids then ids else ids @ [avs_EpochIdentifier avsInfo])) []"

definition GetAVSInfoByTaskAddress :: "codec \<Rightarrow> avs_state \<Rightarrow> string \<Rightarrow> AVSInfo option" where
  "GetAVSInfoByTaskAddress C av taskAddr =
     (if taskAddr = [] \<or> taskAddr = addressHex C zero_address then None
      else IterateAVSInfo av (\<lambda>_ avsInfo avs.
        if to_lower taskAddr = avs_TaskAddress avsInfo then (True, Some avsInfo) else (False, avs)) None)"

definition SetAVSAddrToChainID :: "bytes \<Rightarrow> string \<Rightarrow> avs_state \<Rightarrow> avs_state" where
  "SetAVSAddrToChainID avsAddr chainID av = av\<lparr>avsChainIDs := kv_set avsAddr chainID (avsChainIDs av)\<rparr>"

definition GetChainIDByAVSAddr :: "codec \<Rightarrow> avs_state \<Rightarrow> string \<Rightarrow> string option" where
  "GetChainIDByAVSAddr C av avsAddr = kv_get (avsChainIDs av) (hexToAddress C avsAddr)"

text \<open>
  An operator that is not in the list is reported by wrapping the error of the line before, which is
  nil: the result is \<^verbatim>\<open>false\<close> and no error.
\<close>

definition IsWhitelisted :: "codec \<Rightarrow> avs_state \<Rightarrow> string \<Rightarrow> string \<Rightarrow> bool result" where
  "IsWhitelisted C av avsAddr operatorAddress =
     rbind (GetAVSInfo C av avsAddr) (\<lambda>avsInfo.
     if accAddressFromBech32 C operatorAddress = None then Inl ErrParse
     else if avs_ChainId avsInfo \<noteq> [] \<and> avs_AvsAddress avsInfo = GenerateAVSAddress C (avs_ChainId avsInfo) then Inr True
     else if avs_WhitelistAddresses avsInfo = [] then Inr True
     else if operatorAddress \<notin> set (avs_WhitelistAddresses avsInfo) then Inr False
     else Inr True)"

definition ValidateAssetIDs :: "assets_state \<Rightarrow> string list \<Rightarrow> unit result" where
  "ValidateAssetIDs as assetIDs = (if list_all (IsStakingAsset as) assetIDs then Inr () else Inl ErrInvalidAssetID)"

end
