(* ===== verification/Operator.thy ===== *)
theory Operator
  imports Avs
begin

text \<open>
  Operators (\<^verbatim>\<open>x/operator/keeper/operator.go\<close>, \<^verbatim>\<open>freeze.go\<close>, \<^verbatim>\<open>commission.go\<close>, \<^verbatim>\<open>params.go\<close>): their
  registration and description, whether they are frozen, their opting in to AVSs and being jailed, and
  when an undelegation from them is complete.
\<close>

section \<open>Constants\<close>

definition DefaultOptedOutHeight :: uint64 where
  "DefaultOptedOutHeight = - 1"

definition DefaultCommissionUpdateTime :: int where
  "DefaultCommissionUpdateTime = 0"

section \<open>Parameters\<close>

definition DefaultMinCommissionUpdateInterval :: int where
  "DefaultMinCommissionUpdateInterval = 24 * 60 * 60 * 10 ^ 9"

definition DefaultOperatorParams :: "dec_ops \<Rightarrow> OperatorParams" where
  "DefaultOperatorParams D = \<lparr>opp_MinCommissionUpdateInterval = DefaultMinCommissionUpdateInterval,
     opp_MinCommissionRate = Some (newDecWithPrec D 5 2)\<rparr>"

definition OperatorParams_Validate :: "OperatorParams \<Rightarrow> unit result" where
  "OperatorParams_Validate p =
     (if opp_MinCommissionUpdateInterval p < 0 then Inl ErrInvalidParams
      else case opp_MinCommissionRate p of None \<Rightarrow> Inl ErrInvalidParams
        | Some r \<Rightarrow> if r < 0 then Inl ErrInvalidParams else Inr ())"

definition GetOperatorParams :: "dec_ops \<Rightarrow> operator_state \<Rightarrow> OperatorParams" where
  "GetOperatorParams D os = (case operatorParams os of None \<Rightarrow> DefaultOperatorParams D | Some p \<Rightarrow> p)"

definition SetOperatorParams :: "OperatorParams \<Rightarrow> operator_state \<Rightarrow> operator_state" where
  "SetOperatorParams p os = os\<lparr>operatorParams := Some p\<rparr>"

section \<open>Registration\<close>

definition IsOperator :: "operator_state \<Rightarrow> bytes \<Rightarrow> bool" where
  "IsOperator os addr = kv_has (operatorInfos os) addr"

definition setOperatorInfo :: "bytes \<Rightarrow> OperatorInfo \<Rightarrow> operator_state \<Rightarrow> operator_state" where
  "setOperatorInfo opAccAddr info os = os\<lparr>operatorInfos := kv_set opAccAddr info (operatorInfos os)\<rparr>"

definition OperatorInfoOf :: "codec \<Rightarrow> operator_state \<Rightarrow> string \<Rightarrow> OperatorInfo result" where
  "OperatorInfoOf C os addr =
     rbind (of_option ErrParse (accAddressFromBech32 C addr)) (\<lambda>opAccAddr.
     of_option ErrNoKeyInTheStore (kv_get (operatorInfos os) opAccAddr))"

definition IterateOperators ::
    "operator_state \<Rightarrow> (bytes \<Rightarrow> OperatorInfo \<Rightarrow> 'a \<Rightarrow> (bool \<times> 'a) result) \<Rightarrow> 'a \<Rightarrow> 'a result" where
  "IterateOperators os opFunc = riter (\<lambda>(addr, info). opFunc addr info) (operatorInfos os)"

definition HasOperatorName :: "operator_state \<Rightarrow> string \<Rightarrow> bool result" where
  "HasOperatorName os name =
     IterateOperators os (\<lambda>_ info res. if de_Moniker (oi_Description info) = name then Inr (True, True) else Inr (False, res)) False"

definition AllOperators :: "operator_state \<Rightarrow> OperatorInfo list" where
  "AllOperators os = map snd (operatorInfos os)"

definition IsCompoundRewardsDisabled :: "codec \<Rightarrow> operator_state \<Rightarrow> string \<Rightarrow> bool result" where
  "IsCompoundRewardsDisabled C os addr = rbind (OperatorInfoOf C os addr) (\<lambda>info. Inr (oi_DisableCompoundRewards info))"

definition OperatorInfo_ValidateBasic :: "codec \<Rightarrow> 'x node_env \<Rightarrow> OperatorInfo \<Rightarrow> unit result" where
  "OperatorInfo_ValidateBasic C E info =
     (if accAddressFromBech32 C (oi_OperatorAddr info) = None then Inl ErrParse
      else if de_Moniker (oi_Description info) = [] then Inl (OpErr ErrParameterInvalid)
      else if \<not> ne_EnsureLength E (oi_Description info) then Inl (ErrExternal ''description length'')
      else if co_Rate (oi_Commission info) = None \<or> co_MaxRate (oi_Commission info) = None
              \<or> co_MaxChangeRate (oi_Commission info) = None then Inl (OpErr ErrParameterInvalid)
      else if \<not> ne_CommissionValidate E (oi_Commission info) then Inl (ErrExternal ''invalid commission'')
      else Inr ())"

definition earning_check :: "codec \<Rightarrow> assets_state \<Rightarrow> uint64 \<times> string \<Rightarrow> unit \<Rightarrow> unit result" where
  "earning_check C as data u =
     (case data of (lzClientChainID, earningAddr) \<Rightarrow>
      if earningAddr = [] then Inl (OpErr ErrParameterInvalid)
      else if \<not> ClientChainExists C as lzClientChainID then Inl (OpErr ErrParameterInvalid)
      else Inr ())"

definition RegisterOperator ::
    "codec \<Rightarrow> 'x node_env \<Rightarrow> block_ctx \<Rightarrow> assets_state \<Rightarrow> OperatorInfo option \<Rightarrow> operator_state \<Rightarrow> operator_state result" where
  "RegisterOperator C E ctx as i os =
     rbind (of_option (OpErr ErrParameterInvalid) i) (\<lambda>info.
     rbind (OperatorInfo_ValidateBasic C E info) (\<lambda>_.
     let info = (if co_UpdateTime (oi_Commission info) = DefaultCommissionUpdateTime
                 then info\<lparr>oi_Commission := (oi_Commission info)\<lparr>co_UpdateTime := BlockTime ctx\<rparr>\<rparr> else info) in
     rbind (of_option ErrParse (accAddressFromBech32 C (oi_OperatorAddr info))) (\<lambda>opAccAddr.
     if IsOperator os opAccAddr then Inl (OpErr ErrOperatorAlreadyExists)
     else rbind (HasOperatorName os (de_Moniker (oi_Description info))) (\<lambda>has.
       if has then Inl (OpErr ErrOperatorNameAlreadyExists)
       else rbind (case oi_ClientChainEarningsAddr info of None \<Rightarrow> Inr ()
                   | Some addrs \<Rightarrow> rfold (earning_check C as) addrs ()) (\<lambda>_.
         Inr (setOperatorInfo opAccAddr info os))))))"

section \<open>Freezing\<close>

definition IsOperatorFrozen :: "operator_state \<Rightarrow> bytes \<Rightarrow> bool" where
  "IsOperatorFrozen os addr = kv_has (frozenOperators os) addr"

definition IsOperatorFrozenStr :: "codec \<Rightarrow> operator_state \<Rightarrow> string \<Rightarrow> bool" where
  "IsOperatorFrozenStr C os addr =
     (case accAddressFromBech32 C addr of None \<Rightarrow> False | Some a \<Rightarrow> IsOperatorFrozen os a)"

definition FreezeOperator :: "bytes \<Rightarrow> operator_state \<Rightarrow> operator_state result" where
  "FreezeOperator addr os =
     (if \<not> IsOperator os addr then Inl (OpErr ErrNoSuchOperator)
      else if IsOperatorFrozen os addr then Inl (OpErr ErrOperatorFrozenStateMismatch)
      else Inr (os\<lparr>frozenOperators := kv_set addr () (frozenOperators os)\<rparr>))"

definition UnfreezeOperator :: "bytes \<Rightarrow> operator_state \<Rightarrow> operator_state result" where
  "UnfreezeOperator addr os =
     (if \<not> IsOperator os addr then Inl (OpErr ErrNoSuchOperator)
      else if \<not> IsOperatorFrozen os addr then Inl (OpErr ErrOperatorFrozenStateMismatch)
      else Inr (os\<lparr>frozenOperators := kv_delete addr (frozenOperators os)\<rparr>))"

definition GetAllFrozenOperators :: "codec \<Rightarrow> operator_state \<Rightarrow> string list" where
  "GetAllFrozenOperators C os = map (\<lambda>(addr, _). accAddressString C addr) (frozenOperators os)"

section \<open>Editing\<close>

definition no_description :: Description where
  "no_description = \<lparr>de_Moniker = [], de_Identity = [], de_Website = [], de_SecurityContact = [], de_Details = []\<rparr>"

definition EditOperator ::
    "codec \<Rightarrow> 'x node_env \<Rightarrow> bytes \<Rightarrow> Description \<Rightarrow> operator_state \<Rightarrow> operator_state result" where
  "EditOperator C E opAccAddr description os =
     (if description = no_description then Inl (OpErr ErrParameterInvalid)
      else rbind (OperatorInfoOf C os (accAddressString C opAccAddr)) (\<lambda>info.
        if IsOperatorFrozen os opAccAddr then Inl ErrOperatorIsFrozen
        else rbind (HasOperatorName os (de_Moniker description)) (\<lambda>has.
          if has then Inl (OpErr ErrOperatorNameAlreadyExists)
          else rbind (ne_UpdateDescription E (oi_Description info) description) (\<lambda>finalDescription.
            let info = info\<lparr>oi_Description := finalDescription\<rparr> in
            rbind (OperatorInfo_ValidateBasic C E info) (\<lambda>_.
            Inr (setOperatorInfo opAccAddr info os))))))"

definition UpdateRewardCompoundingFlag :: "codec \<Rightarrow> bytes \<Rightarrow> bool \<Rightarrow> operator_state \<Rightarrow> operator_state result" where
  "UpdateRewardCompoundingFlag C opAccAddr disableCompoundRewards os =
     rbind (OperatorInfoOf C os (accAddressString C opAccAddr)) (\<lambda>info.
     if IsOperatorFrozen os opAccAddr then Inl ErrOperatorIsFrozen
     else if oi_DisableCompoundRewards info = disableCompoundRewards then Inr os
     else Inr (setOperatorInfo opAccAddr (info\<lparr>oi_DisableCompoundRewards := disableCompoundRewards\<rparr>) os))"

text \<open>A nil rate panics when it is compared.\<close>

definition the_dec :: "dec option \<Rightarrow> dec result" where
  "the_dec d = of_option (Panic ''nil decimal'') d"

definition ValidateAndUpdateCommissionRate ::
    "codec \<Rightarrow> dec_ops \<Rightarrow> block_ctx \<Rightarrow> bytes \<Rightarrow> dec \<Rightarrow> operator_state \<Rightarrow> operator_state result" where
  "ValidateAndUpdateCommissionRate C D ctx addr rate os =
     rbind (OperatorInfoOf C os (accAddressString C addr)) (\<lambda>info.
     if IsOperatorFrozen os addr then Inl ErrOperatorIsFrozen
     else rbind (the_dec (opp_MinCommissionRate (GetOperatorParams D os))) (\<lambda>minCommissionRate.
       if rate < minCommissionRate then Inl (OpErr ErrCommissionLTMinRate)
       else if BlockTime ctx - co_UpdateTime (oi_Commission info) < opp_MinCommissionUpdateInterval (GetOperatorParams D os)
       then Inl (OpErr ErrCommissionUpdateTime)
       else if rate < 0 then Inl (OpErr ErrCommissionNegative)
       else rbind (the_dec (co_MaxRate (oi_Commission info))) (\<lambda>maxRate.
         if maxRate < rate then Inl (OpErr ErrCommissionGTMaxRate)
         else rbind (the_dec (co_Rate (oi_Commission info))) (\<lambda>oldRate.
           rbind (the_dec (co_MaxChangeRate (oi_Commission info))) (\<lambda>maxChangeRate.
           if maxChangeRate < rate - oldRate then Inl (OpErr ErrCommissionGTMaxChangeRate)
           else Inr (setOperatorInfo addr (info\<lparr>oi_Commission := (oi_Commission info)\<lparr>co_Rate := Some rate,
                  co_UpdateTime := BlockTime ctx\<rparr>\<rparr>) os))))))"

section \<open>Opting in and out\<close>

definition opted_key :: "string \<Rightarrow> string \<Rightarrow> bytes" where
  "opted_key operatorAddr avsAddr = GetJoinedStoreKey [operatorAddr, to_lower avsAddr]"

definition HandleOptedInfo ::
    "codec \<Rightarrow> string \<Rightarrow> string \<Rightarrow> (OptedInfo \<Rightarrow> OptedInfo) \<Rightarrow> operator_state \<Rightarrow> operator_state result" where
  "HandleOptedInfo C operatorAddr avsAddr handleFunc os =
     rbind (of_option ErrParse (accAddressFromBech32 C operatorAddr)) (\<lambda>_.
     let infoKey = opted_key operatorAddr avsAddr in
     rbind (of_option ErrNoKeyInTheStore (kv_get (optedInfos os) infoKey)) (\<lambda>info.
     Inr (os\<lparr>optedInfos := kv_set infoKey (handleFunc info) (optedInfos os)\<rparr>)))"

definition SetOptedInfo :: "codec \<Rightarrow> string \<Rightarrow> string \<Rightarrow> OptedInfo \<Rightarrow> operator_state \<Rightarrow> operator_state result" where
  "SetOptedInfo C operatorAddr avsAddr info os =
     (if accAddressFromBech32 C operatorAddr = None then Inl (OpErr ErrInvalidOperatorAddr)
      else Inr (os\<lparr>optedInfos := kv_set (opted_key operatorAddr avsAddr) info (optedInfos os)\<rparr>))"

definition GetOptedInfo :: "codec \<Rightarrow> operator_state \<Rightarrow> string \<Rightarrow> string \<Rightarrow> OptedInfo result" where
  "GetOptedInfo C os operatorAddr avsAddr =
     rbind (of_option ErrParse (accAddressFromBech32 C operatorAddr)) (\<lambda>_.
     of_option ErrNoKeyInTheStore (kv_get (optedInfos os) (opted_key operatorAddr avsAddr)))"

definition IsOptedIn :: "codec \<Rightarrow> operator_state \<Rightarrow> string \<Rightarrow> string \<Rightarrow> bool" where
  "IsOptedIn C os operatorAddr avsAddr =
     (case GetOptedInfo C os operatorAddr avsAddr of Inl _ \<Rightarrow> False
      | Inr optedInfo \<Rightarrow> op_OptedOutHeight optedInfo = DefaultOptedOutHeight)"

definition IsJailed :: "codec \<Rightarrow> operator_state \<Rightarrow> string \<Rightarrow> string \<Rightarrow> bool" where
  "IsJailed C os operatorAddr avsAddr =
     (case GetOptedInfo C os operatorAddr avsAddr of Inl _ \<Rightarrow> False | Inr optedInfo \<Rightarrow> op_Jailed optedInfo)"

definition IsOptedOutAndEffective ::
    "codec \<Rightarrow> epochs_state \<Rightarrow> avs_state \<Rightarrow> operator_state \<Rightarrow> string \<Rightarrow> string \<Rightarrow> bool" where
  "IsOptedOutAndEffective C es av os operatorAddr avsAddr =
     (case (GetOptedInfo C os operatorAddr avsAddr, GetAVSEpochInfo C es av avsAddr) of
        (Inr optedInfo, Inr epochInfo) \<Rightarrow>
          op_OptedOutHeight optedInfo \<noteq> DefaultOptedOutHeight \<and>
          op_OptedOutHeight optedInfo < of_int (ei_CurrentEpochStartHeight epochInfo)
      | _ \<Rightarrow> True)"

definition IsOptedOutButNotEffective ::
    "codec \<Rightarrow> epochs_state \<Rightarrow> avs_state \<Rightarrow> operator_state \<Rightarrow> string \<Rightarrow> string \<Rightarrow> bool" where
  "IsOptedOutButNotEffective C es av os operatorAddr avsAddr =
     (case (GetOptedInfo C os operatorAddr avsAddr, GetAVSEpochInfo C es av avsAddr) of
        (Inr optedInfo, Inr epochInfo) \<Rightarrow>
          op_OptedOutHeight optedInfo \<noteq> DefaultOptedOutHeight \<and>
          of_int (ei_CurrentEpochStartHeight epochInfo) \<le> op_OptedOutHeight optedInfo
      | _ \<Rightarrow> False)"

definition IsActive :: "codec \<Rightarrow> epochs_state \<Rightarrow> avs_state \<Rightarrow> operator_state \<Rightarrow> string \<Rightarrow> string \<Rightarrow> bool" where
  "IsActive C es av os operatorAddr avsAddr =
     (\<not> IsOptedOutAndEffective C es av os operatorAddr avsAddr \<and> \<not> IsJailed C os operatorAddr avsAddr)"

definition IsOptedInAndNotJailed :: "codec \<Rightarrow> operator_state \<Rightarrow> string \<Rightarrow> string \<Rightarrow> bool result" where
  "IsOptedInAndNotJailed C os operatorAddr avsAddr =
     (if \<not> IsOptedIn C os operatorAddr avsAddr then Inr False
      else if IsJailed C os operatorAddr avsAddr then Inr False
      else case accAddressFromBech32 C operatorAddr of None \<Rightarrow> Inl (Panic ''invalid bech32 address'')
        | Some a \<Rightarrow> Inr (\<not> IsOperatorFrozen os a))"

definition IterateOptInfo ::
    "operator_state \<Rightarrow> bytes \<Rightarrow> (bytes \<Rightarrow> OptedInfo \<Rightarrow> 'a \<Rightarrow> (bool \<times> 'a) result) \<Rightarrow> 'a \<Rightarrow> 'a result" where
  "IterateOptInfo os iteratePrefix opFunc =
     riter (\<lambda>(key, optedInfo). opFunc key optedInfo) (kv_iterate iteratePrefix (optedInfos os))"

definition GetOptedInAVSForOperator :: "codec \<Rightarrow> operator_state \<Rightarrow> string \<Rightarrow> string list result" where
  "GetOptedInAVSForOperator C os operatorAddr =
     (if accAddressFromBech32 C operatorAddr = None then Inl (OpErr ErrParameterInvalid)
      else IterateOptInfo os operatorAddr (\<lambda>key optedInfo avsList.
        if op_OptedOutHeight optedInfo = DefaultOptedOutHeight
        then rbind (ParseJoinedKeyWithCount key 2) (\<lambda>keys. Inr (False, avsList @ [keys ! 1]))
        else Inr (False, avsList)) [])"

definition GetOptedInOperatorListByAVS :: "operator_state \<Rightarrow> string \<Rightarrow> string list result" where
  "GetOptedInOperatorListByAVS os avsAddr =
     IterateOptInfo os [] (\<lambda>key optedInfo operatorList.
       if op_OptedOutHeight optedInfo = DefaultOptedOutHeight
       then rbind (ParseJoinedKeyWithCount key 2) (\<lambda>keys.
         Inr (False, if to_lower avsAddr = keys ! 1 then operatorList @ [keys ! 0] else operatorList))
       else Inr (False, operatorList)) []"

definition SetAllOptedInfo :: "(string \<times> OptedInfo) list \<Rightarrow> operator_state \<Rightarrow> operator_state" where
  "SetAllOptedInfo optedStates os = os\<lparr>optedInfos := fold (\<lambda>(k, i). kv_set k i) optedStates (optedInfos os)\<rparr>"

definition GetAllOptedInfo :: "operator_state \<Rightarrow> (string \<times> OptedInfo) list result" where
  "GetAllOptedInfo os = IterateOptInfo os [] (\<lambda>key optedInfo ret. Inr (False, ret @ [(key, optedInfo)])) []"

end
