(* ===== verification/OperatorKeys.thy ===== *)
theory OperatorKeys
  imports Operator
begin

text \<open>
  Consensus keys (\<^verbatim>\<open>x/operator/keeper/consensus_keys.go\<close>): the key an operator uses on a chain, stored
  under the operator and the chain and again under the chain and the operator, the operator that a consensus
  address stands for, the key that was replaced in the current epoch, and the operators that are removing
  their key. The stores are indexed by the keys of \<^verbatim>\<open>x/operator/types/keys.go\<close> without their first byte.
\<close>

section \<open>Store keys\<close>

definition ChainIDWithLenKey :: "codec \<Rightarrow> string \<Rightarrow> bytes" where
  "ChainIDWithLenKey C chainID = AppendMany [Uint64ToBigEndian C (of_nat (length chainID)), chainID]"

definition AddrAndChainIDKey :: "codec \<Rightarrow> bytes \<Rightarrow> string \<Rightarrow> bytes" where
  "AddrAndChainIDKey C addr chainID = AppendMany [addr, ChainIDWithLenKey C chainID]"

definition ChainIDAndAddrKey :: "codec \<Rightarrow> string \<Rightarrow> bytes \<Rightarrow> bytes" where
  "ChainIDAndAddrKey C chainID addr = AppendMany [ChainIDWithLenKey C chainID, addr]"

definition KeyForOperatorAndChainIDToConsKey :: "codec \<Rightarrow> bytes \<Rightarrow> string \<Rightarrow> bytes" where
  "KeyForOperatorAndChainIDToConsKey C addr chainID = AddrAndChainIDKey C addr chainID"

definition KeyForChainIDAndOperatorToPrevConsKey :: "codec \<Rightarrow> string \<Rightarrow> bytes \<Rightarrow> bytes" where
  "KeyForChainIDAndOperatorToPrevConsKey C chainID addr = ChainIDAndAddrKey C chainID addr"

definition KeyForChainIDAndOperatorToConsKey :: "codec \<Rightarrow> string \<Rightarrow> bytes \<Rightarrow> bytes" where
  "KeyForChainIDAndOperatorToConsKey C chainID addr = ChainIDAndAddrKey C chainID addr"

definition KeyForChainIDAndConsKeyToOperator :: "codec \<Rightarrow> string \<Rightarrow> bytes \<Rightarrow> bytes" where
  "KeyForChainIDAndConsKeyToOperator C chainID addr = AppendMany [ChainIDWithLenKey C chainID, addr]"

definition KeyForOperatorKeyRemovalForChainID :: "codec \<Rightarrow> bytes \<Rightarrow> string \<Rightarrow> bytes" where
  "KeyForOperatorKeyRemovalForChainID C addr chainID = AppendMany [addr, ChainIDWithLenKey C chainID]"

definition ParseKeyForOperatorAndChainIDToConsKey :: "codec \<Rightarrow> bytes \<Rightarrow> (bytes \<times> string) result" where
  "ParseKeyForOperatorAndChainIDToConsKey C key =
     (if length key < AccAddressLength + ByteLengthForUint64 then Inl ErrParse
      else
        let addr = take AccAddressLength key;
            chainIDLen = BigEndianToUint64 C (take ByteLengthForUint64 (drop AccAddressLength key))
        in
        if (of_nat (length key) :: uint64) \<noteq> of_nat (AccAddressLength + ByteLengthForUint64) + chainIDLen
        then Inl ErrParse
        else Inr (addr, drop (AccAddressLength + ByteLengthForUint64) key))"

text \<open>\<^verbatim>\<open>ParseKeyForOperatorKeyRemoval\<close> is the same function on the keys of the removals.\<close>

definition ParseKeyForOperatorKeyRemoval :: "codec \<Rightarrow> bytes \<Rightarrow> (bytes \<times> string) result" where
  "ParseKeyForOperatorKeyRemoval C key =
     (if length key < AccAddressLength + ByteLengthForUint64 then Inl ErrParse
      else
        let addr = take AccAddressLength key;
            chainIDLen = BigEndianToUint64 C (take ByteLengthForUint64 (drop AccAddressLength key))
        in
        if (of_nat (length key) :: uint64) \<noteq> of_nat (AccAddressLength + ByteLengthForUint64) + chainIDLen
        then Inl ErrParse
        else Inr (addr, drop (AccAddressLength + ByteLengthForUint64) key))"

text \<open>The comparison is on \<^verbatim>\<open>int\<close>, and slicing past the end of the key panics.\<close>

definition ParsePrevConsKey :: "codec \<Rightarrow> bytes \<Rightarrow> (string \<times> bytes) result" where
  "ParsePrevConsKey C key =
     (if length key < ByteLengthForUint64 then Inl ErrParse
      else
        let chainIDLen = BigEndianToUint64 C (take ByteLengthForUint64 key) in
        if int (length key) < sint (of_nat ByteLengthForUint64 + chainIDLen) then Inl ErrParse
        else if length key < unat (of_nat ByteLengthForUint64 + chainIDLen)
                \<or> unat (of_nat ByteLengthForUint64 + chainIDLen) < ByteLengthForUint64
        then Inl (Panic ''slice bounds out of range'')
        else
          let n = unat chainIDLen; addr = drop (ByteLengthForUint64 + n) key in
          if addr = [] then Inl ErrParse
          else Inr (take n (drop ByteLengthForUint64 key), addr))"

section \<open>Reading keys\<close>

definition getOperatorPrevConsKeyForChainID :: "codec \<Rightarrow> operator_state \<Rightarrow> bytes \<Rightarrow> string \<Rightarrow> bytes option" where
  "getOperatorPrevConsKeyForChainID C os opAccAddr chainID =
     kv_get (prevConsKeys os) (KeyForChainIDAndOperatorToPrevConsKey C chainID opAccAddr)"

definition getOperatorConsKeyForChainID :: "codec \<Rightarrow> operator_state \<Rightarrow> bytes \<Rightarrow> string \<Rightarrow> bytes option" where
  "getOperatorConsKeyForChainID C os opAccAddr chainID =
     kv_get (consKeys os) (KeyForOperatorAndChainIDToConsKey C opAccAddr chainID)"

definition GetOperatorPrevConsKeyForChainID ::
    "codec \<Rightarrow> avs_state \<Rightarrow> operator_state \<Rightarrow> bytes \<Rightarrow> string \<Rightarrow> bytes option result" where
  "GetOperatorPrevConsKeyForChainID C av os opAccAddr chainID =
     (if \<not> IsOperator os opAccAddr then Inl ErrOperatorNotExist
      else if \<not> fst (IsAVSByChainID C av chainID) then Inl (OpErr ErrUnknownChainID)
      else Inr (getOperatorPrevConsKeyForChainID C os opAccAddr chainID))"

definition GetOperatorConsKeyForChainID ::
    "codec \<Rightarrow> avs_state \<Rightarrow> operator_state \<Rightarrow> bytes \<Rightarrow> string \<Rightarrow> bytes option result" where
  "GetOperatorConsKeyForChainID C av os opAccAddr chainID =
     (if \<not> IsOperator os opAccAddr then Inl ErrOperatorNotExist
      else if \<not> fst (IsAVSByChainID C av chainID) then Inl (OpErr ErrUnknownChainID)
      else Inr (getOperatorConsKeyForChainID C os opAccAddr chainID))"

definition GetOperatorAddressForChainIDAndConsAddr ::
    "codec \<Rightarrow> avs_state \<Rightarrow> operator_state \<Rightarrow> string \<Rightarrow> bytes \<Rightarrow> bytes option" where
  "GetOperatorAddressForChainIDAndConsAddr C av os chainID consAddr =
     (if \<not> fst (IsAVSByChainID C av chainID) then None
      else kv_get (consAddrs os) (KeyForChainIDAndConsKeyToOperator C chainID consAddr))"

definition IsOperatorRemovingKeyFromChainID :: "codec \<Rightarrow> operator_state \<Rightarrow> bytes \<Rightarrow> string \<Rightarrow> bool" where
  "IsOperatorRemovingKeyFromChainID C os opAccAddr chainID =
     kv_has (keyRemovals os) (KeyForOperatorKeyRemovalForChainID C opAccAddr chainID)"

section \<open>Setting keys\<close>

text \<open>An ed25519 key has 32 bytes; the address of any other panics (\<^verbatim>\<open>ed25519.PubKey.Address\<close>).\<close>

definition PubKeySize :: nat where
  "PubKeySize = 32"

definition ToConsAddr :: "codec \<Rightarrow> bytes \<Rightarrow> bytes result" where
  "ToConsAddr C key = (if length key \<noteq> PubKeySize then Inl (Panic ''pubkey is incorrect size'') else Inr (toConsAddr C key))"

definition WrappedConsKeyFromHex :: "codec \<Rightarrow> string \<Rightarrow> bytes option" where
  "WrappedConsKeyFromHex C hex = (if length hex \<noteq> 66 then None else hexDecode C hex)"

definition setOperatorPrevConsKeyForChainID :: "codec \<Rightarrow> bytes \<Rightarrow> string \<Rightarrow> bytes \<Rightarrow> operator_state \<Rightarrow> operator_state" where
  "setOperatorPrevConsKeyForChainID C opAccAddr chainID prevKey os =
     os\<lparr>prevConsKeys := kv_set (KeyForChainIDAndOperatorToPrevConsKey C chainID opAccAddr) prevKey (prevConsKeys os)\<rparr>"

definition setOperatorConsKeyForChainIDUnchecked ::
    "codec \<Rightarrow> bytes \<Rightarrow> string \<Rightarrow> bytes \<Rightarrow> operator_state \<Rightarrow> operator_state" where
  "setOperatorConsKeyForChainIDUnchecked C opAccAddr chainID wrappedKey os =
     os\<lparr>consKeys := kv_set (KeyForOperatorAndChainIDToConsKey C opAccAddr chainID) wrappedKey (consKeys os),
        chainConsKeys := kv_set (KeyForChainIDAndOperatorToConsKey C chainID opAccAddr) wrappedKey (chainConsKeys os),
        consAddrs := kv_set (KeyForChainIDAndConsKeyToOperator C chainID (toConsAddr C wrappedKey)) opAccAddr (consAddrs os)\<rparr>"

definition setOperatorConsKeyForChainID ::
    "codec \<Rightarrow> 'x operator_hooks \<Rightarrow> bytes \<Rightarrow> string \<Rightarrow> bytes \<Rightarrow> bool \<Rightarrow> 'x state \<Rightarrow> 'x state result" where
  "setOperatorConsKeyForChainID C H opAccAddr chainID wrappedKey genesis s =
     (let os = opr_of s in
      if \<not> genesis \<and> IsOperatorFrozen os opAccAddr then Inl ErrOperatorIsFrozen
      else if IsOperatorRemovingKeyFromChainID C os opAccAddr chainID then Inl (OpErr ErrAlreadyRemovingKey)
      else rbind (ToConsAddr C wrappedKey) (\<lambda>consAddr.
        if GetOperatorAddressForChainIDAndConsAddr C (avs_of s) os chainID consAddr \<noteq> None
        then Inl (OpErr ErrConsKeyAlreadyInUse)
        else
        case getOperatorConsKeyForChainID C os opAccAddr chainID of
          None \<Rightarrow>
            let s' = set_opr (setOperatorConsKeyForChainIDUnchecked C opAccAddr chainID wrappedKey os) s in
            if genesis then Inr s' else oh_AfterOperatorKeySet H opAccAddr chainID wrappedKey s'
        | Some prevKey \<Rightarrow>
            if prevKey = wrappedKey then Inr s
            else
              let alreadyRecorded = (getOperatorPrevConsKeyForChainID C os opAccAddr chainID \<noteq> None);
                  os1 = (if alreadyRecorded then os else setOperatorPrevConsKeyForChainID C opAccAddr chainID prevKey os);
                  s' = set_opr (setOperatorConsKeyForChainIDUnchecked C opAccAddr chainID wrappedKey os1) s
              in if genesis \<or> alreadyRecorded then Inr s'
                 else oh_AfterOperatorKeyReplaced H opAccAddr prevKey wrappedKey chainID s'))"

definition SetOperatorConsKeyForChainID ::
    "codec \<Rightarrow> 'x operator_hooks \<Rightarrow> bytes \<Rightarrow> string \<Rightarrow> bytes \<Rightarrow> 'x state \<Rightarrow> 'x state result" where
  "SetOperatorConsKeyForChainID C H opAccAddr chainID wrappedKey s =
     setOperatorConsKeyForChainID C H opAccAddr chainID wrappedKey False s"

section \<open>Removing keys\<close>

text \<open>The event reports the address of the key, which panics when there is none.\<close>

definition InitiateOperatorKeyRemovalForChainID ::
    "codec \<Rightarrow> 'x operator_hooks \<Rightarrow> bytes \<Rightarrow> string \<Rightarrow> 'x state \<Rightarrow> 'x state result" where
  "InitiateOperatorKeyRemovalForChainID C H opAccAddr chainID s =
     (let os = opr_of s;
          os' = os\<lparr>keyRemovals := kv_set (KeyForOperatorKeyRemovalForChainID C opAccAddr chainID) () (keyRemovals os)\<rparr>
      in
      rbind (of_option (Panic ''nil key'') (getOperatorConsKeyForChainID C os opAccAddr chainID)) (\<lambda>key.
      oh_AfterOperatorKeyRemovalInitiated H opAccAddr chainID key (set_opr os' s)))"

definition CompleteOperatorKeyRemovalForChainID ::
    "codec \<Rightarrow> avs_state \<Rightarrow> bytes \<Rightarrow> string \<Rightarrow> operator_state \<Rightarrow> operator_state result" where
  "CompleteOperatorKeyRemovalForChainID C av opAccAddr chainID os =
     (if \<not> IsOperator os opAccAddr then Inl ErrOperatorNotExist
      else if \<not> fst (IsAVSByChainID C av chainID) then Inl (OpErr ErrUnknownChainID)
      else if \<not> IsOperatorRemovingKeyFromChainID C os opAccAddr chainID then Inl (OpErr ErrOperatorNotRemovingKey)
      else rbind (of_option ErrNoKeyInTheStore (getOperatorConsKeyForChainID C os opAccAddr chainID)) (\<lambda>prevKey.
        Inr (os\<lparr>consAddrs := kv_delete (KeyForChainIDAndConsKeyToOperator C chainID (toConsAddr C prevKey)) (consAddrs os),
                consKeys := kv_delete (KeyForOperatorAndChainIDToConsKey C opAccAddr chainID) (consKeys os),
                chainConsKeys := kv_delete (KeyForChainIDAndOperatorToConsKey C chainID opAccAddr) (chainConsKeys os),
                keyRemovals := kv_delete (KeyForOperatorKeyRemovalForChainID C opAccAddr chainID) (keyRemovals os)\<rparr>)))"

definition DeleteOperatorAddressForChainIDAndConsAddr :: "codec \<Rightarrow> string \<Rightarrow> bytes \<Rightarrow> operator_state \<Rightarrow> operator_state" where
  "DeleteOperatorAddressForChainIDAndConsAddr C chainID consAddr os =
     os\<lparr>consAddrs := kv_delete (KeyForChainIDAndConsKeyToOperator C chainID consAddr) (consAddrs os)\<rparr>"

definition ClearPreviousConsensusKeys :: "codec \<Rightarrow> string \<Rightarrow> operator_state \<Rightarrow> operator_state" where
  "ClearPreviousConsensusKeys C chainID os =
     os\<lparr>prevConsKeys := fold (\<lambda>(key, _). kv_delete key) (kv_iterate (ChainIDWithLenKey C chainID) (prevConsKeys os)) (prevConsKeys os)\<rparr>"

section \<open>The operators of a chain\<close>

definition GetOperatorsForChainID :: "codec \<Rightarrow> avs_state \<Rightarrow> operator_state \<Rightarrow> string \<Rightarrow> (bytes \<times> bytes) list" where
  "GetOperatorsForChainID C av os chainID =
     (if \<not> fst (IsAVSByChainID C av chainID) then []
      else
        let prefix = ChainIDAndAddrKey C chainID [] in
        map (\<lambda>(key, pubKey). (drop (length prefix) key, pubKey)) (kv_iterate prefix (chainConsKeys os)))"

definition GetActiveOperatorsForChainID ::
    "codec \<Rightarrow> avs_state \<Rightarrow> operator_state \<Rightarrow> string \<Rightarrow> (bytes \<times> bytes) list result" where
  "GetActiveOperatorsForChainID C av os chainID =
     (case IsAVSByChainID C av chainID of (isAVS, avsAddrString) \<Rightarrow>
      if \<not> isAVS then Inr []
      else rfold (\<lambda>(operator, pk) active.
        rbind (IsOptedInAndNotJailed C os (accAddressString C operator) avsAddrString) (\<lambda>ok.
        Inr (if ok then active @ [(operator, pk)] else active)))
        (GetOperatorsForChainID C av os chainID) [])"

definition IsOperatorJailedForChainID :: "codec \<Rightarrow> avs_state \<Rightarrow> operator_state \<Rightarrow> bytes \<Rightarrow> string \<Rightarrow> bool" where
  "IsOperatorJailedForChainID C av os consAddr chainID =
     (case GetOperatorAddressForChainIDAndConsAddr C av os chainID consAddr of None \<Rightarrow> False
      | Some operatorAddr \<Rightarrow>
          (case IsAVSByChainID C av chainID of (isAVS, avsAddr) \<Rightarrow>
           isAVS \<and> (case GetOptedInfo C os (accAddressString C operatorAddr) avsAddr of
                       Inl _ \<Rightarrow> False | Inr optInfo \<Rightarrow> op_Jailed optInfo)))"

section \<open>Genesis lists\<close>

definition SetAllPrevConsKeys :: "codec \<Rightarrow> (string \<times> string) list \<Rightarrow> operator_state \<Rightarrow> operator_state result" where
  "SetAllPrevConsKeys C prevKeys os =
     rfold (\<lambda>(key, consensusKey) os.
       rbind (ParseJoinedKeyWithCount key 2) (\<lambda>keys.
       rbind (of_option ErrParse (accAddressFromBech32 C (keys ! 1))) (\<lambda>opAccAddr.
       rbind (of_option (Panic ''nil key'') (WrappedConsKeyFromHex C consensusKey)) (\<lambda>wrappedKey.
       Inr (os\<lparr>prevConsKeys := kv_set (KeyForChainIDAndOperatorToPrevConsKey C (keys ! 0) opAccAddr) wrappedKey (prevConsKeys os)\<rparr>)))))
       prevKeys os"

definition GetAllPrevConsKeys :: "codec \<Rightarrow> operator_state \<Rightarrow> (string \<times> string) list result" where
  "GetAllPrevConsKeys C os =
     rfold (\<lambda>(key, consKey) ret.
       rbind (ParsePrevConsKey C key) (\<lambda>(chainID, operatorAddr).
       Inr (ret @ [(GetJoinedStoreKey [chainID, accAddressString C operatorAddr], hexEncode C consKey)])))
       (prevConsKeys os) []"

definition SetAllOperatorKeyRemovals :: "codec \<Rightarrow> string list \<Rightarrow> operator_state \<Rightarrow> operator_state result" where
  "SetAllOperatorKeyRemovals C removals os =
     rfold (\<lambda>key os.
       rbind (ParseJoinedKeyWithCount key 2) (\<lambda>keys.
       rbind (of_option ErrParse (accAddressFromBech32 C (keys ! 0))) (\<lambda>opAccAddr.
       Inr (os\<lparr>keyRemovals := kv_set (KeyForOperatorKeyRemovalForChainID C opAccAddr (keys ! 1)) () (keyRemovals os)\<rparr>))))
       removals os"

definition GetAllOperatorKeyRemovals :: "codec \<Rightarrow> operator_state \<Rightarrow> string list result" where
  "GetAllOperatorKeyRemovals C os =
     rfold (\<lambda>(key, _) ret.
       rbind (ParseKeyForOperatorKeyRemoval C key) (\<lambda>(operatorAddr, chainID).
       Inr (ret @ [GetJoinedStoreKey [accAddressString C operatorAddr, chainID]])))
       (keyRemovals os) []"

text \<open>The keys by operator, each with the chains in the order of the store.\<close>

type_synonym cons_key_records = "(string \<times> (string \<times> string) list) list"

definition cons_key_step ::
    "codec \<Rightarrow> bytes \<times> bytes \<Rightarrow> cons_key_records \<times> string \<Rightarrow> (cons_key_records \<times> string) result" where
  "cons_key_step C e a =
     (case (e, a) of ((key, consKey), (ret, previousOperator)) \<Rightarrow>
      rbind (ParseKeyForOperatorAndChainIDToConsKey C key) (\<lambda>(operator, chainID).
      let ret1 = (if previousOperator \<noteq> accAddressString C operator
                  then ret @ [(accAddressString C operator, [])] else ret)
      in rbind (append_last (\<lambda>(o', chains). (o', chains @ [(chainID, hexEncode C consKey)])) ret1)
           (\<lambda>ret2. Inr (ret2, accAddressString C operator))))"

definition GetAllOperatorConsKeyRecords :: "codec \<Rightarrow> operator_state \<Rightarrow> cons_key_records result" where
  "GetAllOperatorConsKeyRecords C os =
     rbind (rfold (cons_key_step C) (consKeys os) ([], [])) (\<lambda>(ret, _). Inr ret)"

end
