(* ===== verification/UsdValue.thy ===== *)
theory UsdValue
  imports OperatorKeys
begin

text \<open>
  What operators are worth to the AVSs (\<^verbatim>\<open>x/operator/keeper/usd_value.go\<close>, \<^verbatim>\<open>utils/usd_value.go\<close>): the USD value
  of each pool of an operator, kept by epoch identifier, the value of an operator for an AVS and of the AVS,
  the assets an AVS had at its last update, and the value of rewards that compound
  (\<^verbatim>\<open>x/feedistribution/keeper/rewards_usd_value.go\<close>).
\<close>

section \<open>Prices\<close>

definition CalculateUSDValue :: "dec_ops \<Rightarrow> int \<Rightarrow> int \<Rightarrow> uint32 \<Rightarrow> 8 word \<Rightarrow> dec" where
  "CalculateUSDValue D assetAmount price assetDecimal priceDecimal =
     quoInt D (newDec D (assetAmount * price)) (10 ^ (unat assetDecimal + unat priceDecimal))"

text \<open>\<^verbatim>\<open>TruncateInt64\<close> panics on a value out of range.\<close>

definition truncateInt64 :: "dec_ops \<Rightarrow> dec \<Rightarrow> int result" where
  "truncateInt64 D d =
     (let n = truncateInt D d in
      if n < - (2 ^ 63) \<or> 2 ^ 63 \<le> n then Inl (Panic ''Int64() out of bound'') else Inr n)"

section \<open>Values of operators and AVSs\<close>

definition usd_key :: "string \<Rightarrow> string \<Rightarrow> bytes" where
  "usd_key avsAddr operatorAddr = GetJoinedStoreKey [to_lower avsAddr, operatorAddr]"

definition zero_usd :: OperatorOptedUSDValue where
  "zero_usd = \<lparr>ou_SelfUSDValue = 0, ou_TotalUSDValue = 0, ou_ActiveUSDValue = 0\<rparr>"

record DeltaOperatorUSDInfo =
  du_SelfUSDValue :: "dec option"
  du_TotalUSDValue :: "dec option"
  du_ActiveUSDValue :: "dec option"

definition UpdateOperatorUSDValue ::
    "string \<Rightarrow> string \<Rightarrow> DeltaOperatorUSDInfo \<Rightarrow> operator_state \<Rightarrow> operator_state result" where
  "UpdateOperatorUSDValue avsAddr operatorAddr delta os =
     (if operatorAddr = [] then Inl (OpErr ErrParameterInvalid)
      else
        let key = usd_key avsAddr operatorAddr;
            usdInfo = (case kv_get (operatorUSDValues os) key of None \<Rightarrow> zero_usd | Some v \<Rightarrow> v)
        in
        rbind (UpdateAssetDecValue (Some (ou_SelfUSDValue usdInfo)) (Some (du_SelfUSDValue delta))) (\<lambda>v1.
        rbind (UpdateAssetDecValue (Some (ou_TotalUSDValue usdInfo)) (Some (du_TotalUSDValue delta))) (\<lambda>v2.
        rbind (UpdateAssetDecValue (Some (ou_ActiveUSDValue usdInfo)) (Some (du_ActiveUSDValue delta))) (\<lambda>v3.
        Inr (os\<lparr>operatorUSDValues := kv_set key
               \<lparr>ou_SelfUSDValue = v1, ou_TotalUSDValue = v2, ou_ActiveUSDValue = v3\<rparr> (operatorUSDValues os)\<rparr>)))))"

definition InitOperatorUSDValue :: "string \<Rightarrow> string \<Rightarrow> operator_state \<Rightarrow> operator_state result" where
  "InitOperatorUSDValue avsAddr operatorAddr os =
     (if operatorAddr = [] then Inl (OpErr ErrParameterInvalid)
      else
        let key = usd_key avsAddr operatorAddr in
        if kv_has (operatorUSDValues os) key then Inr os
        else Inr (os\<lparr>operatorUSDValues := kv_set key zero_usd (operatorUSDValues os)\<rparr>))"

definition DeleteOperatorUSDValues :: "string \<Rightarrow> string list \<Rightarrow> operator_state \<Rightarrow> operator_state result" where
  "DeleteOperatorUSDValues avsAddr operators os =
     rfold (\<lambda>operatorAddr os.
       if operatorAddr = [] then Inl (OpErr ErrParameterInvalid)
       else Inr (os\<lparr>operatorUSDValues := kv_delete (usd_key avsAddr operatorAddr) (operatorUSDValues os)\<rparr>))
       operators os"

definition IterateOperatorsForAVSPrefix :: "string \<Rightarrow> bytes" where
  "IterateOperatorsForAVSPrefix avsAddr = avsAddr @ ''/''"

definition DeleteAllOperatorsUSDValueForAVS :: "string \<Rightarrow> operator_state \<Rightarrow> operator_state result" where
  "DeleteAllOperatorsUSDValueForAVS avsAddr os =
     rfold (\<lambda>(key, _) os.
       rbind (ParseJoinedKeyWithCount key 2) (\<lambda>_.
       Inr (os\<lparr>operatorUSDValues := kv_delete key (operatorUSDValues os)\<rparr>)))
       (kv_iterate (IterateOperatorsForAVSPrefix (to_lower avsAddr)) (operatorUSDValues os)) os"

definition GetOperatorOptedUSDValue ::
    "codec \<Rightarrow> epochs_state \<Rightarrow> avs_state \<Rightarrow> operator_state \<Rightarrow> string \<Rightarrow> string \<Rightarrow> OperatorOptedUSDValue result" where
  "GetOperatorOptedUSDValue C es av os avsAddr operatorAddr =
     (if IsOptedOutAndEffective C es av os operatorAddr avsAddr then Inr zero_usd
      else if operatorAddr = [] then Inl (OpErr ErrParameterInvalid)
      else of_option ErrNoKeyInTheStore (kv_get (operatorUSDValues os) (usd_key avsAddr operatorAddr)))"

definition GetOperatorActiveUSDValue ::
    "codec \<Rightarrow> epochs_state \<Rightarrow> avs_state \<Rightarrow> operator_state \<Rightarrow> string \<Rightarrow> string \<Rightarrow> dec result" where
  "GetOperatorActiveUSDValue C es av os avsAddr operatorAddr =
     rbind (GetOperatorOptedUSDValue C es av os avsAddr operatorAddr) (\<lambda>v. Inr (ou_ActiveUSDValue v))"

definition UpdateAVSUSDValue :: "string \<Rightarrow> dec option \<Rightarrow> operator_state \<Rightarrow> operator_state result" where
  "UpdateAVSUSDValue avsAddr opAmount os =
     (if opAmount = None \<or> opAmount = Some 0 then Inl (OpErr ErrValueIsNilOrZero)
      else
        let key = to_lower avsAddr;
            totalValue = (case kv_get (avsUSDValues os) key of None \<Rightarrow> 0 | Some v \<Rightarrow> v)
        in rbind (UpdateAssetDecValue (Some totalValue) (Some opAmount)) (\<lambda>v.
           Inr (os\<lparr>avsUSDValues := kv_set key v (avsUSDValues os)\<rparr>)))"

definition SetAVSUSDValue :: "string \<Rightarrow> dec option \<Rightarrow> operator_state \<Rightarrow> operator_state result" where
  "SetAVSUSDValue avsAddr amount os =
     rbind (of_option (OpErr ErrValueIsNilOrZero) amount) (\<lambda>v.
     Inr (os\<lparr>avsUSDValues := kv_set (to_lower avsAddr) v (avsUSDValues os)\<rparr>))"

definition DeleteAVSUSDValue :: "string \<Rightarrow> operator_state \<Rightarrow> operator_state" where
  "DeleteAVSUSDValue avsAddr os = os\<lparr>avsUSDValues := kv_delete (to_lower avsAddr) (avsUSDValues os)\<rparr>"

definition GetAVSUSDValue :: "operator_state \<Rightarrow> string \<Rightarrow> dec result" where
  "GetAVSUSDValue os avsAddr = of_option ErrNoKeyInTheStore (kv_get (avsUSDValues os) (to_lower avsAddr))"

text \<open>
  The callback sees the operator and its value, which it may change, and threads its own state; the loop
  ends at the first error. The changed values are written after the loop, by \<open>set_usd_values\<close>.
\<close>

fun usd_loop ::
    "(string \<Rightarrow> OperatorOptedUSDValue \<Rightarrow> 'a \<Rightarrow> 'a \<times> OperatorOptedUSDValue result)
      \<Rightarrow> (bytes \<times> OperatorOptedUSDValue) list \<Rightarrow> 'a \<Rightarrow> 'a \<times> (bytes \<times> OperatorOptedUSDValue) list result" where
  "usd_loop opFunc [] a = (a, Inr [])"
| "usd_loop opFunc ((key, v) # es) a =
     (case ParseJoinedKeyWithCount key 2 of
        Inl e \<Rightarrow> (a, Inl e)
      | Inr keys \<Rightarrow>
          (case opFunc (keys ! 1) v a of
             (a1, Inl e) \<Rightarrow> (a1, Inl e)
           | (a1, Inr v1) \<Rightarrow>
               (case usd_loop opFunc es a1 of (a2, us) \<Rightarrow> (a2, rbind us (\<lambda>us. Inr ((key, v1) # us))))))"

definition IterateOperatorUSDValuesForAVS ::
    "operator_state \<Rightarrow> string \<Rightarrow> bool
      \<Rightarrow> (string \<Rightarrow> OperatorOptedUSDValue \<Rightarrow> 'a \<Rightarrow> 'a \<times> OperatorOptedUSDValue result)
      \<Rightarrow> 'a \<Rightarrow> 'a \<times> (bytes \<times> OperatorOptedUSDValue) list result" where
  "IterateOperatorUSDValuesForAVS os avsAddr isUpdate opFunc a =
     (case usd_loop opFunc
        (kv_iterate (IterateOperatorsForAVSPrefix (to_lower avsAddr)) (operatorUSDValues os)) a of
        (a', us) \<Rightarrow> (a', rbind us (\<lambda>us. Inr (if isUpdate then us else []))))"

definition set_usd_values :: "(bytes \<times> OperatorOptedUSDValue) list \<Rightarrow> operator_state \<Rightarrow> operator_state" where
  "set_usd_values us os = os\<lparr>operatorUSDValues := fold (\<lambda>(k, v). kv_set k v) us (operatorUSDValues os)\<rparr>"

definition GetVotePowerForChainID ::
    "codec \<Rightarrow> dec_ops \<Rightarrow> epochs_state \<Rightarrow> avs_state \<Rightarrow> operator_state \<Rightarrow> bytes list \<Rightarrow> string \<Rightarrow> int list result" where
  "GetVotePowerForChainID C D es av os operators chainIDWithoutRevision =
     (case IsAVSByChainID C av chainIDWithoutRevision of (isAVS, avsAddrString) \<Rightarrow>
      if \<not> isAVS then Inl (OpErr ErrUnknownChainID)
      else rfold (\<lambda>operator ret.
        rbind (GetOperatorOptedUSDValue C es av os avsAddrString (accAddressString C operator)) (\<lambda>v.
        rbind (truncateInt64 D (ou_ActiveUSDValue v)) (\<lambda>p. Inr (ret @ [p])))) operators [])"

text \<open>The address of the operator is passed for that of the AVS, and the reverse.\<close>

definition GetOperatorAssetValue ::
    "codec \<Rightarrow> dec_ops \<Rightarrow> epochs_state \<Rightarrow> avs_state \<Rightarrow> operator_state \<Rightarrow> bytes \<Rightarrow> string \<Rightarrow> int result" where
  "GetOperatorAssetValue C D es av os operator chainIDWithoutRevision =
     (case IsAVSByChainID C av chainIDWithoutRevision of (isAVS, avsAddr) \<Rightarrow>
      if \<not> isAVS then Inl (OpErr ErrUnknownChainID)
      else rbind (GetOperatorOptedUSDValue C es av os (accAddressString C operator) avsAddr) (\<lambda>v.
        truncateInt64 D (ou_ActiveUSDValue v)))"

definition SetAllOperatorUSDValues :: "(string \<times> OperatorOptedUSDValue) list \<Rightarrow> operator_state \<Rightarrow> operator_state" where
  "SetAllOperatorUSDValues usdValues os =
     os\<lparr>operatorUSDValues := fold (\<lambda>(k, v). kv_set k v) usdValues (operatorUSDValues os)\<rparr>"

definition GetAllOperatorUSDValues :: "operator_state \<Rightarrow> (string \<times> OperatorOptedUSDValue) list" where
  "GetAllOperatorUSDValues os = operatorUSDValues os"

definition SetAllAVSUSDValues :: "(string \<times> dec) list \<Rightarrow> operator_state \<Rightarrow> operator_state" where
  "SetAllAVSUSDValues usdValues os =
     os\<lparr>avsUSDValues := fold (\<lambda>(avsAddr, v). kv_set (to_lower avsAddr) v) usdValues (avsUSDValues os)\<rparr>"

definition IterateAVSUSDValues :: "operator_state \<Rightarrow> (string \<Rightarrow> dec \<Rightarrow> 'a \<Rightarrow> 'a result) \<Rightarrow> 'a \<Rightarrow> 'a result" where
  "IterateAVSUSDValues os opFunc = rfold (\<lambda>(avsAddr, v). opFunc avsAddr v) (avsUSDValues os)"

definition GetAllAVSUSDValues :: "operator_state \<Rightarrow> (string \<times> dec) list result" where
  "GetAllAVSUSDValues os = IterateAVSUSDValues os (\<lambda>avsAddr v ret. Inr (ret @ [(avsAddr, v)])) []"

section \<open>Rewards that compound\<close>

definition SetOperatorRewardUSDValue ::
    "string \<Rightarrow> string \<Rightarrow> string \<Rightarrow> string \<Rightarrow> dec option \<Rightarrow> operator_state \<Rightarrow> operator_state result" where
  "SetOperatorRewardUSDValue receivingAVS rewardSourceAVS operator rewardDenomination amount os =
     rbind (of_option (OpErr ErrValueIsNilOrZero) amount) (\<lambda>v.
     Inr (os\<lparr>rewardsUSDValues := kv_set (GetJoinedStoreKey [receivingAVS, operator, rewardSourceAVS, rewardDenomination]) v
            (rewardsUSDValues os)\<rparr>))"

definition RemoveAllStaleOperatorRewardUSDs ::
    "string \<Rightarrow> string \<Rightarrow> string list \<Rightarrow> operator_state \<Rightarrow> operator_state" where
  "RemoveAllStaleOperatorRewardUSDs receivingAVS operator keysToKeep os =
     os\<lparr>rewardsUSDValues := fold (\<lambda>(key, _) st. if key \<in> set keysToKeep then st else kv_delete key st)
          (kv_iterate (GetJoinedStoreKeyForPrefix [receivingAVS, operator]) (rewardsUSDValues os)) (rewardsUSDValues os)\<rparr>"

text \<open>What is written stays written when a later reward fails.\<close>

definition reward_usd_step ::
    "string \<Rightarrow> string \<Rightarrow> string \<times> string \<times> dec \<Rightarrow> operator_state \<Rightarrow> operator_state" where
  "reward_usd_step receivingAVS operator r os =
     (case r of (rewardSourceAVS, denom, usdValue) \<Rightarrow>
      case SetOperatorRewardUSDValue receivingAVS rewardSourceAVS operator denom (Some usdValue) os of
        Inl _ \<Rightarrow> os | Inr os' \<Rightarrow> os')"

definition UpdateAllRewardsUSDForOperator ::
    "codec \<Rightarrow> 'x node_env \<Rightarrow> string \<Rightarrow> string \<Rightarrow> string list \<Rightarrow> 'x state \<Rightarrow> 'x state \<times> dec result" where
  "UpdateAllRewardsUSDForOperator C E receivingAVS operator supportedAssets s =
     (case IsCompoundRewardsDisabled C (opr_of s) operator of
        Inl e \<Rightarrow> (s, Inl e)
      | Inr disabled \<Rightarrow>
          (case (if disabled then ([], None) else ne_RewardsUSDValues E s operator (Some supportedAssets)) of
             (rewards, err) \<Rightarrow>
               let os1 = fold (reward_usd_step receivingAVS operator) rewards (opr_of s) in
               (case err of
                  Some e \<Rightarrow> (set_opr os1 s, Inl e)
                | None \<Rightarrow>
                    let keep = map (\<lambda>(source, denom, _). GetJoinedStoreKey [receivingAVS, operator, source, denom]) rewards in
                    (set_opr (RemoveAllStaleOperatorRewardUSDs receivingAVS operator keep os1) s,
                     Inr (sum_list (map (\<lambda>(_, _, v). v) rewards))))))"

definition OperatorTotalRewardsUSDValue :: "'x node_env \<Rightarrow> 'x state \<Rightarrow> string \<Rightarrow> dec result" where
  "OperatorTotalRewardsUSDValue E s operator =
     (case ne_RewardsUSDValues E s operator None of
        (_, Some e) \<Rightarrow> Inl e
      | (rewards, None) \<Rightarrow> Inr (sum_list (map (\<lambda>(_, _, v). v) rewards)))"

section \<open>The value of an operator now\<close>

text \<open>The sources of the compounding rewards, which only the slashing of rewards reads, are left out.\<close>

record OperatorStakingInfo =
  os_Staking :: dec
  os_SelfStaking :: dec
  os_StakingAndWaitUnbonding :: dec

definition zero_staking :: OperatorStakingInfo where
  "zero_staking = \<lparr>os_Staking = 0, os_SelfStaking = 0, os_StakingAndWaitUnbonding = 0\<rparr>"

definition realtime_op ::
    "dec_ops \<Rightarrow> 'x node_env \<Rightarrow> 'x state \<Rightarrow> bool \<Rightarrow> (string \<rightharpoonup> uint32) \<Rightarrow> (string \<rightharpoonup> Price) option
      \<Rightarrow> string \<Rightarrow> OperatorAssetInfo \<Rightarrow> OperatorStakingInfo \<Rightarrow> (OperatorAssetInfo \<times> OperatorStakingInfo) result" where
  "realtime_op D E s isForSlash decimals prices assetID state ret =
     (if isForSlash
      then
        let price = fst (ne_GetSpecifiedAssetsPrice E s assetID) in
        rbind (GetStakingAssetInfo (assets s) assetID) (\<lambda>assetInfo.
        let usdValue = CalculateUSDValue D (oa_TotalAmount state + oa_PendingUndelegationAmount state)
              (pr_Value price) (ai_Decimals (sai_AssetBasicInfo assetInfo)) (pr_Decimal price)
        in Inr (state, ret\<lparr>os_StakingAndWaitUnbonding := os_StakingAndWaitUnbonding ret + usdValue\<rparr>))
      else
        rbind (of_option (OpErr ErrValueIsNilOrZero) prices) (\<lambda>prices.
        rbind (of_option (OpErr ErrKeyNotExistInMap) (prices assetID)) (\<lambda>price.
        rbind (of_option (OpErr ErrKeyNotExistInMap) (decimals assetID)) (\<lambda>decimal.
        let usdValue = (\<lambda>amount. CalculateUSDValue D amount (pr_Value price) decimal (pr_Decimal price)) in
        rbind (TokensFromShares D (oa_OperatorShare state) (oa_TotalShare state) (oa_TotalAmount state)) (\<lambda>selfAmount.
        Inr (state, ret\<lparr>os_Staking := os_Staking ret + usdValue (oa_TotalAmount state),
                       os_SelfStaking := os_SelfStaking ret + usdValue selfAmount\<rparr>))))))"

definition CalculateRealTimeOperatorUSDValue ::
    "codec \<Rightarrow> dec_ops \<Rightarrow> 'x node_env \<Rightarrow> 'x state \<Rightarrow> bool \<Rightarrow> string \<Rightarrow> string list option
      \<Rightarrow> (string \<rightharpoonup> uint32) \<Rightarrow> (string \<rightharpoonup> Price) option \<Rightarrow> OperatorStakingInfo result" where
  "CalculateRealTimeOperatorUSDValue C D E s isForSlash operator assetsFilter decimals prices =
     rbind (IterateAssetsForOperator C False operator (map_option set assetsFilter)
              (Some (realtime_op D E s isForSlash decimals prices)) (assets s) zero_staking) (\<lambda>(_, ret).
     rbind (OperatorTotalRewardsUSDValue E s operator) (\<lambda>compoundingUSDValue.
     if isForSlash
     then Inr (ret\<lparr>os_StakingAndWaitUnbonding := os_StakingAndWaitUnbonding ret + compoundingUSDValue\<rparr>)
     else rbind (IsCompoundRewardsDisabled C (opr_of s) operator) (\<lambda>disabled.
       Inr (if disabled then ret else ret\<lparr>os_Staking := os_Staking ret + compoundingUSDValue\<rparr>))))"

text \<open>
  The value of an operator for an AVS, from the store or, when it has left the AVS, from its pools. The
  third part, the active value, is nil in the second case.
\<close>

definition GetOrCalculateOperatorUSDValues ::
    "codec \<Rightarrow> dec_ops \<Rightarrow> 'x node_env \<Rightarrow> 'x state \<Rightarrow> bytes \<Rightarrow> string \<Rightarrow> (dec \<times> dec \<times> dec option) result" where
  "GetOrCalculateOperatorUSDValues C D E s operator avsAddr =
     (let addr = accAddressString C operator in
      if IsOptedOutAndEffective C (epochs s) (avs_of s) (opr_of s) addr avsAddr
      then
        rbind (GetAVSSupportedAssets C (assets s) (avs_of s) avsAddr) (\<lambda>assetList.
        rbind (GetAssetsDecimal (assets s) (Some assetList)) (\<lambda>decimals.
        case ne_GetMultipleAssetsPrices E s assetList of
          (_, Some e) \<Rightarrow> Inl e
        | (prices, None) \<Rightarrow>
            rbind (CalculateRealTimeOperatorUSDValue C D E s False addr (Some assetList) decimals (Some prices))
              (\<lambda>info. Inr (os_SelfStaking info, os_Staking info, None))))
      else
        rbind (GetOperatorOptedUSDValue C (epochs s) (avs_of s) (opr_of s) avsAddr addr) (\<lambda>v.
        Inr (ou_SelfUSDValue v, ou_TotalUSDValue v, Some (ou_ActiveUSDValue v))))"

definition staker_usd_op ::
    "codec \<Rightarrow> dec_ops \<Rightarrow> assets_state \<Rightarrow> bytes \<Rightarrow> string list \<Rightarrow> (string \<rightharpoonup> Price)
      \<Rightarrow> string \<times> string \<times> string \<Rightarrow> DelegationAmounts \<Rightarrow> dec \<Rightarrow> (bool \<times> dec) result" where
  "staker_usd_op C D as operator assetList prices keys amounts totalUSDValue =
     (case keys of (_, assetID, operatorAddr) \<Rightarrow>
      if operatorAddr = accAddressString C operator \<and> assetID \<in> set assetList
      then
        rbind (of_option (OpErr ErrKeyNotExistInMap) (prices assetID)) (\<lambda>price.
        rbind (GetOperatorSpecifiedAssetInfo C as operator assetID) (\<lambda>operatorAsset.
        rbind (TokensFromShares D (da_UndelegatableShare amounts) (oa_TotalShare operatorAsset) (oa_TotalAmount operatorAsset)) (\<lambda>amount.
        rbind (GetStakingAssetInfo as assetID) (\<lambda>assetInfo.
        Inr (False, totalUSDValue + CalculateUSDValue D amount (pr_Value price)
                      (ai_Decimals (sai_AssetBasicInfo assetInfo)) (pr_Decimal price))))))
      else Inr (False, totalUSDValue))"

definition CalculateUSDValueForStaker ::
    "codec \<Rightarrow> dec_ops \<Rightarrow> 'x node_env \<Rightarrow> 'x state \<Rightarrow> string \<Rightarrow> string \<Rightarrow> bytes \<Rightarrow> dec result" where
  "CalculateUSDValueForStaker C D E s stakerID avsAddr operator =
     (let addr = accAddressString C operator in
      rbind (IsOptedInAndNotJailed C (opr_of s) addr avsAddr) (\<lambda>ok.
      if \<not> ok then Inr 0
      else rbind (GetOperatorOptedUSDValue C (epochs s) (avs_of s) (opr_of s) avsAddr addr) (\<lambda>v.
        if ou_ActiveUSDValue v = 0 then Inr 0
        else rbind (GetAVSSupportedAssets C (assets s) (avs_of s) avsAddr) (\<lambda>assetList.
          case ne_GetMultipleAssetsPrices E s assetList of
            (_, Some e) \<Rightarrow> Inl e
          | (prices, None) \<Rightarrow>
              IterateDelegationsForStaker (dlg s) stakerID
                (Some (staker_usd_op C D (assets s) operator assetList prices)) 0))))"

section \<open>The value of each pool\<close>

definition SetOperatorAssetUSDValue ::
    "string \<Rightarrow> string \<Rightarrow> string \<Rightarrow> dec option \<Rightarrow> operator_state \<Rightarrow> operator_state result" where
  "SetOperatorAssetUSDValue epochIdentifier operator assetID amount os =
     rbind (of_option (OpErr ErrValueIsNilOrZero) amount) (\<lambda>v.
     Inr (os\<lparr>operatorAssetUSDValues := kv_set (GetJoinedStoreKey [epochIdentifier, operator, assetID]) v
            (operatorAssetUSDValues os)\<rparr>))"

definition DeleteOperatorAssetUSDValueByEpoch :: "string \<Rightarrow> string \<Rightarrow> operator_state \<Rightarrow> operator_state" where
  "DeleteOperatorAssetUSDValueByEpoch epochIdentifier operator os =
     os\<lparr>operatorAssetUSDValues := fold (\<lambda>(key, _). kv_delete key)
          (kv_iterate (GetJoinedStoreKey [epochIdentifier, operator]) (operatorAssetUSDValues os)) (operatorAssetUSDValues os)\<rparr>"

definition GetOperatorAssetUSDValue :: "operator_state \<Rightarrow> string \<Rightarrow> string \<Rightarrow> string \<Rightarrow> dec result" where
  "GetOperatorAssetUSDValue os epochIdentifier operator assetID =
     of_option ErrNoKeyInTheStore (kv_get (operatorAssetUSDValues os) (GetJoinedStoreKey [epochIdentifier, operator, assetID]))"

definition HasOperatorAssetUSDValue :: "operator_state \<Rightarrow> string \<Rightarrow> string \<Rightarrow> string \<Rightarrow> bool" where
  "HasOperatorAssetUSDValue os epochIdentifier operator assetID =
     kv_has (operatorAssetUSDValues os) (GetJoinedStoreKey [epochIdentifier, operator, assetID])"

definition SetAllOperatorAssetUSDValues :: "(string \<times> dec) list \<Rightarrow> operator_state \<Rightarrow> operator_state" where
  "SetAllOperatorAssetUSDValues usdValues os =
     os\<lparr>operatorAssetUSDValues := fold (\<lambda>(k, v). kv_set k v) usdValues (operatorAssetUSDValues os)\<rparr>"

definition GetAllOperatorAssetUSDValues :: "operator_state \<Rightarrow> (string \<times> dec) list" where
  "GetAllOperatorAssetUSDValues os = operatorAssetUSDValues os"

definition IsImpactfulEpochForOperator ::
    "codec \<Rightarrow> epochs_state \<Rightarrow> avs_state \<Rightarrow> operator_state \<Rightarrow> string \<Rightarrow> string \<Rightarrow> bool" where
  "IsImpactfulEpochForOperator C es av os epochIdentifier operatorAddr =
     (case IterateOptInfo os operatorAddr (\<lambda>key optedInfo found.
        rbind (ParseJoinedKeyWithCount key 2) (\<lambda>keys.
        rbind (GetAVSEpochInfo C es av (keys ! 1)) (\<lambda>epochInfo.
        if op_OptedOutHeight optedInfo \<noteq> DefaultOptedOutHeight
           \<and> op_OptedOutHeight optedInfo < of_int (ei_CurrentEpochStartHeight epochInfo) then Inr (False, found)
        else if ei_Identifier epochInfo = epochIdentifier then Inr (True, True)
        else Inr (False, found)))) False of
        Inl _ \<Rightarrow> False | Inr isImpactfulEpoch \<Rightarrow> isImpactfulEpoch)"

definition asset_usd_op ::
    "dec_ops \<Rightarrow> 'x node_env \<Rightarrow> 'x state \<Rightarrow> string list \<Rightarrow> string \<Rightarrow> string \<Rightarrow> OperatorAssetInfo
      \<Rightarrow> operator_state \<Rightarrow> operator_state" where
  "asset_usd_op D E s epochIdentifiers operator assetID state os =
     (case ne_GetSpecifiedAssetsPrice E s assetID of (price, err) \<Rightarrow>
      if err \<noteq> None \<and> err \<noteq> Some (OpErr ErrGetPriceRoundNotFound) then os
      else case GetStakingAssetInfo (assets s) assetID of
        Inl _ \<Rightarrow> os
      | Inr assetInfo \<Rightarrow>
          let usdValue = CalculateUSDValue D (oa_TotalAmount state) (pr_Value price)
                (ai_Decimals (sai_AssetBasicInfo assetInfo)) (pr_Decimal price)
          in fold (\<lambda>epochIdentifier os.
               case SetOperatorAssetUSDValue epochIdentifier operator assetID (Some usdValue) os of
                 Inl _ \<Rightarrow> os | Inr os' \<Rightarrow> os') epochIdentifiers os)"

text \<open>
  \<^verbatim>\<open>IterateAssetsForOperator\<close> without a filter and with a callback that never fails. A key that does not
  parse ends the loop with an error, which the only caller logs: what was written stays written.
\<close>

fun asset_usd_loop ::
    "dec_ops \<Rightarrow> 'x node_env \<Rightarrow> 'x state \<Rightarrow> string list \<Rightarrow> string \<Rightarrow> (bytes \<times> OperatorAssetInfo) list
      \<Rightarrow> operator_state \<Rightarrow> operator_state" where
  "asset_usd_loop D E s epochIdentifiers operator [] os = os"
| "asset_usd_loop D E s epochIdentifiers operator ((key, state) # es) os =
     (case ParseJoinedKeyWithCount key 2 of
        Inl _ \<Rightarrow> os
      | Inr keys \<Rightarrow> asset_usd_loop D E s epochIdentifiers operator es
          (asset_usd_op D E s epochIdentifiers operator (keys ! 1) state os))"

text \<open>The values of the epochs that no longer matter to the operator are removed first.\<close>

definition UpdateOperatorAssetUSDValue ::
    "codec \<Rightarrow> dec_ops \<Rightarrow> 'x node_env \<Rightarrow> string list \<Rightarrow> string \<Rightarrow> 'x state \<Rightarrow> 'x state" where
  "UpdateOperatorAssetUSDValue C D E epochIdentifiers operator s =
     (let impactful = IsImpactfulEpochForOperator C (epochs s) (avs_of s) (opr_of s);
          os1 = fold (\<lambda>epochIdentifier os. if impactful epochIdentifier operator then os
                       else DeleteOperatorAssetUSDValueByEpoch epochIdentifier operator os) epochIdentifiers (opr_of s);
          impactfulEpochIdentifiers = filter (\<lambda>epochIdentifier. impactful epochIdentifier operator) epochIdentifiers
      in
      if impactfulEpochIdentifiers = [] \<or> accAddressFromBech32 C operator = None then set_opr os1 s
      else set_opr (asset_usd_loop D E s impactfulEpochIdentifiers operator
             (kv_iterate operator (operatorAssetInfos (assets s))) os1) s)"

definition UpdateAllOperatorAssetUSDValues ::
    "codec \<Rightarrow> dec_ops \<Rightarrow> 'x node_env \<Rightarrow> string list \<Rightarrow> 'x state \<Rightarrow> 'x state" where
  "UpdateAllOperatorAssetUSDValues C D E epochIdentifiers s =
     fold (\<lambda>(operatorAddr, _). UpdateOperatorAssetUSDValue C D E epochIdentifiers (accAddressString C operatorAddr))
       (operatorInfos (opr_of s)) s"

definition aggregate_step ::
    "codec \<Rightarrow> dec_ops \<Rightarrow> assets_state \<Rightarrow> operator_state \<Rightarrow> string \<Rightarrow> string \<Rightarrow> bytes \<Rightarrow> string
      \<Rightarrow> OperatorStakingInfo \<Rightarrow> OperatorStakingInfo" where
  "aggregate_step C D as os epochIdentifier operator operatorAccAddr assetID ret =
     (case GetOperatorAssetUSDValue os epochIdentifier operator assetID of
        Inl _ \<Rightarrow> ret
      | Inr totalUSDValue \<Rightarrow>
          (case GetOperatorSpecifiedAssetInfo C as operatorAccAddr assetID of
             Inl _ \<Rightarrow> ret
           | Inr info \<Rightarrow>
               let ret1 = ret\<lparr>os_Staking := os_Staking ret + totalUSDValue\<rparr> in
               (case TokenUSDValueFromShares D (oa_OperatorShare info) (oa_TotalShare info) totalUSDValue of
                  Inl _ \<Rightarrow> ret1
                | Inr selfAmount \<Rightarrow> ret1\<lparr>os_SelfStaking := os_SelfStaking ret1 + selfAmount\<rparr>)))"

definition AggregateOperatorUSDValue ::
    "codec \<Rightarrow> dec_ops \<Rightarrow> assets_state \<Rightarrow> operator_state \<Rightarrow> string \<Rightarrow> string \<Rightarrow> string list \<Rightarrow> OperatorStakingInfo result" where
  "AggregateOperatorUSDValue C D as os epochIdentifier operator assetsList =
     rbind (of_option ErrOperatorAddrIsNotAccAddr (accAddressFromBech32 C operator)) (\<lambda>operatorAccAddr.
     Inr (fold (aggregate_step C D as os epochIdentifier operator operatorAccAddr) assetsList zero_staking))"

section \<open>The assets of an AVS at its last update\<close>

definition SetAVSAssetsPerEpoch :: "string \<Rightarrow> string list \<Rightarrow> operator_state \<Rightarrow> operator_state" where
  "SetAVSAssetsPerEpoch avsAddr assetList os =
     (if assetList = [] then os
      else os\<lparr>avsAssetsPerEpoch := kv_set (to_lower avsAddr) assetList (avsAssetsPerEpoch os)\<rparr>)"

definition DeleteAllAVSAssetsPerEpoch :: "operator_state \<Rightarrow> operator_state" where
  "DeleteAllAVSAssetsPerEpoch os =
     os\<lparr>avsAssetsPerEpoch := fold (\<lambda>(key, _). kv_delete key) (avsAssetsPerEpoch os) (avsAssetsPerEpoch os)\<rparr>"

definition GetAVSAssetsPerEpoch :: "operator_state \<Rightarrow> string \<Rightarrow> string list result" where
  "GetAVSAssetsPerEpoch os avsAddr = of_option ErrNoKeyInTheStore (kv_get (avsAssetsPerEpoch os) (to_lower avsAddr))"

definition HasAVSAssetsPerEpoch :: "operator_state \<Rightarrow> string \<Rightarrow> bool" where
  "HasAVSAssetsPerEpoch os avsAddr = kv_has (avsAssetsPerEpoch os) (to_lower avsAddr)"

definition GetRecentEndedEpochAVSAssets :: "codec \<Rightarrow> avs_state \<Rightarrow> operator_state \<Rightarrow> string \<Rightarrow> string list result" where
  "GetRecentEndedEpochAVSAssets C av os avsAddr =
     (if HasAVSAssetsPerEpoch os avsAddr then GetAVSAssetsPerEpoch os avsAddr
      else GetAVSAssetsList C av avsAddr)"

end
