(* ===== verification/VotingPower.thy ===== *)
theory VotingPower
  imports UsdValue
begin

text \<open>
  Voting power: the update of an AVS and of its operators at the end of an epoch
  (\<^verbatim>\<open>x/operator/keeper/abci.go\<close>, \<^verbatim>\<open>impl_epoch_hook.go\<close>) and the snapshots of the voting power by height
  (\<^verbatim>\<open>voting_power_snapshot.go\<close>).
\<close>

section \<open>Snapshots\<close>

definition KeyForVotingPowerSnapshot :: "codec \<Rightarrow> bytes \<Rightarrow> int \<Rightarrow> bytes" where
  "KeyForVotingPowerSnapshot C avs height = AppendMany [avs, Uint64ToBigEndian C (of_int height)]"

definition AddressLength :: nat where "AddressLength = 20"

definition ParseVotingPowerSnapshotKey :: "codec \<Rightarrow> bytes \<Rightarrow> (string \<times> int) result" where
  "ParseVotingPowerSnapshotKey C key =
     (if length key \<noteq> AddressLength + ByteLengthForUint64 then Inl ErrParse
      else Inr (addressHex C (take AddressLength key), sint (BigEndianToUint64 C (drop AddressLength key))))"

definition SetVotingPowerSnapshot :: "bytes \<Rightarrow> VotingPowerSnapshot \<Rightarrow> operator_state \<Rightarrow> operator_state" where
  "SetVotingPowerSnapshot key snapshot os = os\<lparr>votingPowerSnapshots := kv_set key snapshot (votingPowerSnapshots os)\<rparr>"

definition GetVotingPowerSnapshot :: "codec \<Rightarrow> operator_state \<Rightarrow> bytes \<Rightarrow> VotingPowerSnapshot result" where
  "GetVotingPowerSnapshot C os key =
     (case kv_get (votingPowerSnapshots os) key of
        Some v \<Rightarrow> Inr v
      | None \<Rightarrow> rbind (ParseVotingPowerSnapshotKey C key) (\<lambda>_. Inl ErrNoKeyInTheStore))"

definition IterateVotingPowerSnapshot ::
    "codec \<Rightarrow> operator_state \<Rightarrow> string \<Rightarrow> (int \<Rightarrow> VotingPowerSnapshot \<Rightarrow> 'a \<Rightarrow> 'a result) \<Rightarrow> 'a \<Rightarrow> 'a result" where
  "IterateVotingPowerSnapshot C os avsAddr opFunc =
     rfold (\<lambda>(key, snapshot) a.
       rbind (ParseVotingPowerSnapshotKey C key) (\<lambda>(_, height). opFunc height snapshot a))
       (kv_iterate (hexToAddress C avsAddr) (votingPowerSnapshots os))"

definition GetSnapshotHeightAndKey ::
    "codec \<Rightarrow> operator_state \<Rightarrow> string \<Rightarrow> int \<Rightarrow> (int \<times> bytes) result" where
  "GetSnapshotHeightAndKey C os avsAddr height =
     (if \<not> isHexAddress C avsAddr then Inl (OpErr ErrParameterInvalid)
      else if height < 0 then Inl (OpErr ErrParameterInvalid)
      else
        let avsEthAddr = hexToAddress C avsAddr;
            findKey = KeyForVotingPowerSnapshot C avsEthAddr height
        in
        if kv_has (votingPowerSnapshots os) findKey then Inr (height, findKey)
        else riter (\<lambda>(key, _) found.
          rbind (ParseVotingPowerSnapshotKey C key) (\<lambda>(_, keyHeight).
          if keyHeight \<le> height then Inr (False, (keyHeight, key)) else Inr (True, found)))
          (kv_iterate avsEthAddr (votingPowerSnapshots os)) (height, findKey))"

definition GetEpochNumberByOptOutHeight :: "codec \<Rightarrow> operator_state \<Rightarrow> string \<Rightarrow> int \<Rightarrow> int result" where
  "GetEpochNumberByOptOutHeight C os avsAddr optOutHeight =
     (if optOutHeight < 0 then Inl (OpErr ErrParameterInvalid)
      else rbind (GetSnapshotHeightAndKey C os avsAddr optOutHeight) (\<lambda>(_, findKey).
        Inr (case kv_get (votingPowerSnapshots os) findKey of
               None \<Rightarrow> NullEpochNumber | Some snapshot \<Rightarrow> vs_EpochNumber snapshot)))"

definition LoadVotingPowerSnapshot ::
    "codec \<Rightarrow> operator_state \<Rightarrow> string \<Rightarrow> int \<Rightarrow> (int \<times> VotingPowerSnapshot) result" where
  "LoadVotingPowerSnapshot C os avsAddr height =
     rbind (GetSnapshotHeightAndKey C os avsAddr height) (\<lambda>(findHeight, findKey).
     rbind (of_option ErrNoKeyInTheStore (kv_get (votingPowerSnapshots os) findKey)) (\<lambda>ret.
     if findHeight \<noteq> vs_LastChangedHeight ret
     then rbind (of_option ErrNoKeyInTheStore (kv_get (votingPowerSnapshots os)
                  (KeyForVotingPowerSnapshot C (hexToAddress C avsAddr) (vs_LastChangedHeight ret)))) (\<lambda>ret'.
            Inr (findHeight, ret'))
     else Inr (findHeight, ret)))"

text \<open>
  The loop that removes the snapshots up to an epoch. The last one that holds its own voting powers is
  retained until a later one is found, since the snapshots after it refer to it. The height of a key that
  does not parse is 0.
\<close>

fun remove_snapshots ::
    "codec \<Rightarrow> int \<Rightarrow> (bytes \<times> VotingPowerSnapshot) list \<Rightarrow> bytes option
      \<Rightarrow> (bytes, VotingPowerSnapshot) kv \<Rightarrow> (bytes, VotingPowerSnapshot) kv" where
  "remove_snapshots C epochNumber [] retainedKey st = st"
| "remove_snapshots C epochNumber ((key, snapshot) # es) retainedKey st =
     (let height = (case ParseVotingPowerSnapshotKey C key of Inl _ \<Rightarrow> 0 | Inr (_, h) \<Rightarrow> h);
          drop_retained = (case retainedKey of None \<Rightarrow> st | Some k \<Rightarrow> kv_delete k st)
      in
      if epochNumber < vs_EpochNumber snapshot
      then (if height = vs_LastChangedHeight snapshot then drop_retained else st)
      else if height = vs_LastChangedHeight snapshot
      then remove_snapshots C epochNumber es (Some key) drop_retained
      else remove_snapshots C epochNumber es retainedKey (kv_delete key st))"

definition RemoveVotingPowerSnapshot :: "codec \<Rightarrow> string \<Rightarrow> int \<Rightarrow> operator_state \<Rightarrow> operator_state result" where
  "RemoveVotingPowerSnapshot C avsAddr epochNumber os =
     (if epochNumber < 0 then Inl (OpErr ErrParameterInvalid)
      else Inr (os\<lparr>votingPowerSnapshots :=
             remove_snapshots C epochNumber (kv_iterate (hexToAddress C avsAddr) (votingPowerSnapshots os)) None
               (votingPowerSnapshots os)\<rparr>))"

definition UpdateSnapshotHelper :: "string \<Rightarrow> (int \<Rightarrow> int result) \<Rightarrow> operator_state \<Rightarrow> operator_state result" where
  "UpdateSnapshotHelper avsAddr opFunc os =
     rbind (opFunc (case kv_get (snapshotHelpers os) avsAddr of None \<Rightarrow> 0 | Some h \<Rightarrow> h)) (\<lambda>h.
     Inr (os\<lparr>snapshotHelpers := kv_set avsAddr h (snapshotHelpers os)\<rparr>))"

definition SetLastChangedHeight :: "string \<Rightarrow> int \<Rightarrow> operator_state \<Rightarrow> operator_state result" where
  "SetLastChangedHeight avsAddr lastChangeHeight = UpdateSnapshotHelper avsAddr (\<lambda>_. Inr lastChangeHeight)"

definition SetSnapshotHelper :: "string \<Rightarrow> int \<Rightarrow> operator_state \<Rightarrow> operator_state" where
  "SetSnapshotHelper avsAddr snapshotHelper os = os\<lparr>snapshotHelpers := kv_set avsAddr snapshotHelper (snapshotHelpers os)\<rparr>"

definition GetSnapshotHelper :: "codec \<Rightarrow> operator_state \<Rightarrow> string \<Rightarrow> int result" where
  "GetSnapshotHelper C os avsAddr =
     (if \<not> isHexAddress C avsAddr then Inl (OpErr ErrParameterInvalid)
      else of_option ErrNoKeyInTheStore (kv_get (snapshotHelpers os) (to_lower avsAddr)))"

definition HasSnapshotHelper :: "operator_state \<Rightarrow> string \<Rightarrow> bool" where
  "HasSnapshotHelper os avsAddr = kv_has (snapshotHelpers os) avsAddr"

section \<open>Updating the voting power\<close>

text \<open>What the loop over the operators of an AVS collects.\<close>

record power_acc =
  pa_isSnapshotChanged :: bool
  pa_votingPowerSet :: "OperatorVotingPower list"
  pa_avsVotingPower :: dec
  pa_hasOptedOperator :: bool
  pa_deletedOperators :: "string list"

definition no_power :: power_acc where
  "no_power = \<lparr>pa_isSnapshotChanged = False, pa_votingPowerSet = [], pa_avsVotingPower = 0,
     pa_hasOptedOperator = False, pa_deletedOperators = []\<rparr>"

definition update_power_op ::
    "codec \<Rightarrow> dec_ops \<Rightarrow> 'x node_env \<Rightarrow> string \<Rightarrow> string \<Rightarrow> string list \<Rightarrow> dec \<Rightarrow> string \<Rightarrow> OperatorOptedUSDValue
      \<Rightarrow> power_acc \<times> 'x state \<Rightarrow> (power_acc \<times> 'x state) \<times> OperatorOptedUSDValue result" where
  "update_power_op C D E avsAddr epochIdentifier avsAssets minimumSelfDelegation operator lastUSD a =
     (case a of (acc, s) \<Rightarrow>
      if IsOptedOutButNotEffective C (epochs s) (avs_of s) (opr_of s) operator avsAddr
      then ((acc\<lparr>pa_deletedOperators := pa_deletedOperators acc @ [operator], pa_isSnapshotChanged := True\<rparr>, s), Inr lastUSD)
      else
        let acc1 = acc\<lparr>pa_hasOptedOperator := True\<rparr> in
        (case AggregateOperatorUSDValue C D (assets s) (opr_of s) epochIdentifier operator avsAssets of
           Inl e \<Rightarrow> ((acc1, s), Inl e)
         | Inr stakingInfo \<Rightarrow>
             (case UpdateAllRewardsUSDForOperator C E avsAddr operator avsAssets s of
                (s1, Inl e) \<Rightarrow> ((acc1, s1), Inl e)
              | (s1, Inr rewardsUSDValue) \<Rightarrow>
                  let total_usd = os_Staking stakingInfo + rewardsUSDValue;
                      isActive = (minimumSelfDelegation \<le> os_SelfStaking stakingInfo
                                   \<and> \<not> IsOperatorFrozenStr C (opr_of s1) operator);
                      active = (if isActive then total_usd else 0);
                      acc2 = (if isActive then acc1\<lparr>pa_avsVotingPower := pa_avsVotingPower acc1 + total_usd\<rparr> else acc1);
                      acc3 = (if 0 < active
                              then acc2\<lparr>pa_votingPowerSet := pa_votingPowerSet acc2 @
                                     [\<lparr>vp_OperatorAddr = operator, vp_VotingPower = active\<rparr>]\<rparr>
                              else acc2);
                      acc4 = (if ou_ActiveUSDValue lastUSD \<noteq> active then acc3\<lparr>pa_isSnapshotChanged := True\<rparr> else acc3)
                  in ((acc4, s1), Inr \<lparr>ou_SelfUSDValue = os_SelfStaking stakingInfo, ou_TotalUSDValue = total_usd,
                                       ou_ActiveUSDValue = active\<rparr>))))"

text \<open>
  The rest of the update, on the operator module's state: it is applied as a whole or not at all. A nil
  total voting power is stored as zero.
\<close>

definition write_power ::
    "codec \<Rightarrow> block_ctx \<Rightarrow> string \<Rightarrow> string \<Rightarrow> int \<Rightarrow> bool \<Rightarrow> power_acc \<Rightarrow> (bytes \<times> OperatorOptedUSDValue) list
      \<Rightarrow> operator_state \<Rightarrow> operator_state result" where
  "write_power C ctx avsAddr epochIdentifier epochNumber isForSlash acc us os =
     rbind (DeleteOperatorUSDValues avsAddr (pa_deletedOperators acc) (set_usd_values us os)) (\<lambda>os1.
     rbind (SetAVSUSDValue avsAddr (Some (pa_avsVotingPower acc)) os1) (\<lambda>os2.
     let os3 = DeleteAllAVSAssetsPerEpoch os2 in
     rbind (if \<not> HasSnapshotHelper os3 avsAddr then Inr (True, 0)
            else rbind (GetSnapshotHelper C os3 avsAddr) (\<lambda>h. Inr (pa_isSnapshotChanged acc, h))) (\<lambda>(isSnapshotChanged, helper).
     let snapshotHeight = BlockHeight ctx;
         number = (if isForSlash then epochNumber else epochNumber + 1);
         lastChanged = (if isSnapshotChanged then snapshotHeight else helper);
         snapshot = \<lparr>vs_TotalVotingPower = (if isSnapshotChanged then pa_avsVotingPower acc else 0),
                     vs_OperatorVotingPowers = (if isSnapshotChanged then pa_votingPowerSet acc else []),
                     vs_LastChangedHeight = lastChanged, vs_EpochIdentifier = epochIdentifier,
                     vs_EpochNumber = number\<rparr>;
         isSetSnapshot = (isSnapshotChanged \<or> pa_hasOptedOperator acc);
         os4 = SetSnapshotHelper avsAddr lastChanged os3
     in Inr (if isSetSnapshot
             then SetVotingPowerSnapshot (KeyForVotingPowerSnapshot C (hexToAddress C avsAddr) snapshotHeight) snapshot os4
             else os4))))"

text \<open>
  The loop runs on a cached state but computes the rewards on the original one: their USD values stay
  written when the update fails.
\<close>

definition UpdateVotingPower ::
    "codec \<Rightarrow> dec_ops \<Rightarrow> 'x node_env \<Rightarrow> block_ctx \<Rightarrow> string \<Rightarrow> string \<Rightarrow> int \<Rightarrow> bool \<Rightarrow> 'x state \<Rightarrow> 'x state \<times> unit result" where
  "UpdateVotingPower C D E ctx avsAddr epochIdentifier epochNumber isForSlash s =
     (case GetAVSSupportedAssets C (assets s) (avs_of s) avsAddr of
        Inl e \<Rightarrow> (s, Inl e)
      | Inr avsAssets \<Rightarrow>
     (case GetAVSMinimumSelfDelegation C D (avs_of s) avsAddr of
        Inl e \<Rightarrow> (s, Inl e)
      | Inr minimumSelfDelegation \<Rightarrow>
     (case IterateOperatorUSDValuesForAVS (opr_of s) avsAddr True
             (update_power_op C D E avsAddr epochIdentifier avsAssets minimumSelfDelegation) (no_power, s) of
        ((_, s1), Inl e) \<Rightarrow> (s1, Inl e)
      | ((acc, s1), Inr us) \<Rightarrow>
          (case write_power C ctx avsAddr epochIdentifier epochNumber isForSlash acc us (opr_of s1) of
             Inl e \<Rightarrow> (s1, Inl e)
           | Inr os \<Rightarrow> (set_opr os s1, Inr ())))))"

definition ClearVotingPowerSnapshot ::
    "codec \<Rightarrow> epochs_state \<Rightarrow> avs_state \<Rightarrow> string \<Rightarrow> operator_state \<Rightarrow> operator_state result" where
  "ClearVotingPowerSnapshot C es av avs os =
     (case GetAVSUnbondingDuration C av avs of
        Inl _ \<Rightarrow> Inl (OpErr ErrFailToClearVPSnapshot)
      | Inr unbondingDuration \<Rightarrow>
     (case GetAVSEpochInfo C es av avs of
        Inl _ \<Rightarrow> Inl (OpErr ErrFailToClearVPSnapshot)
      | Inr epochInfo \<Rightarrow>
          let clearEpochNumber = ei_CurrentEpoch epochInfo - sint unbondingDuration in
          if clearEpochNumber < 0 then Inr os
          else case RemoveVotingPowerSnapshot C avs clearEpochNumber os of
            Inl _ \<Rightarrow> Inl (OpErr ErrFailToClearVPSnapshot) | Inr os' \<Rightarrow> Inr os'))"

definition OperatorAfterEpochEnd ::
    "codec \<Rightarrow> dec_ops \<Rightarrow> 'x node_env \<Rightarrow> block_ctx \<Rightarrow> string \<Rightarrow> int \<Rightarrow> 'x state \<Rightarrow> 'x state" where
  "OperatorAfterEpochEnd C D E ctx epochIdentifier epochNumber s =
     (let s1 = UpdateAllOperatorAssetUSDValues C D E [epochIdentifier] s in
      fold (\<lambda>avs s.
        case UpdateVotingPower C D E ctx avs epochIdentifier epochNumber False s of
          (s', Inl _) \<Rightarrow> s'
        | (s', Inr _) \<Rightarrow>
            (case ClearVotingPowerSnapshot C (epochs s') (avs_of s') avs (opr_of s') of
               Inl _ \<Rightarrow> s' | Inr os \<Rightarrow> set_opr os s'))
        (GetEpochEndAVSs (avs_of s1) epochIdentifier epochNumber) s1)"

section \<open>Snapshots at genesis\<close>

definition InitialEpochNumber :: int where
  "InitialEpochNumber = 1"

definition InitGenesisVPSnapshot ::
    "codec \<Rightarrow> block_ctx \<Rightarrow> epochs_state \<Rightarrow> avs_state \<Rightarrow> operator_state \<Rightarrow> operator_state result" where
  "InitGenesisVPSnapshot C ctx es av os =
     IterateAVSUSDValues os (\<lambda>avsAddr avsUSDValue os.
       case IterateOperatorUSDValuesForAVS os avsAddr False
              (\<lambda>operator v powers.
                (if 0 < ou_ActiveUSDValue v
                 then powers @ [\<lparr>vp_OperatorAddr = operator, vp_VotingPower = ou_ActiveUSDValue v\<rparr>] else powers, Inr v)) [] of
         (_, Inl e) \<Rightarrow> Inl e
       | (powers, Inr _) \<Rightarrow>
           rbind (GetAVSEpochInfo C es av avsAddr) (\<lambda>epochInfo.
           let genesisSnapshotHeight = BlockHeight ctx + 1;
               epochNumber = (if ei_EpochCountingStarted epochInfo then ei_CurrentEpoch epochInfo else InitialEpochNumber);
               snapshot = \<lparr>vs_TotalVotingPower = avsUSDValue, vs_OperatorVotingPowers = powers,
                           vs_LastChangedHeight = genesisSnapshotHeight, vs_EpochIdentifier = ei_Identifier epochInfo,
                           vs_EpochNumber = epochNumber\<rparr>
           in Inr (SetSnapshotHelper avsAddr genesisSnapshotHeight
                (SetVotingPowerSnapshot (KeyForVotingPowerSnapshot C (hexToAddress C avsAddr) genesisSnapshotHeight) snapshot os)))) os"

definition GetSpecifiedVotingPower :: "string \<Rightarrow> OperatorVotingPower list \<Rightarrow> OperatorVotingPower option" where
  "GetSpecifiedVotingPower operator votingPowerSet = find (\<lambda>vp. vp_OperatorAddr vp = operator) votingPowerSet"

end
