(* ===== verification/Opting.thy ===== *)
theory Opting
  imports VotingPower
begin

text \<open>
  Opting in to AVSs and out of them (\<^verbatim>\<open>x/operator/keeper/opt.go\<close>), being jailed (\<^verbatim>\<open>slash.go\<close>), the epoch at
  whose end an undelegation from an operator is complete (\<^verbatim>\<open>operator.go\<close>), and the messages
  (\<^verbatim>\<open>msg_server.go\<close>).
\<close>

section \<open>Opting in and out\<close>

definition OptIn ::
    "codec \<Rightarrow> dec_ops \<Rightarrow> 'x node_env \<Rightarrow> block_ctx \<Rightarrow> bytes \<Rightarrow> string \<Rightarrow> 'x state \<Rightarrow> 'x state result" where
  "OptIn C D E ctx operatorAddress avsAddr s =
     (let os = opr_of s; av = avs_of s; addr = accAddressString C operatorAddress in
      if \<not> IsOperator os operatorAddress then Inl ErrOperatorNotExist
      else if IsOperatorFrozen os operatorAddress then Inl ErrOperatorIsFrozen
      else if \<not> IsAVS C av avsAddr then Inl (OpErr ErrNoSuchAvs)
      else rbind (IsWhitelisted C av avsAddr addr) (\<lambda>_.
        if IsOptedIn C os addr avsAddr then Inl (OpErr ErrAlreadyOptedIn)
        else if IsJailed C os addr avsAddr then Inl (OpErr ErrIsJailed)
        else
          rbind (case GetOrCalculateOperatorUSDValues C D E s operatorAddress avsAddr of
                   Inl e \<Rightarrow> if e = OpErr ErrGetPriceRoundNotFound then Inr 0 else Inl e
                 | Inr (self, _) \<Rightarrow> Inr self) (\<lambda>selfUSDValue.
          rbind (GetAVSMinimumSelfDelegation C D av avsAddr) (\<lambda>minSelfDelegation.
          if selfUSDValue < minSelfDelegation then Inl (OpErr ErrMinDelegationNotMet)
          else
            rbind (InitOperatorUSDValue avsAddr addr os) (\<lambda>os1.
            rbind (GetAVSSlashContract C av avsAddr) (\<lambda>slashContract.
            rbind (SetOptedInfo C addr avsAddr
                     \<lparr>op_SlashContract = slashContract, op_OptedInHeight = of_int (BlockHeight ctx),
                      op_OptedOutHeight = DefaultOptedOutHeight, op_Jailed = False, op_JailToggleHeights = []\<rparr> os1) (\<lambda>os2.
            Inr (set_opr os2 s))))))))"

definition OptInWithConsKey ::
    "codec \<Rightarrow> dec_ops \<Rightarrow> 'x node_env \<Rightarrow> 'x operator_hooks \<Rightarrow> block_ctx \<Rightarrow> bytes \<Rightarrow> string \<Rightarrow> bytes
      \<Rightarrow> 'x state \<Rightarrow> 'x state result" where
  "OptInWithConsKey C D E H ctx operatorAddress avsAddr key s =
     rbind (OptIn C D E ctx operatorAddress avsAddr s) (\<lambda>s1.
     let chainID = (case GetChainIDByAVSAddr C (avs_of s1) avsAddr of None \<Rightarrow> [] | Some c \<Rightarrow> c)
     in SetOperatorConsKeyForChainID C H operatorAddress chainID key s1)"

definition OptOut ::
    "codec \<Rightarrow> 'x operator_hooks \<Rightarrow> block_ctx \<Rightarrow> bytes \<Rightarrow> string \<Rightarrow> 'x state \<Rightarrow> 'x state result" where
  "OptOut C H ctx operatorAddress avsAddr s =
     (let os = opr_of s; av = avs_of s; addr = accAddressString C operatorAddress in
      if \<not> IsOperator os operatorAddress then Inl ErrOperatorNotExist
      else if IsOperatorFrozen os operatorAddress then Inl ErrOperatorIsFrozen
      else if \<not> IsAVS C av avsAddr then Inl (OpErr ErrNoSuchAvs)
      else if \<not> IsOptedIn C os addr avsAddr then Inl (OpErr ErrNotOptedIn)
      else
        rbind (HandleOptedInfo C addr avsAddr
                 (\<lambda>info. info\<lparr>op_OptedOutHeight := of_int (BlockHeight ctx)\<rparr>) os) (\<lambda>os1.
        case GetChainIDByAVSAddr C av avsAddr of
          None \<Rightarrow> Inr (set_opr os1 s)
        | Some chainIDWithoutRevision \<Rightarrow>
            InitiateOperatorKeyRemovalForChainID C H operatorAddress chainIDWithoutRevision (set_opr os1 s)))"

section \<open>Epochs and AVSs that matter to an operator\<close>

text \<open>The second part of a parsed key is read before the error is checked, which panics on a shorter key.\<close>

definition second_part :: "bytes \<Rightarrow> string result" where
  "second_part key =
     (case ParseJoinedKeyWithCount key 2 of Inl _ \<Rightarrow> Inl (Panic ''index out of range'') | Inr keys \<Rightarrow> Inr (keys ! 1))"

definition GetImpactfulEpochsAndAVSsForOperator ::
    "codec \<Rightarrow> epochs_state \<Rightarrow> avs_state \<Rightarrow> operator_state \<Rightarrow> string \<Rightarrow> (string list \<times> string list) result" where
  "GetImpactfulEpochsAndAVSsForOperator C es av os operatorAddr =
     IterateOptInfo os operatorAddr (\<lambda>key optedInfo (avsList, epochsList).
       rbind (second_part key) (\<lambda>avsAddr.
       rbind (GetAVSEpochInfo C es av avsAddr) (\<lambda>epochInfo.
       if op_OptedOutHeight optedInfo \<noteq> DefaultOptedOutHeight
          \<and> op_OptedOutHeight optedInfo < of_int (ei_CurrentEpochStartHeight epochInfo)
       then Inr (False, (avsList, epochsList))
       else Inr (False, (avsList @ [avsAddr],
              if ei_Identifier epochInfo \<in> set epochsList then epochsList else epochsList @ [ei_Identifier epochInfo]))))) ([], [])"

section \<open>Unbonding\<close>

definition isUnbondingRelated ::
    "codec \<Rightarrow> epochs_state \<Rightarrow> avs_state \<Rightarrow> operator_state \<Rightarrow> string \<Rightarrow> OptedInfo \<Rightarrow> (bool \<times> uint64) result" where
  "isUnbondingRelated C es av os avsAddr optedInfo =
     rbind (GetAVSUnbondingDuration C av avsAddr) (\<lambda>unbondingDuration.
     if op_OptedOutHeight optedInfo = DefaultOptedOutHeight then Inr (True, unbondingDuration)
     else rbind (GetEpochNumberByOptOutHeight C os avsAddr (sint (op_OptedOutHeight optedInfo))) (\<lambda>epochNumber.
       rbind (GetAVSEpochInfo C es av avsAddr) (\<lambda>epochInfo.
       if ei_CurrentEpoch epochInfo < epochNumber then Inl ErrParse
       else if 0 < epochNumber \<and> of_int (ei_CurrentEpoch epochInfo) \<le> of_int epochNumber + unbondingDuration
       then Inr (True, of_int epochNumber + unbondingDuration - of_int (ei_CurrentEpoch epochInfo))
       else Inr (False, 0))))"

definition GetUnbondingRelatedAVS ::
    "codec \<Rightarrow> epochs_state \<Rightarrow> avs_state \<Rightarrow> operator_state \<Rightarrow> string \<Rightarrow> (string \<times> uint64) list result" where
  "GetUnbondingRelatedAVS C es av os operatorAddr =
     IterateOptInfo os operatorAddr (\<lambda>key optedInfo avsList.
       rbind (second_part key) (\<lambda>avsAddr.
       rbind (isUnbondingRelated C es av os avsAddr optedInfo) (\<lambda>(related, unbondingDuration).
       Inr (False, if related then avsList @ [(avsAddr, unbondingDuration)] else avsList)))) []"

definition IsUnbondingRelatedAVS ::
    "codec \<Rightarrow> epochs_state \<Rightarrow> avs_state \<Rightarrow> operator_state \<Rightarrow> string \<Rightarrow> bool" where
  "IsUnbondingRelatedAVS C es av os avsAddr =
     (let avsAddr = to_lower avsAddr in
      case IterateOptInfo os [] (\<lambda>key optedInfo found.
        rbind (ParseJoinedKeyWithCount key 2) (\<lambda>keys.
        if keys ! 1 = avsAddr
        then rbind (isUnbondingRelated C es av os avsAddr optedInfo) (\<lambda>(related, _).
          if related then Inr (True, True) else Inr (False, False))
        else Inr (False, found))) False of
        Inl _ \<Rightarrow> True | Inr found \<Rightarrow> found)"

text \<open>\<^verbatim>\<open>time.Sub\<close> gives the nearest \<^verbatim>\<open>Duration\<close>, which has 64 bits; the conversion to \<^verbatim>\<open>uint64\<close> wraps.\<close>

definition time_sub :: "int \<Rightarrow> int \<Rightarrow> int" where
  "time_sub t u = max (- (2 ^ 63)) (min (2 ^ 63 - 1) (t - u))"

definition remaining_time :: "block_ctx \<Rightarrow> EpochInfo \<Rightarrow> uint64" where
  "remaining_time ctx epochInfo =
     of_int (time_sub (ei_CurrentEpochStartTime epochInfo + ei_Duration epochInfo) (BlockTime ctx))"

definition expiration_step ::
    "codec \<Rightarrow> block_ctx \<Rightarrow> epochs_state \<Rightarrow> avs_state \<Rightarrow> string \<times> uint64 \<Rightarrow> string \<times> int \<times> uint64
      \<Rightarrow> (string \<times> int \<times> uint64) result" where
  "expiration_step C ctx es av avs a =
     (case (avs, a) of ((avsAddr, unbondingDuration), (retEpochIdentifier, retEpochNumber, maxDurationSeconds)) \<Rightarrow>
      rbind (GetAVSEpochInfo C es av avsAddr) (\<lambda>epochInfo.
      let epoch = (of_int (ei_CurrentEpoch epochInfo) :: uint64) in
      if 2 ^ 63 \<le> unat unbondingDuration + unat epoch then Inl ErrParse
      else
        let unbondingDurationSeconds =
              unbondingDuration * of_int (ei_Duration epochInfo) + remaining_time ctx epochInfo
        in Inr (if maxDurationSeconds < unbondingDurationSeconds
                then (ei_Identifier epochInfo, ei_CurrentEpoch epochInfo + sint unbondingDuration, unbondingDurationSeconds)
                else (retEpochIdentifier, retEpochNumber, maxDurationSeconds))))"

definition GetUnbondingExpiration ::
    "codec \<Rightarrow> block_ctx \<Rightarrow> epochs_state \<Rightarrow> avs_state \<Rightarrow> operator_state \<Rightarrow> bytes \<Rightarrow> (string \<times> int \<times> uint64) result" where
  "GetUnbondingExpiration C ctx es av os operator =
     rbind (GetUnbondingRelatedAVS C es av os (accAddressString C operator)) (\<lambda>avsList.
     rfold (expiration_step C ctx es av) avsList (NullEpochIdentifier, NullEpochNumber, 0))"

definition instant_step ::
    "codec \<Rightarrow> block_ctx \<Rightarrow> epochs_state \<Rightarrow> avs_state \<Rightarrow> string \<times> uint64 \<Rightarrow> (string \<times> int \<times> uint64) \<times> string list
      \<Rightarrow> ((string \<times> int \<times> uint64) \<times> string list) result" where
  "instant_step C ctx es av avs a =
     (case (avs, a) of ((avsAddr, _), ((identifier, number, maxRemainingTime), handled)) \<Rightarrow>
      rbind (GetAVSEpochInfo C es av avsAddr) (\<lambda>epochInfo.
      if ei_Identifier epochInfo \<in> set handled then Inr a
      else
        let remainingTime = remaining_time ctx epochInfo in
        Inr (if maxRemainingTime < remainingTime
             then (ei_Identifier epochInfo, ei_CurrentEpoch epochInfo, remainingTime)
             else (identifier, number, maxRemainingTime), ei_Identifier epochInfo # handled)))"

definition GetInstantUnbondingExpiration ::
    "codec \<Rightarrow> block_ctx \<Rightarrow> epochs_state \<Rightarrow> avs_state \<Rightarrow> operator_state \<Rightarrow> bytes \<Rightarrow> (bool \<times> string \<times> int) result" where
  "GetInstantUnbondingExpiration C ctx es av os operator =
     rbind (GetUnbondingRelatedAVS C es av os (accAddressString C operator)) (\<lambda>avsList.
     rbind (rfold (instant_step C ctx es av) avsList ((NullEpochIdentifier, NullEpochNumber, 0), []))
       (\<lambda>((instantEpochIdentifier, instantEpochNumber, maxRemainingTime), _).
     rbind (GetUnbondingExpiration C ctx es av os operator)
       (\<lambda>(normalUnbondingEpochID, normalUnbondingEpochNumber, unbondingDurationSec).
     if maxRemainingTime < unbondingDurationSec then Inr (True, instantEpochIdentifier, instantEpochNumber)
     else Inr (False, normalUnbondingEpochID, normalUnbondingEpochNumber))))"

section \<open>Jailing\<close>

definition SetJailedState ::
    "codec \<Rightarrow> 'x operator_hooks \<Rightarrow> block_ctx \<Rightarrow> bytes \<Rightarrow> string \<Rightarrow> bool \<Rightarrow> 'x state \<Rightarrow> 'x state result" where
  "SetJailedState C H ctx consAddr chainID jailed s =
     (case GetOperatorAddressForChainIDAndConsAddr C (avs_of s) (opr_of s) chainID consAddr of
        None \<Rightarrow> Inr s
      | Some operatorAddr \<Rightarrow>
     (case IsAVSByChainID C (avs_of s) chainID of (isAVS, avsAddr) \<Rightarrow>
      if \<not> isAVS then Inr s
      else
        let addr = accAddressString C operatorAddr;
            s1 = (case HandleOptedInfo C addr avsAddr
                    (\<lambda>info. info\<lparr>op_Jailed := jailed,
                       op_JailToggleHeights := op_JailToggleHeights info @ [of_int (BlockHeight ctx)]\<rparr>) (opr_of s) of
                    Inl _ \<Rightarrow> s | Inr os' \<Rightarrow> set_opr os' s)
        in
        (case GetImpactfulEpochsAndAVSsForOperator C (epochs s1) (avs_of s1) (opr_of s1) addr of
           Inl (Panic m) \<Rightarrow> Inl (Panic m)
         | Inl _ \<Rightarrow> Inr s1
         | Inr (affectedAVSList, _) \<Rightarrow> Inr (oh_AfterJail H operatorAddr (\<not> jailed) affectedAVSList s1))))"

definition Jail ::
    "codec \<Rightarrow> 'x operator_hooks \<Rightarrow> block_ctx \<Rightarrow> bytes \<Rightarrow> string \<Rightarrow> 'x state \<Rightarrow> 'x state result" where
  "Jail C H ctx consAddr chainID s = SetJailedState C H ctx consAddr chainID True s"

definition Unjail ::
    "codec \<Rightarrow> 'x operator_hooks \<Rightarrow> block_ctx \<Rightarrow> bytes \<Rightarrow> string \<Rightarrow> 'x state \<Rightarrow> 'x state result" where
  "Unjail C H ctx consAddr chainID s = SetJailedState C H ctx consAddr chainID False s"

section \<open>Messages\<close>

text \<open>An address that does not parse is the nil address.\<close>

definition acc_or_nil :: "codec \<Rightarrow> string \<Rightarrow> bytes" where
  "acc_or_nil C addr = (case accAddressFromBech32 C addr of None \<Rightarrow> [] | Some a \<Rightarrow> a)"

record OptIntoAVSReq =
  oq_FromAddress :: string
  oq_AvsAddress :: string
  oq_PublicKeyJSON :: string

record OptOutOfAVSReq =
  xq_FromAddress :: string
  xq_AvsAddress :: string

record SetConsKeyReq =
  sq_Address :: string
  sq_AvsAddress :: string
  sq_PublicKeyJSON :: string

definition OptIntoAVS ::
    "codec \<Rightarrow> dec_ops \<Rightarrow> 'x node_env \<Rightarrow> 'x operator_hooks \<Rightarrow> block_ctx \<Rightarrow> OptIntoAVSReq \<Rightarrow> 'x state \<Rightarrow> 'x state result" where
  "OptIntoAVS C D E H ctx req s =
     (let accAddr = acc_or_nil C (oq_FromAddress req) in
      case GetChainIDByAVSAddr C (avs_of s) (oq_AvsAddress req) of
        None \<Rightarrow>
          if oq_PublicKeyJSON req \<noteq> [] then Inl (OpErr ErrInvalidPubKey)
          else OptIn C D E ctx accAddr (oq_AvsAddress req) s
      | Some _ \<Rightarrow>
          rbind (of_option (OpErr ErrInvalidPubKey) (ne_WrappedConsKeyFromJSON E (oq_PublicKeyJSON req))) (\<lambda>key.
          OptInWithConsKey C D E H ctx accAddr (oq_AvsAddress req) key s))"

definition OptOutOfAVS ::
    "codec \<Rightarrow> 'x operator_hooks \<Rightarrow> block_ctx \<Rightarrow> OptOutOfAVSReq \<Rightarrow> 'x state \<Rightarrow> 'x state result" where
  "OptOutOfAVS C H ctx req s = OptOut C H ctx (acc_or_nil C (xq_FromAddress req)) (xq_AvsAddress req) s"

definition SetConsKey ::
    "codec \<Rightarrow> 'x node_env \<Rightarrow> 'x operator_hooks \<Rightarrow> SetConsKeyReq \<Rightarrow> 'x state \<Rightarrow> 'x state result" where
  "SetConsKey C E H req s =
     rbind (of_option (OpErr ErrNoSuchAvs) (GetChainIDByAVSAddr C (avs_of s) (sq_AvsAddress req))) (\<lambda>chainID.
     let accAddr = acc_or_nil C (sq_Address req) in
     if \<not> IsOptedIn C (opr_of s) (accAddressString C accAddr) (sq_AvsAddress req) then Inl (OpErr ErrIsOptedOutOrJailed)
     else rbind (of_option (OpErr ErrInvalidPubKey) (ne_WrappedConsKeyFromJSON E (sq_PublicKeyJSON req))) (\<lambda>wrappedKey.
       SetOperatorConsKeyForChainID C H accAddr chainID wrappedKey s))"

definition RegisterOperatorMsg ::
    "codec \<Rightarrow> 'x node_env \<Rightarrow> block_ctx \<Rightarrow> OperatorInfo option \<Rightarrow> 'x state \<Rightarrow> 'x state result" where
  "RegisterOperatorMsg C E ctx info s =
     rbind (RegisterOperator C E ctx (assets s) info (opr_of s)) (\<lambda>os. Inr (set_opr os s))"

definition UpdateCommissionRate ::
    "codec \<Rightarrow> dec_ops \<Rightarrow> block_ctx \<Rightarrow> string \<Rightarrow> dec \<Rightarrow> 'x state \<Rightarrow> 'x state result" where
  "UpdateCommissionRate C D ctx address rate s =
     rbind (of_option ErrParse (accAddressFromBech32 C address)) (\<lambda>accAddr.
     rbind (ValidateAndUpdateCommissionRate C D ctx accAddr rate (opr_of s)) (\<lambda>os. Inr (set_opr os s)))"

definition EditOperatorMsg ::
    "codec \<Rightarrow> 'x node_env \<Rightarrow> string \<Rightarrow> Description \<Rightarrow> 'x state \<Rightarrow> 'x state result" where
  "EditOperatorMsg C E address description s =
     rbind (of_option ErrParse (accAddressFromBech32 C address)) (\<lambda>accAddr.
     rbind (EditOperator C E accAddr description (opr_of s)) (\<lambda>os. Inr (set_opr os s)))"

definition UpdateRewardCompoundingFlagMsg :: "codec \<Rightarrow> string \<Rightarrow> bool \<Rightarrow> 'x state \<Rightarrow> 'x state result" where
  "UpdateRewardCompoundingFlagMsg C address flag s =
     rbind (of_option ErrParse (accAddressFromBech32 C address)) (\<lambda>accAddr.
     rbind (UpdateRewardCompoundingFlag C accAddr flag (opr_of s)) (\<lambda>os. Inr (set_opr os s)))"

definition UpdateOperatorParams :: "'x node_env \<Rightarrow> string \<Rightarrow> OperatorParams \<Rightarrow> 'x state \<Rightarrow> 'x state result" where
  "UpdateOperatorParams E authority params s =
     (if ne_authority E \<noteq> authority then Inl ErrInvalidSigner
      else rbind (OperatorParams_Validate params) (\<lambda>_. Inr (set_opr (SetOperatorParams params (opr_of s)) s)))"

definition UnfreezeOperatorMsg :: "codec \<Rightarrow> 'x node_env \<Rightarrow> string \<Rightarrow> string \<Rightarrow> 'x state \<Rightarrow> 'x state result" where
  "UnfreezeOperatorMsg C E authority operatorAddress s =
     (if ne_authority E \<noteq> authority then Inl ErrInvalidSigner
      else rbind (MustAccAddressFromBech32 C operatorAddress) (\<lambda>addr.
        rbind (UnfreezeOperator addr (opr_of s)) (\<lambda>os. Inr (set_opr os s))))"

end
