(* ===== verification/Dogfood.thy ===== *)
theory Dogfood
  imports Opting
begin

text \<open>
  The validators of the chain itself (\<^verbatim>\<open>x/dogfood/keeper\<close>): the queues of operators that leave and of
  consensus addresses to forget (\<^verbatim>\<open>opt_out.go\<close>, \<^verbatim>\<open>pending.go\<close>, \<^verbatim>\<open>unbonding.go\<close>), the callbacks of the operator
  and epochs modules (\<^verbatim>\<open>impl_operator_hooks.go\<close>, \<^verbatim>\<open>impl_epochs_hooks.go\<close>), the validator set and its update
  at the end of a block (\<^verbatim>\<open>validators.go\<close>, \<^verbatim>\<open>abci.go\<close>).
\<close>

section \<open>Parameters and flags\<close>

text \<open>Missing parameters unmarshal to the zero value.\<close>

definition zero_params :: DogfoodParams where
  "zero_params = \<lparr>fp_EpochsUntilUnbonded = 0, fp_EpochIdentifier = [], fp_MaxValidators = 0,
     fp_HistoricalEntries = 0, fp_AssetIDs = [], fp_MinSelfDelegation = None\<rparr>"

definition GetDogfoodParams :: "dogfood_state \<Rightarrow> DogfoodParams" where
  "GetDogfoodParams fs = (case dogfoodParams fs of None \<Rightarrow> zero_params | Some p \<Rightarrow> p)"

definition SetDogfoodParams :: "DogfoodParams \<Rightarrow> dogfood_state \<Rightarrow> dogfood_state" where
  "SetDogfoodParams p fs = fs\<lparr>dogfoodParams := Some p\<rparr>"

definition GetEpochsUntilUnbonded :: "dogfood_state \<Rightarrow> uint32" where
  "GetEpochsUntilUnbonded fs = fp_EpochsUntilUnbonded (GetDogfoodParams fs)"

definition GetEpochIdentifier :: "dogfood_state \<Rightarrow> string" where
  "GetEpochIdentifier fs = fp_EpochIdentifier (GetDogfoodParams fs)"

definition GetMaxValidators :: "dogfood_state \<Rightarrow> uint32" where
  "GetMaxValidators fs = fp_MaxValidators (GetDogfoodParams fs)"

definition GetHistoricalEntries :: "dogfood_state \<Rightarrow> uint32" where
  "GetHistoricalEntries fs = fp_HistoricalEntries (GetDogfoodParams fs)"

definition MarkUpdateValidatorSetFlag :: "dogfood_state \<Rightarrow> dogfood_state" where
  "MarkUpdateValidatorSetFlag fs = fs\<lparr>updateValidatorSet := True\<rparr>"

definition ClearValidatorSetUpdateFlag :: "dogfood_state \<Rightarrow> dogfood_state" where
  "ClearValidatorSetUpdateFlag fs = fs\<lparr>updateValidatorSet := False\<rparr>"

definition MarkEmitAvsEventFlag :: "dogfood_state \<Rightarrow> dogfood_state" where
  "MarkEmitAvsEventFlag fs = fs\<lparr>emitAvsEvent := True\<rparr>"

definition ClearEmitAvsEventFlag :: "dogfood_state \<Rightarrow> dogfood_state" where
  "ClearEmitAvsEventFlag fs = fs\<lparr>emitAvsEvent := False\<rparr>"

section \<open>Queues\<close>

text \<open>The key of a negative epoch or height is nil, and the store panics on a nil key.\<close>

definition SafeInt64ToUint64 :: "int \<Rightarrow> uint64 option" where
  "SafeInt64ToUint64 n = (if n < 0 then None else Some (of_int n))"

definition SafeUint64ToInt64 :: "uint64 \<Rightarrow> int option" where
  "SafeUint64ToInt64 w = (if 2 ^ 63 \<le> unat w then None else Some (int (unat w)))"

definition epoch_key :: "codec \<Rightarrow> int \<Rightarrow> bytes result" where
  "epoch_key C epoch =
     (case SafeInt64ToUint64 epoch of None \<Rightarrow> Inl (Panic ''key is nil or empty'') | Some w \<Rightarrow> Inr (Uint64ToBigEndian C w))"

definition GetOptOutsToFinish :: "codec \<Rightarrow> dogfood_state \<Rightarrow> int \<Rightarrow> bytes list result" where
  "GetOptOutsToFinish C fs epoch =
     rbind (epoch_key C epoch) (\<lambda>key. Inr (case kv_get (optOutsToFinish fs) key of None \<Rightarrow> [] | Some l \<Rightarrow> l))"

definition setOptOutsToFinish :: "codec \<Rightarrow> int \<Rightarrow> bytes list \<Rightarrow> dogfood_state \<Rightarrow> dogfood_state result" where
  "setOptOutsToFinish C epoch addrs fs =
     rbind (epoch_key C epoch) (\<lambda>key. Inr (fs\<lparr>optOutsToFinish := kv_set key addrs (optOutsToFinish fs)\<rparr>))"

definition ClearOptOutsToFinish :: "codec \<Rightarrow> int \<Rightarrow> dogfood_state \<Rightarrow> dogfood_state result" where
  "ClearOptOutsToFinish C epoch fs =
     rbind (epoch_key C epoch) (\<lambda>key. Inr (fs\<lparr>optOutsToFinish := kv_delete key (optOutsToFinish fs)\<rparr>))"

definition AppendOptOutToFinish :: "codec \<Rightarrow> int \<Rightarrow> bytes \<Rightarrow> dogfood_state \<Rightarrow> dogfood_state result" where
  "AppendOptOutToFinish C epoch operatorAddr fs =
     rbind (GetOptOutsToFinish C fs epoch) (\<lambda>prev. setOptOutsToFinish C epoch (prev @ [operatorAddr]) fs)"

definition GetAllOptOutsToFinish :: "codec \<Rightarrow> dogfood_state \<Rightarrow> (int \<times> string list) list" where
  "GetAllOptOutsToFinish C fs =
     map (\<lambda>(key, addrs). (case SafeUint64ToInt64 (BigEndianToUint64 C key) of None \<Rightarrow> 0 | Some e \<Rightarrow> e,
            map (accAddressString C) addrs)) (optOutsToFinish fs)"

definition SetOperatorOptOutFinishEpoch :: "bytes \<Rightarrow> int \<Rightarrow> dogfood_state \<Rightarrow> dogfood_state" where
  "SetOperatorOptOutFinishEpoch operatorAddr epoch fs =
     fs\<lparr>optOutFinishEpochs := kv_set operatorAddr (case SafeInt64ToUint64 epoch of None \<Rightarrow> 0 | Some w \<Rightarrow> w) (optOutFinishEpochs fs)\<rparr>"

definition GetOperatorOptOutFinishEpoch :: "dogfood_state \<Rightarrow> bytes \<Rightarrow> int" where
  "GetOperatorOptOutFinishEpoch fs operatorAddr =
     (case kv_get (optOutFinishEpochs fs) operatorAddr of None \<Rightarrow> - 1 | Some w \<Rightarrow> sint w)"

definition DeleteOperatorOptOutFinishEpoch :: "bytes \<Rightarrow> dogfood_state \<Rightarrow> dogfood_state" where
  "DeleteOperatorOptOutFinishEpoch operatorAddr fs =
     fs\<lparr>optOutFinishEpochs := kv_delete operatorAddr (optOutFinishEpochs fs)\<rparr>"

definition GetConsensusAddrsToPrune :: "codec \<Rightarrow> dogfood_state \<Rightarrow> int \<Rightarrow> bytes list result" where
  "GetConsensusAddrsToPrune C fs epoch =
     rbind (epoch_key C epoch) (\<lambda>key. Inr (case kv_get (consAddrsToPrune fs) key of None \<Rightarrow> [] | Some l \<Rightarrow> l))"

definition setConsensusAddrsToPrune :: "codec \<Rightarrow> int \<Rightarrow> bytes list \<Rightarrow> dogfood_state \<Rightarrow> dogfood_state result" where
  "setConsensusAddrsToPrune C epoch addrs fs =
     rbind (epoch_key C epoch) (\<lambda>key. Inr (fs\<lparr>consAddrsToPrune := kv_set key addrs (consAddrsToPrune fs)\<rparr>))"

definition AppendConsensusAddrToPrune :: "codec \<Rightarrow> int \<Rightarrow> bytes \<Rightarrow> dogfood_state \<Rightarrow> dogfood_state result" where
  "AppendConsensusAddrToPrune C epoch consAddr fs =
     rbind (GetConsensusAddrsToPrune C fs epoch) (\<lambda>prev. setConsensusAddrsToPrune C epoch (prev @ [consAddr]) fs)"

definition ClearConsensusAddrsToPrune :: "codec \<Rightarrow> int \<Rightarrow> dogfood_state \<Rightarrow> dogfood_state result" where
  "ClearConsensusAddrsToPrune C epoch fs =
     rbind (epoch_key C epoch) (\<lambda>key. Inr (fs\<lparr>consAddrsToPrune := kv_delete key (consAddrsToPrune fs)\<rparr>))"

definition SetPendingOptOuts :: "bytes list \<Rightarrow> dogfood_state \<Rightarrow> dogfood_state" where
  "SetPendingOptOuts addrs fs = fs\<lparr>pendingOptOuts := Some addrs\<rparr>"

definition GetPendingOptOuts :: "dogfood_state \<Rightarrow> bytes list" where
  "GetPendingOptOuts fs = (case pendingOptOuts fs of None \<Rightarrow> [] | Some l \<Rightarrow> l)"

definition ClearPendingOptOuts :: "dogfood_state \<Rightarrow> dogfood_state" where
  "ClearPendingOptOuts fs = fs\<lparr>pendingOptOuts := None\<rparr>"

definition SetPendingConsensusAddrs :: "bytes list \<Rightarrow> dogfood_state \<Rightarrow> dogfood_state" where
  "SetPendingConsensusAddrs addrs fs = fs\<lparr>pendingConsAddrs := Some addrs\<rparr>"

definition GetPendingConsensusAddrs :: "dogfood_state \<Rightarrow> bytes list" where
  "GetPendingConsensusAddrs fs = (case pendingConsAddrs fs of None \<Rightarrow> [] | Some l \<Rightarrow> l)"

definition ClearPendingConsensusAddrs :: "dogfood_state \<Rightarrow> dogfood_state" where
  "ClearPendingConsensusAddrs fs = fs\<lparr>pendingConsAddrs := None\<rparr>"

definition GetUnbondingCompletionEpoch :: "epochs_state \<Rightarrow> dogfood_state \<Rightarrow> int result" where
  "GetUnbondingCompletionEpoch es fs =
     (let params = GetDogfoodParams fs in
      case GetEpochInfo es (fp_EpochIdentifier params) of
        None \<Rightarrow> Inl (Panic ''epoch not found'')
      | Some epochInfo \<Rightarrow> Inr (ei_CurrentEpoch epochInfo + int (unat (fp_EpochsUntilUnbonded params))))"

definition ScheduleOperatorOptOut :: "codec \<Rightarrow> epochs_state \<Rightarrow> bytes \<Rightarrow> bytes \<Rightarrow> dogfood_state \<Rightarrow> dogfood_state result" where
  "ScheduleOperatorOptOut C es addr consAddr fs =
     rbind (GetUnbondingCompletionEpoch es fs) (\<lambda>epoch.
     rbind (AppendOptOutToFinish C epoch addr fs) (\<lambda>fs1.
     AppendConsensusAddrToPrune C epoch consAddr (SetOperatorOptOutFinishEpoch addr epoch fs1)))"

section \<open>Signing information\<close>

datatype Infraction = INFRACTION_UNSPECIFIED | INFRACTION_DOUBLE_SIGN | INFRACTION_DOWNTIME

text \<open>
  What \<^verbatim>\<open>x/slashing\<close> keeps for the old address of a key is carried over to the new one. The time until which
  a double signer is jailed is a constant of \<^verbatim>\<open>x/evidence\<close>.
\<close>

definition CopyValidatorSigningInfo ::
    "'x node_env \<Rightarrow> block_ctx \<Rightarrow> bytes \<Rightarrow> bytes \<Rightarrow> Infraction \<Rightarrow> 'x \<Rightarrow> 'x" where
  "CopyValidatorSigningInfo E ctx oldConsAddr newConsAddr infraction x =
     (let info = (case ne_GetValidatorSigningInfo E x oldConsAddr of
             Some i \<Rightarrow> i\<lparr>vi_Address := newConsAddr\<rparr>
           | None \<Rightarrow> \<lparr>vi_Address = newConsAddr, vi_StartHeight = BlockHeight ctx, vi_IndexOffset = 0,
                      vi_JailedUntil = 0, vi_Tombstoned = False, vi_MissedBlocksCounter = 0\<rparr>)
      in case infraction of
        INFRACTION_DOUBLE_SIGN \<Rightarrow>
          ne_SetValidatorSigningInfo E newConsAddr
            (info\<lparr>vi_Tombstoned := True, vi_JailedUntil := ne_DoubleSignJailEndTime E\<rparr>) x
      | INFRACTION_DOWNTIME \<Rightarrow>
          ne_SetValidatorSigningInfo E newConsAddr
            (info\<lparr>vi_JailedUntil := BlockTime ctx + ne_DowntimeJailDuration E x,
                  vi_MissedBlocksCounter := 0, vi_IndexOffset := 0\<rparr>)
            (ne_ClearValidatorMissedBlockBitArray E newConsAddr x)
      | INFRACTION_UNSPECIFIED \<Rightarrow>
          ne_SetValidatorSigningInfo E newConsAddr (info\<lparr>vi_IndexOffset := 0\<rparr>)
            (fold (\<lambda>i. ne_SetValidatorMissedBlockBitArray E newConsAddr (int i) True)
              [0..<nat (vi_MissedBlocksCounter info)]
              (ne_ClearValidatorMissedBlockBitArray E newConsAddr x)))"

section \<open>Callbacks of the operator module\<close>

definition chain_id :: "codec \<Rightarrow> 'x node_env \<Rightarrow> string" where
  "chain_id C E = ChainIDWithoutRevision C (ne_ChainID E)"

definition afterValidatorCreated :: "'x node_env \<Rightarrow> bytes \<Rightarrow> 'x state \<Rightarrow> 'x state result" where
  "afterValidatorCreated E accAddress s =
     rbind (ne_AfterValidatorCreated E accAddress s) (\<lambda>x. Inr (set_rest x s))"

definition AfterOperatorKeySet ::
    "codec \<Rightarrow> 'x node_env \<Rightarrow> bytes \<Rightarrow> string \<Rightarrow> bytes \<Rightarrow> 'x state \<Rightarrow> 'x state result" where
  "AfterOperatorKeySet C E accAddress chainID wrappedKey s =
     (if chainID = chain_id C E
      then rbind (afterValidatorCreated E accAddress s) (\<lambda>s1.
        if ne_IsTombstoned E (rest_of s1) (toConsAddr C wrappedKey) then Inl (OpErr ErrConsKeyAlreadyTombstoned)
        else Inr s1)
      else Inr s)"

definition AfterOperatorKeyReplaced ::
    "codec \<Rightarrow> 'x node_env \<Rightarrow> block_ctx \<Rightarrow> bytes \<Rightarrow> bytes \<Rightarrow> bytes \<Rightarrow> string \<Rightarrow> 'x state \<Rightarrow> 'x state result" where
  "AfterOperatorKeyReplaced C E ctx accAddress oldKey newKey chainID s =
     (if chainID = chain_id C E
      then rbind (afterValidatorCreated E accAddress s) (\<lambda>s1.
        let newConsAddr = toConsAddr C newKey in
        if ne_IsTombstoned E (rest_of s1) newConsAddr then Inl (OpErr ErrConsKeyAlreadyTombstoned)
        else
          let oldConsAddr = toConsAddr C oldKey in
          rbind (GetUnbondingCompletionEpoch (epochs s1) (dog_of s1)) (\<lambda>unbondingEpoch.
          rbind (AppendConsensusAddrToPrune C unbondingEpoch oldConsAddr (dog_of s1)) (\<lambda>fs.
          Inr (set_rest (CopyValidatorSigningInfo E ctx oldConsAddr newConsAddr INFRACTION_UNSPECIFIED (rest_of s1))
                 (set_dog fs s1)))))
      else Inr s)"

definition AfterOperatorKeyRemovalInitiated ::
    "codec \<Rightarrow> 'x node_env \<Rightarrow> bytes \<Rightarrow> string \<Rightarrow> bytes \<Rightarrow> 'x state \<Rightarrow> 'x state result" where
  "AfterOperatorKeyRemovalInitiated C E operator chainID key s =
     (if chainID = chain_id C E
      then rbind (ScheduleOperatorOptOut C (epochs s) operator (toConsAddr C key) (dog_of s)) (\<lambda>fs. Inr (set_dog fs s))
      else Inr s)"

definition GetImuachainValidator :: "dogfood_state \<Rightarrow> bytes \<Rightarrow> ImuachainValidator option" where
  "GetImuachainValidator fs addr = kv_get (valSet fs) addr"

definition afterStakingOrJailChange ::
    "codec \<Rightarrow> 'x node_env \<Rightarrow> bytes \<Rightarrow> bool \<Rightarrow> string list \<Rightarrow> 'x state \<Rightarrow> 'x state" where
  "afterStakingOrJailChange C E operator isUnjail affectedAVSList s =
     (let chainIDWithoutRevision = chain_id C E in
      if GenerateAVSAddress C chainIDWithoutRevision \<notin> set affectedAVSList then s
      else case GetOperatorConsKeyForChainID C (avs_of s) (opr_of s) operator chainIDWithoutRevision of
        Inr (Some wrappedKey) \<Rightarrow>
          if isUnjail \<or> GetImuachainValidator (dog_of s) (toConsAddr C wrappedKey) \<noteq> None
          then set_dog (MarkUpdateValidatorSetFlag (dog_of s)) s else s
      | _ \<Rightarrow> s)"

definition DogfoodOperatorHooks :: "codec \<Rightarrow> 'x node_env \<Rightarrow> block_ctx \<Rightarrow> 'x operator_hooks" where
  "DogfoodOperatorHooks C E ctx =
     \<lparr>oh_AfterOperatorKeySet = AfterOperatorKeySet C E,
      oh_AfterOperatorKeyReplaced = AfterOperatorKeyReplaced C E ctx,
      oh_AfterOperatorKeyRemovalInitiated = AfterOperatorKeyRemovalInitiated C E,
      oh_AfterJail = afterStakingOrJailChange C E\<rparr>"

text \<open>Those of the distribution module do nothing (\<^verbatim>\<open>x/feedistribution/keeper/hooks.go\<close>).\<close>

definition DistributionOperatorHooks :: "'x operator_hooks" where
  "DistributionOperatorHooks =
     \<lparr>oh_AfterOperatorKeySet = (\<lambda>_ _ _ s. Inr s), oh_AfterOperatorKeyReplaced = (\<lambda>_ _ _ _ s. Inr s),
      oh_AfterOperatorKeyRemovalInitiated = (\<lambda>_ _ _ s. Inr s), oh_AfterJail = (\<lambda>_ _ _ s. s)\<rparr>"

definition OperatorHooks :: "codec \<Rightarrow> 'x node_env \<Rightarrow> block_ctx \<Rightarrow> 'x operator_hooks" where
  "OperatorHooks C E ctx = MultiOperatorHooks [DogfoodOperatorHooks C E ctx, DistributionOperatorHooks]"

section \<open>The end of an epoch\<close>

definition DogfoodAfterEpochEnd :: "codec \<Rightarrow> string \<Rightarrow> int \<Rightarrow> dogfood_state \<Rightarrow> dogfood_state result" where
  "DogfoodAfterEpochEnd C identifier epoch fs =
     (if identifier = GetEpochIdentifier fs
      then
        let fs0 = MarkUpdateValidatorSetFlag fs in
        rbind (GetOptOutsToFinish C fs0 epoch) (\<lambda>optOuts.
        let fs1 = fold DeleteOperatorOptOutFinishEpoch optOuts (SetPendingOptOuts optOuts fs0) in
        rbind (ClearOptOutsToFinish C epoch fs1) (\<lambda>fs2.
        rbind (GetConsensusAddrsToPrune C fs2 epoch) (\<lambda>consAddresses.
        ClearConsensusAddrsToPrune C epoch (SetPendingConsensusAddrs consAddresses fs2))))
      else Inr fs)"

section \<open>The validator set\<close>

text \<open>A stored public key always decodes: the branches for keys that do not are left out.\<close>

definition SetImuachainValidator :: "ImuachainValidator \<Rightarrow> dogfood_state \<Rightarrow> dogfood_state" where
  "SetImuachainValidator validator fs = fs\<lparr>valSet := kv_set (iv_Address validator) validator (valSet fs)\<rparr>"

definition IsImuachainValidator :: "dogfood_state \<Rightarrow> bytes \<Rightarrow> bool" where
  "IsImuachainValidator fs addr = kv_has (valSet fs) addr"

definition DeleteImuachainValidator :: "bytes \<Rightarrow> dogfood_state \<Rightarrow> dogfood_state" where
  "DeleteImuachainValidator addr fs = fs\<lparr>valSet := kv_delete addr (valSet fs)\<rparr>"

definition GetAllImuachainValidators :: "dogfood_state \<Rightarrow> ImuachainValidator list" where
  "GetAllImuachainValidators fs = map snd (valSet fs)"

definition SetValidatorUpdates :: "(bytes \<times> int) list \<Rightarrow> dogfood_state \<Rightarrow> dogfood_state" where
  "SetValidatorUpdates updates fs = fs\<lparr>validatorUpdates := Some updates\<rparr>"

definition GetValidatorUpdates :: "dogfood_state \<Rightarrow> (bytes \<times> int) list" where
  "GetValidatorUpdates fs = (case validatorUpdates fs of None \<Rightarrow> [] | Some us \<Rightarrow> us)"

definition SetLastTotalPower :: "int \<Rightarrow> dogfood_state \<Rightarrow> dogfood_state" where
  "SetLastTotalPower pw fs = fs\<lparr>lastTotalPower := Some pw\<rparr>"

definition GetLastTotalPower :: "dogfood_state \<Rightarrow> int" where
  "GetLastTotalPower fs = (case lastTotalPower fs of None \<Rightarrow> 0 | Some p \<Rightarrow> p)"

text \<open>\<^verbatim>\<open>sort.Slice\<close> with the given comparison.\<close>

fun insert_by :: "('a \<Rightarrow> 'a \<Rightarrow> bool) \<Rightarrow> 'a \<Rightarrow> 'a list \<Rightarrow> 'a list" where
  "insert_by lt x [] = [x]"
| "insert_by lt x (y # ys) = (if lt y x then y # insert_by lt x ys else x # y # ys)"

definition sort_slice :: "('a \<Rightarrow> 'a \<Rightarrow> bool) \<Rightarrow> 'a list \<Rightarrow> 'a list" where
  "sort_slice lt xs = foldr (insert_by lt) xs []"

definition power_less :: "bytes \<times> bytes \<times> int \<Rightarrow> bytes \<times> bytes \<times> int \<Rightarrow> bool" where
  "power_less a b =
     (case (a, b) of ((addr, _, pw), (addr', _, pw')) \<Rightarrow>
      if pw = pw' then addr < addr' else pw' < pw)"

definition SortByPower :: "(bytes \<times> bytes \<times> int) list \<Rightarrow> (bytes \<times> bytes \<times> int) list" where
  "SortByPower ops = sort_slice power_less ops"

definition update_less :: "'x node_env \<Rightarrow> bytes \<times> int \<Rightarrow> bytes \<times> int \<Rightarrow> bool" where
  "update_less E a b =
     (if snd a \<noteq> snd b then snd b < snd a else ne_PubKeyString E (fst b) < ne_PubKeyString E (fst a))"

text \<open>One change: a key and its power. A validator that cannot be bonded is left out of the updates.\<close>

definition apply_change ::
    "codec \<Rightarrow> 'x node_env \<Rightarrow> bytes \<times> int \<Rightarrow> 'x state \<times> (bytes \<times> int) list \<Rightarrow> 'x state \<times> (bytes \<times> int) list" where
  "apply_change C E change a =
     (case (change, a) of ((key, pw), (s, ret)) \<Rightarrow>
      let addr = toConsAddr C key; fs = dog_of s in
      case GetImuachainValidator fs addr of
        Some val \<Rightarrow>
          if pw < 1 then (set_dog (DeleteImuachainValidator addr fs) s, ret @ [change])
          else (set_dog (SetImuachainValidator (val\<lparr>iv_Power := pw\<rparr>) fs) s, ret @ [change])
      | None \<Rightarrow>
          if 0 < pw
          then
            let cc = set_dog (SetImuachainValidator \<lparr>iv_Address = addr, iv_Power = pw, iv_Pubkey = key\<rparr> fs) s in
            (case ne_AfterValidatorBonded E addr cc of
               Inl _ \<Rightarrow> (s, ret)
             | Inr x \<Rightarrow> (set_rest x cc, ret @ [change]))
          else (s, ret))"

definition ApplyValidatorChanges ::
    "codec \<Rightarrow> 'x node_env \<Rightarrow> (bytes \<times> int) list \<Rightarrow> 'x state \<Rightarrow> 'x state \<times> (bytes \<times> int) list" where
  "ApplyValidatorChanges C E changes s =
     (case fold (apply_change C E) changes (s, []) of (s', ret) \<Rightarrow>
      let updates = sort_slice (update_less E) ret in
      (set_dog (SetValidatorUpdates updates (dog_of s')) s', updates))"

text \<open>
  The loop over the operators by power: the changes to the validators that stay or are new, what is left of
  the previous set, and the total power.
\<close>

fun select_validators ::
    "codec \<Rightarrow> nat \<Rightarrow> (bytes \<times> bytes \<times> int) list \<Rightarrow> (bytes \<rightharpoonup> int) \<times> (bytes \<times> int) list \<times> int
      \<Rightarrow> (bytes \<rightharpoonup> int) \<times> (bytes \<times> int) list \<times> int" where
  "select_validators C room [] a = a"
| "select_validators C 0 (x # xs) a = a"
| "select_validators C (Suc room) ((operator, key, pw) # xs) (prevMap, res, totalPower) =
     (if pw < 1 then (prevMap, res, totalPower)
      else
        let addr = toConsAddr C key;
            changed = (prevMap addr \<noteq> Some pw);
            res' = (if changed then res @ [(key, pw)] else res)
        in select_validators C room xs (prevMap(addr := None), res', totalPower + pw))"

definition opt_out_step ::
    "codec \<Rightarrow> avs_state \<Rightarrow> string \<Rightarrow> bytes \<Rightarrow> operator_state \<times> bytes list \<Rightarrow> operator_state \<times> bytes list" where
  "opt_out_step C av chainID addr a =
     (case a of (os, failed) \<Rightarrow>
      case CompleteOperatorKeyRemovalForChainID C av addr chainID os of
        Inl _ \<Rightarrow> (os, failed @ [addr])
      | Inr os' \<Rightarrow> (os', failed))"

definition prune_step ::
    "codec \<Rightarrow> 'x node_env \<Rightarrow> string \<Rightarrow> bytes \<Rightarrow> 'x state \<times> bytes list \<Rightarrow> 'x state \<times> bytes list" where
  "prune_step C E chainID consAddr a =
     (case a of (s, failed) \<Rightarrow>
      case ne_AfterValidatorRemoved E consAddr s of
        Inl _ \<Rightarrow> (s, failed @ [consAddr])
      | Inr x \<Rightarrow>
          (set_rest (ne_ResetValidatorSigningInfo E consAddr (ne_ClearValidatorMissedBlockBitArray E consAddr x))
             (set_opr (DeleteOperatorAddressForChainIDAndConsAddr C chainID consAddr (opr_of s)) s), failed))"

text \<open>The first half of \<^verbatim>\<open>EndBlock\<close>: operators that leave and consensus addresses that are forgotten.\<close>

definition finish_pending :: "codec \<Rightarrow> 'x node_env \<Rightarrow> int \<Rightarrow> 'x state \<Rightarrow> 'x state result" where
  "finish_pending C E nextEpochNumber s =
     (let chainID = chain_id C E;
          (os1, failed) = fold (opt_out_step C (avs_of s) chainID) (GetPendingOptOuts (dog_of s))
             (ClearPreviousConsensusKeys C chainID (opr_of s), [])
      in
      rbind (rfold (\<lambda>addr fs. rbind (AppendOptOutToFinish C nextEpochNumber addr fs)
               (\<lambda>fs'. Inr (SetOperatorOptOutFinishEpoch addr nextEpochNumber fs'))) failed (dog_of s)) (\<lambda>fs1.
      let s1 = set_dog (ClearPendingOptOuts fs1) (set_opr os1 s);
          (s2, failedConsAddrs) = fold (prune_step C E chainID) (GetPendingConsensusAddrs (dog_of s1)) (s1, [])
      in
      rbind (rfold (AppendConsensusAddrToPrune C nextEpochNumber) failedConsAddrs (dog_of s2)) (\<lambda>fs2.
      Inr (set_dog (ClearPendingConsensusAddrs fs2) s2))))"

text \<open>
  The second half: the validator set. An error of the vote powers returns no updates and leaves those of an
  earlier block in the store.
\<close>

definition prev_map :: "codec \<Rightarrow> ImuachainValidator list \<Rightarrow> (bytes \<rightharpoonup> int)" where
  "prev_map C prevList = fold (\<lambda>v m. m(toConsAddr C (iv_Pubkey v) \<mapsto> iv_Power v)) prevList Map.empty"

definition update_validators ::
    "codec \<Rightarrow> dec_ops \<Rightarrow> 'x node_env \<Rightarrow> 'x state \<Rightarrow> ('x state \<times> (bytes \<times> int) list) result" where
  "update_validators C D E s =
     (let chainID = chain_id C E;
          prevList = GetAllImuachainValidators (dog_of s)
      in
      rbind (GetActiveOperatorsForChainID C (avs_of s) (opr_of s) chainID) (\<lambda>active.
      case GetVotePowerForChainID C D (epochs s) (avs_of s) (opr_of s) (map fst active) chainID of
        Inl (Panic m) \<Rightarrow> Inl (Panic m)
      | Inl _ \<Rightarrow> Inr (s, [])
      | Inr powers \<Rightarrow>
          let sorted_ops = SortByPower (map (\<lambda>((operator, key), pw). (operator, key, pw)) (zip active powers));
              maxVals = GetMaxValidators (dog_of s);
              (left_over, res, totalPower) =
                select_validators C (unat maxVals) sorted_ops (prev_map C prevList, [], 0);
              removed = filter (\<lambda>v. left_over (toConsAddr C (iv_Pubkey v)) \<noteq> None) prevList;
              changes = res @ map (\<lambda>v. (iv_Pubkey v, 0)) removed;
              s1 = (if changes = [] then s else set_dog (SetLastTotalPower totalPower (dog_of s)) s)
          in Inr (ApplyValidatorChanges C E changes s1)))"

definition dogfood_EndBlock ::
    "codec \<Rightarrow> dec_ops \<Rightarrow> 'x node_env \<Rightarrow> 'x state \<Rightarrow> ('x state \<times> (bytes \<times> int) list) result" where
  "dogfood_EndBlock C D E s =
     (if \<not> updateValidatorSet (dog_of s) then Inr (set_dog (SetValidatorUpdates [] (dog_of s)) s, [])
      else
        rbind (of_option (Panic ''epoch not found'') (GetEpochInfo (epochs s) (GetEpochIdentifier (dog_of s)))) (\<lambda>epochInfo.
        rbind (finish_pending C E (ei_CurrentEpoch epochInfo + 1) s) (\<lambda>s1.
        rbind (update_validators C D E s1) (\<lambda>(s2, updates).
        Inr (set_dog (ClearValidatorSetUpdateFlag (dog_of s2)) s2, updates)))))"

definition MustGetCurrentValidatorsAsABCIUpdates :: "dogfood_state \<Rightarrow> (bytes \<times> int) list" where
  "MustGetCurrentValidatorsAsABCIUpdates fs = map (\<lambda>v. (iv_Pubkey v, iv_Power v)) (GetAllImuachainValidators fs)"

section \<open>Historical information\<close>

definition GetHistoricalInfo :: "codec \<Rightarrow> dogfood_state \<Rightarrow> int \<Rightarrow> HistoricalInfo option result" where
  "GetHistoricalInfo C fs height = rbind (epoch_key C height) (\<lambda>key. Inr (kv_get (historicalInfos fs) key))"

definition SetHistoricalInfo :: "codec \<Rightarrow> int \<Rightarrow> HistoricalInfo \<Rightarrow> dogfood_state \<Rightarrow> dogfood_state result" where
  "SetHistoricalInfo C height hi fs =
     rbind (epoch_key C height) (\<lambda>key. Inr (fs\<lparr>historicalInfos := kv_set key hi (historicalInfos fs)\<rparr>))"

definition DeleteHistoricalInfo :: "codec \<Rightarrow> int \<Rightarrow> dogfood_state \<Rightarrow> dogfood_state result" where
  "DeleteHistoricalInfo C height fs =
     rbind (epoch_key C height) (\<lambda>key. Inr (fs\<lparr>historicalInfos := kv_delete key (historicalInfos fs)\<rparr>))"

text \<open>The loop from a height downwards, which ends at the first height without an entry.\<close>

function delete_infos :: "codec \<Rightarrow> int \<Rightarrow> dogfood_state \<Rightarrow> dogfood_state result" where
  "delete_infos C i fs =
     (if i < 0 then Inr fs
      else rbind (GetHistoricalInfo C fs i) (\<lambda>found.
        if found = None then Inr fs
        else rbind (DeleteHistoricalInfo C i fs) (delete_infos C (i - 1))))"
  by pat_completeness auto
termination
  by (relation "measure (\<lambda>(C, i, fs). nat (i + 1))") auto

declare delete_infos.simps [simp del]

definition TrackHistoricalInfo ::
    "codec \<Rightarrow> 'x node_env \<Rightarrow> block_ctx \<Rightarrow> dogfood_state \<Rightarrow> dogfood_state result" where
  "TrackHistoricalInfo C E ctx fs =
     (let numHistoricalEntries = int (unat (GetHistoricalEntries fs)) in
      rbind (delete_infos C (BlockHeight ctx - numHistoricalEntries) fs) (\<lambda>fs1.
      if numHistoricalEntries = 0 then Inr fs1
      else SetHistoricalInfo C (BlockHeight ctx)
             (ne_NewHistoricalInfo E ctx (MustGetCurrentValidatorsAsABCIUpdates fs1)) fs1))"

definition BeginBlock :: "codec \<Rightarrow> 'x node_env \<Rightarrow> block_ctx \<Rightarrow> dogfood_state \<Rightarrow> dogfood_state result" where
  "BeginBlock C E ctx fs =
     rbind (TrackHistoricalInfo C E ctx fs) (\<lambda>fs1.
     Inr (if emitAvsEvent fs1 then ClearEmitAvsEventFlag fs1 else fs1))"

definition UnbondingTime :: "epochs_state \<Rightarrow> dogfood_state \<Rightarrow> int result" where
  "UnbondingTime es fs =
     (let params = GetDogfoodParams fs in
      case GetEpochInfo es (fp_EpochIdentifier params) of
        None \<Rightarrow> Inl (Panic ''epoch not found'')
      | Some epoch \<Rightarrow>
          Inr (sint (of_int (int (unat (fp_EpochsUntilUnbonded params + 1)) * ei_Duration epoch) :: uint64)))"

end
