(* ===== verification/ConsensusKeys.thy ===== *)
theory ConsensusKeys
  imports Dogfood EpochProps
begin

text \<open>
  The consensus keys of the operators of one chain: store keys are injective, what the stores hold for the
  chain (its keys, the operator a consensus address resolves to, the operators that are leaving, the batches of
  the dogfood module), the invariant that ties these together, and that setting or replacing a key keeps it.
\<close>

section \<open>Store keys\<close>

lemma joined_inj:
  assumes "key_part x" "key_part x'" "GetJoinedStoreKey [x, y] = GetJoinedStoreKey [x', y']"
  shows "x = x' \<and> y = y'"
proof -
  have E: "x @ DelimiterForCombinedKey # y = x' @ DelimiterForCombinedKey # y'"
    using assms(3) by (simp add: GetJoinedStoreKey_def)
  then have "x # split_char DelimiterForCombinedKey y = x' # split_char DelimiterForCombinedKey y'"
    using split_char_append [OF assms(1), of y] split_char_append [OF assms(2), of y'] by simp
  with E show ?thesis by simp
qed

context chain_codec
begin

lemma len_key_inj:
  assumes "length d < 2 ^ 64" "length c < 2 ^ 64"
  shows "ChainIDWithLenKey C d @ x = ChainIDWithLenKey C c @ y \<longleftrightarrow> d = c \<and> x = y"
proof
  assume "ChainIDWithLenKey C d @ x = ChainIDWithLenKey C c @ y"
  then have "Uint64ToBigEndian C (of_nat (length d)) @ d @ x = Uint64ToBigEndian C (of_nat (length c)) @ c @ y"
    by (simp add: ChainIDWithLenKey_def AppendMany_def)
  then have E: "Uint64ToBigEndian C (of_nat (length d)) = Uint64ToBigEndian C (of_nat (length c))" "d @ x = c @ y"
    by (simp_all add: append_eq_append_conv be64_length)
  have "unat (of_nat (length e) :: uint64) = length e" if "length e < 2 ^ 64" for e :: string
    using that by (simp add: unat_of_nat take_bit_nat_eq_self)
  with E(1) assms have "length d = length c" by (metis be64_inj)
  with E(2) show "d = c \<and> x = y" by (simp add: append_eq_append_conv)
qed simp

lemma len_key_eq [simp]: "ChainIDWithLenKey C d = ChainIDWithLenKey C c \<longleftrightarrow> d = c"
  by (auto simp: ChainIDWithLenKey_def AppendMany_def append_eq_append_conv be64_length)

lemma addr_key_inj:
  assumes "length a = length b"
  shows "a @ ChainIDWithLenKey C d = b @ ChainIDWithLenKey C c \<longleftrightarrow> a = b \<and> d = c"
  using assms by (auto simp: append_eq_append_conv ChainIDWithLenKey_def AppendMany_def be64_length)

lemma chain_key_inj:
  assumes "length a = length b"
  shows "ChainIDWithLenKey C d @ a = ChainIDWithLenKey C c @ b \<longleftrightarrow> d = c \<and> a = b"
proof
  assume "ChainIDWithLenKey C d @ a = ChainIDWithLenKey C c @ b"
  then have "ChainIDWithLenKey C d = ChainIDWithLenKey C c" "a = b"
    using assms by (simp_all add: append_eq_append_conv)
  then show "d = c \<and> a = b"
    by (auto simp: ChainIDWithLenKey_def AppendMany_def append_eq_append_conv be64_length)
qed simp

end

lemmas cons_key_defs = KeyForOperatorAndChainIDToConsKey_def KeyForChainIDAndOperatorToConsKey_def
  KeyForChainIDAndConsKeyToOperator_def KeyForOperatorKeyRemovalForChainID_def
  KeyForChainIDAndOperatorToPrevConsKey_def AddrAndChainIDKey_def ChainIDAndAddrKey_def AppendMany_def

section \<open>What the stores hold for one chain\<close>

definition key_of :: "codec \<Rightarrow> string \<Rightarrow> operator_state \<Rightarrow> bytes \<Rightarrow> bytes option" where
  "key_of C c os a = getOperatorConsKeyForChainID C os a c"

definition chain_key_of :: "codec \<Rightarrow> string \<Rightarrow> operator_state \<Rightarrow> bytes \<Rightarrow> bytes option" where
  "chain_key_of C c os a = kv_get (chainConsKeys os) (KeyForChainIDAndOperatorToConsKey C c a)"

definition owner_of :: "codec \<Rightarrow> string \<Rightarrow> operator_state \<Rightarrow> bytes \<Rightarrow> bytes option" where
  "owner_of C c os x = kv_get (consAddrs os) (KeyForChainIDAndConsKeyToOperator C c x)"

definition leaving :: "codec \<Rightarrow> string \<Rightarrow> operator_state \<Rightarrow> bytes \<Rightarrow> bool" where
  "leaving C c os a = IsOperatorRemovingKeyFromChainID C os a c"

definition opted :: "codec \<Rightarrow> string \<Rightarrow> operator_state \<Rightarrow> bytes \<Rightarrow> bool" where
  "opted C c os a = IsOptedIn C os (accAddressString C a) (GenerateAVSAddress C c)"

lemmas view_defs = key_of_def chain_key_of_def owner_of_def leaving_def opted_def

text \<open>A batch is what is due in one epoch, or, with \<open>None\<close>, what is pending in the current block.\<close>

definition prune_batch :: "dogfood_state \<Rightarrow> bytes option \<Rightarrow> bytes list" where
  "prune_batch fs b =
     (case b of None \<Rightarrow> GetPendingConsensusAddrs fs
      | Some k \<Rightarrow> (case kv_get (consAddrsToPrune fs) k of None \<Rightarrow> [] | Some l \<Rightarrow> l))"

definition leave_batch :: "dogfood_state \<Rightarrow> bytes option \<Rightarrow> bytes list" where
  "leave_batch fs b =
     (case b of None \<Rightarrow> GetPendingOptOuts fs
      | Some k \<Rightarrow> (case kv_get (optOutsToFinish fs) k of None \<Rightarrow> [] | Some l \<Rightarrow> l))"

abbreviation acc :: "bytes \<Rightarrow> bool" where
  "acc a \<equiv> length a = AccAddressLength"

definition key_core :: "codec \<Rightarrow> string \<Rightarrow> operator_state \<Rightarrow> dogfood_state \<Rightarrow> bool" where
  "key_core C c os fs \<longleftrightarrow>
     (\<forall>a. acc a \<longrightarrow> chain_key_of C c os a = key_of C c os a) \<and>
     (\<forall>a k. acc a \<longrightarrow> key_of C c os a = Some k \<longrightarrow> owner_of C c os (toConsAddr C k) = Some a) \<and>
     (\<forall>b x. x \<in> set (prune_batch fs b) \<longrightarrow> owner_of C c os x \<noteq> None) \<and>
     (\<forall>b a k. acc a \<longrightarrow> key_of C c os a = Some k \<longrightarrow> toConsAddr C k \<in> set (prune_batch fs b) \<longrightarrow> a \<in> set (leave_batch fs b)) \<and>
     (\<forall>b. distinct (prune_batch fs b)) \<and>
     (\<forall>b b' x. x \<in> set (prune_batch fs b) \<longrightarrow> x \<in> set (prune_batch fs b') \<longrightarrow> b = b') \<and>
     (\<forall>b a. a \<in> set (leave_batch fs b) \<longrightarrow> acc a \<and> IsOperator os a \<and> leaving C c os a \<and>
        (\<exists>k. key_of C c os a = Some k \<and> toConsAddr C k \<in> set (prune_batch fs b))) \<and>
     (\<forall>b. distinct (leave_batch fs b))"

definition key_inv :: "codec \<Rightarrow> string \<Rightarrow> operator_state \<Rightarrow> dogfood_state \<Rightarrow> bool" where
  "key_inv C c os fs \<longleftrightarrow> key_core C c os fs \<and>
     (\<forall>a. acc a \<longrightarrow> leaving C c os a \<longrightarrow> \<not> opted C c os a) \<and>
     (\<forall>a. acc a \<longrightarrow> opted C c os a \<longrightarrow> key_of C c os a \<noteq> None)"

lemma key_coreI:
  assumes "\<And>a. acc a \<Longrightarrow> chain_key_of C c os a = key_of C c os a"
    and "\<And>a k. acc a \<Longrightarrow> key_of C c os a = Some k \<Longrightarrow> owner_of C c os (toConsAddr C k) = Some a"
    and "\<And>b x. x \<in> set (prune_batch fs b) \<Longrightarrow> owner_of C c os x \<noteq> None"
    and "\<And>b a k. acc a \<Longrightarrow> key_of C c os a = Some k \<Longrightarrow> toConsAddr C k \<in> set (prune_batch fs b) \<Longrightarrow> a \<in> set (leave_batch fs b)"
    and "\<And>b. distinct (prune_batch fs b)"
    and "\<And>b b' x. x \<in> set (prune_batch fs b) \<Longrightarrow> x \<in> set (prune_batch fs b') \<Longrightarrow> b = b'"
    and "\<And>b a. a \<in> set (leave_batch fs b) \<Longrightarrow> acc a \<and> IsOperator os a \<and> leaving C c os a \<and>
        (\<exists>k. key_of C c os a = Some k \<and> toConsAddr C k \<in> set (prune_batch fs b))"
    and "\<And>b. distinct (leave_batch fs b)"
  shows "key_core C c os fs"
  unfolding key_core_def using assms by blast

lemma key_coreD:
  assumes "key_core C c os fs"
  shows core_chain: "acc a \<Longrightarrow> chain_key_of C c os a = key_of C c os a"
    and core_owner: "acc a \<Longrightarrow> key_of C c os a = Some k \<Longrightarrow> owner_of C c os (toConsAddr C k) = Some a"
    and core_queued: "x \<in> set (prune_batch fs b) \<Longrightarrow> owner_of C c os x \<noteq> None"
    and core_leaves: "acc a \<Longrightarrow> key_of C c os a = Some k \<Longrightarrow> toConsAddr C k \<in> set (prune_batch fs b) \<Longrightarrow> a \<in> set (leave_batch fs b)"
    and core_distinct: "distinct (prune_batch fs b)"
    and core_once: "x \<in> set (prune_batch fs b) \<Longrightarrow> x \<in> set (prune_batch fs b') \<Longrightarrow> b = b'"
    and core_leave: "a \<in> set (leave_batch fs b) \<Longrightarrow> acc a \<and> IsOperator os a \<and> leaving C c os a \<and>
        (\<exists>k. key_of C c os a = Some k \<and> toConsAddr C k \<in> set (prune_batch fs b))"
    and core_distinct_leave: "distinct (leave_batch fs b)"
  using assms unfolding key_core_def by blast+

text \<open>The core of the invariant depends on the stores only through these views.\<close>

lemma key_core_cong:
  assumes "\<And>a. acc a \<Longrightarrow> key_of C c os' a = key_of C c os a" "\<And>a. acc a \<Longrightarrow> chain_key_of C c os' a = chain_key_of C c os a"
    and "\<And>x. owner_of C c os' x = owner_of C c os x" "\<And>a. acc a \<Longrightarrow> leaving C c os' a = leaving C c os a"
    and "\<And>a. IsOperator os a \<Longrightarrow> IsOperator os' a"
    and "\<And>b. prune_batch fs' b = prune_batch fs b" "\<And>b. leave_batch fs' b = leave_batch fs b"
    and "key_core C c os fs"
  shows "key_core C c os' fs'"
proof -
  note core = core_chain [OF assms(8)] core_owner [OF assms(8)] core_queued [OF assms(8)] core_leaves [OF assms(8)]
    core_distinct [OF assms(8)] core_once [OF assms(8)] core_leave [OF assms(8)] core_distinct_leave [OF assms(8)]
  show ?thesis
  proof (rule key_coreI, goal_cases)
    case (6 b b' x)
    then show ?case using core(6) assms(6) by metis
  next
    case (7 b a)
    then show ?case using core(7) [of a b] assms(1-7) by simp
  qed (simp_all add: assms(1-7) core)
qed

section \<open>Setting and removing a key\<close>

context chain_codec
begin

lemma set_key_view:
  fixes os :: operator_state and k :: bytes
  assumes "acc a" "length c < 2 ^ 64"
  defines "os' \<equiv> setOperatorConsKeyForChainIDUnchecked C a c k os"
  shows "acc a' \<Longrightarrow> key_of C c os' a' = (if a' = a then Some k else key_of C c os a')"
    and "acc a' \<Longrightarrow> chain_key_of C c os' a' = (if a' = a then Some k else chain_key_of C c os a')"
    and "owner_of C c os' x = (if x = toConsAddr C k then Some a else owner_of C c os x)"
    and "leaving C c os' a' = leaving C c os a'" and "opted C c os' a' = opted C c os a'"
    and "IsOperator os' a' = IsOperator os a'"
  using assms
  by (simp_all add: view_defs setOperatorConsKeyForChainIDUnchecked_def getOperatorConsKeyForChainID_def
      cons_key_defs addr_key_inj chain_key_inj len_key_inj IsOperatorRemovingKeyFromChainID_def IsOptedIn_def
      GetOptedInfo_def IsOperator_def)

lemma set_other_key_view:
  fixes os :: operator_state and k :: bytes
  assumes "acc a" "length c < 2 ^ 64" "length d < 2 ^ 64" "d \<noteq> c"
  defines "os' \<equiv> setOperatorConsKeyForChainIDUnchecked C a d k os"
  shows "acc a' \<Longrightarrow> key_of C c os' a' = key_of C c os a'"
    and "acc a' \<Longrightarrow> chain_key_of C c os' a' = chain_key_of C c os a'"
    and "owner_of C c os' x = owner_of C c os x"
    and "leaving C c os' a' = leaving C c os a'" and "opted C c os' a' = opted C c os a'"
    and "IsOperator os' a' = IsOperator os a'"
  using assms
  by (simp_all add: view_defs setOperatorConsKeyForChainIDUnchecked_def getOperatorConsKeyForChainID_def
      cons_key_defs addr_key_inj chain_key_inj len_key_inj IsOperatorRemovingKeyFromChainID_def IsOptedIn_def
      GetOptedInfo_def IsOperator_def)

end

section \<open>Replacing a key\<close>

lemma prune_append:
  assumes "AppendConsensusAddrToPrune C e x fs = Inr fs'"
  obtains k where "epoch_key C e = Inr k"
    and "prune_batch fs' = (prune_batch fs)(Some k := prune_batch fs (Some k) @ [x])"
    and "leave_batch fs' = leave_batch fs"
    and "updateValidatorSet fs' = updateValidatorSet fs"
    and "dogfoodParams fs' = dogfoodParams fs"
proof -
  from assms obtain k where k: "epoch_key C e = Inr k"
    and F: "fs' = fs\<lparr>consAddrsToPrune := kv_set k ((case kv_get (consAddrsToPrune fs) k of None \<Rightarrow> [] | Some l \<Rightarrow> l) @ [x]) (consAddrsToPrune fs)\<rparr>"
    by (auto simp: rbind_eq_Inr_iff AppendConsensusAddrToPrune_def GetConsensusAddrsToPrune_def setConsensusAddrsToPrune_def)
  show ?thesis
    by (rule that [OF k]) (auto simp: F fun_eq_iff prune_batch_def leave_batch_def GetPendingConsensusAddrs_def GetPendingOptOuts_def split: option.split)
qed

lemma leave_append:
  assumes "AppendOptOutToFinish C e x fs = Inr fs'"
  obtains k where "epoch_key C e = Inr k"
    and "leave_batch fs' = (leave_batch fs)(Some k := leave_batch fs (Some k) @ [x])"
    and "prune_batch fs' = prune_batch fs"
    and "updateValidatorSet fs' = updateValidatorSet fs"
    and "dogfoodParams fs' = dogfoodParams fs"
proof -
  from assms obtain k where k: "epoch_key C e = Inr k"
    and F: "fs' = fs\<lparr>optOutsToFinish := kv_set k ((case kv_get (optOutsToFinish fs) k of None \<Rightarrow> [] | Some l \<Rightarrow> l) @ [x]) (optOutsToFinish fs)\<rparr>"
    by (auto simp: rbind_eq_Inr_iff AppendOptOutToFinish_def GetOptOutsToFinish_def setOptOutsToFinish_def)
  show ?thesis
    by (rule that [OF k]) (auto simp: F fun_eq_iff prune_batch_def leave_batch_def GetPendingConsensusAddrs_def GetPendingOptOuts_def split: option.split)
qed

context chain_codec
begin

lemma core_set_key:
  assumes I: "key_core C c os fs" and a: "acc a" and c: "length c < 2 ^ 64"
    and free: "owner_of C c os (toConsAddr C k) = None" and stays: "\<not> leaving C c os a"
  shows "key_core C c (setOperatorConsKeyForChainIDUnchecked C a c k os) fs"
proof (rule key_coreI, goal_cases)
  case (2 a' k')
  then show ?case
    using core_owner [OF I, of a' k'] free by (auto simp: set_key_view [OF a c] split: if_splits)
next
  case (3 b x)
  then show ?case using core_queued [OF I, of x b] by (auto simp: set_key_view [OF a c])
next
  case (4 b a' k')
  then show ?case
    using core_leaves [OF I, of a' k' b] core_queued [OF I, of "toConsAddr C k" b] free
    by (auto simp: set_key_view [OF a c] split: if_splits)
next
  case (6 b b' x)
  then show ?case using core_once [OF I] by blast
next
  case (7 b a')
  then show ?case using core_leave [OF I, of a' b] stays by (auto simp: set_key_view [OF a c])
qed (simp_all add: set_key_view [OF a c] core_chain [OF I] core_queued [OF I] core_distinct [OF I] core_distinct_leave [OF I])

lemma core_set_other_key:
  assumes I: "key_core C c os fs" and a: "acc a" and c: "length c < 2 ^ 64" "length d < 2 ^ 64" "d \<noteq> c"
  shows "key_core C c (setOperatorConsKeyForChainIDUnchecked C a d k os) fs"
  by (rule key_core_cong [OF _ _ _ _ _ _ _ I]) (simp_all add: set_other_key_view [OF a c])

lemma core_queue:
  assumes I: "key_core C c os fs"
    and owned: "owner_of C c os x \<noteq> None" and unused: "\<And>a k. acc a \<Longrightarrow> key_of C c os a = Some k \<Longrightarrow> toConsAddr C k \<noteq> x"
    and fresh: "\<And>b. x \<notin> set (prune_batch fs b)"
    and P: "prune_batch fs' = (prune_batch fs)(Some e := prune_batch fs (Some e) @ [x])"
    and L: "leave_batch fs' = leave_batch fs"
  shows "key_core C c os fs'"
proof (rule key_coreI, goal_cases)
  case (3 b y)
  then show ?case using core_queued [OF I, of y b] owned by (auto simp: P split: if_splits)
next
  case (4 b a k)
  then show ?case using core_leaves [OF I, of a k b] unused [of a k] by (auto simp: P L split: if_splits)
next
  case (5 b)
  then show ?case using core_distinct [OF I, of b] fresh [of b] by (auto simp: P)
next
  case (6 b b' y)
  then show ?case using core_once [OF I, of y b b'] fresh by (auto simp: P split: if_splits)
next
  case (7 b a)
  then show ?case using core_leave [OF I, of a b] by (auto simp: P L)
qed (simp_all add: core_chain [OF I] core_owner [OF I] core_distinct_leave [OF I] L)

lemma core_leave_start:
  assumes I: "key_core C c os fs" and a: "acc a" "IsOperator os a" and k: "key_of C c os a = Some k" and stays: "\<not> leaving C c os a"
    and P: "prune_batch fs' = (prune_batch fs)(Some e := prune_batch fs (Some e) @ [toConsAddr C k])"
    and L: "leave_batch fs' = (leave_batch fs)(Some e := leave_batch fs (Some e) @ [a])"
    and V: "\<And>a. key_of C c os' a = key_of C c os a" "\<And>a. chain_key_of C c os' a = chain_key_of C c os a"
      "\<And>x. owner_of C c os' x = owner_of C c os x" "\<And>a'. acc a' \<Longrightarrow> leaving C c os' a' = (a' = a \<or> leaving C c os a')"
      "\<And>a. IsOperator os' a = IsOperator os a"
  shows "key_core C c os' fs'"
proof -
  let ?x = "toConsAddr C k"
  have fresh: "?x \<notin> set (prune_batch fs b)" for b
    using core_leaves [OF I a(1) k, of b] core_leave [OF I, of a b] stays by blast
  have absent: "a \<notin> set (leave_batch fs b)" for b
    using core_leave [OF I, of a b] stays by blast
  have only: "a' = a" if "acc a'" "key_of C c os a' = Some k'" "toConsAddr C k' = ?x" for a' k'
    using core_owner [OF I that(1,2)] core_owner [OF I a(1) k] that(3) by simp
  show ?thesis
  proof (rule key_coreI, goal_cases)
    case (3 b y)
    then show ?case using core_queued [OF I, of y b] core_owner [OF I a(1) k] by (auto simp: P V split: if_splits)
  next
    case (4 b a' k')
    then show ?case using core_leaves [OF I, of a' k' b] only [of a' k'] by (auto simp: P L V split: if_splits)
  next
    case (5 b)
    then show ?case using core_distinct [OF I, of b] fresh [of b] by (auto simp: P)
  next
    case (6 b b' y)
    then show ?case using core_once [OF I, of y b b'] fresh by (auto simp: P split: if_splits)
  next
    case (7 b a')
    then show ?case using core_leave [OF I, of a' b] a k by (auto simp: P L V split: if_splits)
  next
    case (8 b)
    then show ?case using core_distinct_leave [OF I, of b] absent [of b] by (auto simp: L)
  qed (simp_all add: core_chain [OF I] core_owner [OF I] V)
qed

end

section \<open>The hooks\<close>

lemma operator_hooks_simps [simp]:
  "oh_AfterOperatorKeySet (OperatorHooks C E ctx) a d k = AfterOperatorKeySet C E a d k"
  "oh_AfterOperatorKeyReplaced (OperatorHooks C E ctx) a k k' d = AfterOperatorKeyReplaced C E ctx a k k' d"
  "oh_AfterOperatorKeyRemovalInitiated (OperatorHooks C E ctx) a d k = AfterOperatorKeyRemovalInitiated C E a d k"
  "oh_AfterJail (OperatorHooks C E ctx) a u l = afterStakingOrJailChange C E a u l"
  by (auto simp: OperatorHooks_def MultiOperatorHooks_def DogfoodOperatorHooks_def DistributionOperatorHooks_def
      fun_eq_iff rbind_def split: sum.splits)

lemma prev_key_view [simp]:
  "key_of C c (setOperatorPrevConsKeyForChainID C a d k os) = key_of C c os"
  "chain_key_of C c (setOperatorPrevConsKeyForChainID C a d k os) = chain_key_of C c os"
  "owner_of C c (setOperatorPrevConsKeyForChainID C a d k os) = owner_of C c os"
  "leaving C c (setOperatorPrevConsKeyForChainID C a d k os) = leaving C c os"
  "opted C c (setOperatorPrevConsKeyForChainID C a d k os) = opted C c os"
  "IsOperator (setOperatorPrevConsKeyForChainID C a d k os) = IsOperator os"
  by (auto simp: fun_eq_iff view_defs setOperatorPrevConsKeyForChainID_def getOperatorConsKeyForChainID_def
      IsOperatorRemovingKeyFromChainID_def IsOptedIn_def GetOptedInfo_def IsOperator_def)

lemma prev_key_core:
  "key_core C c os fs \<Longrightarrow> key_core C c (setOperatorPrevConsKeyForChainID C a d k os) fs"
  by (erule key_core_cong [rotated -1]) simp_all

lemma created_frame:
  assumes "afterValidatorCreated E a s = Inr s'"
  shows "opr_of s' = opr_of s" "dog_of s' = dog_of s" "avs_of s' = avs_of s" "epochs s' = epochs s"
  using assms by (auto simp: afterValidatorCreated_def rbind_eq_Inr_iff)

lemma set_hook_frame:
  assumes "AfterOperatorKeySet C E a d k s = Inr s'"
  shows "opr_of s' = opr_of s" "dog_of s' = dog_of s" "avs_of s' = avs_of s"
  using assms by (auto simp: AfterOperatorKeySet_def rbind_eq_Inr_iff created_frame split: if_splits)

lemma replaced_hook:
  assumes "AfterOperatorKeyReplaced C E ctx a k k' d s = Inr s'"
  shows "opr_of s' = opr_of s" "avs_of s' = avs_of s"
    and "d = chain_id C E \<Longrightarrow> \<exists>e. AppendConsensusAddrToPrune C e (toConsAddr C k) (dog_of s) = Inr (dog_of s')"
    and "d \<noteq> chain_id C E \<Longrightarrow> dog_of s' = dog_of s"
  using assms by (auto simp: AfterOperatorKeyReplaced_def rbind_eq_Inr_iff created_frame Let_def split: if_splits)

section \<open>A key is set\<close>

context chain_codec
begin

lemma set_view [simp]:
  "leaving C c (setOperatorConsKeyForChainIDUnchecked C a d k os) = leaving C c os"
  "opted C c (setOperatorConsKeyForChainIDUnchecked C a d k os) = opted C c os"
  by (auto simp: fun_eq_iff view_defs setOperatorConsKeyForChainIDUnchecked_def
      IsOperatorRemovingKeyFromChainID_def IsOptedIn_def GetOptedInfo_def)

lemma set_view_mono:
  assumes "acc a" "length c < 2 ^ 64" "length d < 2 ^ 64" "acc a'" "key_of C c os a' \<noteq> None"
  shows "key_of C c (setOperatorConsKeyForChainIDUnchecked C a d k os) a' \<noteq> None"
  using assms by (cases "d = c") (auto simp: set_key_view set_other_key_view)

lemma replace_core:
  assumes I: "key_core C c os fs" and a: "acc a" and c: "length c < 2 ^ 64"
    and old: "key_of C c os a = Some k" and free: "owner_of C c os (toConsAddr C k') = None"
    and stays: "\<not> leaving C c os a"
    and Q: "AppendConsensusAddrToPrune C e (toConsAddr C k) fs = Inr fs'"
  shows "key_core C c (setOperatorConsKeyForChainIDUnchecked C a c k' os) fs'"
proof -
  let ?os = "setOperatorConsKeyForChainIDUnchecked C a c k' os"
  from Q obtain b where "epoch_key C e = Inr b" and P: "prune_batch fs' = (prune_batch fs)(Some b := prune_batch fs (Some b) @ [toConsAddr C k])"
    and L: "leave_batch fs' = leave_batch fs"
    and "updateValidatorSet fs' = updateValidatorSet fs" "dogfoodParams fs' = dogfoodParams fs"
    by (rule prune_append)
  have own: "owner_of C c os (toConsAddr C k) = Some a" by (rule core_owner [OF I a old])
  with free have diff: "toConsAddr C k \<noteq> toConsAddr C k'" by auto
  show ?thesis
  proof (rule core_queue [OF core_set_key [OF I a c free stays] _ _ _ P L])
    show "owner_of C c ?os (toConsAddr C k) \<noteq> None" using own by (simp add: set_key_view [OF a c])
    show "toConsAddr C k'' \<noteq> toConsAddr C k" if "acc a'" "key_of C c ?os a' = Some k''" for a' k''
    proof (cases "a' = a")
      case True
      then show ?thesis using that diff by (simp add: set_key_view [OF a c])
    next
      case False
      then show ?thesis using that core_owner [OF I, of a' k''] own by (auto simp: set_key_view [OF a c])
    qed
    show "toConsAddr C k \<notin> set (prune_batch fs x)" for x
      using core_leaves [OF I a old, of x] core_leave [OF I, of a x] stays by blast
  qed
qed

lemma set_key_cases:
  fixes k :: bytes
  assumes S: "setOperatorConsKeyForChainID C (OperatorHooks C E ctx) a d k False s = Inr s'"
  defines "put \<equiv> setOperatorConsKeyForChainIDUnchecked C a d k"
  obtains (fresh) "key_of C d (opr_of s) a = None" "AfterOperatorKeySet C E a d k (set_opr (put (opr_of s)) s) = Inr s'"
    | (same) "key_of C d (opr_of s) a = Some k" "s' = s"
    | (recorded) p where "key_of C d (opr_of s) a = Some p" "s' = set_opr (put (opr_of s)) s"
    | (replaced) p where "key_of C d (opr_of s) a = Some p"
        "AfterOperatorKeyReplaced C E ctx a p k d (set_opr (put (setOperatorPrevConsKeyForChainID C a d p (opr_of s))) s) = Inr s'"
proof -
  let ?os = "opr_of s" let ?new = "toConsAddr C k"
  from S have go: "\<not> IsOperatorFrozen ?os a" "\<not> IsOperatorRemovingKeyFromChainID C ?os a d" "length k = PubKeySize"
      "GetOperatorAddressForChainIDAndConsAddr C (avs_of s) ?os d ?new = None"
    by (auto simp: setOperatorConsKeyForChainID_def Let_def rbind_eq_Inr_iff ToConsAddr_def split: if_splits)
  note S' = S [unfolded setOperatorConsKeyForChainID_def Let_def ToConsAddr_def, simplified go, simplified]
  show ?thesis
  proof (cases "key_of C d ?os a")
    case None
    with S' show ?thesis by (intro that(1)) (simp_all add: key_of_def go(4) put_def)
  next
    case (Some p)
    with S' show ?thesis
      by (cases "p = k"; cases "getOperatorPrevConsKeyForChainID C ?os a d") (auto simp: key_of_def go(4) put_def intro: that)
  qed
qed

lemma set_key_step:
  assumes S: "setOperatorConsKeyForChainID C (OperatorHooks C E ctx) a d k False s = Inr s'"
    and I: "key_core C c (opr_of s) (dog_of s)" and c: "c = chain_id C E" and a: "acc a"
    and len: "length c < 2 ^ 64" "length d < 2 ^ 64" and av: "fst (IsAVSByChainID C (avs_of s) c)"
  shows "key_core C c (opr_of s') (dog_of s') \<and> avs_of s' = avs_of s
    \<and> (\<forall>x. leaving C c (opr_of s') x = leaving C c (opr_of s) x) \<and> (\<forall>x. opted C c (opr_of s') x = opted C c (opr_of s) x)
    \<and> (\<forall>x. acc x \<longrightarrow> key_of C c (opr_of s) x \<noteq> None \<longrightarrow> key_of C c (opr_of s') x \<noteq> None)
    \<and> (d = c \<longrightarrow> \<not> leaving C c (opr_of s) a \<and> key_of C c (opr_of s') a \<noteq> None)"
proof -
  let ?os = "opr_of s" let ?set = "setOperatorConsKeyForChainIDUnchecked C a d k"
  let ?os1 = "setOperatorPrevConsKeyForChainID C a d" let ?new = "toConsAddr C k"
  from S have "\<not> IsOperatorRemovingKeyFromChainID C ?os a d"
      "GetOperatorAddressForChainIDAndConsAddr C (avs_of s) ?os d ?new = None"
    by (auto simp: setOperatorConsKeyForChainID_def Let_def rbind_eq_Inr_iff ToConsAddr_def split: if_splits)
  then have free: "owner_of C c ?os ?new = None" and stays: "\<not> leaving C c ?os a" if "d = c"
    using that av by (auto simp: GetOperatorAddressForChainIDAndConsAddr_def view_defs)
  from S have "key_core C c (opr_of s') (dog_of s') \<and> avs_of s' = avs_of s
    \<and> (s' = s \<and> (d = c \<longrightarrow> key_of C c ?os a \<noteq> None) \<or> (\<exists>p. opr_of s' = ?set ?os \<or> opr_of s' = ?set (?os1 p ?os)))"
  proof (cases rule: set_key_cases)
    case fresh
    then show ?thesis
      using core_set_key [OF I a len(1) free stays] core_set_other_key [OF I a len, of k] set_hook_frame [OF fresh(2)]
      by (cases "d = c") auto
  next
    case same
    then show ?thesis using I by auto
  next
    case recorded
    then show ?thesis
      using core_set_key [OF I a len(1) free stays] core_set_other_key [OF I a len, of k]
      by (cases "d = c") auto
  next
    case (replaced p)
    show ?thesis
    proof (cases "d = c")
      case True
      with replaced replaced_hook [OF replaced(2)] c obtain e
        where "AppendConsensusAddrToPrune C e (toConsAddr C p) (dog_of s) = Inr (dog_of s')" by auto
      then have "key_core C c (?set (?os1 p ?os)) (dog_of s')"
        using replace_core [OF prev_key_core [OF I] a len(1), of a d p p k e] replaced(1) free stays True by simp
      then show ?thesis using replaced_hook [OF replaced(2)] by auto
    next
      case False
      then show ?thesis
        using core_set_other_key [OF prev_key_core [OF I] a len, of k a d p] replaced_hook [OF replaced(2)] c by auto
    qed
  qed
  then obtain p where R: "key_core C c (opr_of s') (dog_of s')" "avs_of s' = avs_of s"
      "s' = s \<and> (d = c \<longrightarrow> key_of C c ?os a \<noteq> None) \<or> opr_of s' = ?set ?os \<or> opr_of s' = ?set (?os1 p ?os)" by blast
  have M: "key_of C c (?set os) x \<noteq> None" if "acc x" "key_of C c os x \<noteq> None" for os x
    by (rule set_view_mono [OF a len that])
  have N: "key_of C c (?set os) a \<noteq> None" if "d = c" for os
    using that by (simp add: set_key_view [OF a len(1)] a)
  from R(3) show ?thesis
  proof (elim disjE conjE)
    assume "s' = s" "d = c \<longrightarrow> key_of C c ?os a \<noteq> None"
    then show ?thesis using R(1) stays by simp
  next
    assume E: "opr_of s' = ?set ?os"
    show ?thesis unfolding E using R(1,2) stays M [of _ ?os] N [of ?os] by (simp add: E)
  next
    assume E: "opr_of s' = ?set (?os1 p ?os)"
    show ?thesis unfolding E using R(1,2) stays M [of _ "?os1 p ?os"] N [of "?os1 p ?os"] by (simp add: E)
  qed
qed

end

end
