(* ===== verification/KeyMessages.thy ===== *)
theory KeyMessages
  imports ConsensusKeys
begin

text \<open>
  The invariant on consensus keys is kept by the messages of operators: registering, opting in and out, setting
  a key, and by being jailed.
\<close>

section \<open>Frames\<close>

text \<open>What an operation that has nothing to do with consensus keys leaves alone.\<close>

definition same_keys :: "operator_state \<Rightarrow> operator_state \<Rightarrow> bool" where
  "same_keys os os' \<longleftrightarrow> consKeys os' = consKeys os \<and> chainConsKeys os' = chainConsKeys os \<and>
     consAddrs os' = consAddrs os \<and> keyRemovals os' = keyRemovals os \<and> operatorInfos os' = operatorInfos os"

definition same_queues :: "dogfood_state \<Rightarrow> dogfood_state \<Rightarrow> bool" where
  "same_queues fs fs' \<longleftrightarrow> consAddrsToPrune fs' = consAddrsToPrune fs \<and> optOutsToFinish fs' = optOutsToFinish fs \<and>
     pendingConsAddrs fs' = pendingConsAddrs fs \<and> pendingOptOuts fs' = pendingOptOuts fs"

lemma same_views:
  assumes "same_keys os os'"
  shows "key_of C c os' = key_of C c os" "chain_key_of C c os' = chain_key_of C c os" "owner_of C c os' = owner_of C c os"
    and "leaving C c os' = leaving C c os" "IsOperator os' = IsOperator os"
  using assms by (auto simp: same_keys_def fun_eq_iff view_defs getOperatorConsKeyForChainID_def
      IsOperatorRemovingKeyFromChainID_def IsOperator_def)

lemma same_opted: "optedInfos os' = optedInfos os \<Longrightarrow> opted C c os' = opted C c os"
  by (auto simp: fun_eq_iff opted_def IsOptedIn_def GetOptedInfo_def)

lemma same_batches:
  assumes "same_queues fs fs'"
  shows "prune_batch fs' = prune_batch fs" "leave_batch fs' = leave_batch fs"
  using assms by (auto simp: same_queues_def fun_eq_iff prune_batch_def leave_batch_def
      GetPendingConsensusAddrs_def GetPendingOptOuts_def split: option.split)

lemma same_keys_refl [simp]: "same_keys os os" and same_queues_refl [simp]: "same_queues fs fs"
  by (simp_all add: same_keys_def same_queues_def)

lemma same_core:
  assumes "key_core C c os fs" "same_keys os os'" "same_queues fs fs'"
  shows "key_core C c os' fs'"
  by (rule key_core_cong [OF _ _ _ _ _ _ _ assms(1)]) (simp_all add: same_views [OF assms(2)] same_batches [OF assms(3)])

lemma same_inv:
  assumes "key_inv C c os fs" "same_keys os os'" "same_queues fs fs'" "\<And>a. acc a \<Longrightarrow> opted C c os' a = opted C c os a"
  shows "key_inv C c os' fs'"
  using assms same_core [OF _ assms(2,3)] by (simp add: key_inv_def same_views)

section \<open>Opting in\<close>

definition avs_ok :: "codec \<Rightarrow> string \<Rightarrow> avs_state \<Rightarrow> bool" where
  "avs_ok C c av \<longleftrightarrow> fst (IsAVSByChainID C av c) \<and>
     kv_get (avsChainIDs av) (hexToAddress C (GenerateAVSAddress C c)) = Some c \<and>
     (\<forall>x d. kv_get (avsChainIDs av) x = Some d \<longrightarrow>
        length d < 2 ^ 64 \<and> (d = c \<longrightarrow> x = hexToAddress C (GenerateAVSAddress C c)))"

definition canonical :: "codec \<Rightarrow> string \<Rightarrow> string \<Rightarrow> bool" where
  "canonical C c a \<longleftrightarrow> (hexToAddress C a = hexToAddress C (GenerateAVSAddress C c)) = (to_lower a = GenerateAVSAddress C c)"

lemma avs_ok_chain:
  assumes "avs_ok C c av"
  shows "fst (IsAVSByChainID C av c)" "length c < 2 ^ 64"
    and "GetChainIDByAVSAddr C av a = Some d \<Longrightarrow> length d < 2 ^ 64"
    and "canonical C c a \<Longrightarrow> GetChainIDByAVSAddr C av a = Some c \<longleftrightarrow> to_lower a = GenerateAVSAddress C c"
proof -
  let ?g = "hexToAddress C (GenerateAVSAddress C c)"
  have A: "fst (IsAVSByChainID C av c)" "kv_get (avsChainIDs av) ?g = Some c"
    and B: "kv_get (avsChainIDs av) x = Some d \<Longrightarrow> length d < 2 ^ 64 \<and> (d = c \<longrightarrow> x = ?g)" for x d
    using assms unfolding avs_ok_def by blast+
  show "fst (IsAVSByChainID C av c)" by (rule A)
  show "length c < 2 ^ 64" using B [OF A(2)] by blast
  show "length d < 2 ^ 64" if "GetChainIDByAVSAddr C av a = Some d" using B that by (simp add: GetChainIDByAVSAddr_def)
  show "GetChainIDByAVSAddr C av a = Some c \<longleftrightarrow> to_lower a = GenerateAVSAddress C c" if "canonical C c a"
    using that A(2) B [of "hexToAddress C a" c] unfolding canonical_def GetChainIDByAVSAddr_def by metis
qed

lemma lower_avs [simp]: "to_lower (GenerateAVSAddress C c) = GenerateAVSAddress C c"
  by (simp add: GenerateAVSAddress_def)

context chain_codec
begin

lemma opted_key_inj:
  assumes "acc a" "acc b"
  shows "opted_key (accAddressString C a) x = opted_key (accAddressString C b) y \<longleftrightarrow> a = b \<and> to_lower x = to_lower y"
  using assms joined_inj [OF acc_part acc_part, of a "to_lower x" b "to_lower y"] acc_inj
  by (auto simp: opted_key_def)

lemma opted_set:
  assumes "acc a" "acc b"
    and "optedInfos os' = kv_set (opted_key (accAddressString C a) avs) i (optedInfos os)"
  shows "opted C c os' b = (if b = a \<and> to_lower avs = GenerateAVSAddress C c then op_OptedOutHeight i = DefaultOptedOutHeight
           else opted C c os b)"
  using assms by (auto simp: opted_def IsOptedIn_def GetOptedInfo_def acc_roundtrip opted_key_inj)

lemma opt_in_step:
  assumes "OptIn C D E ctx a avs s = Inr s'" and a: "acc a"
  shows "same_keys (opr_of s) (opr_of s') \<and> dog_of s' = dog_of s \<and> avs_of s' = avs_of s \<and>
    (\<forall>b. acc b \<longrightarrow> opted C c (opr_of s') b = (b = a \<and> to_lower avs = GenerateAVSAddress C c \<or> opted C c (opr_of s) b))"
proof -
  let ?key = "opted_key (accAddressString C a) avs"
  from assms(1) obtain os1 os2 sc where U: "InitOperatorUSDValue avs (accAddressString C a) (opr_of s) = Inr os1"
      and S: "SetOptedInfo C (accAddressString C a) avs
        \<lparr>op_SlashContract = sc, op_OptedInHeight = of_int (BlockHeight ctx), op_OptedOutHeight = DefaultOptedOutHeight,
         op_Jailed = False, op_JailToggleHeights = []\<rparr> os1 = Inr os2"
      and N: "s' = set_opr os2 s"
    by (auto simp: OptIn_def Let_def rbind_eq_Inr_iff split: if_splits)
  from U have "same_keys (opr_of s) os1" "optedInfos os1 = optedInfos (opr_of s)"
    by (auto simp: InitOperatorUSDValue_def Let_def same_keys_def split: if_splits)
  with S obtain i where "same_keys (opr_of s) os2" "optedInfos os2 = kv_set ?key i (optedInfos (opr_of s))"
      "op_OptedOutHeight i = DefaultOptedOutHeight"
    by (force simp: SetOptedInfo_def same_keys_def split: if_splits)
  then show ?thesis using N opted_set [OF a, of _ os2 avs i "opr_of s" c] by auto
qed

end

section \<open>Messages\<close>

definition chain_ok :: "codec \<Rightarrow> string \<Rightarrow> 'x state \<Rightarrow> bool" where
  "chain_ok C c s \<longleftrightarrow> key_inv C c (opr_of s) (dog_of s) \<and> avs_ok C c (avs_of s)"

lemma chain_okI:
  assumes "key_core C c (opr_of s) (dog_of s)" "avs_ok C c (avs_of s)"
    and "\<And>a. acc a \<Longrightarrow> opted C c (opr_of s) a \<Longrightarrow> \<not> leaving C c (opr_of s) a \<and> key_of C c (opr_of s) a \<noteq> None"
  shows "chain_ok C c s"
  using assms by (auto simp: chain_ok_def key_inv_def)

lemma chain_okD:
  assumes "chain_ok C c s"
  shows "key_inv C c (opr_of s) (dog_of s)" "key_core C c (opr_of s) (dog_of s)" "avs_ok C c (avs_of s)"
    and "acc a \<Longrightarrow> opted C c (opr_of s) a \<Longrightarrow> \<not> leaving C c (opr_of s) a"
    and "acc a \<Longrightarrow> opted C c (opr_of s) a \<Longrightarrow> key_of C c (opr_of s) a \<noteq> None"
  using assms by (auto simp: chain_ok_def key_inv_def)

lemma chain_ok_frame:
  assumes "chain_ok C c s" "same_keys (opr_of s) (opr_of s')" "same_queues (dog_of s) (dog_of s')"
    and "\<And>a. acc a \<Longrightarrow> opted C c (opr_of s') a = opted C c (opr_of s) a" "avs_of s' = avs_of s"
  shows "chain_ok C c s'"
  using assms same_inv [OF _ assms(2,3,4)] by (auto simp: chain_ok_def)

context chain_codec
begin

lemma set_key_ok:
  assumes S: "setOperatorConsKeyForChainID C (OperatorHooks C E ctx) a d k False s = Inr s'"
    and I: "chain_ok C c s" and c: "c = chain_id C E" and a: "acc a" and d: "length d < 2 ^ 64"
  shows "chain_ok C c s'"
  using set_key_step [OF S chain_okD(2) [OF I] c a avs_ok_chain(2) [OF chain_okD(3) [OF I]] d avs_ok_chain(1) [OF chain_okD(3) [OF I]]]
    chain_okD [OF I] by (intro chain_okI) auto

lemma set_cons_key_ok:
  assumes "SetConsKey C E (OperatorHooks C E ctx) req s = Inr s'"
    and I: "chain_ok C c s" and "c = chain_id C E" "acc (acc_or_nil C (sq_Address req))"
  shows "chain_ok C c s'"
  using assms set_key_ok [OF _ I] avs_ok_chain(3) [OF chain_okD(3) [OF I]]
  by (auto simp: SetConsKey_def SetOperatorConsKeyForChainID_def Let_def rbind_eq_Inr_iff split: if_splits)

lemma opt_in_ok:
  assumes S: "OptIntoAVS C D E (OperatorHooks C E ctx) ctx req s = Inr s'"
    and I: "chain_ok C c s" and c: "c = chain_id C E" and a: "acc (acc_or_nil C (oq_FromAddress req))"
    and can: "canonical C c (oq_AvsAddress req)"
  shows "chain_ok C c s'"
proof (cases "GetChainIDByAVSAddr C (avs_of s) (oq_AvsAddress req)")
  case None
  with S have O: "OptIn C D E ctx (acc_or_nil C (oq_FromAddress req)) (oq_AvsAddress req) s = Inr s'"
    by (simp add: OptIntoAVS_def Let_def split: if_splits)
  have "to_lower (oq_AvsAddress req) \<noteq> GenerateAVSAddress C c"
    using None avs_ok_chain(4) [OF chain_okD(3) [OF I] can] by simp
  then show ?thesis using opt_in_step [OF O a, of c] by (intro chain_ok_frame [OF I]) simp_all
next
  case (Some d)
  let ?a = "acc_or_nil C (oq_FromAddress req)" let ?avs = "oq_AvsAddress req"
  from S Some obtain s1 k where O: "OptIn C D E ctx ?a ?avs s = Inr s1"
    and K: "SetOperatorConsKeyForChainID C (OperatorHooks C E ctx) ?a
        (case GetChainIDByAVSAddr C (avs_of s1) ?avs of None \<Rightarrow> [] | Some d \<Rightarrow> d) k s1 = Inr s'"
    by (auto simp: OptIntoAVS_def OptInWithConsKey_def Let_def rbind_eq_Inr_iff)
  note R = opt_in_step [OF O a, of c] and av = avs_ok_chain [OF chain_okD(3) [OF I]]
  from K R Some have K': "setOperatorConsKeyForChainID C (OperatorHooks C E ctx) ?a d k False s1 = Inr s'"
    by (simp add: SetOperatorConsKeyForChainID_def)
  have "key_core C c (opr_of s1) (dog_of s1)" using same_core [OF chain_okD(2) [OF I]] R by simp
  note T = set_key_step [OF K' this c a av(2) av(3) [OF Some]]
  have same: "leaving C c (opr_of s1) = leaving C c (opr_of s)" "key_of C c (opr_of s1) = key_of C c (opr_of s)"
    using R same_views by blast+
  show ?thesis
  proof (rule chain_okI)
    show "key_core C c (opr_of s') (dog_of s')" "avs_ok C c (avs_of s')" using T R av(1) chain_okD(3) [OF I] by auto
    fix b assume b: "acc b" "opted C c (opr_of s') b"
    then have "b = ?a \<and> d = c \<or> opted C c (opr_of s) b" using T R av(1) av(4) [OF can] Some by auto
    then show "\<not> leaving C c (opr_of s') b \<and> key_of C c (opr_of s') b \<noteq> None"
      using T R av(1) b chain_okD(4,5) [OF I, of b] by (auto simp: same)
  qed
qed

end

section \<open>Opting out\<close>

lemma kv_has_put [simp]: "kv_has (kv_set k v s) x \<longleftrightarrow> x = k \<or> kv_has s x"
  by (simp add: kv_has_iff)


lemma schedule_queues:
  assumes "ScheduleOperatorOptOut C es a x fs = Inr fs'"
  obtains e where "prune_batch fs' = (prune_batch fs)(Some e := prune_batch fs (Some e) @ [x])"
    and "leave_batch fs' = (leave_batch fs)(Some e := leave_batch fs (Some e) @ [a])"
proof -
  from assms obtain n fs1 where L: "AppendOptOutToFinish C n a fs = Inr fs1"
    and P: "AppendConsensusAddrToPrune C n x (SetOperatorOptOutFinishEpoch a n fs1) = Inr fs'"
    by (auto simp: ScheduleOperatorOptOut_def rbind_eq_Inr_iff)
  have F: "prune_batch (SetOperatorOptOutFinishEpoch a n fs1) = prune_batch fs1"
    "leave_batch (SetOperatorOptOutFinishEpoch a n fs1) = leave_batch fs1"
    by (rule same_batches, simp add: same_queues_def SetOperatorOptOutFinishEpoch_def)+
  show ?thesis
    by (rule leave_append [OF L], rule prune_append [OF P]) (rule that, simp_all add: F)
qed

lemma height_not_default:
  assumes "0 \<le> h" "h < 2 ^ 63"
  shows "(of_int h :: uint64) \<noteq> DefaultOptedOutHeight"
proof
  assume "(of_int h :: uint64) = DefaultOptedOutHeight"
  then have "uint (of_int h :: uint64) = mask 64" by (simp add: DefaultOptedOutHeight_def unsigned_minus_1_eq_mask)
  moreover have "uint (of_int h :: uint64) = h" using assms by (simp add: uint_word_of_int)
  ultimately show False using assms by (simp add: mask_eq_exp_minus_1)
qed

lemma handle_opted:
  assumes "HandleOptedInfo C addr avs f os = Inr os'"
  obtains i where "kv_get (optedInfos os) (opted_key addr avs) = Some i"
    and "optedInfos os' = kv_set (opted_key addr avs) (f i) (optedInfos os)" and "same_keys os os'"
  using assms by (auto simp: HandleOptedInfo_def rbind_eq_Inr_iff Let_def same_keys_def)

context chain_codec
begin

lemma removal_view:
  fixes os :: operator_state and d :: string
  assumes "acc a"
  defines "os' \<equiv> os\<lparr>keyRemovals := kv_set (KeyForOperatorKeyRemovalForChainID C a d) () (keyRemovals os)\<rparr>"
  shows "\<And>c x. key_of C c os' x = key_of C c os x" "\<And>c x. chain_key_of C c os' x = chain_key_of C c os x"
    and "\<And>c x. owner_of C c os' x = owner_of C c os x" "\<And>c x. opted C c os' x = opted C c os x" "\<And>x. IsOperator os' x = IsOperator os x"
    and "\<And>c x. acc x \<Longrightarrow> leaving C c os' x = (d = c \<and> x = a \<or> leaving C c os x)"
  using assms by (auto simp: view_defs getOperatorConsKeyForChainID_def cons_key_defs addr_key_inj
      IsOperatorRemovingKeyFromChainID_def IsOptedIn_def GetOptedInfo_def IsOperator_def)

lemma removal_ok:
  assumes S: "InitiateOperatorKeyRemovalForChainID C (OperatorHooks C E ctx) a d s = Inr s'"
    and I: "chain_ok C c s" and c: "c = chain_id C E" and a: "acc a" "IsOperator (opr_of s) a"
    and stays: "d = c \<Longrightarrow> \<not> leaving C c (opr_of s) a" and out: "d = c \<Longrightarrow> \<not> opted C c (opr_of s) a"
  shows "chain_ok C c s'"
proof -
  let ?os = "(opr_of s)\<lparr>keyRemovals := kv_set (KeyForOperatorKeyRemovalForChainID C a d) () (keyRemovals (opr_of s))\<rparr>"
  from S obtain k where k: "key_of C d (opr_of s) a = Some k"
    and H: "AfterOperatorKeyRemovalInitiated C E a d k (set_opr ?os s) = Inr s'"
    by (auto simp: InitiateOperatorKeyRemovalForChainID_def Let_def rbind_eq_Inr_iff key_of_def)
  note V = removal_view [OF a(1)] and D = chain_okD [OF I]
  have s': "opr_of s' = ?os" "avs_of s' = avs_of s"
    using H by (auto simp: AfterOperatorKeyRemovalInitiated_def rbind_eq_Inr_iff split: if_splits)
  have "key_core C c ?os (dog_of s')"
  proof (cases "d = c")
    case True
    with H c obtain fs where "ScheduleOperatorOptOut C (epochs s) a (toConsAddr C k) (dog_of s) = Inr fs" "dog_of s' = fs"
      by (auto simp: AfterOperatorKeyRemovalInitiated_def rbind_eq_Inr_iff)
    then obtain e where "prune_batch (dog_of s') = (prune_batch (dog_of s))(Some e := prune_batch (dog_of s) (Some e) @ [toConsAddr C k])"
      "leave_batch (dog_of s') = (leave_batch (dog_of s))(Some e := leave_batch (dog_of s) (Some e) @ [a])"
      by (elim schedule_queues) auto
    then show ?thesis
      using k True stays by (intro core_leave_start [OF D(2) a]) (auto simp: V)
  next
    case False
    with H c have "dog_of s' = dog_of s" by (auto simp: AfterOperatorKeyRemovalInitiated_def)
    then show ?thesis using False by (intro key_core_cong [OF _ _ _ _ _ _ _ D(2)]) (auto simp: V)
  qed
  then show ?thesis using out by (intro chain_okI) (auto simp: s' V D dest: D(4,5))
qed

lemma opt_out_ok:
  assumes S: "OptOutOfAVS C (OperatorHooks C E ctx) ctx req s = Inr s'"
    and I: "chain_ok C c s" and c: "c = chain_id C E" and a: "acc (acc_or_nil C (xq_FromAddress req))"
    and can: "canonical C c (xq_AvsAddress req)" and h: "0 \<le> BlockHeight ctx" "BlockHeight ctx < 2 ^ 63"
  shows "chain_ok C c s'"
proof -
  let ?a = "acc_or_nil C (xq_FromAddress req)" let ?avs = "xq_AvsAddress req"
  from S obtain os1 where O: "IsOperator (opr_of s) ?a" "IsOptedIn C (opr_of s) (accAddressString C ?a) ?avs"
    and H: "HandleOptedInfo C (accAddressString C ?a) ?avs (\<lambda>info. info\<lparr>op_OptedOutHeight := of_int (BlockHeight ctx)\<rparr>) (opr_of s) = Inr os1"
    and R: "(case GetChainIDByAVSAddr C (avs_of s) ?avs of None \<Rightarrow> Inr (set_opr os1 s)
      | Some d \<Rightarrow> InitiateOperatorKeyRemovalForChainID C (OperatorHooks C E ctx) ?a d (set_opr os1 s)) = Inr s'"
    by (auto simp: OptOutOfAVS_def OptOut_def Let_def rbind_eq_Inr_iff split: if_splits)
  from H obtain i where os1: "optedInfos os1 = kv_set (opted_key (accAddressString C ?a) ?avs)
      (i\<lparr>op_OptedOutHeight := of_int (BlockHeight ctx)\<rparr>) (optedInfos (opr_of s))" "same_keys (opr_of s) os1"
    by (rule handle_opted)
  have ne: "of_int (BlockHeight ctx) \<noteq> DefaultOptedOutHeight" using height_not_default [OF h] .
  have opted1: "opted C c os1 b = (opted C c (opr_of s) b \<and> \<not> (b = ?a \<and> to_lower ?avs = GenerateAVSAddress C c))" if "acc b" for b
    using opted_set [OF a that os1(1)] ne by auto
  have was: "to_lower ?avs = GenerateAVSAddress C c \<Longrightarrow> opted C c (opr_of s) ?a"
    using O(2) by (simp add: opted_def IsOptedIn_def GetOptedInfo_def opted_key_def)
  note D = chain_okD [OF I] and av = avs_ok_chain [OF chain_okD(3) [OF I]] and V = same_views [OF os1(2)]
  have ok1: "chain_ok C c (set_opr os1 s)"
    using same_core [OF D(2) os1(2) same_queues_refl] by (intro chain_okI) (auto simp: opted1 V D dest: D(4,5))
  show ?thesis
  proof (cases "GetChainIDByAVSAddr C (avs_of s) ?avs")
    case None
    with R ok1 show ?thesis by auto
  next
    case (Some d)
    with R O(1) c show ?thesis
      using av(4) [OF can] was D(4) [OF a] opted1 [OF a] a by (intro removal_ok [OF _ ok1]) (auto simp: V)
  qed
qed

end

section \<open>Registration and jailing\<close>

lemma register_ok:
  assumes "RegisterOperatorMsg C E ctx info s = Inr s'" and I: "chain_ok C c s"
  shows "chain_ok C c s'"
proof -
  from assms(1) obtain a i where s': "s' = set_opr (setOperatorInfo a i (opr_of s)) s"
    by (auto simp: RegisterOperatorMsg_def RegisterOperator_def Let_def rbind_eq_Inr_iff split: if_splits)
  have V: "key_of C c (setOperatorInfo a i os) = key_of C c os" "chain_key_of C c (setOperatorInfo a i os) = chain_key_of C c os"
    "owner_of C c (setOperatorInfo a i os) = owner_of C c os" "leaving C c (setOperatorInfo a i os) = leaving C c os"
    "opted C c (setOperatorInfo a i os) = opted C c os" "IsOperator os x \<Longrightarrow> IsOperator (setOperatorInfo a i os) x" for os x
    by (auto simp: fun_eq_iff setOperatorInfo_def view_defs getOperatorConsKeyForChainID_def IsOperatorRemovingKeyFromChainID_def
        IsOptedIn_def GetOptedInfo_def IsOperator_def)
  show ?thesis
    using chain_okD [OF I] by (intro chain_okI) (auto simp: s' V intro: key_core_cong [OF _ _ _ _ _ _ _ chain_okD(2) [OF I]])
qed

lemma opted_same_height:
  assumes "kv_get (optedInfos os) k = Some i" "optedInfos os' = kv_set k j (optedInfos os)" "op_OptedOutHeight j = op_OptedOutHeight i"
  shows "opted C c os' a = opted C c os a"
  using assms by (auto simp: opted_def IsOptedIn_def GetOptedInfo_def rbind_def split: option.split sum.split)

lemma jail_hook_frame:
  "opr_of (afterStakingOrJailChange C E a u l s) = opr_of s" "avs_of (afterStakingOrJailChange C E a u l s) = avs_of s"
  "same_queues (dog_of s) (dog_of (afterStakingOrJailChange C E a u l s))"
  by (auto simp: afterStakingOrJailChange_def Let_def same_queues_def MarkUpdateValidatorSetFlag_def split: sum.split option.split)

lemma jail_hook_ok: "chain_ok C c s \<Longrightarrow> chain_ok C c (afterStakingOrJailChange C E a u l s)"
  by (erule chain_ok_frame) (simp_all add: jail_hook_frame)

lemma opted_mark_ok:
  assumes I: "chain_ok C c s" and f: "\<And>i. op_OptedOutHeight (f i) = op_OptedOutHeight i"
  shows "chain_ok C c (case HandleOptedInfo C addr avs f (opr_of s) of Inl _ \<Rightarrow> s | Inr os' \<Rightarrow> set_opr os' s)"
proof (cases "HandleOptedInfo C addr avs f (opr_of s)")
  case (Inr os1)
  then obtain i where "kv_get (optedInfos (opr_of s)) (opted_key addr avs) = Some i"
    "optedInfos os1 = kv_set (opted_key addr avs) (f i) (optedInfos (opr_of s))" "same_keys (opr_of s) os1" by (rule handle_opted)
  then have "chain_ok C c (set_opr os1 s)"
    by (intro chain_ok_frame [OF I]) (simp_all add: opted_same_height f)
  then show ?thesis using Inr by simp
qed (simp add: I)

lemma jail_ok:
  assumes S: "SetJailedState C (OperatorHooks C E ctx) ctx x d j s = Inr s'" and I: "chain_ok C c s"
  shows "chain_ok C c s'"
proof (cases "GetOperatorAddressForChainIDAndConsAddr C (avs_of s) (opr_of s) d x")
  case None
  with S I show ?thesis by (auto simp: SetJailedState_def)
next
  case (Some a)
  obtain is_avs avs where A: "IsAVSByChainID C (avs_of s) d = (is_avs, avs)" by fastforce
  let ?f = "\<lambda>info. info\<lparr>op_Jailed := j, op_JailToggleHeights := op_JailToggleHeights info @ [of_int (BlockHeight ctx)]\<rparr>"
  define s1 where "s1 = (case HandleOptedInfo C (accAddressString C a) avs ?f (opr_of s) of Inl _ \<Rightarrow> s | Inr os' \<Rightarrow> set_opr os' s)"
  have "chain_ok C c s1" unfolding s1_def by (rule opted_mark_ok [OF I]) simp
  moreover have "(if \<not> is_avs then Inr s else
      (case GetImpactfulEpochsAndAVSsForOperator C (epochs s1) (avs_of s1) (opr_of s1) (accAddressString C a) of
         Inl (Panic m) \<Rightarrow> Inl (Panic m) | Inl _ \<Rightarrow> Inr s1
       | Inr (l, _) \<Rightarrow> Inr (afterStakingOrJailChange C E a (\<not> j) l s1))) = Inr s'"
    using S unfolding SetJailedState_def Some A option.case prod.case Let_def s1_def [symmetric] operator_hooks_simps by simp
  then have "s' = s \<or> s' = s1 \<or> (\<exists>l. s' = afterStakingOrJailChange C E a (\<not> j) l s1)"
    by (auto split: if_splits sum.splits error.splits)
  ultimately show ?thesis using I jail_hook_ok by auto
qed

end
