(* ===== verification/VotingPowerFrame.thy ===== *)
theory VotingPowerFrame
  imports VotingPower
begin

text \<open>
  The update of the voting power and the callback of the operator module at the end of an epoch change the USD
  values and the snapshots and nothing else.
\<close>

section \<open>What the update of the voting power leaves alone\<close>

definition same_ops :: "operator_state \<Rightarrow> operator_state \<Rightarrow> bool" where
  "same_ops os os' \<longleftrightarrow> operatorInfos os' = operatorInfos os \<and> optedInfos os' = optedInfos os \<and>
     consKeys os' = consKeys os \<and> prevConsKeys os' = prevConsKeys os \<and> chainConsKeys os' = chainConsKeys os \<and>
     consAddrs os' = consAddrs os \<and> keyRemovals os' = keyRemovals os \<and> operatorParams os' = operatorParams os \<and>
     frozenOperators os' = frozenOperators os"

lemma same_ops_refl [simp]: "same_ops os os"
  by (simp add: same_ops_def)

lemma same_ops_trans [trans]: "same_ops os os1 \<Longrightarrow> same_ops os1 os2 \<Longrightarrow> same_ops os os2"
  by (simp add: same_ops_def)

lemma fold_same_ops:
  assumes "\<And>x os. x \<in> set xs \<Longrightarrow> same_ops os (f x os)"
  shows "same_ops os (fold f xs os)"
  using assms
proof (induction xs arbitrary: os)
  case (Cons x xs)
  then show ?case using same_ops_trans [of os "f x os"] by simp
qed simp

text \<open>The states an update goes through differ from the first one in the operator module only.\<close>

definition power_frame :: "'x state \<Rightarrow> 'x state \<Rightarrow> bool" where
  "power_frame s s' \<longleftrightarrow> (\<exists>os. s' = set_opr os s \<and> same_ops (opr_of s) os)"

lemma set_opr_same [simp]: "set_opr (opr_of s) s = s" "set_opr os (set_opr os' s) = set_opr os s"
  by (simp_all add: set_opr_def opr_of_def)

lemma power_frame_refl [simp]: "power_frame s s"
  unfolding power_frame_def by (rule exI [of _ "opr_of s"]) simp

lemma power_frame_trans [trans]: "power_frame s s1 \<Longrightarrow> power_frame s1 s2 \<Longrightarrow> power_frame s s2"
  unfolding power_frame_def using same_ops_trans by fastforce

lemma power_frameI [intro]: "same_ops (opr_of s) os \<Longrightarrow> power_frame s (set_opr os s)"
  by (auto simp: power_frame_def)

lemma power_frameD:
  assumes "power_frame s s'"
  shows "same_ops (opr_of s) (opr_of s')" "dog_of s' = dog_of s" "avs_of s' = avs_of s" "epochs s' = epochs s"
    and "assets s' = assets s" "dlg s' = dlg s" "rest_of s' = rest_of s"
  using assms by (auto simp: power_frame_def)

lemma fold_power_frame:
  assumes "\<And>x s. x \<in> set xs \<Longrightarrow> power_frame s (f x s)"
  shows "power_frame s (fold f xs s)"
  using assms
proof (induction xs arbitrary: s)
  case (Cons x xs)
  then show ?case using power_frame_trans [of s "f x s"] by simp
qed simp

lemma asset_usd_same_ops: "same_ops os (asset_usd_op D E s is operator assetID state os)"
  by (auto simp: asset_usd_op_def SetOperatorAssetUSDValue_def Let_def same_ops_def
      intro!: fold_same_ops [unfolded same_ops_def] split: prod.split sum.split)

lemma asset_usd_loop_same_ops: "same_ops os (asset_usd_loop D E s is operator es os)"
proof (induction es arbitrary: os)
  case (Cons e es)
  then show ?case
    by (cases e) (auto split: sum.split intro: same_ops_trans [OF asset_usd_same_ops])
qed simp

lemma asset_usd_frame: "power_frame s (UpdateOperatorAssetUSDValue C D E is operator s)"
proof -
  let ?os = "fold (\<lambda>i os. if IsImpactfulEpochForOperator C (epochs s) (avs_of s) (opr_of s) i operator then os
      else DeleteOperatorAssetUSDValueByEpoch i operator os) is (opr_of s)"
  have "same_ops (opr_of s) ?os"
    by (rule fold_same_ops) (simp add: DeleteOperatorAssetUSDValueByEpoch_def same_ops_def)
  then show ?thesis
    by (auto simp: UpdateOperatorAssetUSDValue_def Let_def intro: same_ops_trans [OF _ asset_usd_loop_same_ops])
qed

lemma all_asset_usd_frame: "power_frame s (UpdateAllOperatorAssetUSDValues C D E is s)"
  by (auto simp: UpdateAllOperatorAssetUSDValues_def asset_usd_frame intro!: fold_power_frame split: prod.split)

lemma rewards_frame:
  assumes "UpdateAllRewardsUSDForOperator C E avs operator l s = (s', r)"
  shows "power_frame s s'"
proof -
  have "same_ops os (fold (reward_usd_step avs operator) rs os)" for os rs
    by (rule fold_same_ops) (auto simp: reward_usd_step_def SetOperatorRewardUSDValue_def same_ops_def split: prod.split sum.split)
  moreover have "same_ops os (RemoveAllStaleOperatorRewardUSDs avs operator ks os)" for os ks
    by (simp add: RemoveAllStaleOperatorRewardUSDs_def same_ops_def)
  ultimately have "same_ops os (fold (reward_usd_step avs operator) rs os)"
      "same_ops os (RemoveAllStaleOperatorRewardUSDs avs operator ks os)"
      "same_ops os (RemoveAllStaleOperatorRewardUSDs avs operator ks (fold (reward_usd_step avs operator) rs os))" for os rs ks
    using same_ops_trans by blast+
  then show ?thesis
    using assms
    by (auto simp: UpdateAllRewardsUSDForOperator_def Let_def split: sum.splits prod.splits option.splits if_splits)
qed

lemma update_power_frame:
  assumes "update_power_op C D E avs i l m operator v a = (a', r)"
  shows "power_frame (snd a) (snd a')"
  using assms
  by (cases a) (auto simp: update_power_op_def Let_def rewards_frame split: if_splits sum.splits prod.splits)

lemma usd_loop_frame:
  assumes step: "\<And>operator v a a' r. f operator v a = (a', r) \<Longrightarrow> power_frame (snd a) (snd a')"
    and "usd_loop f es a = (a', r)"
  shows "power_frame (snd a) (snd a')"
  using assms(2)
proof (induction es arbitrary: a r)
  case (Cons e es)
  obtain key v where e: "e = (key, v)" by fastforce
  show ?case
  proof (cases "ParseJoinedKeyWithCount key 2")
    case (Inl x)
    then show ?thesis using Cons.prems e by simp
  next
    case (Inr ks)
    obtain a1 r1 where F: "f (ks ! 1) v a = (a1, r1)" by fastforce
    obtain a2 us where U: "usd_loop f es a1 = (a2, us)" by fastforce
    have "a' = a1 \<or> a' = a2" using Cons.prems Inr F U by (auto simp: e split: sum.splits)
    then show ?thesis using step [OF F] Cons.IH [of a1 us] U power_frame_trans by blast
  qed
qed simp

lemma write_power_same_ops:
  assumes "write_power C ctx avs i n b acc us os = Inr os'"
  shows "same_ops os os'"
proof -
  have del: "same_ops os os1" if "DeleteOperatorUSDValues avs l os = Inr os1" for l os os1
    using that [unfolded DeleteOperatorUSDValues_def]
    by (rule rfold_invariant [where I = "same_ops os"]) (auto simp: same_ops_def split: if_splits)
  from assms obtain os1 os2 c h where W: "DeleteOperatorUSDValues avs (pa_deletedOperators acc) (set_usd_values us os) = Inr os1"
      "SetAVSUSDValue avs (Some (pa_avsVotingPower acc)) os1 = Inr os2"
    and L: "(let last = (if c then BlockHeight ctx else h); os4 = SetSnapshotHelper avs last (DeleteAllAVSAssetsPerEpoch os2) in
      if c \<or> pa_hasOptedOperator acc
      then SetVotingPowerSnapshot (KeyForVotingPowerSnapshot C (hexToAddress C avs) (BlockHeight ctx))
        \<lparr>vs_TotalVotingPower = (if c then pa_avsVotingPower acc else 0),
         vs_OperatorVotingPowers = (if c then pa_votingPowerSet acc else []), vs_LastChangedHeight = last,
         vs_EpochIdentifier = i, vs_EpochNumber = (if b then n else n + 1)\<rparr> os4 else os4) = os'"
    unfolding write_power_def Let_def by (elim rbindE) (force dest: sum.inject(2) [THEN iffD1])
  have "same_ops os2 os'"
    unfolding L [symmetric] by (simp add: Let_def SetVotingPowerSnapshot_def SetSnapshotHelper_def DeleteAllAVSAssetsPerEpoch_def same_ops_def)
  moreover have "same_ops os1 os2" using W(2) by (auto simp: SetAVSUSDValue_def same_ops_def)
  moreover have "same_ops os (set_usd_values us os)" by (simp add: set_usd_values_def same_ops_def)
  ultimately show ?thesis using del [OF W(1)] same_ops_trans by blast
qed

lemma UpdateVotingPower_frame:
  assumes "UpdateVotingPower C D E ctx avs i n b s = (s', r)"
  shows "power_frame s s'"
proof -
  have loop: "power_frame s s1"
    if "IterateOperatorUSDValuesForAVS (opr_of s) avs True (update_power_op C D E avs i l m) (no_power, s) = ((acc, s1), us)" for l m acc s1 us
  proof -
    let ?es = "kv_iterate (IterateOperatorsForAVSPrefix (to_lower avs)) (operatorUSDValues (opr_of s))"
    obtain a us' where U: "usd_loop (update_power_op C D E avs i l m) ?es (no_power, s) = (a, us')" by fastforce
    with that have "a = (acc, s1)" by (simp add: IterateOperatorUSDValuesForAVS_def)
    then show ?thesis using usd_loop_frame [OF update_power_frame U] by simp
  qed
  have written: "power_frame s (set_opr os s1)"
    if "power_frame s s1" "write_power C ctx avs i n b acc us (opr_of s1) = Inr os" for s1 acc us os
    using that write_power_same_ops power_frame_trans by blast
  show ?thesis
    using assms
    by (auto simp: UpdateVotingPower_def split: sum.splits prod.splits dest!: loop intro: written)
qed

lemma OperatorAfterEpochEnd_frame: "power_frame s (OperatorAfterEpochEnd C D E ctx i n s)"
proof -
  have clear: "same_ops os os'" if "ClearVotingPowerSnapshot C es av avs os = Inr os'" for es av avs os os'
    using that by (auto simp: ClearVotingPowerSnapshot_def RemoveVotingPowerSnapshot_def Let_def same_ops_def split: sum.splits if_splits)
  have "power_frame s (case UpdateVotingPower C D E ctx avs i n False s of (s', Inl _) \<Rightarrow> s' | (s', Inr _) \<Rightarrow>
      (case ClearVotingPowerSnapshot C (epochs s') (avs_of s') avs (opr_of s') of Inl _ \<Rightarrow> s' | Inr os \<Rightarrow> set_opr os s'))" for avs s
    using UpdateVotingPower_frame [of C D E ctx avs i n False s] clear power_frame_trans
    by (auto split: prod.split sum.split) blast
  then show ?thesis
    unfolding OperatorAfterEpochEnd_def Let_def by (intro power_frame_trans [OF all_asset_usd_frame fold_power_frame])
qed

end
