(* ===== verification/KeyLifecycle.thy ===== *)
theory KeyLifecycle
  imports KeyMessages VotingPowerFrame
begin

text \<open>
  The invariant on consensus keys is kept at the end of an epoch, where what is due becomes pending, and at the
  end of a block, where operators that leave lose their key and old consensus addresses are forgotten.
\<close>

section \<open>The end of an epoch\<close>

lemma fold_finish_epochs:
  "consAddrsToPrune (fold DeleteOperatorOptOutFinishEpoch l fs) = consAddrsToPrune fs"
  "optOutsToFinish (fold DeleteOperatorOptOutFinishEpoch l fs) = optOutsToFinish fs"
  "pendingConsAddrs (fold DeleteOperatorOptOutFinishEpoch l fs) = pendingConsAddrs fs"
  "pendingOptOuts (fold DeleteOperatorOptOutFinishEpoch l fs) = pendingOptOuts fs"
  "updateValidatorSet (fold DeleteOperatorOptOutFinishEpoch l fs) = updateValidatorSet fs"
  "dogfoodParams (fold DeleteOperatorOptOutFinishEpoch l fs) = dogfoodParams fs"
  by (induction l arbitrary: fs) (auto simp: DeleteOperatorOptOutFinishEpoch_def)

lemma epoch_end_queues:
  assumes "DogfoodAfterEpochEnd C i n fs = Inr fs'" "i = GetEpochIdentifier fs"
  obtains e where "epoch_key C n = Inr e"
    and "prune_batch fs' = (prune_batch fs)(None := prune_batch fs (Some e), Some e := [])"
    and "leave_batch fs' = (leave_batch fs)(None := leave_batch fs (Some e), Some e := [])"
    and "updateValidatorSet fs'"
proof -
  from assms(1) obtain e where e: "epoch_key C n = Inr e"
    by (auto simp: DogfoodAfterEpochEnd_def assms(2) GetOptOutsToFinish_def Let_def rbind_eq_Inr_iff)
  with assms show ?thesis
    by (intro that [OF e])
      (auto simp: DogfoodAfterEpochEnd_def GetOptOutsToFinish_def ClearOptOutsToFinish_def GetConsensusAddrsToPrune_def
        ClearConsensusAddrsToPrune_def SetPendingOptOuts_def SetPendingConsensusAddrs_def MarkUpdateValidatorSetFlag_def
        fold_finish_epochs prune_batch_def leave_batch_def GetPendingConsensusAddrs_def GetPendingOptOuts_def Let_def fun_eq_iff
        split: option.split)
qed

lemma core_due:
  assumes I: "key_core C c os fs"
    and P: "prune_batch fs' = (prune_batch fs)(None := prune_batch fs (Some e), Some e := [])"
    and L: "leave_batch fs' = (leave_batch fs)(None := leave_batch fs (Some e), Some e := [])"
  shows "key_core C c os fs'"
proof (rule key_coreI, goal_cases)
  case (3 b x)
  then show ?case using core_queued [OF I, of x] by (auto simp: P split: if_splits)
next
  case (4 b a k)
  then show ?case using core_leaves [OF I, of a k] by (auto simp: P L split: if_splits)
next
  case (5 b)
  then show ?case using core_distinct [OF I] by (simp add: P)
next
  case (6 b b' x)
  then show ?case using core_once [OF I, of x] by (fastforce simp: P split: if_splits)
next
  case (7 b a)
  then show ?case using core_leave [OF I, of a] by (auto simp: P L split: if_splits)
next
  case (8 b)
  then show ?case using core_distinct_leave [OF I] by (simp add: L)
qed (simp_all add: core_chain [OF I] core_owner [OF I])

lemma epoch_end_ok:
  assumes "DogfoodAfterEpochEnd C i n (dog_of s) = Inr fs" and I: "chain_ok C c s"
  shows "chain_ok C c (set_dog fs s)"
proof (cases "i = GetEpochIdentifier (dog_of s)")
  case True
  obtain e where "prune_batch fs = (prune_batch (dog_of s))(None := prune_batch (dog_of s) (Some e), Some e := [])"
    "leave_batch fs = (leave_batch (dog_of s))(None := leave_batch (dog_of s) (Some e), Some e := [])"
    using epoch_end_queues [OF assms(1) True] by metis
  then have "key_core C c (opr_of s) fs" by (rule core_due [OF chain_okD(2) [OF I]])
  then show ?thesis using chain_okD [OF I] by (intro chain_okI) auto
next
  case False
  then show ?thesis
    using assms(1) by (intro chain_ok_frame [OF I]) (auto simp: DogfoodAfterEpochEnd_def)
qed

section \<open>The end of a block\<close>

lemma kv_has_del [simp]: "kv_has (kv_delete k s) x \<longleftrightarrow> x \<noteq> k \<and> kv_has s x"
  by (auto simp: kv_has_iff kv_get_delete split: if_splits)

text \<open>The operators \<open>L\<close> have left the chain and the consensus addresses \<open>X\<close> are forgotten; nothing else has changed.\<close>

definition finished :: "codec \<Rightarrow> string \<Rightarrow> bytes set \<Rightarrow> bytes set \<Rightarrow> operator_state \<Rightarrow> operator_state \<Rightarrow> bool" where
  "finished C c L X os os' \<longleftrightarrow>
     (\<forall>a. acc a \<longrightarrow> key_of C c os' a = (if a \<in> L then None else key_of C c os a)) \<and>
     (\<forall>a. acc a \<longrightarrow> chain_key_of C c os' a = (if a \<in> L then None else chain_key_of C c os a)) \<and>
     (\<forall>x. owner_of C c os' x = (if x \<in> X then None else owner_of C c os x)) \<and>
     (\<forall>a. acc a \<longrightarrow> leaving C c os' a = (a \<notin> L \<and> leaving C c os a)) \<and>
     opted C c os' = opted C c os \<and> IsOperator os' = IsOperator os"

lemma finishedD:
  assumes "finished C c L X os os'"
  shows "acc a \<Longrightarrow> key_of C c os' a = (if a \<in> L then None else key_of C c os a)"
    and "acc a \<Longrightarrow> chain_key_of C c os' a = (if a \<in> L then None else chain_key_of C c os a)"
    and "owner_of C c os' x = (if x \<in> X then None else owner_of C c os x)"
    and "acc a \<Longrightarrow> leaving C c os' a = (a \<notin> L \<and> leaving C c os a)"
    and "opted C c os' = opted C c os" "IsOperator os' = IsOperator os"
  using assms unfolding finished_def by blast+

lemma finished_trans:
  assumes "finished C c L X os os1" "finished C c L' X' os1 os2"
  shows "finished C c (L \<union> L') (X \<union> X') os os2"
  unfolding finished_def using finishedD [OF assms(1)] finishedD [OF assms(2)] by auto

lemma finished_refl: "finished C c {} {} os os"
  by (simp add: finished_def)

lemma clear_prev_finished: "finished C c {} {} os (ClearPreviousConsensusKeys C d os)"
  by (auto simp: finished_def fun_eq_iff view_defs ClearPreviousConsensusKeys_def getOperatorConsKeyForChainID_def
      IsOperatorRemovingKeyFromChainID_def IsOptedIn_def GetOptedInfo_def IsOperator_def)

definition keys_at :: "codec \<Rightarrow> string \<Rightarrow> operator_state \<Rightarrow> bytes set \<Rightarrow> bytes set" where
  "keys_at C c os L = {toConsAddr C k |a k. a \<in> L \<and> key_of C c os a = Some k}"

context chain_codec
begin

lemma complete_step:
  assumes a: "acc a" "IsOperator os a" "leaving C c os a" "key_of C c os a = Some k"
    and c: "length c < 2 ^ 64" "fst (IsAVSByChainID C av c)"
  shows "\<exists>os'. CompleteOperatorKeyRemovalForChainID C av a c os = Inr os' \<and> finished C c {a} {toConsAddr C k} os os'"
proof -
  let ?os = "os\<lparr>consAddrs := kv_delete (KeyForChainIDAndConsKeyToOperator C c (toConsAddr C k)) (consAddrs os),
      consKeys := kv_delete (KeyForOperatorAndChainIDToConsKey C a c) (consKeys os),
      chainConsKeys := kv_delete (KeyForChainIDAndOperatorToConsKey C c a) (chainConsKeys os),
      keyRemovals := kv_delete (KeyForOperatorKeyRemovalForChainID C a c) (keyRemovals os)\<rparr>"
  have "CompleteOperatorKeyRemovalForChainID C av a c os = Inr ?os"
    using a c by (simp add: CompleteOperatorKeyRemovalForChainID_def key_of_def leaving_def)
  moreover have "finished C c {a} {toConsAddr C k} os ?os"
    using a(1) c(1) by (auto simp: finished_def fun_eq_iff view_defs getOperatorConsKeyForChainID_def cons_key_defs addr_key_inj
        chain_key_inj len_key_inj IsOperatorRemovingKeyFromChainID_def IsOptedIn_def GetOptedInfo_def IsOperator_def)
  ultimately show ?thesis by blast
qed

lemma opt_outs_complete:
  assumes "\<And>a. a \<in> set l \<Longrightarrow> acc a \<and> IsOperator os a \<and> leaving C c os a \<and> key_of C c os a \<noteq> None" "distinct l"
    and c: "length c < 2 ^ 64" "fst (IsAVSByChainID C av c)"
  shows "\<exists>os'. fold (opt_out_step C av c) l (os, f) = (os', f) \<and> finished C c (set l) (keys_at C c os (set l)) os os'"
  using assms(1,2)
proof (induction l arbitrary: os)
  case Nil
  then show ?case by (simp add: keys_at_def finished_refl)
next
  case (Cons a l)
  from Cons.prems obtain k where a: "acc a" "IsOperator os a" "leaving C c os a" and k: "key_of C c os a = Some k" by auto
  obtain os1 where os1: "CompleteOperatorKeyRemovalForChainID C av a c os = Inr os1"
    and F: "finished C c {a} {toConsAddr C k} os os1" using complete_step [OF a k c] by blast
  note V = finishedD [OF F]
  have pre: "acc b \<and> IsOperator os1 b \<and> leaving C c os1 b \<and> key_of C c os1 b \<noteq> None \<and> key_of C c os1 b = key_of C c os b"
    if "b \<in> set l" for b using Cons.prems that by (auto simp: V)
  obtain os' where E: "fold (opt_out_step C av c) l (os1, f) = (os', f)"
    and G: "finished C c (set l) (keys_at C c os1 (set l)) os1 os'" using Cons.IH [of os1] pre Cons.prems(2) by (metis distinct.simps(2))
  have "keys_at C c os (set (a # l)) = {toConsAddr C k} \<union> keys_at C c os1 (set l)"
    using pre k by (fastforce simp: keys_at_def)
  then have "finished C c (set (a # l)) (keys_at C c os (set (a # l))) os os'"
    using finished_trans [OF F G] by simp
  moreover have "opt_out_step C av c a (os, f) = (os1, f)" by (simp add: opt_out_step_def os1)
  ultimately show ?case using E by auto
qed

end

definition removal_hook_ok :: "'x node_env \<Rightarrow> bool" where
  "removal_hook_ok E \<longleftrightarrow> (\<forall>x s. \<exists>y. ne_AfterValidatorRemoved E x s = Inr y)"

context chain_codec
begin

lemma delete_owner_finished:
  assumes "length c < 2 ^ 64"
  shows "finished C c {} {x} os (DeleteOperatorAddressForChainIDAndConsAddr C c x os)"
  using assms by (auto simp: finished_def fun_eq_iff view_defs DeleteOperatorAddressForChainIDAndConsAddr_def cons_key_defs len_key_inj
      getOperatorConsKeyForChainID_def IsOperatorRemovingKeyFromChainID_def IsOptedIn_def GetOptedInfo_def IsOperator_def)

lemma prune_all:
  assumes H: "removal_hook_ok E" and c: "length c < 2 ^ 64"
  shows "\<exists>s'. fold (prune_step C E c) l (s, f) = (s', f) \<and> dog_of s' = dog_of s \<and> avs_of s' = avs_of s \<and> epochs s' = epochs s
    \<and> finished C c {} (set l) (opr_of s) (opr_of s')"
proof (induction l arbitrary: s)
  case Nil
  then show ?case by (simp add: finished_refl)
next
  case (Cons x l)
  from H obtain y where "ne_AfterValidatorRemoved E x s = Inr y" by (auto simp: removal_hook_ok_def)
  then have "prune_step C E c x (s, f) = (set_rest (ne_ResetValidatorSigningInfo E x (ne_ClearValidatorMissedBlockBitArray E x y))
      (set_opr (DeleteOperatorAddressForChainIDAndConsAddr C c x (opr_of s)) s), f)" (is "_ = (?s, f)")
    by (simp add: prune_step_def)
  moreover obtain s' where "fold (prune_step C E c) l (?s, f) = (s', f)" "dog_of s' = dog_of s" "avs_of s' = avs_of s" "epochs s' = epochs s"
    and F: "finished C c {} (set l) (opr_of ?s) (opr_of s')" using Cons.IH [of ?s] by auto
  moreover have "finished C c {} (set (x # l)) (opr_of s) (opr_of s')"
    using finished_trans [OF delete_owner_finished [OF c] F [simplified]] by simp
  ultimately show ?case by auto
qed

text \<open>What is pending is finished: the invariant holds again, and nothing is pending.\<close>

lemma finish_pending_core:
  assumes I: "key_core C c os fs"
    and P: "prune_batch fs' = (prune_batch fs)(None := [])" and L: "leave_batch fs' = (leave_batch fs)(None := [])"
    and F: "finished C c (set (leave_batch fs None)) (set (prune_batch fs None)) os os'"
  shows "key_core C c os' fs'"
proof -
  note V = finishedD [OF F]
  have other: "a \<notin> set (leave_batch fs None)" if "a \<in> set (leave_batch fs b)" "b \<noteq> None" for a b
  proof
    assume "a \<in> set (leave_batch fs None)"
    with core_leave [OF I that(1)] core_leave [OF I, of a None] obtain k
      where "toConsAddr C k \<in> set (prune_batch fs b)" "toConsAddr C k \<in> set (prune_batch fs None)" by force
    with core_once [OF I] that(2) show False by blast
  qed
  show ?thesis
  proof (rule key_coreI, goal_cases)
    case (1 a)
    then show ?case using core_chain [OF I] by (simp add: V)
  next
    case (2 a k)
    then show ?case using core_owner [OF I, of a k] core_leaves [OF I, of a k None] by (auto simp: V split: if_splits)
  next
    case (3 b x)
    then show ?case using core_queued [OF I, of x b] core_once [OF I, of x b None] by (auto simp: P V split: if_splits)
  next
    case (4 b a k)
    then show ?case using core_leaves [OF I, of a k b] by (auto simp: P L V split: if_splits)
  next
    case (5 b)
    then show ?case using core_distinct [OF I] by (simp add: P)
  next
    case (6 b b' x)
    then show ?case using core_once [OF I, of x b b'] by (auto simp: P split: if_splits)
  next
    case (7 b a)
    then have "a \<in> set (leave_batch fs b)" "b \<noteq> None" by (auto simp: L split: if_splits)
    with other [OF this] show ?case using core_leave [OF I, of a b] by (auto simp: P V)
  next
    case (8 b)
    then show ?case using core_distinct_leave [OF I] by (simp add: L)
  qed
qed

lemma finish_pending_ok:
  assumes I: "chain_ok C c s" and c: "c = chain_id C E" and H: "removal_hook_ok E"
  obtains s' where "finish_pending C E n s = Inr s'" "chain_ok C c s'"
    "dog_of s' = ClearPendingConsensusAddrs (ClearPendingOptOuts (dog_of s))" "avs_of s' = avs_of s"
    "finished C c (set (GetPendingOptOuts (dog_of s))) (set (GetPendingConsensusAddrs (dog_of s))) (opr_of s) (opr_of s')"
proof -
  note D = chain_okD [OF I] and av = avs_ok_chain [OF chain_okD(3) [OF I]]
  let ?l = "GetPendingOptOuts (dog_of s)" let ?p = "GetPendingConsensusAddrs (dog_of s)"
  have batch: "leave_batch (dog_of s) None = ?l" "prune_batch (dog_of s) None = ?p"
    by (simp_all add: leave_batch_def prune_batch_def)
  have pre: "acc a \<and> IsOperator (opr_of s) a \<and> leaving C c (opr_of s) a \<and> key_of C c (opr_of s) a \<noteq> None" if "a \<in> set ?l" for a
    using core_leave [OF D(2), of a None] that by (auto simp: batch)
  have P: "acc a \<Longrightarrow> key_of C c (ClearPreviousConsensusKeys C c (opr_of s)) a = key_of C c (opr_of s) a"
    "acc a \<Longrightarrow> leaving C c (ClearPreviousConsensusKeys C c (opr_of s)) a = leaving C c (opr_of s) a"
    "IsOperator (ClearPreviousConsensusKeys C c (opr_of s)) = IsOperator (opr_of s)" for a
    using finishedD [OF clear_prev_finished] by auto
  obtain os1 where F: "fold (opt_out_step C (avs_of s) c) ?l (ClearPreviousConsensusKeys C c (opr_of s), []) = (os1, [])"
    and F': "finished C c (set ?l) (keys_at C c (ClearPreviousConsensusKeys C c (opr_of s)) (set ?l)) (ClearPreviousConsensusKeys C c (opr_of s)) os1"
    using opt_outs_complete [of ?l "ClearPreviousConsensusKeys C c (opr_of s)" c "avs_of s" "[]"] pre av(1,2)
      core_distinct_leave [OF D(2), of None] by (auto simp: batch P)
  let ?s1 = "set_dog (ClearPendingOptOuts (dog_of s)) (set_opr os1 s)"
  obtain s2 where G: "fold (prune_step C E c) ?p (?s1, []) = (s2, [])" "dog_of s2 = ClearPendingOptOuts (dog_of s)" "avs_of s2 = avs_of s"
    and G': "finished C c {} (set ?p) os1 (opr_of s2)"
    using prune_all [OF H av(2), of ?p ?s1 "[]"] by auto
  have p: "GetPendingConsensusAddrs (ClearPendingOptOuts (dog_of s)) = ?p"
    by (simp add: GetPendingConsensusAddrs_def ClearPendingOptOuts_def)
  define s' where s': "s' = set_dog (ClearPendingConsensusAddrs (ClearPendingOptOuts (dog_of s))) s2"
  have S: "finish_pending C E n s = Inr s'"
    using F G by (simp add: finish_pending_def Let_def c [symmetric] p s')
  have "keys_at C c (ClearPreviousConsensusKeys C c (opr_of s)) (set ?l) \<subseteq> set ?p"
  proof -
    have "toConsAddr C k \<in> set ?p" if "a \<in> set ?l" "key_of C c (ClearPreviousConsensusKeys C c (opr_of s)) a = Some k" for a k
      using core_leave [OF D(2), of a None] that P(1) [of a] by (auto simp: batch)
    then show ?thesis by (auto simp: keys_at_def)
  qed
  then have F2: "finished C c (set ?l) (set ?p) (opr_of s) (opr_of s2)"
    using finished_trans [OF finished_trans [OF clear_prev_finished F'] G'] by (simp add: Un_absorb1)
  note V = finishedD [OF F2]
  have Q: "prune_batch (dog_of s') = (prune_batch (dog_of s))(None := [])" "leave_batch (dog_of s') = (leave_batch (dog_of s))(None := [])"
    by (auto simp: s' fun_eq_iff prune_batch_def leave_batch_def ClearPendingConsensusAddrs_def ClearPendingOptOuts_def
        GetPendingConsensusAddrs_def GetPendingOptOuts_def split: option.split)
  have "key_core C c (opr_of s2) (dog_of s')"
    by (rule finish_pending_core [OF D(2) Q]) (simp add: batch F2)
  then have "chain_ok C c s'"
  proof (intro chain_okI)
    show "avs_ok C c (avs_of s')" using D(3) by (simp add: s' G(3))
    fix a assume a: "acc a" "opted C c (opr_of s') a"
    then have "\<not> leaving C c (opr_of s) a" "key_of C c (opr_of s) a \<noteq> None" using D(4,5) [of a] by (simp_all add: s' V(5))
    moreover have "a \<notin> set ?l" using calculation pre by blast
    ultimately show "\<not> leaving C c (opr_of s') a \<and> key_of C c (opr_of s') a \<noteq> None" using a(1) by (simp add: s' V(1,4))
  qed (simp add: s')
  then show ?thesis using S G(3) F2 by (intro that [of s']) (simp_all add: s')
qed

end

end
