(* ===== verification/NodeSteps.thy ===== *)
theory NodeSteps
  imports KeyLifecycle
begin

text \<open>
  The steps of a node that touch consensus keys, \<^verbatim>\<open>node_step\<close>: the messages of operators, jailing, the ends of
  epochs and of blocks. Each keeps the invariant \<^verbatim>\<open>chain_ok\<close> of the keys, so every run from a node without keys does.
\<close>


section \<open>The validator set changes no key\<close>

lemma apply_changes_frame:
  "opr_of (fst (fold (apply_change C E) cs a)) = opr_of (fst a) \<and> avs_of (fst (fold (apply_change C E) cs a)) = avs_of (fst a) \<and>
   epochs (fst (fold (apply_change C E) cs a)) = epochs (fst a) \<and>
   same_queues (dog_of (fst a)) (dog_of (fst (fold (apply_change C E) cs a)))"
proof (induction cs arbitrary: a)
  case (Cons c cs)
  have "opr_of (fst (apply_change C E c a)) = opr_of (fst a) \<and> avs_of (fst (apply_change C E c a)) = avs_of (fst a) \<and>
    epochs (fst (apply_change C E c a)) = epochs (fst a) \<and> same_queues (dog_of (fst a)) (dog_of (fst (apply_change C E c a)))"
    by (cases c; cases a) (auto simp: apply_change_def Let_def DeleteImuachainValidator_def SetImuachainValidator_def same_queues_def
        split: option.split sum.split)
  with Cons [of "apply_change C E c a"] show ?case by (auto simp: same_queues_def)
qed simp

lemma update_validators_frame:
  assumes "update_validators C D E s = Inr (s', us)"
  shows "opr_of s' = opr_of s" "avs_of s' = avs_of s" "same_queues (dog_of s) (dog_of s')"
proof -
  have "ApplyValidatorChanges C E cs t = (t', vs) \<Longrightarrow>
      opr_of t' = opr_of t \<and> avs_of t' = avs_of t \<and> same_queues (dog_of t) (dog_of t')" for cs t t' vs
    using apply_changes_frame [of C E cs "(t, [])"]
    by (auto simp: ApplyValidatorChanges_def Let_def SetValidatorUpdates_def same_queues_def split: prod.splits)
  moreover have "s' = s \<or> (\<exists>cs p t. (t = s \<or> t = set_dog (SetLastTotalPower p (dog_of s)) s) \<and> ApplyValidatorChanges C E cs t = (s', us))"
  proof -
    from assms obtain active where A: "GetActiveOperatorsForChainID C (avs_of s) (opr_of s) (chain_id C E) = Inr active"
      by (auto simp: update_validators_def Let_def)
    show ?thesis
    proof (cases "GetVotePowerForChainID C D (epochs s) (avs_of s) (opr_of s) (map fst active) (chain_id C E)")
      case (Inl e)
      then show ?thesis using assms A by (cases e) (simp_all add: update_validators_def Let_def)
    next
      case (Inr powers)
      obtain l r p where "select_validators C (unat (GetMaxValidators (dog_of s)))
          (SortByPower (map (\<lambda>((operator, key), pw). (operator, key, pw)) (zip active powers)))
          (prev_map C (GetAllImuachainValidators (dog_of s)), [], 0) = (l, r, p)" using prod_cases3 by blast
      with assms A Inr show ?thesis by (simp add: update_validators_def Let_def split: if_splits) blast+
    qed
  qed
  ultimately have "opr_of s' = opr_of s \<and> avs_of s' = avs_of s \<and> same_queues (dog_of s) (dog_of s')"
    by (force simp: SetLastTotalPower_def same_queues_def)
  then show "opr_of s' = opr_of s" "avs_of s' = avs_of s" "same_queues (dog_of s) (dog_of s')" by blast+
qed

context chain_codec
begin

lemma end_block_ok:
  assumes S: "dogfood_EndBlock C D E s = Inr (s', us)" and I: "chain_ok C c s" and c: "c = chain_id C E" and H: "removal_hook_ok E"
  shows "chain_ok C c s'"
proof (cases "updateValidatorSet (dog_of s)")
  case False
  with S show ?thesis
    by (intro chain_ok_frame [OF I]) (auto simp: dogfood_EndBlock_def SetValidatorUpdates_def same_queues_def)
next
  case True
  with S obtain n s1 s2 where F: "finish_pending C E n s = Inr s1" and U: "update_validators C D E s1 = Inr (s2, us)"
    and s': "s' = set_dog (ClearValidatorSetUpdateFlag (dog_of s2)) s2"
    by (auto simp: dogfood_EndBlock_def rbind_eq_Inr_iff)
  have "chain_ok C c s1" by (rule finish_pending_ok [OF I c H, of n]) (use F in simp)
  then show ?thesis
    using update_validators_frame [OF U]
    by (elim chain_ok_frame) (auto simp: s' ClearValidatorSetUpdateFlag_def same_queues_def)
qed

end

section \<open>The node\<close>

definition keeps_keys :: "codec \<Rightarrow> string \<Rightarrow> 'x state \<Rightarrow> 'x state \<Rightarrow> bool" where
  "keeps_keys C c s s' \<longleftrightarrow>
     consKeys (opr_of s') = consKeys (opr_of s) \<and> chainConsKeys (opr_of s') = chainConsKeys (opr_of s) \<and>
     consAddrs (opr_of s') = consAddrs (opr_of s) \<and> keyRemovals (opr_of s') = keyRemovals (opr_of s) \<and>
     optedInfos (opr_of s') = optedInfos (opr_of s) \<and> (\<forall>a. IsOperator (opr_of s) a \<longrightarrow> IsOperator (opr_of s') a) \<and>
     same_queues (dog_of s) (dog_of s') \<and> (avs_ok C c (avs_of s) \<longrightarrow> avs_ok C c (avs_of s'))"

text \<open>
  The steps that touch consensus keys, in any order: messages of operators, the slashing module that jails and
  unjails, the callbacks at the end of an epoch, the end of a block, and anything else, which leaves the stores of
  the keys and the queues alone. Operators sign with addresses of twenty bytes and spell the address of the chain's
  AVS in one way.
\<close>

inductive node_step :: "codec \<Rightarrow> dec_ops \<Rightarrow> 'x node_env \<Rightarrow> 'x state \<Rightarrow> 'x state \<Rightarrow> bool" for C D E where
  register: "RegisterOperatorMsg C E ctx info s = Inr s' \<Longrightarrow> node_step C D E s s'"
| opt_in: "OptIntoAVS C D E (OperatorHooks C E ctx) ctx req s = Inr s' \<Longrightarrow> acc (acc_or_nil C (oq_FromAddress req)) \<Longrightarrow>
    canonical C (chain_id C E) (oq_AvsAddress req) \<Longrightarrow> node_step C D E s s'"
| opt_out: "OptOutOfAVS C (OperatorHooks C E ctx) ctx req' s = Inr s' \<Longrightarrow> acc (acc_or_nil C (xq_FromAddress req')) \<Longrightarrow>
    canonical C (chain_id C E) (xq_AvsAddress req') \<Longrightarrow> 0 \<le> BlockHeight ctx \<Longrightarrow> BlockHeight ctx < 2 ^ 63 \<Longrightarrow> node_step C D E s s'"
| set_key: "SetConsKey C E (OperatorHooks C E ctx) req'' s = Inr s' \<Longrightarrow> acc (acc_or_nil C (sq_Address req'')) \<Longrightarrow> node_step C D E s s'"
| jail: "Jail C (OperatorHooks C E ctx) ctx x d s = Inr s' \<Longrightarrow> node_step C D E s s'"
| unjail: "Unjail C (OperatorHooks C E ctx) ctx x d s = Inr s' \<Longrightarrow> node_step C D E s s'"
| operator_epoch: "node_step C D E s (OperatorAfterEpochEnd C D E ctx i n s)"
| dogfood_epoch: "DogfoodAfterEpochEnd C i n (dog_of s) = Inr fs \<Longrightarrow> node_step C D E s (set_dog fs s)"
| end_block: "dogfood_EndBlock C D E s = Inr (s', us) \<Longrightarrow> node_step C D E s s'"
| other: "keeps_keys C (chain_id C E) s s' \<Longrightarrow> node_step C D E s s'"

lemma power_frame_ok:
  assumes F: "power_frame s s'" and I: "chain_ok C c s"
  shows "chain_ok C c s'"
proof -
  have K: "same_keys (opr_of s) (opr_of s')" and O: "optedInfos (opr_of s') = optedInfos (opr_of s)"
    using power_frameD(1) [OF F] by (simp_all add: same_ops_def same_keys_def)
  show ?thesis
    by (rule chain_ok_frame [OF I K]) (simp_all add: power_frameD(2,3) [OF F] same_opted [OF O])
qed

lemma other_ok:
  assumes I: "chain_ok C c s" and K: "keeps_keys C c s s'"
  shows "chain_ok C c s'"
proof -
  from K have same: "consKeys (opr_of s') = consKeys (opr_of s)" "chainConsKeys (opr_of s') = chainConsKeys (opr_of s)"
      "consAddrs (opr_of s') = consAddrs (opr_of s)" "keyRemovals (opr_of s') = keyRemovals (opr_of s)"
      "optedInfos (opr_of s') = optedInfos (opr_of s)"
    and O: "\<And>a. IsOperator (opr_of s) a \<Longrightarrow> IsOperator (opr_of s') a"
    and Q: "same_queues (dog_of s) (dog_of s')" and A: "avs_ok C c (avs_of s')"
    using chain_okD(3) [OF I] by (simp_all add: keeps_keys_def)
  have V: "key_of C c (opr_of s') = key_of C c (opr_of s)" "chain_key_of C c (opr_of s') = chain_key_of C c (opr_of s)"
    "owner_of C c (opr_of s') = owner_of C c (opr_of s)" "leaving C c (opr_of s') = leaving C c (opr_of s)"
    using same by (simp_all add: fun_eq_iff view_defs getOperatorConsKeyForChainID_def IsOperatorRemovingKeyFromChainID_def)
  have "key_core C c (opr_of s') (dog_of s')"
    by (rule key_core_cong [OF _ _ _ _ _ _ _ chain_okD(2) [OF I]]) (simp_all add: V O same_batches [OF Q])
  then show ?thesis using A chain_okD(4,5) [OF I] same_opted [OF same(5)] by (intro chain_okI) (simp_all add: V)
qed

context chain_codec
begin

lemma node_step_ok:
  assumes "node_step C D E s s'" and I: "chain_ok C (chain_id C E) s" and "removal_hook_ok E"
  shows "chain_ok C (chain_id C E) s'"
  using assms(1)
proof cases
  case operator_epoch
  then show ?thesis using power_frame_ok [OF OperatorAfterEpochEnd_frame] assms(2) by simp
next
  case other
  then show ?thesis by (rule other_ok [OF I])
next
  case (register ctx info)
  show ?thesis by (rule register_ok [OF register I])
next
  case (opt_in ctx req)
  show ?thesis by (rule opt_in_ok [OF opt_in(1) I refl opt_in(2,3)])
next
  case (opt_out ctx req)
  show ?thesis by (rule opt_out_ok [OF opt_out(1) I refl opt_out(2-5)])
next
  case (set_key ctx req)
  show ?thesis by (rule set_cons_key_ok [OF set_key(1) I refl set_key(2)])
next
  case (jail ctx x d)
  show ?thesis by (rule jail_ok [OF jail [unfolded Jail_def] I])
next
  case (unjail ctx x d)
  show ?thesis by (rule jail_ok [OF unjail [unfolded Unjail_def] I])
next
  case (end_block us)
  show ?thesis by (rule end_block_ok [OF end_block I refl assms(3)])
next
  case (dogfood_epoch i n fs)
  show ?thesis unfolding dogfood_epoch(1) by (rule epoch_end_ok [OF dogfood_epoch(2) I])
qed

lemma node_reachable_ok:
  assumes "(node_step C D E)\<^sup>*\<^sup>* s s'" "chain_ok C (chain_id C E) s" "removal_hook_ok E"
  shows "chain_ok C (chain_id C E) s'"
  using assms by (induction) (auto intro: node_step_ok)

end

section \<open>Runs\<close>

text \<open>A node before any operator has a key: the stores of keys and the queues are empty.\<close>

definition no_keys :: "'x state \<Rightarrow> bool" where
  "no_keys s \<longleftrightarrow> consKeys (opr_of s) = [] \<and> chainConsKeys (opr_of s) = [] \<and> consAddrs (opr_of s) = [] \<and>
     keyRemovals (opr_of s) = [] \<and> optedInfos (opr_of s) = [] \<and> optOutsToFinish (dog_of s) = [] \<and>
     consAddrsToPrune (dog_of s) = [] \<and> pendingOptOuts (dog_of s) = None \<and> pendingConsAddrs (dog_of s) = None"

lemma no_keys_ok:
  assumes "no_keys s" "avs_ok C c (avs_of s)"
  shows "chain_ok C c s"
proof (rule chain_okI)
  have *: "prune_batch (dog_of s) b = []" "leave_batch (dog_of s) b = []" for b
    using assms(1) by (auto simp: no_keys_def prune_batch_def leave_batch_def GetPendingConsensusAddrs_def GetPendingOptOuts_def split: option.split)
  show "key_core C c (opr_of s) (dog_of s)"
    using assms(1) by (intro key_coreI) (simp_all add: * no_keys_def view_defs getOperatorConsKeyForChainID_def)
  show "\<not> leaving C c (opr_of s) a \<and> key_of C c (opr_of s) a \<noteq> None" if "opted C c (opr_of s) a" for a
    using that assms(1) by (simp add: no_keys_def opted_def IsOptedIn_def GetOptedInfo_def rbind_def of_option_def split: option.splits sum.splits)
qed fact

lemma node_run_ok:
  assumes "chain_codec C" "removal_hook_ok E" "no_keys s" "avs_ok C (chain_id C E) (avs_of s)" "(node_step C D E)\<^sup>*\<^sup>* s s'"
  shows "chain_ok C (chain_id C E) s'"
  using chain_codec.node_reachable_ok [OF assms(1,5) no_keys_ok [OF assms(3,4)] assms(2)] .

end
