(* ===== verification/NodeExample.thy ===== *)
theory NodeExample
  imports NodeSteps
begin

text \<open>A concrete node on which an operator opts in to the AVS of the chain and out of it, evaluated by the simplifier.\<close>


text \<open>A node with one AVS, that of the chain, and one registered operator.\<close>

definition ref_env :: "unit node_env" where
  "ref_env = \<lparr>ne_ChainID = ''imua'', ne_authority = ''gov'', ne_WrappedConsKeyFromJSON = (\<lambda>s. if s = [] then None else Some s),
     ne_EnsureLength = (\<lambda>d. length (de_Moniker d) \<le> 70), ne_UpdateDescription = (\<lambda>old new. Inr new),
     ne_CommissionValidate =
       (\<lambda>c. case (co_Rate c, co_MaxRate c) of (Some r, Some m) \<Rightarrow> 0 \<le> r \<and> r \<le> m | _ \<Rightarrow> False), ne_PubKeyString = (\<lambda>k. k),
     ne_NewHistoricalInfo = (\<lambda>ctx vs. \<lparr>hi_Header = ctx, hi_Valset = vs\<rparr>),
     ne_GetSpecifiedAssetsPrice = (\<lambda>_ _. (\<lparr>pr_Value = 1, pr_Decimal = 0\<rparr>, None)),
     ne_GetMultipleAssetsPrices = (\<lambda>_ _. (\<lambda>_. Some \<lparr>pr_Value = 1, pr_Decimal = 0\<rparr>, None)),
     ne_RewardsUSDValues = (\<lambda>_ _ _. ([], None)), ne_IsAVSAllRewardsClaimed = (\<lambda>_ _. True),
     ne_AfterValidatorCreated = (\<lambda>_ _. Inr ()), ne_AfterValidatorRemoved = (\<lambda>_ _. Inr ()),
     ne_AfterValidatorBonded = (\<lambda>_ _. Inr ()), ne_IsTombstoned = (\<lambda>_ _. False),
     ne_GetValidatorSigningInfo = (\<lambda>_ _. None), ne_SetValidatorSigningInfo = (\<lambda>_ _ x. x),
     ne_SetValidatorMissedBlockBitArray = (\<lambda>_ _ _ x. x), ne_DoubleSignJailEndTime = 0, ne_DowntimeJailDuration = (\<lambda>_. 0),
     ne_ClearValidatorMissedBlockBitArray = (\<lambda>_ x. x), ne_ResetValidatorSigningInfo = (\<lambda>_ x. x),
     ne_SetAccount = (\<lambda>_ x. Inr x)\<rparr>"

definition ex_operator :: bytes where
  "ex_operator = replicate 20 CHR ''o''"

definition ex_avs_address :: string where
  "ex_avs_address = GenerateAVSAddress ref_codec ''imua''"

definition ex_avs :: AVSInfo where
  "ex_avs = \<lparr>avs_Name = ''imua'', avs_AvsAddress = ex_avs_address, avs_MinStakeAmount = 0, avs_TaskAddress = [], avs_SlashAddress = [],
     avs_RewardAddress = [], avs_AvsOwnerAddresses = [], avs_AssetIDs = [], avs_AvsUnbondingPeriod = 7, avs_MinSelfDelegation = 0,
     avs_EpochIdentifier = ''day'', avs_MinOptInOperators = 0, avs_MinTotalStakeAmount = 0, avs_StartingEpoch = 1, avs_ChainId = [],
     avs_AvsReward = 0, avs_AvsSlash = 0, avs_WhitelistAddresses = []\<rparr>"

definition ex_info :: OperatorInfo where
  "ex_info = \<lparr>oi_OperatorAddr = accAddressString ref_codec ex_operator,
     oi_Description = \<lparr>de_Moniker = ''one'', de_Identity = [], de_Website = [], de_SecurityContact = [], de_Details = []\<rparr>,
     oi_ClientChainEarningsAddr = None,
     oi_Commission = \<lparr>co_Rate = Some 0, co_MaxRate = Some 0, co_MaxChangeRate = Some 0, co_UpdateTime = 0\<rparr>,
     oi_DisableCompoundRewards = False\<rparr>"

definition ex_node :: "unit state" where
  "ex_node = \<lparr>assets = \<lparr>clientChainInfos = [], stakingAssetInfos = [], stakerAssetInfos = [], operatorAssetInfos = [], assetsParams = None\<rparr>,
     epochs = [(''day'', \<lparr>ei_Identifier = ''day'', ei_StartTime = 0, ei_Duration = 86400, ei_CurrentEpoch = 3,
        ei_CurrentEpochStartTime = 0, ei_EpochCountingStarted = True, ei_CurrentEpochStartHeight = 5\<rparr>)],
     dlg = \<lparr>delegations = [], stakersByOperator = [], undelegations = [], stakerUndelegations = [],
        pendingUndelegations = [], undelegationsOnHold = [], associatedOperators = [],
        lastUndelegationID = None, delegationParams = None\<rparr>,
     world = \<lparr>avst = \<lparr>avsInfos = [(hexToAddress ref_codec ex_avs_address, ex_avs)],
          avsChainIDs = [(hexToAddress ref_codec ex_avs_address, ''imua'')]\<rparr>,
        opr = \<lparr>operatorInfos = [(ex_operator, ex_info)], optedInfos = [], avsUSDValues = [], operatorUSDValues = [], consKeys = [],
          prevConsKeys = [], chainConsKeys = [], consAddrs = [], keyRemovals = [], votingPowerSnapshots = [], snapshotHelpers = [],
          operatorAssetUSDValues = [], avsAssetsPerEpoch = [], rewardsUSDValues = [], operatorParams = None, frozenOperators = []\<rparr>,
        dogf = \<lparr>valSet = [], optOutsToFinish = [], optOutFinishEpochs = [], consAddrsToPrune = [], pendingOptOuts = None,
          pendingConsAddrs = None, updateValidatorSet = False, historicalInfos = [], lastTotalPower = None, validatorUpdates = None,
          dogfoodParams = Some \<lparr>fp_EpochsUntilUnbonded = 2, fp_EpochIdentifier = ''day'', fp_MaxValidators = 5,
            fp_HistoricalEntries = 10, fp_AssetIDs = [], fp_MinSelfDelegation = None\<rparr>, emitAvsEvent = False\<rparr>,
        rest = ()\<rparr>\<rparr>"

definition ex_key :: bytes where
  "ex_key = replicate 32 CHR ''k''"

definition ex_opt_in :: OptIntoAVSReq where
  "ex_opt_in = \<lparr>oq_FromAddress = accAddressString ref_codec ex_operator, oq_AvsAddress = ex_avs_address, oq_PublicKeyJSON = ex_key\<rparr>"

definition ex_ctx :: block_ctx where
  "ex_ctx = \<lparr>BlockTime = 100, BlockHeight = 7\<rparr>"

definition ex_joined :: "unit state" where
  "ex_joined = (case OptIntoAVS ref_codec legacy_dec ref_env (OperatorHooks ref_codec ref_env ex_ctx) ex_ctx ex_opt_in ex_node of
     Inl _ \<Rightarrow> ex_node | Inr s \<Rightarrow> s)"

lemma ex_operator_bech32 [simp]:
  "accAddressFromBech32 ref_codec (accAddressString ref_codec ex_operator) = Some ex_operator" "length ex_operator = AccAddressLength"
  "accAddressString ref_codec ex_operator \<noteq> []"
  using rc.acc_roundtrip [of ex_operator] rc.acc_nonempty [of ex_operator] by (simp_all add: ex_operator_def AccAddressLength_def)

lemma ex_chain_id [simp]: "chain_id ref_codec ref_env = ''imua''" "GenerateAVSAddress ref_codec ''imua'' = ex_avs_address"
  by (simp_all add: chain_id_def ChainIDWithoutRevision_def ref_codec_def ref_env_def ex_avs_address_def)

lemma ref_env_simps [simp]:
  "ne_WrappedConsKeyFromJSON ref_env s = (if s = [] then None else Some s)" "ne_AfterValidatorCreated ref_env x t = Inr ()"
  "ne_AfterValidatorRemoved ref_env x t = Inr ()" "ne_AfterValidatorBonded ref_env x t = Inr ()" "ne_IsTombstoned ref_env u x = False"
  "ne_UpdateDescription ref_env d d' = Inr d'"
  by (simp_all add: ref_env_def)

lemma ex_node_parts:
  "avsInfos (avs_of ex_node) = [(hexToAddress ref_codec ex_avs_address, ex_avs)]"
  "avsChainIDs (avs_of ex_node) = [(hexToAddress ref_codec ex_avs_address, ''imua'')]"
  "operatorInfos (opr_of ex_node) = [(ex_operator, ex_info)]" "optedInfos (opr_of ex_node) = []" "operatorUSDValues (opr_of ex_node) = []"
  "consKeys (opr_of ex_node) = []" "prevConsKeys (opr_of ex_node) = []" "chainConsKeys (opr_of ex_node) = []" "consAddrs (opr_of ex_node) = []"
  "keyRemovals (opr_of ex_node) = []" "frozenOperators (opr_of ex_node) = []"
  "operatorAssetInfos (assets ex_node) = []"
  by (simp_all add: ex_node_def avs_of_def opr_of_def)

lemma ex_dec: "newDec legacy_dec 0 = 0"
  by (simp add: legacy_dec_def)

lemmas ex_eval = kv_get_def kv_has_def Let_def of_option_def ex_node_parts

lemma ex_usd: "GetOrCalculateOperatorUSDValues ref_codec legacy_dec ref_env ex_node ex_operator ex_avs_address = Inr (0, 0, None)"
  by (simp add: GetOrCalculateOperatorUSDValues_def ex_eval IsOptedOutAndEffective_def GetOptedInfo_def GetAVSSupportedAssets_def GetAVSInfo_def
      ex_avs_def GetAssetsDecimal_def ref_env_def CalculateRealTimeOperatorUSDValue_def IterateAssetsForOperator_def kv_iterate_def
      OperatorTotalRewardsUSDValue_def IsCompoundRewardsDisabled_def OperatorInfoOf_def zero_staking_def ex_info_def)

lemma ex_opt_in_ok:
  "is_ok (OptIntoAVS ref_codec legacy_dec ref_env (OperatorHooks ref_codec ref_env ex_ctx) ex_ctx ex_opt_in ex_node)"
  by (simp add: OptIntoAVS_def ex_opt_in_def acc_or_nil_def GetChainIDByAVSAddr_def ex_eval OptInWithConsKey_def OptIn_def
      ex_usd IsOperator_def IsOperatorFrozen_def IsAVS_def IsWhitelisted_def GetAVSInfo_def ex_avs_def IsOptedIn_def GetOptedInfo_def IsJailed_def
      GetAVSMinimumSelfDelegation_def ex_dec InitOperatorUSDValue_def GetAVSSlashContract_def SetOptedInfo_def
      SetOperatorConsKeyForChainID_def setOperatorConsKeyForChainID_def IsOperatorRemovingKeyFromChainID_def ToConsAddr_def PubKeySize_def
      ex_key_def GetOperatorAddressForChainIDAndConsAddr_def getOperatorConsKeyForChainID_def IsAVSByChainID_def
      AfterOperatorKeySet_def afterValidatorCreated_def)


definition ex_opted :: OptedInfo where
  "ex_opted = \<lparr>op_SlashContract = [], op_OptedInHeight = 7, op_OptedOutHeight = DefaultOptedOutHeight, op_Jailed = False, op_JailToggleHeights = []\<rparr>"

lemma set_rest_unit [simp]: "set_rest () s = s"
  by (simp add: set_rest_def)

lemma ex_joined_eq:
  "ex_joined = set_opr (setOperatorConsKeyForChainIDUnchecked ref_codec ex_operator ''imua'' ex_key ((opr_of ex_node)
      \<lparr>operatorUSDValues := [(usd_key ex_avs_address (accAddressString ref_codec ex_operator), zero_usd)],
       optedInfos := [(opted_key (accAddressString ref_codec ex_operator) ex_avs_address, ex_opted)]\<rparr>)) ex_node"
  by (simp add: ex_joined_def OptIntoAVS_def ex_opt_in_def acc_or_nil_def GetChainIDByAVSAddr_def ex_eval OptInWithConsKey_def OptIn_def
      ex_usd IsOperator_def IsOperatorFrozen_def IsAVS_def IsWhitelisted_def GetAVSInfo_def ex_avs_def IsOptedIn_def GetOptedInfo_def IsJailed_def
      GetAVSMinimumSelfDelegation_def ex_dec InitOperatorUSDValue_def GetAVSSlashContract_def SetOptedInfo_def
      SetOperatorConsKeyForChainID_def setOperatorConsKeyForChainID_def IsOperatorRemovingKeyFromChainID_def ToConsAddr_def PubKeySize_def
      ex_key_def GetOperatorAddressForChainIDAndConsAddr_def getOperatorConsKeyForChainID_def IsAVSByChainID_def
      AfterOperatorKeySet_def afterValidatorCreated_def ex_opted_def ex_ctx_def)

definition ex_opt_out :: OptOutOfAVSReq where
  "ex_opt_out = \<lparr>xq_FromAddress = accAddressString ref_codec ex_operator, xq_AvsAddress = ex_avs_address\<rparr>"

definition ex_left :: "unit state" where
  "ex_left = (case OptOutOfAVS ref_codec (OperatorHooks ref_codec ref_env ex_ctx) ex_ctx ex_opt_out ex_joined of
     Inl _ \<Rightarrow> ex_joined | Inr s \<Rightarrow> s)"

lemma ex_joined_parts:
  "avs_of ex_joined = avs_of ex_node" "dog_of ex_joined = dog_of ex_node" "epochs ex_joined = epochs ex_node"
  "operatorInfos (opr_of ex_joined) = [(ex_operator, ex_info)]" "frozenOperators (opr_of ex_joined) = []" "keyRemovals (opr_of ex_joined) = []"
  "optedInfos (opr_of ex_joined) = [(opted_key (accAddressString ref_codec ex_operator) ex_avs_address, ex_opted)]"
  "consKeys (opr_of ex_joined) = [(KeyForOperatorAndChainIDToConsKey ref_codec ex_operator ''imua'', ex_key)]"
  by (simp_all add: ex_joined_eq setOperatorConsKeyForChainIDUnchecked_def ex_node_parts)

lemma ex_schedule:
  "\<exists>fs. ScheduleOperatorOptOut ref_codec (epochs ex_node) ex_operator x (dog_of ex_node) = Inr fs \<and>
     GetOptOutsToFinish ref_codec fs 5 = Inr [ex_operator] \<and> GetConsensusAddrsToPrune ref_codec fs 5 = Inr [x]"
  by (simp add: ScheduleOperatorOptOut_def GetUnbondingCompletionEpoch_def GetDogfoodParams_def GetEpochInfo_def ex_node_def dog_of_def
      AppendOptOutToFinish_def GetOptOutsToFinish_def setOptOutsToFinish_def epoch_key_def SafeInt64ToUint64_def AppendConsensusAddrToPrune_def
      GetConsensusAddrsToPrune_def setConsensusAddrsToPrune_def SetOperatorOptOutFinishEpoch_def kv_get_def Let_def)

lemma ex_opt_out_eq:
  "\<exists>s. OptOutOfAVS ref_codec (OperatorHooks ref_codec ref_env ex_ctx) ex_ctx ex_opt_out ex_joined = Inr s \<and>
   GetOptOutsToFinish ref_codec (dog_of s) 5 = Inr [ex_operator] \<and>
   GetConsensusAddrsToPrune ref_codec (dog_of s) 5 = Inr [toConsAddr ref_codec ex_key]"
proof -
  obtain fs where "ScheduleOperatorOptOut ref_codec (epochs ex_node) ex_operator (toConsAddr ref_codec ex_key) (dog_of ex_node) = Inr fs"
    "GetOptOutsToFinish ref_codec fs 5 = Inr [ex_operator]" "GetConsensusAddrsToPrune ref_codec fs 5 = Inr [toConsAddr ref_codec ex_key]"
    using ex_schedule by blast
  then show ?thesis
    by (simp add: OptOutOfAVS_def OptOut_def ex_opt_out_def acc_or_nil_def ex_joined_parts ex_eval IsOperator_def IsOperatorFrozen_def IsAVS_def
      IsOptedIn_def GetOptedInfo_def ex_opted_def HandleOptedInfo_def GetChainIDByAVSAddr_def InitiateOperatorKeyRemovalForChainID_def
      getOperatorConsKeyForChainID_def AfterOperatorKeyRemovalInitiated_def)
qed

lemma ex_start: "no_keys ex_node" "avs_ok ref_codec (chain_id ref_codec ref_env) (avs_of ex_node)" "removal_hook_ok ref_env"
  by (simp_all add: no_keys_def ex_node_parts avs_ok_def IsAVSByChainID_def kv_get_def kv_has_def removal_hook_ok_def)
    (simp add: ex_node_def dog_of_def)

lemma ex_canonical [simp]: "canonical ref_codec ''imua'' ex_avs_address"
  using lower_avs [of ref_codec "''imua''"] by (simp add: canonical_def)

lemma ex_join: "(node_step ref_codec legacy_dec ref_env)\<^sup>*\<^sup>* ex_node ex_joined"
proof (rule r_into_rtranclp, rule node_step.opt_in)
  show "OptIntoAVS ref_codec legacy_dec ref_env (OperatorHooks ref_codec ref_env ex_ctx) ex_ctx ex_opt_in ex_node = Inr ex_joined"
    using ex_opt_in_ok by (auto simp: ex_joined_def is_ok_def split: sum.split)
qed (simp_all add: ex_opt_in_def acc_or_nil_def)

lemma ex_joined_key:
  "GetOperatorConsKeyForChainID ref_codec (avs_of ex_joined) (opr_of ex_joined) ex_operator (chain_id ref_codec ref_env) = Inr (Some ex_key)"
  "IsOptedIn ref_codec (opr_of ex_joined) (accAddressString ref_codec ex_operator) ex_avs_address"
  by (simp_all add: GetOperatorConsKeyForChainID_def ex_joined_parts IsOperator_def IsAVSByChainID_def ex_eval getOperatorConsKeyForChainID_def
      IsOptedIn_def GetOptedInfo_def ex_opted_def)

lemma ex_leave:
  "(node_step ref_codec legacy_dec ref_env)\<^sup>*\<^sup>* ex_node ex_left"
  "GetOptOutsToFinish ref_codec (dog_of ex_left) 5 = Inr [ex_operator]"
  "GetConsensusAddrsToPrune ref_codec (dog_of ex_left) 5 = Inr [toConsAddr ref_codec ex_key]"
proof -
  from ex_opt_out_eq have S: "OptOutOfAVS ref_codec (OperatorHooks ref_codec ref_env ex_ctx) ex_ctx ex_opt_out ex_joined = Inr ex_left"
    by (auto simp: ex_left_def)
  show "GetOptOutsToFinish ref_codec (dog_of ex_left) 5 = Inr [ex_operator]"
    "GetConsensusAddrsToPrune ref_codec (dog_of ex_left) 5 = Inr [toConsAddr ref_codec ex_key]" using ex_opt_out_eq S by simp_all
  have "node_step ref_codec legacy_dec ref_env ex_joined ex_left"
    by (rule node_step.opt_out [OF S]) (simp_all add: ex_opt_out_def acc_or_nil_def ex_ctx_def)
  then show "(node_step ref_codec legacy_dec ref_env)\<^sup>*\<^sup>* ex_node ex_left" using ex_join by simp
qed

end
