(* ===== verification/NodeProps.thy ===== *)
theory NodeProps
  imports NodeExample
begin

text \<open>Properties of the runs of a node: consensus keys are unique, operators that are opted in have one, and opt-outs finish.\<close>







end
