(* ===== verification/Validators.thy ===== *)
theory Validators
  imports NodeExample
begin

text \<open>
  The update of the validator set at the end of a block (\<^verbatim>\<open>x/dogfood/keeper/abci.go\<close>): sorting, the operators that are
  chosen, the changes they make to the set, and what a consensus engine does with them.
\<close>

section \<open>Sorting\<close>

lemma mset_insert_by [simp]: "mset (insert_by lt x ys) = add_mset x (mset ys)"
  by (induction ys) auto

lemma mset_sort_slice [simp]: "mset (sort_slice lt xs) = mset xs"
  by (induction xs) (simp_all add: sort_slice_def)

lemma set_sort_slice [simp]: "set (sort_slice lt xs) = set xs"
  by (rule mset_eq_setD) simp

lemma distinct_sort_slice: "distinct (map f (sort_slice lt xs)) \<longleftrightarrow> distinct (map f xs)"
  by (intro mset_eq_imp_distinct_iff) simp

lemma sorted_insert_by:
  assumes asym: "\<And>a b. lt a b \<Longrightarrow> \<not> lt b a" and trans: "\<And>a b c. lt a c \<Longrightarrow> lt a b \<or> lt b c"
    and "sorted_wrt (\<lambda>a b. \<not> lt b a) ys"
  shows "sorted_wrt (\<lambda>a b. \<not> lt b a) (insert_by lt x ys)"
  using assms(3)
proof (induction ys)
  case (Cons y ys)
  have "set (insert_by lt x ys) = insert x (set ys)" by (metis mset_insert_by set_mset_add_mset_insert set_mset_mset)
  then show ?case using Cons asym [of y x] trans [of _ x y] by auto
qed simp

lemma sort_slice_sorted:
  assumes asym: "\<And>a b. lt a b \<Longrightarrow> \<not> lt b a" and trans: "\<And>a b c. lt a c \<Longrightarrow> lt a b \<or> lt b c"
  shows "sorted_wrt (\<lambda>a b. \<not> lt b a) (sort_slice lt xs)"
  unfolding sort_slice_def by (induction xs) (simp_all add: sorted_insert_by [OF asym trans])

lemma SortByPower_sorted: "sorted_wrt (\<lambda>a b. \<not> power_less b a) (SortByPower xs)"
  unfolding SortByPower_def by (rule sort_slice_sorted) (auto simp: power_less_def split: prod.splits if_splits)

section \<open>The operators that are chosen\<close>

definition addr_of :: "codec \<Rightarrow> bytes \<times> bytes \<times> int \<Rightarrow> bytes" where
  "addr_of C x = toConsAddr C (fst (snd x))"

definition pow :: "bytes \<times> bytes \<times> int \<Rightarrow> int" where
  "pow x = snd (snd x)"

lemma entry_simps: "addr_of C (op, k, p) = toConsAddr C k" "pow (op, k, p) = p"
  by (simp_all add: addr_of_def pow_def)

definition chosen :: "nat \<Rightarrow> (bytes \<times> bytes \<times> int) list \<Rightarrow> (bytes \<times> bytes \<times> int) list" where
  "chosen room xs = takeWhile (\<lambda>x. 1 \<le> pow x) (take room xs)"

lemma chosen_simps [simp]:
  "chosen room [] = []" "chosen 0 xs = []" "chosen (Suc n) (x # xs) = (if 1 \<le> pow x then x # chosen n xs else [])"
  by (simp_all add: chosen_def)

lemma chosen_set: "x \<in> set (chosen n xs) \<Longrightarrow> x \<in> set xs \<and> 1 \<le> pow x"
  unfolding chosen_def by (auto dest: set_takeWhileD in_set_takeD)

lemma chosen_length: "length (chosen n xs) \<le> n"
  unfolding chosen_def by (metis length_take length_takeWhile_le min.bounded_iff)

lemma chosen_distinct: "distinct (map f xs) \<Longrightarrow> distinct (map f (chosen n xs))"
  unfolding chosen_def by (metis distinct_take takeWhile_eq_take take_map)

text \<open>An operator with power that is not chosen comes after as many as there is room for.\<close>

lemma not_chosen:
  assumes "sorted_wrt R xs" "x \<in> set xs" "x \<notin> set (chosen n xs)" "1 \<le> pow x"
    and R: "\<And>a b. R a b \<Longrightarrow> pow b \<le> pow a"
  shows "length (chosen n xs) = n \<and> (\<forall>y\<in>set (chosen n xs). R y x)"
  using assms(1-4)
proof (induction xs arbitrary: n)
  case (Cons y xs)
  show ?case
  proof (cases n)
    case (Suc m)
    have "1 \<le> pow y" using Cons.prems R [of y x] by (cases "x = y") force+
    then show ?thesis using Cons Suc by auto
  qed simp
qed simp

lemma select_validators_eq:
  assumes "distinct (map (addr_of C) xs)"
  shows "select_validators C n xs (m, res, t) =
    (\<lambda>a. if a \<in> addr_of C ` set (chosen n xs) then None else m a,
     res @ map snd (filter (\<lambda>x. m (addr_of C x) \<noteq> Some (pow x)) (chosen n xs)), t + sum_list (map pow (chosen n xs)))"
  using assms
proof (induction xs arbitrary: n m res t)
  case (Cons x xs)
  obtain op k p where x: "x = (op, k, p)" by (cases x)
  show ?case
  proof (cases n)
    case (Suc j)
    have fresh: "addr_of C y \<noteq> toConsAddr C k" if "y \<in> set xs" for y using that Cons.prems by (force simp: x entry_simps)
    have flt: "filter (\<lambda>y. addr_of C y \<noteq> toConsAddr C k \<longrightarrow> m (addr_of C y) \<noteq> Some (pow y)) (chosen j xs) =
      filter (\<lambda>y. m (addr_of C y) \<noteq> Some (pow y)) (chosen j xs)"
      using fresh chosen_set by (intro filter_cong) (fastforce)+
    have IH: "distinct (map (addr_of C) xs)" using Cons.prems by simp
    show ?thesis unfolding Suc x by (cases "p < 1") (auto simp: Let_def Cons.IH [OF IH] flt fun_eq_iff entry_simps)
  qed simp
qed simp

section \<open>Changes to the validator set\<close>

text \<open>What a consensus engine does with updates: a power of zero removes a validator, any other sets its power.\<close>

definition engine_apply :: "codec \<Rightarrow> (bytes \<times> int) list \<Rightarrow> (bytes \<rightharpoonup> int) \<Rightarrow> (bytes \<rightharpoonup> int)" where
  "engine_apply C updates m = fold (\<lambda>(k, p) m. m(toConsAddr C k := (if p = 0 then None else Some p))) updates m"

definition update_addrs :: "codec \<Rightarrow> (bytes \<times> int) list \<Rightarrow> (bytes \<times> int) list" where
  "update_addrs C us = map (\<lambda>(k, p). (toConsAddr C k, p)) us"

definition power_at :: "dogfood_state \<Rightarrow> bytes \<rightharpoonup> int" where
  "power_at fs a = map_option iv_Power (kv_get (valSet fs) a)"

definition vals_ok :: "codec \<Rightarrow> dogfood_state \<Rightarrow> bool" where
  "vals_ok C fs \<longleftrightarrow> kv_wf (valSet fs) \<and>
     (\<forall>a v. kv_get (valSet fs) a = Some v \<longrightarrow> iv_Address v = a \<and> toConsAddr C (iv_Pubkey v) = a \<and> 1 \<le> iv_Power v)"

lemma update_simps [simp]:
  "update_addrs C [] = []" "update_addrs C ((k, p) # us) = (toConsAddr C k, p) # update_addrs C us"
  "engine_apply C [] m = m"
  "engine_apply C ((k, p) # us) m = engine_apply C us (m(toConsAddr C k := (if p = 0 then None else Some p)))"
  by (simp_all add: update_addrs_def engine_apply_def)

lemma engine_apply_eq:
  assumes "distinct (map fst (update_addrs C us))"
  shows "engine_apply C us m a = (case map_of (update_addrs C us) a of None \<Rightarrow> m a | Some p \<Rightarrow> if p = 0 then None else Some p)"
  using assms
proof (induction us arbitrary: m)
  case (Cons u us)
  then show ?case
    by (cases u) (auto simp: image_iff dest!: map_of_SomeD split: option.split)
qed simp

lemma engine_apply_order:
  assumes "distinct (map fst (update_addrs C us))" "mset vs = mset us"
  shows "engine_apply C vs = engine_apply C us"
proof -
  have m: "mset (map fst (update_addrs C vs)) = mset (map fst (update_addrs C us))" "set (update_addrs C vs) = set (update_addrs C us)"
    using assms(2) mset_eq_setD [OF assms(2)] by (simp_all add: update_addrs_def)
  have d: "distinct (map fst (update_addrs C vs))" using assms(1) m(1) by (metis mset_eq_imp_distinct_iff)
  have "map_of (update_addrs C vs) = map_of (update_addrs C us)" using map_of_inject_set [OF d assms(1)] m(2) by simp
  then show ?thesis by (intro ext) (simp add: engine_apply_eq [OF d] engine_apply_eq [OF assms(1)])
qed

lemma apply_change_ok:
  assumes "\<forall>a t. \<exists>x. ne_AfterValidatorBonded E a t = Inr x" "vals_ok C (dog_of s)"
    and "1 \<le> p \<or> p = 0 \<and> power_at (dog_of s) (toConsAddr C k) \<noteq> None"
  shows "\<exists>s'. apply_change C E (k, p) (s, ret) = (s', ret @ [(k, p)]) \<and> vals_ok C (dog_of s') \<and>
    power_at (dog_of s') = engine_apply C [(k, p)] (power_at (dog_of s)) \<and> lastTotalPower (dog_of s') = lastTotalPower (dog_of s)"
proof (cases "kv_get (valSet (dog_of s)) (toConsAddr C k)")
  case None
  then have p: "1 \<le> p" using assms(3) by (auto simp: power_at_def)
  obtain x where "ne_AfterValidatorBonded E (toConsAddr C k)
    (set_dog (SetImuachainValidator \<lparr>iv_Address = toConsAddr C k, iv_Power = p, iv_Pubkey = k\<rparr> (dog_of s)) s) = Inr x" using assms(1) by blast
  then show ?thesis using None p assms(2)
    by (auto simp: apply_change_def GetImuachainValidator_def Let_def SetImuachainValidator_def vals_ok_def power_at_def fun_eq_iff
        engine_apply_def kv_get_set kv_wf_set)
next
  case (Some v)
  then have "toConsAddr C (iv_Pubkey v) = toConsAddr C k" "iv_Address v = toConsAddr C k" using assms(2) by (auto simp: vals_ok_def)
  then show ?thesis using Some assms(2,3)
    by (auto simp: apply_change_def GetImuachainValidator_def Let_def SetImuachainValidator_def DeleteImuachainValidator_def vals_ok_def
        power_at_def fun_eq_iff engine_apply_def kv_get_set kv_wf_set kv_get_delete kv_wf_delete)
qed

lemma apply_changes_ok:
  assumes hook: "\<forall>a t. \<exists>x. ne_AfterValidatorBonded E a t = Inr x"
    and "vals_ok C (dog_of s)" "distinct (map fst (update_addrs C cs))"
    and "\<forall>(k, p)\<in>set cs. 1 \<le> p \<or> p = 0 \<and> power_at (dog_of s) (toConsAddr C k) \<noteq> None"
  shows "\<exists>s'. fold (apply_change C E) cs (s, ret) = (s', ret @ cs) \<and> vals_ok C (dog_of s') \<and>
    power_at (dog_of s') = engine_apply C cs (power_at (dog_of s)) \<and> lastTotalPower (dog_of s') = lastTotalPower (dog_of s)"
  using assms(2-4)
proof (induction cs arbitrary: s ret)
  case (Cons c cs)
  obtain k p where c: "c = (k, p)" by (cases c)
  have p: "1 \<le> p \<or> p = 0 \<and> power_at (dog_of s) (toConsAddr C k) \<noteq> None" using Cons.prems(3) c by simp
  obtain s1 where s1: "apply_change C E (k, p) (s, ret) = (s1, ret @ [(k, p)])" "vals_ok C (dog_of s1)"
    "power_at (dog_of s1) = engine_apply C [(k, p)] (power_at (dog_of s))" "lastTotalPower (dog_of s1) = lastTotalPower (dog_of s)"
    using apply_change_ok [OF hook Cons.prems(1) p, of ret] by blast
  have d: "distinct (map fst (update_addrs C cs))" "toConsAddr C k \<notin> fst ` set (update_addrs C cs)"
    using Cons.prems(2) c by simp_all
  have "power_at (dog_of s1) (toConsAddr C k') = power_at (dog_of s) (toConsAddr C k')" if "(k', p') \<in> set cs" for k' p'
    using d(2) that unfolding s1(3) by (force simp: update_addrs_def)
  then have "\<forall>(k', p')\<in>set cs. 1 \<le> p' \<or> p' = 0 \<and> power_at (dog_of s1) (toConsAddr C k') \<noteq> None"
    using Cons.prems(3) by fastforce
  from Cons.IH [OF s1(2) d(1) this, of "ret @ [(k, p)]"] s1 c show ?case by (auto simp: fun_upd_def)
qed simp

definition total_power :: "(bytes \<rightharpoonup> int) \<Rightarrow> int" where
  "total_power m = (\<Sum>a\<in>dom m. the (m a))"

text \<open>The validator set as it is stored: each entry under the address of its key, with power, and the total.\<close>

definition valset_ok :: "codec \<Rightarrow> dogfood_state \<Rightarrow> bool" where
  "valset_ok C fs \<longleftrightarrow> vals_ok C fs \<and> GetLastTotalPower fs = total_power (power_at fs)"

lemma prev_map_eq:
  assumes "vals_ok C fs"
  shows "prev_map C (GetAllImuachainValidators fs) = power_at fs"
proof -
  have *: "fold (\<lambda>v m. m(f v \<mapsto> g v)) vs m a = (case map_of (rev (map (\<lambda>v. (f v, g v)) vs)) a of None \<Rightarrow> m a | Some p \<Rightarrow> Some p)"
    for f and g :: "'a \<Rightarrow> 'b" and vs m a
    by (induction vs arbitrary: m) (auto simp: map_add_def split: option.split)
  have "distinct (map fst (valSet fs))" using assms by (auto simp: vals_ok_def kv_wf_distinct)
  moreover have E: "map (\<lambda>v. (toConsAddr C (iv_Pubkey v), iv_Power v)) (map snd (valSet fs)) = map (\<lambda>(a, v). (a, iv_Power v)) (valSet fs)"
    using assms calculation by (auto simp: vals_ok_def kv_get_def)
  moreover have "map_of (rev (map (\<lambda>(a, v). (a, iv_Power v)) (valSet fs))) a = power_at fs a" if "distinct (map fst (valSet fs))" for a
  proof -
    have "map fst (map (\<lambda>(a, v). (a, iv_Power v)) (valSet fs)) = map fst (valSet fs)" by (simp add: case_prod_unfold comp_def)
    then have "map_of (rev (map (\<lambda>(a, v). (a, iv_Power v)) (valSet fs))) = map_of (map (\<lambda>(a, v). (a, iv_Power v)) (valSet fs))"
      using that by (subst map_of_inject_set) (simp_all add: rev_map [symmetric] case_prod_unfold comp_def)
    then show ?thesis by (simp add: power_at_def kv_get_def map_of_map)
  qed
  ultimately show ?thesis
    unfolding prev_map_def GetAllImuachainValidators_def by (intro ext) (simp only: * E, simp split: option.split)
qed

text \<open>The changes between a validator set and the operators that are chosen.\<close>

definition set_changes :: "codec \<Rightarrow> dogfood_state \<Rightarrow> (bytes \<times> bytes \<times> int) list \<Rightarrow> (bytes \<times> int) list" where
  "set_changes C fs xs = map snd (filter (\<lambda>x. power_at fs (addr_of C x) \<noteq> Some (pow x)) xs) @
     map (\<lambda>v. (iv_Pubkey v, 0)) (filter (\<lambda>v. toConsAddr C (iv_Pubkey v) \<notin> addr_of C ` set xs) (GetAllImuachainValidators fs))"

definition chosen_map :: "codec \<Rightarrow> (bytes \<times> bytes \<times> int) list \<Rightarrow> (bytes \<rightharpoonup> int)" where
  "chosen_map C xs = map_of (map (\<lambda>x. (addr_of C x, pow x)) xs)"

lemma chosen_map_total:
  assumes "distinct (map (addr_of C) xs)"
  shows "total_power (chosen_map C xs) = sum_list (map pow xs)"
  using assms
proof (induction xs)
  case (Cons x xs)
  have fin: "finite (dom (chosen_map C xs))" by (simp add: chosen_map_def finite_dom_map_of)
  have "addr_of C x \<notin> dom (chosen_map C xs)" using Cons.prems by (auto simp: chosen_map_def dest!: map_of_SomeD)
  then have "total_power ((chosen_map C xs)(addr_of C x \<mapsto> pow x)) = pow x + total_power (chosen_map C xs)"
    using fin unfolding total_power_def by (simp, intro sum.cong) auto
  then show ?case using Cons by (simp add: chosen_map_def fun_upd_def)
qed (simp add: chosen_map_def total_power_def)

lemma validator_entry: "v \<in> set (GetAllImuachainValidators fs) \<Longrightarrow> vals_ok C fs \<Longrightarrow>
    kv_get (valSet fs) (toConsAddr C (iv_Pubkey v)) = Some v"
  using kv_wf_distinct [of "valSet fs"] by (force simp: vals_ok_def GetAllImuachainValidators_def kv_get_def)

lemma removed_addrs:
  assumes "vals_ok C fs"
  shows "map (\<lambda>v. toConsAddr C (iv_Pubkey v)) (filter P (GetAllImuachainValidators fs)) = map fst (filter (P \<circ> snd) (valSet fs))"
  using assms kv_wf_distinct [of "valSet fs"] unfolding GetAllImuachainValidators_def vals_ok_def filter_map
  by (auto simp: kv_get_def comp_def)

lemma update_addrs_changes:
  "update_addrs C (set_changes C fs xs) = map (\<lambda>x. (addr_of C x, pow x)) (filter (\<lambda>x. power_at fs (addr_of C x) \<noteq> Some (pow x)) xs) @
     map (\<lambda>v. (toConsAddr C (iv_Pubkey v), 0))
       (filter (\<lambda>v. toConsAddr C (iv_Pubkey v) \<notin> addr_of C ` set xs) (GetAllImuachainValidators fs))"
  by (simp add: update_addrs_def set_changes_def addr_of_def pow_def case_prod_unfold comp_def)

lemma set_changes_ok:
  assumes v: "vals_ok C fs" and d: "distinct (map (addr_of C) xs)" and p: "\<forall>x\<in>set xs. 1 \<le> pow x"
  shows "distinct (map fst (update_addrs C (set_changes C fs xs)))"
    and "\<forall>(k, p)\<in>set (set_changes C fs xs). 1 \<le> p \<or> p = 0 \<and> power_at fs (toConsAddr C k) \<noteq> None"
proof -
  let ?rm = "filter (\<lambda>v. toConsAddr C (iv_Pubkey v) \<notin> addr_of C ` set xs) (GetAllImuachainValidators fs)"
  have "distinct (map (\<lambda>v. toConsAddr C (iv_Pubkey v)) ?rm)"
    unfolding removed_addrs [OF v] using v kv_wf_distinct by (auto simp: vals_ok_def intro: distinct_map_filter)
  moreover have "addr_of C ` {x \<in> set xs. P x} \<inter> (\<lambda>v. toConsAddr C (iv_Pubkey v)) ` set ?rm = {}" for P
    by (force simp: image_iff)
  ultimately show "distinct (map fst (update_addrs C (set_changes C fs xs)))"
    unfolding update_addrs_changes using d by (simp add: comp_def distinct_map_filter image_image)
  show "\<forall>(k, p)\<in>set (set_changes C fs xs). 1 \<le> p \<or> p = 0 \<and> power_at fs (toConsAddr C k) \<noteq> None"
    using p validator_entry [OF _ v] by (auto simp: set_changes_def pow_def power_at_def)
qed

lemma set_changes_engine:
  assumes v: "vals_ok C fs" and d: "distinct (map (addr_of C) xs)" and p: "\<forall>x\<in>set xs. 1 \<le> pow x"
  shows "engine_apply C (set_changes C fs xs) (power_at fs) = chosen_map C xs"
proof
  note D = set_changes_ok(1) [OF assms] and U = update_addrs_changes [of C fs xs]
  fix a
  show "engine_apply C (set_changes C fs xs) (power_at fs) a = chosen_map C xs a"
  proof (cases "a \<in> addr_of C ` set xs")
    case True
    then obtain x where x: "x \<in> set xs" "a = addr_of C x" by blast
    then have m: "chosen_map C xs a = Some (pow x)" using d by (auto simp: chosen_map_def comp_def intro!: map_of_is_SomeI)
    show ?thesis
    proof (cases "power_at fs a = Some (pow x)")
      case True
      then have "a \<notin> fst ` set (update_addrs C (set_changes C fs xs))" unfolding U using x d \<open>a \<in> addr_of C ` set xs\<close>
        by (auto simp: distinct_map dest: inj_onD) (metis image_eqI)
      then have "map_of (update_addrs C (set_changes C fs xs)) a = None" by (simp add: map_of_eq_None_iff)
      then show ?thesis using engine_apply_eq [OF D] True m by simp
    next
      case False
      then have "map_of (update_addrs C (set_changes C fs xs)) a = Some (pow x)" using x D by (intro map_of_is_SomeI) (auto simp: U)
      then show ?thesis using engine_apply_eq [OF D] m p x by force
    qed
  next
    case False
    then have m: "chosen_map C xs a = None" by (auto simp: chosen_map_def map_of_eq_None_iff)
    show ?thesis
    proof (cases "kv_get (valSet fs) a")
      case None
      then have "a \<notin> fst ` set (update_addrs C (set_changes C fs xs))" unfolding U using False validator_entry [OF _ v] by force
      then have "map_of (update_addrs C (set_changes C fs xs)) a = None" by (simp add: map_of_eq_None_iff)
      then show ?thesis using engine_apply_eq [OF D] None m by (simp add: power_at_def)
    next
      case (Some w)
      then have "toConsAddr C (iv_Pubkey w) = a" "w \<in> set (GetAllImuachainValidators fs)"
        using v by (force simp: vals_ok_def GetAllImuachainValidators_def kv_get_def dest!: map_of_SomeD)+
      then have "map_of (update_addrs C (set_changes C fs xs)) a = Some 0" using False D by (intro map_of_is_SomeI) (auto simp: U)
      then show ?thesis using engine_apply_eq [OF D] m by simp
    qed
  qed
qed

section \<open>The validator set after an update\<close>

text \<open>
  The contract: validators are operators with power; there are at most as many as there is room for; an operator
  with power is left out only when the room is used, by operators that come before it in the order of powers.
\<close>

definition is_top_set :: "codec \<Rightarrow> nat \<Rightarrow> (bytes \<times> bytes \<times> int) list \<Rightarrow> (bytes \<rightharpoonup> int) \<Rightarrow> bool" where
  "is_top_set C n xs V \<longleftrightarrow>
     (\<forall>a p. V a = Some p \<longrightarrow> 1 \<le> p \<and> (\<exists>x\<in>set xs. addr_of C x = a \<and> pow x = p)) \<and> card (dom V) \<le> n \<and>
     (\<forall>x\<in>set xs. V (addr_of C x) = None \<longrightarrow> 1 \<le> pow x \<longrightarrow>
        card (dom V) = n \<and> (\<forall>y\<in>set xs. V (addr_of C y) \<noteq> None \<longrightarrow> \<not> power_less x y))"

lemma chosen_map_dom: "dom (chosen_map C xs) = addr_of C ` set xs"
  by (simp add: chosen_map_def dom_map_of_conv_image_fst image_image)

lemma chosen_is_top:
  assumes "distinct (map (addr_of C) xs)"
  shows "is_top_set C n xs (chosen_map C (chosen n (SortByPower xs)))"
proof -
  let ?s = "SortByPower xs" let ?c = "chosen n ?s"
  have ds: "distinct (map (addr_of C) ?s)" and set: "set ?s = set xs" using assms by (simp_all add: SortByPower_def distinct_sort_slice)
  have d: "distinct (map (addr_of C) ?c)" by (rule chosen_distinct [OF ds])
  then have inj: "inj_on (addr_of C) (set ?s)" and card: "card (dom (chosen_map C ?c)) = length ?c"
    using ds by (simp_all add: chosen_map_dom distinct_map card_image distinct_card)
  have V: "chosen_map C ?c (addr_of C x) = None \<longleftrightarrow> x \<notin> set ?c" if "x \<in> set xs" for x
  proof -
    have "chosen_map C ?c (addr_of C x) = None \<longleftrightarrow> addr_of C x \<notin> addr_of C ` set ?c" using chosen_map_dom [of C ?c] by blast
    then show ?thesis using inj_on_image_mem_iff [OF inj, of x "set ?c"] that set chosen_set [of _ n ?s] by blast
  qed
  have pl: "pow b \<le> pow a" if "\<not> power_less b a" for a b using that by (auto simp: power_less_def pow_def split: prod.splits if_splits)
  have full: "length ?c = n \<and> (\<forall>y\<in>set ?c. \<not> power_less x y)" if "x \<in> set xs" "x \<notin> set ?c" "1 \<le> pow x" for x
    using not_chosen [OF SortByPower_sorted _ that(2,3)] that(1) set pl by blast
  have "1 \<le> p \<and> (\<exists>x\<in>set xs. addr_of C x = a \<and> pow x = p)" if m: "chosen_map C ?c a = Some p" for a p
  proof -
    obtain x where "x \<in> set ?c" "addr_of C x = a" "pow x = p" using m by (auto simp: chosen_map_def dest!: map_of_SomeD)
    then show ?thesis using chosen_set [of x n ?s] set by blast
  qed
  moreover have "card (dom (chosen_map C ?c)) = n \<and> (\<forall>y\<in>set xs. chosen_map C ?c (addr_of C y) \<noteq> None \<longrightarrow> \<not> power_less x y)"
    if "x \<in> set xs" "chosen_map C ?c (addr_of C x) = None" "1 \<le> pow x" for x
    using full [OF that(1) _ that(3)] V that(1,2) card by simp
  ultimately show ?thesis
    using chosen_length [of n ?s] card unfolding is_top_set_def by simp
qed

definition candidates :: "(bytes \<times> bytes) list \<Rightarrow> int list \<Rightarrow> (bytes \<times> bytes \<times> int) list" where
  "candidates active powers = map (\<lambda>((operator, key), pw). (operator, key, pw)) (zip active powers)"

lemma candidates_distinct:
  assumes "distinct (map (toConsAddr C \<circ> snd) active)"
  shows "distinct (map (addr_of C) (candidates active powers))"
proof -
  have "map (addr_of C) (candidates active powers) = map (toConsAddr C \<circ> snd) (map fst (zip active powers))"
    by (simp add: candidates_def addr_of_def case_prod_unfold)
  also have "\<dots> = take (min (length active) (length powers)) (map (toConsAddr C \<circ> snd) active)"
    by (simp add: map_fst_zip_take take_map)
  finally show ?thesis using assms by simp
qed

lemma update_validators_eq:
  assumes v: "vals_ok C (dog_of s)"
    and A: "GetActiveOperatorsForChainID C (avs_of s) (opr_of s) (chain_id C E) = Inr active"
    and P: "GetVotePowerForChainID C D (epochs s) (avs_of s) (opr_of s) (map fst active) (chain_id C E) = Inr powers"
    and d: "distinct (map (toConsAddr C \<circ> snd) active)"
  defines "xs \<equiv> chosen (unat (GetMaxValidators (dog_of s))) (SortByPower (candidates active powers))"
  shows "distinct (map (addr_of C) xs)" "\<forall>x\<in>set xs. 1 \<le> pow x"
    and "update_validators C D E s = Inr (ApplyValidatorChanges C E (set_changes C (dog_of s) xs)
      (if set_changes C (dog_of s) xs = [] then s else set_dog (SetLastTotalPower (sum_list (map pow xs)) (dog_of s)) s))"
proof -
  have ds: "distinct (map (addr_of C) (SortByPower (candidates active powers)))"
    using candidates_distinct [OF d] by (simp add: SortByPower_def distinct_sort_slice)
  show "distinct (map (addr_of C) xs)" "\<forall>x\<in>set xs. 1 \<le> pow x" using chosen_distinct [OF ds] chosen_set by (auto simp: xs_def)
  let ?m = "\<lambda>a. if a \<in> addr_of C ` set xs then None else power_at (dog_of s) a"
  have rm: "filter (\<lambda>w. ?m (toConsAddr C (iv_Pubkey w)) \<noteq> None) (GetAllImuachainValidators (dog_of s)) =
    filter (\<lambda>w. toConsAddr C (iv_Pubkey w) \<notin> addr_of C ` set xs) (GetAllImuachainValidators (dog_of s))"
    using validator_entry [OF _ v] by (intro filter_cong) (auto simp: power_at_def)
  have sel: "select_validators C (unat (GetMaxValidators (dog_of s))) (SortByPower (candidates active powers)) (power_at (dog_of s), [], 0) =
    (?m, map snd (filter (\<lambda>x. power_at (dog_of s) (addr_of C x) \<noteq> Some (pow x)) xs), sum_list (map pow xs))"
    by (simp add: select_validators_eq [OF ds] xs_def)
  show "update_validators C D E s = Inr (ApplyValidatorChanges C E (set_changes C (dog_of s) xs)
      (if set_changes C (dog_of s) xs = [] then s else set_dog (SetLastTotalPower (sum_list (map pow xs)) (dog_of s)) s))"
    unfolding update_validators_def
    by (simp only: Let_def A rbind_simps P sum.case candidates_def [symmetric] prev_map_eq [OF v] sel prod.case rm set_changes_def [symmetric])
qed

lemma apply_set_changes:
  assumes hook: "\<forall>a t. \<exists>x. ne_AfterValidatorBonded E a t = Inr x" and ok: "valset_ok C (dog_of s)"
    and dx: "distinct (map (addr_of C) xs)" "\<forall>x\<in>set xs. 1 \<le> pow x"
  defines "cs \<equiv> set_changes C (dog_of s) xs"
  obtains s' where "ApplyValidatorChanges C E cs (if cs = [] then s else set_dog (SetLastTotalPower (sum_list (map pow xs)) (dog_of s)) s) =
      (s', sort_slice (update_less E) cs)" "valset_ok C (dog_of s')" "power_at (dog_of s') = chosen_map C xs"
proof -
  have v: "vals_ok C (dog_of s)" using ok by (simp add: valset_ok_def)
  note ch = set_changes_ok [OF v dx, folded cs_def] set_changes_engine [OF v dx, folded cs_def]
  define s1 where "s1 = (if cs = [] then s else set_dog (SetLastTotalPower (sum_list (map pow xs)) (dog_of s)) s)"
  have v1: "vals_ok C (dog_of s1)" "power_at (dog_of s1) = power_at (dog_of s)"
    using v by (auto simp: s1_def vals_ok_def SetLastTotalPower_def power_at_def fun_eq_iff)
  obtain s2 where s2: "fold (apply_change C E) cs (s1, []) = (s2, cs)" "vals_ok C (dog_of s2)"
    "power_at (dog_of s2) = chosen_map C xs" "lastTotalPower (dog_of s2) = lastTotalPower (dog_of s1)"
    using apply_changes_ok [OF hook v1(1) ch(1), of "[]"] ch(2,3) unfolding v1(2) by auto
  let ?s' = "set_dog (SetValidatorUpdates (sort_slice (update_less E) cs) (dog_of s2)) s2"
  have "GetLastTotalPower (dog_of s2) = total_power (chosen_map C xs)"
  proof (cases "cs = []")
    case True
    then show ?thesis using ok s2(4) ch(3) by (simp add: valset_ok_def GetLastTotalPower_def s1_def)
  next
    case False
    then show ?thesis using s2(4) by (simp add: GetLastTotalPower_def SetLastTotalPower_def s1_def chosen_map_total [OF dx(1)])
  qed
  then have "valset_ok C (dog_of ?s')" using s2(2,3)
    by (simp add: valset_ok_def vals_ok_def SetValidatorUpdates_def power_at_def [abs_def] GetLastTotalPower_def)
  moreover have "power_at (dog_of ?s') = chosen_map C xs"
    using s2(3) by (simp add: SetValidatorUpdates_def power_at_def [abs_def])
  moreover have "ApplyValidatorChanges C E cs s1 = (?s', sort_slice (update_less E) cs)"
    by (simp only: ApplyValidatorChanges_def s2(1) Let_def prod.case)
  ultimately show ?thesis using that unfolding s1_def by blast
qed

end
