(* ===== verification/ValidatorProps.thy ===== *)
theory ValidatorProps
  imports Validators
begin

text \<open>Properties of the validator set, with a node whose one operator has voting power.\<close>

definition ex_usd_value :: OperatorOptedUSDValue where
  "ex_usd_value = \<lparr>ou_SelfUSDValue = 100 * dec_precision, ou_TotalUSDValue = 100 * dec_precision, ou_ActiveUSDValue = 100 * dec_precision\<rparr>"

definition ex_voting :: "unit state" where
  "ex_voting = set_opr ((opr_of ex_joined)\<lparr>operatorUSDValues :=
     [(usd_key ex_avs_address (accAddressString ref_codec ex_operator), ex_usd_value)]\<rparr>) ex_joined"

lemma ex_voting_parts:
  "avs_of ex_voting = avs_of ex_node" "dog_of ex_voting = dog_of ex_node" "epochs ex_voting = epochs ex_node"
  "optedInfos (opr_of ex_voting) = [(opted_key (accAddressString ref_codec ex_operator) ex_avs_address, ex_opted)]"
  "frozenOperators (opr_of ex_voting) = []"
  "chainConsKeys (opr_of ex_voting) = [(KeyForChainIDAndOperatorToConsKey ref_codec ''imua'' ex_operator, ex_key)]"
  "operatorUSDValues (opr_of ex_voting) = [(usd_key ex_avs_address (accAddressString ref_codec ex_operator), ex_usd_value)]"
  by (simp_all add: ex_voting_def ex_joined_eq setOperatorConsKeyForChainIDUnchecked_def ex_node_parts)

lemma ex_operator_frozen [simp]: "IsOperatorFrozen (opr_of ex_voting) ex_operator = False"
  by (simp add: IsOperatorFrozen_def ex_voting_parts kv_has_def)

lemma ex_active:
  "GetActiveOperatorsForChainID ref_codec (avs_of ex_voting) (opr_of ex_voting) (chain_id ref_codec ref_env) = Inr [(ex_operator, ex_key)]"
  by (simp add: GetActiveOperatorsForChainID_def IsAVSByChainID_def ex_eval ex_voting_parts GetOperatorsForChainID_def kv_iterate_def
      KeyForChainIDAndOperatorToConsKey_def ChainIDAndAddrKey_def AppendMany_def IsOptedInAndNotJailed_def IsOptedIn_def IsJailed_def
      GetOptedInfo_def ex_opted_def)

lemma ex_effective: "IsOptedOutAndEffective ref_codec (epochs ex_voting) (avs_of ex_voting) (opr_of ex_voting)
    (accAddressString ref_codec ex_operator) ex_avs_address = False"
proof -
  have "GetAVSEpochInfo ref_codec (epochs ex_node) (avs_of ex_node) ex_avs_address = Inr (snd (hd (epochs ex_node)))"
    by (simp add: GetAVSEpochInfo_def GetAVSInfo_def ex_eval ex_avs_def) (simp add: ex_node_def GetEpochInfo_def kv_get_def)
  then show ?thesis by (simp add: IsOptedOutAndEffective_def GetOptedInfo_def ex_voting_parts ex_eval ex_opted_def)
qed

lemma ex_powers:
  "GetVotePowerForChainID ref_codec legacy_dec (epochs ex_voting) (avs_of ex_voting) (opr_of ex_voting) (map fst [(ex_operator, ex_key)]) (chain_id ref_codec ref_env)
     = Inr [100]"
  by (simp add: GetVotePowerForChainID_def IsAVSByChainID_def ex_eval ex_voting_parts GetOperatorOptedUSDValue_def
      ex_effective [simplified ex_voting_parts] ex_usd_value_def truncateInt64_def legacy_dec_def tdiv_def dec_precision_def)

lemma ex_node_dog: "valSet (dog_of ex_node) = []" "lastTotalPower (dog_of ex_node) = None" "fp_MaxValidators (GetDogfoodParams (dog_of ex_node)) = 5"
  by (simp_all add: ex_node_def dog_of_def GetDogfoodParams_def)

lemma ex_voting_dog: "valset_ok ref_codec (dog_of ex_voting)" "GetMaxValidators (dog_of ex_voting) = 5"
  by (simp_all add: ex_voting_parts valset_ok_def vals_ok_def GetLastTotalPower_def total_power_def power_at_def [abs_def]
      GetMaxValidators_def ex_node_dog)

lemma ex_bonded: "\<forall>a t. \<exists>x. ne_AfterValidatorBonded ref_env a t = Inr x"
  by simp

text \<open>
  C6: when the voting powers can be computed, the update of the validator set at the end of a block succeeds, and the new
  set is that of the operators with the highest powers: validators are active operators with power, at most the maximum
  number, and an operator with power is left out only if the set is full of operators that come before it. The total
  power that is kept is that of the set.
\<close>
theorem validator_set_top:
  assumes "\<forall>a t. \<exists>x. ne_AfterValidatorBonded E a t = Inr x" "valset_ok C (dog_of s)"
    and "GetActiveOperatorsForChainID C (avs_of s) (opr_of s) (chain_id C E) = Inr active" "distinct (map (toConsAddr C \<circ> snd) active)"
    and "GetVotePowerForChainID C D (epochs s) (avs_of s) (opr_of s) (map fst active) (chain_id C E) = Inr powers"
  shows "\<exists>s' us. update_validators C D E s = Inr (s', us) \<and> valset_ok C (dog_of s') \<and>
    is_top_set C (unat (GetMaxValidators (dog_of s))) (candidates active powers) (power_at (dog_of s'))"
proof -
  have v: "vals_ok C (dog_of s)" using assms(2) by (simp add: valset_ok_def)
  note U = update_validators_eq [OF v assms(3,5,4)]
  obtain s' where "valset_ok C (dog_of s')"
      "power_at (dog_of s') = chosen_map C (chosen (unat (GetMaxValidators (dog_of s))) (SortByPower (candidates active powers)))"
      "\<exists>us. update_validators C D E s = Inr (s', us)"
    by (rule apply_set_changes [OF assms(1,2) U(1,2)]) (simp only: U(3), blast)
  then show ?thesis using chosen_is_top [OF candidates_distinct [OF assms(4)], of "unat (GetMaxValidators (dog_of s))" powers] by metis
qed

theorem validator_set_top_witness:
  "\<exists>s' us. update_validators ref_codec legacy_dec ref_env ex_voting = Inr (s', us) \<and> power_at (dog_of s') (toConsAddr ref_codec ex_key) = Some 100"
proof -
  let ?x = "(ex_operator, ex_key, 100)"
  obtain s' us where s': "update_validators ref_codec legacy_dec ref_env ex_voting = Inr (s', us)"
    and top: "is_top_set ref_codec 5 [?x] (power_at (dog_of s'))"
    using validator_set_top [OF ex_bonded ex_voting_dog(1) ex_active _ ex_powers] by (auto simp: ex_voting_dog candidates_def)
  let ?a = "toConsAddr ref_codec ex_key" let ?V = "power_at (dog_of s')"
  have all: "\<And>a p. ?V a = Some p \<Longrightarrow> a = ?a \<and> p = 100" and full: "?V ?a = None \<Longrightarrow> card (dom ?V) = 5"
    using top by (simp_all add: is_top_set_def addr_of_def pow_def)
  have "dom ?V \<subseteq> {?a}" using all by blast
  then have "card (dom ?V) \<le> 1" by (metis card.empty card_insert_disjoint card_mono empty_iff finite.intros One_nat_def)
  then have "?V ?a \<noteq> None" using full by linarith
  then show ?thesis using s' all by blast
qed

text \<open>
  C7: the updates that the end of a block returns name each validator once, remove only validators of the set, and bring a
  consensus engine that holds the set before the block to the set after it.
\<close>
theorem validator_updates_sync:
  assumes "\<forall>a t. \<exists>x. ne_AfterValidatorBonded E a t = Inr x" "valset_ok C (dog_of s)"
    and "GetActiveOperatorsForChainID C (avs_of s) (opr_of s) (chain_id C E) = Inr active" "distinct (map (toConsAddr C \<circ> snd) active)"
    and "GetVotePowerForChainID C D (epochs s) (avs_of s) (opr_of s) (map fst active) (chain_id C E) = Inr powers"
  shows "\<exists>s' us. update_validators C D E s = Inr (s', us) \<and> distinct (map (toConsAddr C \<circ> fst) us) \<and>
    list_all (\<lambda>(k, p). 1 \<le> p \<or> p = 0 \<and> power_at (dog_of s) (toConsAddr C k) \<noteq> None) us \<and>
    engine_apply C us (power_at (dog_of s)) = power_at (dog_of s')"
proof -
  have v: "vals_ok C (dog_of s)" using assms(2) by (simp add: valset_ok_def)
  note U = update_validators_eq [OF v assms(3,5,4)]
  note ch = set_changes_ok [OF v U(1,2)] set_changes_engine [OF v U(1,2)]
  let ?cs = "set_changes C (dog_of s) (chosen (unat (GetMaxValidators (dog_of s))) (SortByPower (candidates active powers)))"
  have "distinct (map (toConsAddr C \<circ> fst) ?cs)" using ch(1) by (simp add: update_addrs_def case_prod_unfold comp_def)
  moreover have "engine_apply C (sort_slice (update_less E) ?cs) = engine_apply C ?cs" by (rule engine_apply_order [OF ch(1)]) simp
  moreover obtain s' where "power_at (dog_of s') = chosen_map C (chosen (unat (GetMaxValidators (dog_of s))) (SortByPower (candidates active powers)))"
      "update_validators C D E s = Inr (s', sort_slice (update_less E) ?cs)"
    by (rule apply_set_changes [OF assms(1,2) U(1,2)]) (simp only: U(3))
  ultimately show ?thesis using ch(2,3) by (simp add: distinct_sort_slice list_all_iff del: o_apply)
qed

theorem validator_updates_sync_witness:
  "\<exists>s' us. update_validators ref_codec legacy_dec ref_env ex_voting = Inr (s', us) \<and>
     engine_apply ref_codec us (power_at (dog_of ex_voting)) = power_at (dog_of s')"
  using validator_updates_sync [OF ex_bonded ex_voting_dog(1) ex_active _ ex_powers] by auto

end
