(* ===== verification/History.thy ===== *)
theory History
  imports NodeExample
begin

text \<open>
  The historical information that the dogfood module keeps per height (\<^verbatim>\<open>x/dogfood/keeper/validators.go\<close>).
\<close>

definition history_at :: "codec \<Rightarrow> dogfood_state \<Rightarrow> int \<Rightarrow> HistoricalInfo option" where
  "history_at C fs h = kv_get (historicalInfos fs) (Uint64ToBigEndian C (of_int h))"

text \<open>The heights with an entry are those above one height and up to another.\<close>

definition window :: "codec \<Rightarrow> dogfood_state \<Rightarrow> int \<Rightarrow> int \<Rightarrow> bool" where
  "window C fs lo hi \<longleftrightarrow> (\<forall>h. 0 \<le> h \<longrightarrow> h < 2 ^ 63 \<longrightarrow> (history_at C fs h \<noteq> None \<longleftrightarrow> lo < h \<and> h \<le> hi))"

definition gap :: "codec \<Rightarrow> dogfood_state \<Rightarrow> int \<Rightarrow> int \<Rightarrow> int \<Rightarrow> int \<Rightarrow> bool" where
  "gap C fs lo i n hi \<longleftrightarrow>
     (\<forall>h. 0 \<le> h \<longrightarrow> h < 2 ^ 63 \<longrightarrow> (history_at C fs h \<noteq> None \<longleftrightarrow> lo < h \<and> h \<le> i \<or> n < h \<and> h \<le> hi))"

context chain_codec
begin

lemma height_key:
  assumes "0 \<le> g" "g < 2 ^ 63" "0 \<le> h" "h < 2 ^ 63"
  shows "Uint64ToBigEndian C (of_int g) = Uint64ToBigEndian C (of_int h) \<longleftrightarrow> g = h"
  using assms by (simp add: be64_inj word_of_int_eq_iff take_bit_int_eq_self)

lemma delete_infos_gap:
  assumes "gap C fs lo i n hi" "i \<le> n" "n < 2 ^ 63"
  shows "\<exists>his. delete_infos C i fs = Inr (fs\<lparr>historicalInfos := his\<rparr>) \<and> window C (fs\<lparr>historicalInfos := his\<rparr>) n hi"
  using assms(1,2)
proof (induction "nat (i + 1)" arbitrary: i fs rule: less_induct)
  case less
  show ?case
  proof (cases "0 \<le> i \<and> lo < i")
    case True
    let ?fs = "fs\<lparr>historicalInfos := kv_delete (Uint64ToBigEndian C (of_int i)) (historicalInfos fs)\<rparr>"
    have "history_at C fs i \<noteq> None" using True less.prems assms(3) by (simp add: gap_def)
    then have "delete_infos C i fs = delete_infos C (i - 1) ?fs"
      using True by (subst delete_infos.simps) (auto simp: GetHistoricalInfo_def DeleteHistoricalInfo_def epoch_key_def SafeInt64ToUint64_def history_at_def)
    moreover have "history_at C ?fs h = (if h = i then None else history_at C fs h)" if "0 \<le> h" "h < 2 ^ 63" for h
      using that True less.prems(2) assms(3) by (simp add: history_at_def kv_get_delete height_key)
    then have "gap C ?fs lo (i - 1) n hi" using less.prems by (auto simp: gap_def)
    moreover note less.hyps [OF _ this] less.prems(2) True
    ultimately show ?thesis by fastforce
  next
    case False
    then have "history_at C fs i = None" if "0 \<le> i" using that less.prems assms(3) by (auto simp: gap_def)
    then have "delete_infos C i fs = Inr fs"
      by (subst delete_infos.simps) (simp add: GetHistoricalInfo_def epoch_key_def SafeInt64ToUint64_def history_at_def)
    moreover have "window C fs n hi" using False less.prems(1) by (auto simp: gap_def window_def)
    ultimately show ?thesis by (intro exI [of _ "historicalInfos fs"]) simp
  qed
qed

lemma track_window:
  assumes W: "window C fs lo hi" and h: "BlockHeight ctx = hi + 1" "0 \<le> hi" "hi + 1 < 2 ^ 63" "lo \<le> hi"
    and n: "int (unat (GetHistoricalEntries fs)) = n" "1 \<le> n"
  shows "\<exists>fs'. TrackHistoricalInfo C E ctx fs = Inr fs' \<and> window C fs' (max lo (hi + 1 - n)) (hi + 1)"
proof -
  let ?i = "hi + 1 - n"
  have "\<exists>his. delete_infos C ?i fs = Inr (fs\<lparr>historicalInfos := his\<rparr>) \<and> window C (fs\<lparr>historicalInfos := his\<rparr>) (max lo ?i) hi"
  proof (cases "lo \<le> ?i")
    case True
    then have "gap C fs lo ?i ?i hi" using W n h by (auto simp: gap_def window_def)
    from delete_infos_gap [OF this] True show ?thesis using n h by (simp add: max_def)
  next
    case False
    then have "gap C fs lo ?i lo hi" using W by (auto simp: gap_def window_def)
    from delete_infos_gap [OF this] False show ?thesis using n h by (simp add: max_def)
  qed
  then obtain his where D: "delete_infos C ?i fs = Inr (fs\<lparr>historicalInfos := his\<rparr>)"
    and W': "window C (fs\<lparr>historicalInfos := his\<rparr>) (max lo ?i) hi" by blast
  obtain x fs' where fs': "TrackHistoricalInfo C E ctx fs = Inr fs'"
    "fs' = fs\<lparr>historicalInfos := kv_set (Uint64ToBigEndian C (of_int (hi + 1))) x his\<rparr>"
    using n h D by (auto simp: TrackHistoricalInfo_def Let_def SetHistoricalInfo_def epoch_key_def SafeInt64ToUint64_def)
  have "history_at C fs' g \<noteq> None \<longleftrightarrow> g = hi + 1 \<or> history_at C (fs\<lparr>historicalInfos := his\<rparr>) g \<noteq> None" if "0 \<le> g" "g < 2 ^ 63" for g
    using that h height_key [of g "hi + 1"] by (simp add: history_at_def fs'(2) kv_get_set)
  then have "window C fs' (max lo ?i) (hi + 1)" using W' h n by (auto simp: window_def)
  then show ?thesis using fs'(1) by blast
qed

end


definition ex_history :: dogfood_state where
  "ex_history = (dog_of ex_node)
     \<lparr>historicalInfos := map (\<lambda>h. (Uint64ToBigEndian ref_codec (of_int h), \<lparr>hi_Header = ex_ctx, hi_Valset = []\<rparr>)) [4, 5, 6],
      dogfoodParams := Some ((GetDogfoodParams (dog_of ex_node))\<lparr>fp_HistoricalEntries := 2\<rparr>)\<rparr>"

lemma ex_history_window: "window ref_codec ex_history 3 6" "GetHistoricalEntries ex_history = 2"
proof -
  have "history_at ref_codec ex_history h \<noteq> None \<longleftrightarrow> 3 < h \<and> h \<le> 6" if "0 \<le> h" "h < 2 ^ 63" for h
    using that chain_codec.height_key [OF chain_codec_ref, of h 4] chain_codec.height_key [OF chain_codec_ref, of h 5]
      chain_codec.height_key [OF chain_codec_ref, of h 6]
    by (auto simp: history_at_def ex_history_def kv_get_def)
  then show "window ref_codec ex_history 3 6" by (simp add: window_def)
  show "GetHistoricalEntries ex_history = 2" by (simp add: ex_history_def GetHistoricalEntries_def GetDogfoodParams_def)
qed


end
