(* ===== verification/Registry.thy ===== *)
theory Registry
  imports NodeExample
begin

text \<open>
  The registry of operators (\<^verbatim>\<open>x/operator/keeper/operator.go\<close>, \<^verbatim>\<open>commission.go\<close>): what is stored for an operator is well formed.
\<close>

section \<open>What the registry relies on\<close>

text \<open>
  The description and the commission of an operator are types of \<^verbatim>\<open>x/staking\<close>: updating a description keeps its name or
  takes the new one, and a commission that validates is not negative and not above its maximum.
\<close>

locale registry_env =
  fixes E :: "'x node_env"
  assumes description_name: "ne_UpdateDescription E d d' = Inr d'' \<Longrightarrow> de_Moniker d'' = de_Moniker d \<or> de_Moniker d'' = de_Moniker d'"
    and commission_rates: "ne_CommissionValidate E c \<Longrightarrow> co_Rate c = Some r \<Longrightarrow> co_MaxRate c = Some m \<Longrightarrow> 0 \<le> r \<and> r \<le> m"

definition rates_ok :: "Commission \<Rightarrow> bool" where
  "rates_ok c = (case (co_Rate c, co_MaxRate c, co_MaxChangeRate c) of (Some r, Some m, Some _) \<Rightarrow> 0 \<le> r \<and> r \<le> m | _ \<Rightarrow> False)"

lemma rates_time [simp]: "rates_ok (c\<lparr>co_UpdateTime := t\<rparr>) = rates_ok c"
  by (simp add: rates_ok_def)

text \<open>A stored operator: under its own address, with a name, and with a commission within its bounds.\<close>

definition info_ok :: "codec \<Rightarrow> bytes \<Rightarrow> OperatorInfo \<Rightarrow> bool" where
  "info_ok C a info \<longleftrightarrow> accAddressFromBech32 C (oi_OperatorAddr info) = Some a \<and> de_Moniker (oi_Description info) \<noteq> [] \<and>
     rates_ok (oi_Commission info)"

abbreviation name_of :: "OperatorInfo \<Rightarrow> string" where
  "name_of info \<equiv> de_Moniker (oi_Description info)"

definition registry_ok :: "codec \<Rightarrow> operator_state \<Rightarrow> bool" where
  "registry_ok C os \<longleftrightarrow> (\<forall>a i. kv_get (operatorInfos os) a = Some i \<longrightarrow> info_ok C a i) \<and>
     (\<forall>a b i j. kv_get (operatorInfos os) a = Some i \<longrightarrow> kv_get (operatorInfos os) b = Some j \<longrightarrow> name_of i = name_of j \<longrightarrow> a = b)"

lemma has_name_iff: "HasOperatorName os n = Inr (\<exists>x\<in>set (operatorInfos os). name_of (snd x) = n)"
proof -
  have "riter (\<lambda>(addr, info) res. if name_of info = n then Inr (True, True) else Inr (False, res)) xs b =
    Inr (b \<or> (\<exists>x\<in>set xs. name_of (snd x) = n))" for b and xs :: "(bytes \<times> OperatorInfo) list"
    by (induction xs arbitrary: b) (auto split: prod.split)
  from this [of "operatorInfos os" False] show ?thesis unfolding HasOperatorName_def IterateOperators_def by (simp add: case_prod_unfold)
qed

lemma registry_set:
  assumes "registry_ok C os" "info_ok C a info"
    and "\<And>b j. kv_get (operatorInfos os) b = Some j \<Longrightarrow> name_of j = name_of info \<Longrightarrow> b = a"
  shows "registry_ok C (setOperatorInfo a info os)"
  using assms unfolding registry_ok_def setOperatorInfo_def by (auto simp: kv_get_set split: if_splits)

context registry_env
begin

lemma valid_info:
  assumes "OperatorInfo_ValidateBasic C E info = Inr u" "accAddressFromBech32 C (oi_OperatorAddr info) = Some a"
  shows "info_ok C a info"
  using assms commission_rates by (auto simp: OperatorInfo_ValidateBasic_def info_ok_def rates_ok_def split: if_splits)

lemma register_registry:
  assumes S: "RegisterOperator C E ctx as i os = Inr os'" and I: "registry_ok C os"
  shows "registry_ok C os'"
proof -
  let ?t = "\<lambda>info. if co_UpdateTime (oi_Commission info) = DefaultCommissionUpdateTime
    then info\<lparr>oi_Commission := (oi_Commission info)\<lparr>co_UpdateTime := BlockTime ctx\<rparr>\<rparr> else info"
  from S obtain info a where "OperatorInfo_ValidateBasic C E info = Inr ()" "accAddressFromBech32 C (oi_OperatorAddr info) = Some a"
    and n: "HasOperatorName os (name_of info) = Inr False" and os': "os' = setOperatorInfo a (?t info) os"
    unfolding RegisterOperator_def Let_def by (auto simp: rbind_eq_Inr_iff split: if_splits)
  then have "info_ok C a (?t info)" using valid_info [of C info "()" a] by (simp add: info_ok_def)
  then show ?thesis unfolding os'
    using n by (intro registry_set [OF I]) (auto simp: has_name_iff kv_get_def dest!: map_of_SomeD split: if_splits)
qed

lemma edit_registry:
  assumes S: "EditOperator C E a d os = Inr os'" and I: "registry_ok C os" and a: "accAddressFromBech32 C (accAddressString C a) = Some a"
  shows "registry_ok C os'"
proof -
  from S a obtain info d' where i: "kv_get (operatorInfos os) a = Some info" and "HasOperatorName os (de_Moniker d) = Inr False"
    and u: "ne_UpdateDescription E (oi_Description info) d = Inr d'" and v: "OperatorInfo_ValidateBasic C E (info\<lparr>oi_Description := d'\<rparr>) = Inr ()"
    and os': "os' = setOperatorInfo a (info\<lparr>oi_Description := d'\<rparr>) os"
    by (auto simp: EditOperator_def rbind_eq_Inr_iff OperatorInfoOf_def Let_def of_option_def split: if_splits option.splits)
  have ok: "info_ok C a info" using I i by (auto simp: registry_ok_def)
  then have "info_ok C a (info\<lparr>oi_Description := d'\<rparr>)" using valid_info [OF v] by (simp add: info_ok_def)
  moreover have "b = a" if "kv_get (operatorInfos os) b = Some j" "name_of j = de_Moniker d'" for b j
    using description_name [OF u] that i I \<open>HasOperatorName os (de_Moniker d) = Inr False\<close> map_of_SomeD [of "operatorInfos os" b j]
    by (force simp: registry_ok_def has_name_iff kv_get_def)
  ultimately show ?thesis unfolding os' by (intro registry_set [OF I]) auto
qed

end

lemma registry_info: "registry_ok C os \<Longrightarrow> kv_get (operatorInfos os) a = Some i \<Longrightarrow> info_ok C a i"
  by (simp add: registry_ok_def)

lemma registry_update:
  assumes "registry_ok C os" "kv_get (operatorInfos os) a = Some i" "info_ok C a i'" "name_of i' = name_of i"
  shows "registry_ok C (setOperatorInfo a i' os)"
  using assms(1,2,4) by (intro registry_set [OF assms(1,3)]) (auto simp: registry_ok_def)

lemma flag_registry:
  assumes S: "UpdateRewardCompoundingFlag C a b os = Inr os'" and I: "registry_ok C os" and a: "accAddressFromBech32 C (accAddressString C a) = Some a"
  shows "registry_ok C os'"
proof -
  from S a obtain i where i: "kv_get (operatorInfos os) a = Some i" and "os' = os \<or> os' = setOperatorInfo a (i\<lparr>oi_DisableCompoundRewards := b\<rparr>) os"
    by (auto simp: UpdateRewardCompoundingFlag_def rbind_eq_Inr_iff OperatorInfoOf_def of_option_def split: if_splits option.splits)
  then show ?thesis using registry_update [OF I i, of "i\<lparr>oi_DisableCompoundRewards := b\<rparr>"] registry_info [OF I i] I by (auto simp: info_ok_def)
qed

lemma commission_registry:
  assumes S: "ValidateAndUpdateCommissionRate C D ctx a r os = Inr os'" and I: "registry_ok C os"
    and a: "accAddressFromBech32 C (accAddressString C a) = Some a"
  shows "registry_ok C os'"
proof -
  from S a obtain i m where i: "kv_get (operatorInfos os) a = Some i" and m: "co_MaxRate (oi_Commission i) = Some m" "0 \<le> r" "r \<le> m"
    and os': "os' = setOperatorInfo a (i\<lparr>oi_Commission := (oi_Commission i)\<lparr>co_Rate := Some r, co_UpdateTime := BlockTime ctx\<rparr>\<rparr>) os"
    by (auto simp: ValidateAndUpdateCommissionRate_def rbind_eq_Inr_iff OperatorInfoOf_def of_option_def the_dec_def
        split: if_splits option.splits)
  then show ?thesis unfolding os' using registry_info [OF I i] m
    by (intro registry_update [OF I i]) (auto simp: info_ok_def rates_ok_def split: option.splits)
qed

section \<open>The registry\<close>

inductive registry_step :: "codec \<Rightarrow> dec_ops \<Rightarrow> 'x node_env \<Rightarrow> operator_state \<Rightarrow> operator_state \<Rightarrow> bool" for C D E where
  register: "RegisterOperator C E ctx as i os = Inr os' \<Longrightarrow> registry_step C D E os os'"
| edit: "EditOperator C E a d os = Inr os' \<Longrightarrow> length a = AccAddressLength \<Longrightarrow> registry_step C D E os os'"
| compounding: "UpdateRewardCompoundingFlag C a b os = Inr os' \<Longrightarrow> length a = AccAddressLength \<Longrightarrow> registry_step C D E os os'"
| commission: "ValidateAndUpdateCommissionRate C D ctx a r os = Inr os' \<Longrightarrow> length a = AccAddressLength \<Longrightarrow> registry_step C D E os os'"
| other: "operatorInfos os' = operatorInfos os \<Longrightarrow> registry_step C D E os os'"

lemma registry_step_ok:
  assumes "chain_codec C" "registry_env E" "registry_step C D E os os'" "registry_ok C os"
  shows "registry_ok C os'"
  using assms(3)
proof cases
  case register
  then show ?thesis using registry_env.register_registry [OF assms(2)] assms(4) by blast
next
  case edit
  then show ?thesis using registry_env.edit_registry [OF assms(2)] chain_codec.acc_roundtrip [OF assms(1)] assms(4) by blast
next
  case compounding
  then show ?thesis using flag_registry chain_codec.acc_roundtrip [OF assms(1)] assms(4) by blast
next
  case commission
  then show ?thesis using commission_registry chain_codec.acc_roundtrip [OF assms(1)] assms(4) by blast
next
  case other
  then show ?thesis using assms(4) by (simp add: registry_ok_def)
qed

text \<open>
  C16: starting without operators, after any sequence of registrations, edits, changes of the compounding flag and of commissions,
  every operator is stored under the address it gives, has a name that no other operator has, and a commission rate that is not
  negative and not above its maximum.
\<close>
theorem operators_well_formed:
  assumes "chain_codec C" "registry_env E" "operatorInfos os0 = []" "(registry_step C D E)\<^sup>*\<^sup>* os0 os"
    and "kv_get (operatorInfos os) a = Some info"
  shows "accAddressFromBech32 C (oi_OperatorAddr info) = Some a \<and> name_of info \<noteq> [] \<and> rates_ok (oi_Commission info) \<and>
    (\<forall>b other. kv_get (operatorInfos os) b = Some other \<longrightarrow> name_of other = name_of info \<longrightarrow> b = a)"
proof -
  have "registry_ok C os0" using assms(3) by (simp add: registry_ok_def)
  with assms(4) have "registry_ok C os" by (induction) (auto intro: registry_step_ok [OF assms(1,2)])
  then show ?thesis using assms(5) by (auto simp: registry_ok_def info_ok_def)
qed

interpretation re: registry_env ref_env
  by unfold_locales (auto simp: ref_env_def)

definition ex_registry :: operator_state where
  "ex_registry = (opr_of ex_node)\<lparr>operatorInfos := []\<rparr>"

lemma ex_register:
  "\<exists>os i. RegisterOperator ref_codec ref_env ex_ctx (assets ex_node) (Some ex_info) ex_registry = Inr os \<and> kv_get (operatorInfos os) ex_operator = Some i"
  by (simp add: RegisterOperator_def OperatorInfo_ValidateBasic_def ex_info_def ref_env_def ex_registry_def IsOperator_def kv_has_def has_name_iff
      setOperatorInfo_def kv_get_def)

theorem operators_well_formed_witness:
  "\<exists>os i. (registry_step ref_codec legacy_dec ref_env)\<^sup>*\<^sup>* ex_registry os \<and> kv_get (operatorInfos os) ex_operator = Some i \<and>
     rates_ok (oi_Commission i)"
proof -
  obtain os i where S: "RegisterOperator ref_codec ref_env ex_ctx (assets ex_node) (Some ex_info) ex_registry = Inr os"
    and i: "kv_get (operatorInfos os) ex_operator = Some i" using ex_register by blast
  have R: "(registry_step ref_codec legacy_dec ref_env)\<^sup>*\<^sup>* ex_registry os" by (rule r_into_rtranclp, rule registry_step.register [OF S])
  have "operatorInfos ex_registry = []" by (simp add: ex_registry_def)
  from operators_well_formed [OF chain_codec_ref re.registry_env_axioms this R i] show ?thesis using R i by blast
qed

end
