(* ===== verification/Whitelist.thy ===== *)
theory Whitelist
  imports NodeExample
begin

text \<open>
  The whitelist of an AVS (\<^verbatim>\<open>x/avs/keeper/avs.go\<close>) when an operator opts in (\<^verbatim>\<open>x/operator/keeper/opt.go\<close>).
\<close>

definition ex_listed :: "unit state" where
  "ex_listed = set_avs ((avs_of ex_node)\<lparr>avsInfos := [(hexToAddress ref_codec ex_avs_address, ex_avs\<lparr>avs_WhitelistAddresses := [''another'']\<rparr>)]\<rparr>) ex_node"

lemma ex_listed_parts:
  "avsInfos (avs_of ex_listed) = [(hexToAddress ref_codec ex_avs_address, ex_avs\<lparr>avs_WhitelistAddresses := [''another'']\<rparr>)]"
  "opr_of ex_listed = opr_of ex_node" "assets ex_listed = assets ex_node" "epochs ex_listed = epochs ex_node" "dlg ex_listed = dlg ex_node"
  by (simp_all add: ex_listed_def)

lemma ex_listed_usd: "GetOrCalculateOperatorUSDValues ref_codec legacy_dec ref_env ex_listed ex_operator ex_avs_address = Inr (0, 0, None)"
  by (simp add: GetOrCalculateOperatorUSDValues_def ex_eval IsOptedOutAndEffective_def GetOptedInfo_def GetAVSSupportedAssets_def GetAVSInfo_def
      ex_listed_parts ex_avs_def GetAssetsDecimal_def ref_env_def CalculateRealTimeOperatorUSDValue_def IterateAssetsForOperator_def kv_iterate_def
      OperatorTotalRewardsUSDValue_def IsCompoundRewardsDisabled_def OperatorInfoOf_def zero_staking_def ex_info_def)

text \<open>
  C33: the whitelist of an AVS is not enforced: there is a node on which an AVS has a whitelist that an operator is not in, and
  the operator opts in to that AVS.
\<close>
theorem whitelist_not_enforced:
  "\<exists>s a avs ctx t. IsWhitelisted ref_codec (avs_of s) avs (accAddressString ref_codec a) = Inr False \<and>
     OptIn ref_codec legacy_dec ref_env ctx a avs s = Inr t \<and> IsOptedIn ref_codec (opr_of t) (accAddressString ref_codec a) avs"
proof -
  have w: "accAddressString ref_codec ex_operator \<noteq> ''another''"
    using ex_operator_bech32(1) by (auto simp: ref_codec_def)
  have "IsWhitelisted ref_codec (avs_of ex_listed) ex_avs_address (accAddressString ref_codec ex_operator) = Inr False"
    using w by (simp add: IsWhitelisted_def GetAVSInfo_def ex_eval ex_listed_parts ex_avs_def)
  moreover have "\<exists>t. OptIn ref_codec legacy_dec ref_env ex_ctx ex_operator ex_avs_address ex_listed = Inr t \<and>
      IsOptedIn ref_codec (opr_of t) (accAddressString ref_codec ex_operator) ex_avs_address"
    by (simp add: OptIn_def ex_eval ex_listed_usd ex_listed_parts IsOperator_def IsOperatorFrozen_def IsAVS_def IsWhitelisted_def GetAVSInfo_def
        ex_avs_def IsOptedIn_def GetOptedInfo_def IsJailed_def GetAVSMinimumSelfDelegation_def ex_dec InitOperatorUSDValue_def
        GetAVSSlashContract_def SetOptedInfo_def)
  ultimately show ?thesis by blast
qed

end
