(* ===== verification/OperatorSlash.thy ===== *)
theory OperatorSlash
  imports Slash Dogfood
begin

text \<open>
  The whole slash of an operator (\<^verbatim>\<open>Slash\<close> and \<^verbatim>\<open>SlashWithInfractionReason\<close> of \<^verbatim>\<open>x/operator/keeper/slash.go\<close>), the
  record that is kept of it (\<^verbatim>\<open>operator_slash_state.go\<close>), and how the dogfood module calls it for
  \<^verbatim>\<open>x/slashing\<close> and \<^verbatim>\<open>x/evidence\<close> (\<^verbatim>\<open>x/dogfood/keeper/impl_sdk.go\<close>). The store of the records is passed beside the state
  of the node.
\<close>

section \<open>Records of slashes\<close>

record 'r OperatorSlashInfo =
  sl_SlashType :: uint32
  sl_SlashContract :: string
  sl_SubmittedHeight :: int
  sl_EventHeight :: int
  sl_SlashProportion :: dec
  sl_ExecutionInfo :: "'r SlashExecutionInfo"

type_synonym 'r slash_store = "(bytes, 'r OperatorSlashInfo) kv"

definition slash_info_key :: "string \<Rightarrow> string \<Rightarrow> string \<Rightarrow> bytes" where
  "slash_info_key operatorAddr avsAddr slashID = GetJoinedStoreKey [operatorAddr, to_lower avsAddr, slashID]"

definition UpdateOperatorSlashInfo ::
    "codec \<Rightarrow> dec_ops \<Rightarrow> avs_state \<Rightarrow> string \<Rightarrow> string \<Rightarrow> string \<Rightarrow> 'r OperatorSlashInfo \<Rightarrow> 'r slash_store \<Rightarrow> 'r slash_store result" where
  "UpdateOperatorSlashInfo C D av operatorAddr avsAddr slashID slashInfo st =
     (if accAddressFromBech32 C operatorAddr = None then Inl (OpErr ErrInvalidOperatorAddr)
      else
        let slashInfoKey = slash_info_key operatorAddr avsAddr slashID in
        if kv_has st slashInfoKey then Inl (OpErr ErrSlashInfoExist)
        else rbind (GetAVSSlashContract C av avsAddr) (\<lambda>slashContract.
          if sl_SlashContract slashInfo \<noteq> slashContract then Inl (OpErr ErrSlashInfo)
          else if sl_SubmittedHeight slashInfo < sl_EventHeight slashInfo then Inl (OpErr ErrSlashInfo)
          else if sl_SlashProportion slashInfo < 0 \<or> newDec D 1 < sl_SlashProportion slashInfo then Inl (OpErr ErrSlashInfo)
          else Inr (kv_set slashInfoKey slashInfo st)))"

definition GetOperatorSlashInfo :: "string \<Rightarrow> string \<Rightarrow> string \<Rightarrow> 'r slash_store \<Rightarrow> 'r OperatorSlashInfo result" where
  "GetOperatorSlashInfo avsAddr operatorAddr slashID st =
     of_option ErrNoKeyInTheStore (kv_get st (slash_info_key operatorAddr avsAddr slashID))"

definition AllOperatorSlashInfo :: "string \<Rightarrow> string \<Rightarrow> 'r slash_store \<Rightarrow> (string \<rightharpoonup> 'r OperatorSlashInfo) result" where
  "AllOperatorSlashInfo avsAddr operatorAddr st =
     rfold (\<lambda>(key, slashInfo) ret. rbind (ParseJoinedKeyWithCount key 3) (\<lambda>keys. Inr (ret(keys ! 2 \<mapsto> slashInfo))))
       (kv_iterate (GetJoinedStoreKey [operatorAddr, to_lower avsAddr]) st) Map.empty"

definition SetAllSlashStates :: "(string \<times> 'r OperatorSlashInfo) list \<Rightarrow> 'r slash_store \<Rightarrow> 'r slash_store" where
  "SetAllSlashStates slashStates st = fold (\<lambda>(k, i). kv_set k i) slashStates st"

definition GetAllSlashStates :: "'r slash_store \<Rightarrow> (string \<times> 'r OperatorSlashInfo) list" where
  "GetAllSlashStates st = st"

section \<open>What the rewards contribute\<close>

text \<open>
  The parts of \<^verbatim>\<open>x/feedistribution\<close> that a slash calls: where the compounding rewards of an operator come from, slashing the reward part
  of an undelegation and unclaimed rewards, and the handling of the event.
\<close>

record ('x, 'c, 'r) reward_env =
  rw_sources :: "'x state \<Rightarrow> string \<Rightarrow> 'c"
  rw_SlashRewardUndelegation :: "UndelegationRecord \<Rightarrow> int \<Rightarrow> 'x state \<Rightarrow> (UndelegationRecord \<times> 'x) result"
  rw_SlashOperatorUnclaimedRewards :: "string \<Rightarrow> 'c \<Rightarrow> int \<Rightarrow> 'x state \<Rightarrow> ('r list \<times> 'x) result"
  rw_HandleOperatorSlashEvent :: "bytes \<Rightarrow> int \<Rightarrow> SlashAssetAmount list \<Rightarrow> 'r list \<Rightarrow> 'x state \<Rightarrow> 'x result"

definition node_slash_env ::
    "codec \<Rightarrow> dec_ops \<Rightarrow> 'x node_env \<Rightarrow> ('x, 'c, 'r) reward_env \<Rightarrow> ('x node, 'c, 'r) slash_env" where
  "node_slash_env C D E R =
     \<lparr>sv_value = (\<lambda>s operator.
        rbind (CalculateRealTimeOperatorUSDValue C D E s True operator None Map.empty None) (\<lambda>info.
        Inr (os_StakingAndWaitUnbonding info, rw_sources R s operator))),
      sv_SlashRewardUndelegation = (\<lambda>undelegation slashProportion s.
        rbind (rw_SlashRewardUndelegation R undelegation slashProportion s) (\<lambda>(u, x). Inr (u, (world s)\<lparr>rest := x\<rparr>))),
      sv_SlashOperatorUnclaimedRewards = (\<lambda>operator sources slashProportion s.
        rbind (rw_SlashOperatorUnclaimedRewards R operator sources slashProportion s) (\<lambda>(rs, x). Inr (rs, (world s)\<lparr>rest := x\<rparr>)))\<rparr>"

section \<open>Slashing\<close>

text \<open>The hooks of the dogfood module and of the distribution module; an error of the latter is logged.\<close>

definition AfterSlash ::
    "codec \<Rightarrow> 'x node_env \<Rightarrow> ('x, 'c, 'r) reward_env \<Rightarrow> bytes \<Rightarrow> dec \<Rightarrow> string list \<Rightarrow> SlashAssetAmount list \<Rightarrow> 'r list
      \<Rightarrow> 'x state \<Rightarrow> 'x state result" where
  "AfterSlash C E R operator slashProportion affectedAVSList slashAssetsPool slashUnclaimedRewards s =
     (let s1 = afterStakingOrJailChange C E operator False affectedAVSList s in
      case rw_HandleOperatorSlashEvent R operator slashProportion slashAssetsPool slashUnclaimedRewards s1 of
        Inl (Panic m) \<Rightarrow> Inl (Panic m)
      | Inl _ \<Rightarrow> Inr s1
      | Inr x \<Rightarrow> Inr (set_rest x s1))"

definition update_affected ::
    "codec \<Rightarrow> dec_ops \<Rightarrow> 'x node_env \<Rightarrow> block_ctx \<Rightarrow> 'x state \<Rightarrow> string \<Rightarrow> 'x state \<Rightarrow> 'x state result" where
  "update_affected C D E ctx s avs cc =
     rbind (GetAVSEpochInfo C (epochs s) (avs_of s) avs) (\<lambda>epochInfo.
     case UpdateVotingPower C D E ctx avs (ei_Identifier epochInfo) (ei_CurrentEpoch epochInfo) True cc of
       (_, Inl e) \<Rightarrow> Inl e
     | (cc', Inr _) \<Rightarrow> Inr cc')"

text \<open>For the AVSs other than the chain itself, the power is that of the snapshot.\<close>

definition slash_power :: "codec \<Rightarrow> dec_ops \<Rightarrow> VotingPowerSnapshot \<Rightarrow> SlashInputInfo \<Rightarrow> SlashInputInfo result" where
  "slash_power C D snapshot parameter =
     (if si_IsDogFood parameter then Inr parameter
      else
        rbind (of_option (OpErr ErrFailToGetHistoricalVP)
                (GetSpecifiedVotingPower (accAddressString C (si_Operator parameter)) (vs_OperatorVotingPowers snapshot))) (\<lambda>votingPower.
        rbind (truncateInt64 D (vp_VotingPower votingPower)) (\<lambda>pw.
        if pw < 0 then Inl ErrInvalidSlashPower else Inr (parameter\<lparr>si_Power := pw\<rparr>))))"

text \<open>An error leaves the node as it is: the changes are made on a cached context.\<close>

definition operator_Slash ::
    "codec \<Rightarrow> dec_ops \<Rightarrow> 'x node_env \<Rightarrow> ('x, 'c, 'r) reward_env \<Rightarrow> block_ctx \<Rightarrow> SlashInputInfo
      \<Rightarrow> 'r slash_store \<times> 'x state \<Rightarrow> ('r slash_store \<times> 'x state) result" where
  "operator_Slash C D E R ctx parameter a =
     (case a of (st, s) \<Rightarrow>
      rbind (CheckSlashParameter ctx parameter) (\<lambda>_.
      rbind (LoadVotingPowerSnapshot C (opr_of s) (si_AVSAddr parameter) (si_SlashEventHeight parameter)) (\<lambda>(startHeight, snapshot).
      rbind (slash_power C D snapshot parameter) (\<lambda>parameter.
      if si_Power parameter = 0 then Inr (st, s)
      else
        let operator = accAddressString C (si_Operator parameter) in
        rbind (SlashAssets C D (node_slash_env C D E R) ctx startHeight parameter s) (\<lambda>(executionInfo, s1).
        rbind (GetImpactfulEpochsAndAVSsForOperator C (epochs s) (avs_of s) (opr_of s) operator) (\<lambda>(affectedAVSList, affectedEpochList).
        rbind (rfold (update_affected C D E ctx s) affectedAVSList
                (UpdateAllOperatorAssetUSDValues C D E affectedEpochList s1)) (\<lambda>s2.
        rbind (AfterSlash C E R (si_Operator parameter) (se_SlashProportion executionInfo) affectedAVSList
                (se_SlashAssetsPool executionInfo) (se_SlashUnclaimedRewards executionInfo) s2) (\<lambda>s3.
        rbind (UpdateOperatorSlashInfo C D (avs_of s3) operator (si_AVSAddr parameter) (si_SlashID parameter)
                \<lparr>sl_SlashType = si_SlashType parameter, sl_SlashContract = si_SlashContract parameter,
                 sl_SubmittedHeight = BlockHeight ctx, sl_EventHeight = si_SlashEventHeight parameter,
                 sl_SlashProportion = si_SlashProportion parameter, sl_ExecutionInfo = executionInfo\<rparr> st) (\<lambda>st'.
        Inr (st', s3))))))))))"

definition infraction_code :: "Infraction \<Rightarrow> uint32" where
  "infraction_code i = (case i of INFRACTION_UNSPECIFIED \<Rightarrow> 0 | INFRACTION_DOUBLE_SIGN \<Rightarrow> 1 | INFRACTION_DOWNTIME \<Rightarrow> 2)"

text \<open>Errors are logged, and nothing is burnt: the result is always zero and left out.\<close>

definition operator_SlashWithInfractionReason ::
    "codec \<Rightarrow> dec_ops \<Rightarrow> 'x node_env \<Rightarrow> ('x, 'c, 'r) reward_env \<Rightarrow> block_ctx \<Rightarrow> bytes \<Rightarrow> int \<Rightarrow> int \<Rightarrow> dec option \<Rightarrow> Infraction
      \<Rightarrow> 'r slash_store \<times> 'x state \<Rightarrow> ('r slash_store \<times> 'x state) result" where
  "operator_SlashWithInfractionReason C D E R ctx addr infractionHeight pw slashFactor infraction a =
     (case slashFactor of None \<Rightarrow> Inr a
      | Some factor \<Rightarrow>
        if factor \<le> 0 then Inr a
        else case IsAVSByChainID C (avs_of (snd a)) (chain_id C E) of (isAVS, avsAddr) \<Rightarrow>
          if \<not> isAVS then Inr a
          else case operator_Slash C D E R ctx
                 \<lparr>si_IsDogFood = True, si_Power = pw, si_SlashType = infraction_code infraction, si_Operator = addr,
                  si_AVSAddr = avsAddr, si_SlashContract = [],
                  si_SlashID = GetSlashIDForDogfood C (infraction_code infraction) infractionHeight,
                  si_SlashEventHeight = infractionHeight, si_SlashProportion = factor\<rparr> a of
              Inl (Panic m) \<Rightarrow> Inl (Panic m)
            | Inl _ \<Rightarrow> Inr a
            | Inr a' \<Rightarrow> Inr a')"

section \<open>The interface for the Cosmos SDK\<close>

definition dogfood_SlashWithInfractionReason ::
    "codec \<Rightarrow> dec_ops \<Rightarrow> 'x node_env \<Rightarrow> ('x, 'c, 'r) reward_env \<Rightarrow> block_ctx \<Rightarrow> bytes \<Rightarrow> int \<Rightarrow> int \<Rightarrow> dec option \<Rightarrow> Infraction
      \<Rightarrow> 'r slash_store \<times> 'x state \<Rightarrow> ('r slash_store \<times> 'x state) result" where
  "dogfood_SlashWithInfractionReason C D E R ctx addr infractionHeight pw slashFactor infraction a =
     (case a of (st, s) \<Rightarrow>
      case GetOperatorAddressForChainIDAndConsAddr C (avs_of s) (opr_of s) (chain_id C E) addr of
        None \<Rightarrow> Inr a
      | Some accAddress \<Rightarrow>
        (case GetOperatorConsKeyForChainID C (avs_of s) (opr_of s) accAddress (chain_id C E) of
           Inl _ \<Rightarrow> Inl (Panic ''failed to get operator cons key'')
         | Inr currentKey \<Rightarrow>
           rbind (operator_SlashWithInfractionReason C D E R ctx accAddress infractionHeight pw slashFactor infraction a) (\<lambda>(st1, s1).
           let s2 = (case currentKey of None \<Rightarrow> s1
                     | Some key \<Rightarrow> if toConsAddr C key \<noteq> addr
                         then set_rest (CopyValidatorSigningInfo E ctx addr (toConsAddr C key) infraction (rest_of s1)) s1 else s1)
           in
           if infraction = INFRACTION_DOUBLE_SIGN \<and> \<not> IsOperatorFrozen (opr_of s2) accAddress
           then (case FreezeOperator accAddress (opr_of s2) of
                   Inl _ \<Rightarrow> Inl (Panic ''failed to freeze operator'')
                 | Inr os \<Rightarrow> Inr (st1, set_opr os s2))
           else Inr (st1, s2))))"

definition dogfood_Jail ::
    "codec \<Rightarrow> 'x node_env \<Rightarrow> block_ctx \<Rightarrow> bytes \<Rightarrow> 'x state \<Rightarrow> 'x state result" where
  "dogfood_Jail C E ctx addr s = Jail C (OperatorHooks C E ctx) ctx addr (chain_id C E) s"

definition dogfood_Unjail ::
    "codec \<Rightarrow> 'x node_env \<Rightarrow> block_ctx \<Rightarrow> bytes \<Rightarrow> 'x state \<Rightarrow> 'x state result" where
  "dogfood_Unjail C E ctx addr s =
     (case GetOperatorAddressForChainIDAndConsAddr C (avs_of s) (opr_of s) (chain_id C E) addr of
        Some accAddr \<Rightarrow> if IsOperatorFrozen (opr_of s) accAddr then Inr s
          else Unjail C (OperatorHooks C E ctx) ctx addr (chain_id C E) s
      | None \<Rightarrow> Unjail C (OperatorHooks C E ctx) ctx addr (chain_id C E) s)"

definition IsValidatorJailed :: "codec \<Rightarrow> 'x node_env \<Rightarrow> 'x state \<Rightarrow> bytes \<Rightarrow> bool" where
  "IsValidatorJailed C E s addr = IsOperatorJailedForChainID C (avs_of s) (opr_of s) addr (chain_id C E)"

definition MaxValidators :: "dogfood_state \<Rightarrow> uint32" where
  "MaxValidators fs = GetMaxValidators fs"

end
