(* ===== verification/SlashProps.thy ===== *)
theory SlashProps
  imports OperatorSlash NodeExample
begin

text \<open>
  Properties of slashing: what a slash leaves alone, that a double signer is frozen and leaves the set of active operators, the
  division that panics, and the bounds on what is taken.
\<close>

section \<open>What a slash leaves alone\<close>

definition same_mods :: "'x state \<Rightarrow> 'x state \<Rightarrow> bool" where
  "same_mods s s' \<longleftrightarrow> opr_of s' = opr_of s \<and> avs_of s' = avs_of s \<and> dog_of s' = dog_of s \<and> epochs s' = epochs s"

lemma same_mods_simps [simp]:
  "same_mods s s" "same_mods s (s'\<lparr>dlg := d\<rparr>) = same_mods s s'" "same_mods s (s'\<lparr>assets := a\<rparr>) = same_mods s s'"
  "same_mods s (s'\<lparr>world := (world s')\<lparr>rest := x\<rparr>\<rparr>) = same_mods s s'" "same_mods s (set_rest x s') = same_mods s s'"
  by (simp_all add: same_mods_def opr_of_def avs_of_def dog_of_def set_rest_def)

lemma slash_undelegation_frame:
  assumes "slash_undelegation_op D (node_slash_env C D E R) p u (s, infos) = Inr (u', s', infos')"
  shows "same_mods s s'"
  using assms
  by (auto simp: slash_undelegation_op_def SlashFromUndelegation_def node_slash_env_def Let_def rbind_eq_Inr_iff split: if_splits)

lemma iterate_undelegations_frame:
  assumes S: "IterateUndelegationsByOperator C op h upd (Some (slash_undelegation_op D (node_slash_env C D E R) p)) ds (s, infos) = Inr (ds', s', infos')"
  shows "same_mods s s'"
proof -
  obtain a kvs where F: "rfold (\<lambda>(key, undelegation) (updatedKeyValues, a).
      rbind (case h of None \<Rightarrow> Inr False | Some h \<Rightarrow> rbind (ParseUndelegationRecordKey C key) (\<lambda>keyFields. Inr (kf_BlockHeight keyFields < h))) (\<lambda>skip.
      if skip then Inr (updatedKeyValues, a)
      else rbind (slash_undelegation_op D (node_slash_env C D E R) p undelegation a) (\<lambda>(undelegation', a').
        Inr (if upd then updatedKeyValues @ [(key, undelegation')] else updatedKeyValues, a'))))
      (kv_iterate a (undelegations ds)) ([], s, infos) = Inr (kvs, s', infos')"
    using S by (auto simp: IterateUndelegationsByOperator_def rbind_eq_Inr_iff)
  have "(\<lambda>(kvs, s', _). same_mods s s') (kvs, s', infos')"
    by (rule rfold_invariant [OF F])
      (auto simp: rbind_eq_Inr_iff same_mods_def dest!: slash_undelegation_frame split: if_splits)
  then show ?thesis by simp
qed

lemma SlashAssets_frame:
  assumes "SlashAssets C D (node_slash_env C D E R) ctx h p s = Inr (info, s')"
  shows "same_mods s s'"
  using assms unfolding SlashAssets_def Let_def
  by (auto simp: rbind_eq_Inr_iff dest!: iterate_undelegations_frame split: if_splits)
     (auto simp: node_slash_env_def rbind_eq_Inr_iff same_mods_def opr_of_def avs_of_def dog_of_def)

text \<open>Slashing changes the values of operators and marks the validator set for an update.\<close>

definition slash_frame :: "'x state \<Rightarrow> 'x state \<Rightarrow> bool" where
  "slash_frame s s' \<longleftrightarrow> same_ops (opr_of s) (opr_of s') \<and> avs_of s' = avs_of s \<and> epochs s' = epochs s \<and>
     (dog_of s' = dog_of s \<or> dog_of s' = MarkUpdateValidatorSetFlag (dog_of s))"

lemma slash_frame_refl [simp]: "slash_frame s s"
  by (simp add: slash_frame_def)

lemma update_affected_step:
  assumes "update_affected C D E ctx t avs s = Inr s'"
  shows "power_frame s s'"
proof -
  obtain i :: EpochInfo where S: "(case UpdateVotingPower C D E ctx avs (ei_Identifier i) (ei_CurrentEpoch i) True s of
      (_, Inl e) \<Rightarrow> Inl e | (cc', Inr _) \<Rightarrow> Inr cc') = Inr s'"
    using assms by (auto simp: update_affected_def rbind_eq_Inr_iff)
  obtain cc r where U: "UpdateVotingPower C D E ctx avs (ei_Identifier i) (ei_CurrentEpoch i) True s = (cc, r)" by fastforce
  then show ?thesis using S UpdateVotingPower_frame [OF U] by (cases r) simp_all
qed

lemma update_affected_frame:
  assumes "rfold (update_affected C D E ctx t) avss s = Inr s'"
  shows "power_frame s s'"
  by (rule rfold_invariant [OF assms]) (auto dest: update_affected_step intro: power_frame_trans)

lemma AfterSlash_frame:
  assumes "AfterSlash C E R a p avss pool rs s = Inr s'"
  shows "opr_of s' = opr_of s \<and> avs_of s' = avs_of s \<and> epochs s' = epochs s \<and>
    (dog_of s' = dog_of s \<or> dog_of s' = MarkUpdateValidatorSetFlag (dog_of s))"
proof -
  let ?s = "afterStakingOrJailChange C E a False avss s"
  have "opr_of ?s = opr_of s \<and> avs_of ?s = avs_of s \<and> epochs ?s = epochs s \<and> (dog_of ?s = dog_of s \<or> dog_of ?s = MarkUpdateValidatorSetFlag (dog_of s))"
    by (auto simp: afterStakingOrJailChange_def Let_def split: sum.split option.split)
  moreover have "s' = ?s \<or> (\<exists>x. s' = set_rest x ?s)"
    using assms by (auto simp: AfterSlash_def Let_def split: sum.splits error.splits)
  ultimately show ?thesis by auto
qed

lemma operator_Slash_frame:
  assumes "operator_Slash C D E R ctx p (st, s) = Inr (st', s')"
  shows "slash_frame s s'"
proof (cases "s' = s")
  case False
  then obtain h p' info s1 l es s2 where s1: "SlashAssets C D (node_slash_env C D E R) ctx h p' s = Inr (info, s1)"
    and s2: "rfold (update_affected C D E ctx s) l (UpdateAllOperatorAssetUSDValues C D E es s1) = Inr s2"
    and s3: "AfterSlash C E R (si_Operator p') (se_SlashProportion info) l (se_SlashAssetsPool info) (se_SlashUnclaimedRewards info) s2 = Inr s'"
    using assms unfolding operator_Slash_def Let_def by (auto simp: rbind_eq_Inr_iff split: if_splits prod.splits)
  note p = power_frame_trans [OF all_asset_usd_frame update_affected_frame [OF s2]]
  show ?thesis
    using SlashAssets_frame [OF s1] power_frameD [OF p] AfterSlash_frame [OF s3] by (auto simp: slash_frame_def same_mods_def)
qed simp

lemma keep_unless_panic:
  "(case r of Inl (Panic m) \<Rightarrow> Inl (Panic m) | Inl _ \<Rightarrow> Inr a | Inr b \<Rightarrow> Inr b) = Inr c \<Longrightarrow> c = a \<or> r = Inr c" for r :: "'b result"
proof (cases r)
  case (Inl e)
  then show "(case r of Inl (Panic m) \<Rightarrow> Inl (Panic m) | Inl _ \<Rightarrow> Inr a | Inr b \<Rightarrow> Inr b) = Inr c \<Longrightarrow> c = a \<or> r = Inr c" by (cases e) simp_all
qed simp

lemma infraction_frame:
  assumes S: "operator_SlashWithInfractionReason C D E R ctx a h pw f i (st, s) = Inr (st', s')"
  shows "slash_frame s s'"
proof -
  have "(st', s') = (st, s) \<or> (\<exists>p. operator_Slash C D E R ctx p (st, s) = Inr (st', s'))"
  proof (cases "IsAVSByChainID C (avs_of s) (chain_id C E)")
    case (Pair b x)
    then show ?thesis using S unfolding operator_SlashWithInfractionReason_def
      by (auto split: option.splits if_splits dest!: keep_unless_panic)
  qed
  then show ?thesis using operator_Slash_frame by fastforce
qed

section \<open>Frozen operators\<close>

lemma active_not_frozen:
  assumes S: "GetActiveOperatorsForChainID C av os c = Inr active" and "chain_codec C" "acc a" "IsOperatorFrozen os a"
  shows "(a, k) \<notin> set active"
proof -
  have a: "accAddressFromBech32 C (accAddressString C a) = Some a" using chain_codec.acc_roundtrip [OF assms(2)] assms(3) by blast
  show ?thesis
  proof (cases "fst (IsAVSByChainID C av c)")
    case True
    obtain x where "rfold (\<lambda>(operator, pk) active. rbind (IsOptedInAndNotJailed C os (accAddressString C operator) x) (\<lambda>ok.
        Inr (if ok then active @ [(operator, pk)] else active))) (GetOperatorsForChainID C av os c) [] = Inr active"
      using S True by (auto simp: GetActiveOperatorsForChainID_def split: prod.splits)
    then show ?thesis
      by (rule rfold_invariant [where I = "\<lambda>l. (a, k) \<notin> set l"])
        (use a assms(4) in \<open>auto simp: rbind_eq_Inr_iff IsOptedInAndNotJailed_def split: if_splits\<close>)
  next
    case False
    then show ?thesis using S by (auto simp: GetActiveOperatorsForChainID_def split: prod.splits)
  qed
qed

section \<open>Double signing\<close>

text \<open>
  C8: when a double sign is reported for a consensus address that resolves to an operator, the operator is frozen, also if
  slashing its assets fails with an error: the operator is then no longer among the active ones, and a request to unjail it
  is ignored.
\<close>
theorem double_sign_freezes:
  assumes "chain_codec C" "length a = AccAddressLength" "IsOperator (opr_of s) a"
    and own: "GetOperatorAddressForChainIDAndConsAddr C (avs_of s) (opr_of s) (chain_id C E) addr = Some a"
    and slashed: "operator_SlashWithInfractionReason C D E R ctx a h pw f INFRACTION_DOUBLE_SIGN (st, s) = Inr (st1, s1)"
  shows "\<exists>st' s'. dogfood_SlashWithInfractionReason C D E R ctx addr h pw f INFRACTION_DOUBLE_SIGN (st, s) = Inr (st', s') \<and>
    IsOperatorFrozen (opr_of s') a \<and> dogfood_Unjail C E ctx addr s' = Inr s' \<and>
    (\<forall>active. GetActiveOperatorsForChainID C (avs_of s') (opr_of s') (chain_id C E) = Inr active \<longrightarrow> a \<notin> fst ` set active)"
proof -
  note F = infraction_frame [OF slashed, unfolded slash_frame_def]
  have av: "fst (IsAVSByChainID C (avs_of s) (chain_id C E))" using own by (auto simp: GetOperatorAddressForChainIDAndConsAddr_def split: if_splits)
  then obtain k where k: "GetOperatorConsKeyForChainID C (avs_of s) (opr_of s) a (chain_id C E) = Inr k"
    using assms(3) by (simp add: GetOperatorConsKeyForChainID_def)
  define s2 where "s2 = (case k of None \<Rightarrow> s1 | Some key \<Rightarrow> if toConsAddr C key \<noteq> addr
    then set_rest (CopyValidatorSigningInfo E ctx addr (toConsAddr C key) INFRACTION_DOUBLE_SIGN (rest_of s1)) s1 else s1)"
  have s2: "opr_of s2 = opr_of s1" "avs_of s2 = avs_of s" using F by (auto simp: s2_def split: option.split)
  then have op: "IsOperator (opr_of s2) a" using F assms(3) by (simp add: same_ops_def IsOperator_def)
  obtain s' where s': "dogfood_SlashWithInfractionReason C D E R ctx addr h pw f INFRACTION_DOUBLE_SIGN (st, s) = Inr (st1, s')"
    and fr: "IsOperatorFrozen (opr_of s') a" and m: "avs_of s' = avs_of s" "consAddrs (opr_of s') = consAddrs (opr_of s)"
  proof (rule that)
    let ?s' = "if IsOperatorFrozen (opr_of s2) a then s2 else set_opr ((opr_of s2)\<lparr>frozenOperators := kv_set a () (frozenOperators (opr_of s2))\<rparr>) s2"
    show "dogfood_SlashWithInfractionReason C D E R ctx addr h pw f INFRACTION_DOUBLE_SIGN (st, s) = Inr (st1, ?s')"
      unfolding dogfood_SlashWithInfractionReason_def using own k slashed op
      by (simp add: Let_def s2_def [symmetric] FreezeOperator_def)
    show "IsOperatorFrozen (opr_of ?s') a" by (simp add: IsOperatorFrozen_def kv_has_iff kv_get_set)
    show "avs_of ?s' = avs_of s" "consAddrs (opr_of ?s') = consAddrs (opr_of s)" using s2 F by (simp_all add: same_ops_def)
  qed
  have "dogfood_Unjail C E ctx addr s' = Inr s'"
    using own fr m av by (simp add: dogfood_Unjail_def GetOperatorAddressForChainIDAndConsAddr_def)
  then show ?thesis using s' fr active_not_frozen [OF _ assms(1,2) fr] by fastforce
qed

definition ex_rewards :: "(unit, unit, unit) reward_env" where
  "ex_rewards = \<lparr>rw_sources = (\<lambda>_ _. ()), rw_SlashRewardUndelegation = (\<lambda>u _ _. Inr (u, ())),
     rw_SlashOperatorUnclaimedRewards = (\<lambda>_ _ _ _. Inr ([], ())), rw_HandleOperatorSlashEvent = (\<lambda>_ _ _ _ _. Inr ())\<rparr>"

lemma ex_joined_owner:
  "GetOperatorAddressForChainIDAndConsAddr ref_codec (avs_of ex_joined) (opr_of ex_joined) (chain_id ref_codec ref_env)
     (toConsAddr ref_codec ex_key) = Some ex_operator"
  "IsOperator (opr_of ex_joined) ex_operator"
  by (simp_all add: GetOperatorAddressForChainIDAndConsAddr_def IsAVSByChainID_def ex_joined_parts ex_eval IsOperator_def)
    (simp add: ex_joined_eq setOperatorConsKeyForChainIDUnchecked_def ex_eval)

lemma ex_no_snapshot:
  "operator_SlashWithInfractionReason ref_codec legacy_dec ref_env ex_rewards ex_ctx ex_operator 6 100 (Some (5 * 10 ^ 16)) INFRACTION_DOUBLE_SIGN
     ([], ex_joined) = Inr ([], ex_joined)"
proof -
  have "votingPowerSnapshots (opr_of ex_joined) = []"
    by (simp add: ex_joined_eq setOperatorConsKeyForChainIDUnchecked_def) (simp add: ex_node_def opr_of_def)
  then show ?thesis
    by (auto simp: operator_SlashWithInfractionReason_def IsAVSByChainID_def ex_joined_parts ex_eval operator_Slash_def CheckSlashParameter_def
        ex_ctx_def LoadVotingPowerSnapshot_def GetSnapshotHeightAndKey_def kv_iterate_def)
qed

theorem double_sign_freezes_witness:
  "\<exists>st' s'. dogfood_SlashWithInfractionReason ref_codec legacy_dec ref_env ex_rewards ex_ctx (toConsAddr ref_codec ex_key) 6 100
     (Some (5 * 10 ^ 16)) INFRACTION_DOUBLE_SIGN ([], ex_joined) = Inr (st', s') \<and> IsOperatorFrozen (opr_of s') ex_operator"
  using double_sign_freezes [OF chain_codec_ref ex_operator_bech32(2) ex_joined_owner(2,1) ex_no_snapshot] by blast

definition ex_snapshot :: VotingPowerSnapshot where
  "ex_snapshot = \<lparr>vs_TotalVotingPower = 100 * dec_precision,
     vs_OperatorVotingPowers = [\<lparr>vp_OperatorAddr = accAddressString ref_codec ex_operator, vp_VotingPower = 100 * dec_precision\<rparr>],
     vs_LastChangedHeight = 6, vs_EpochIdentifier = ''day'', vs_EpochNumber = 3\<rparr>"

definition ex_emptied :: "unit state" where
  "ex_emptied = set_opr ((opr_of ex_joined)\<lparr>votingPowerSnapshots :=
     [(KeyForVotingPowerSnapshot ref_codec (hexToAddress ref_codec ex_avs_address) 6, ex_snapshot)]\<rparr>) ex_joined"

lemma ex_emptied_parts:
  "avs_of ex_emptied = avs_of ex_node" "consAddrs (opr_of ex_emptied) = consAddrs (opr_of ex_joined)" "consKeys (opr_of ex_emptied) = consKeys (opr_of ex_joined)"
  "operatorInfos (opr_of ex_emptied) = [(ex_operator, ex_info)]" "operatorAssetInfos (assets ex_emptied) = []"
  "votingPowerSnapshots (opr_of ex_emptied) = [(KeyForVotingPowerSnapshot ref_codec (hexToAddress ref_codec ex_avs_address) 6, ex_snapshot)]"
  by (simp_all add: ex_emptied_def ex_joined_parts) (simp add: ex_joined_eq ex_node_parts)

lemma ex_avs_hex: "isHexAddress ref_codec ex_avs_address"
  unfolding ex_avs_address_def GenerateAVSAddress_def rc.address_lower by (simp add: ref_codec_def hex0x_def unhex_hex_bytes)


section \<open>Bounds on a slash\<close>

lemma tdiv_part:
  assumes "0 \<le> p" "p \<le> dec_precision" "0 \<le> t"
  shows "0 \<le> tdiv (p * t) dec_precision \<and> tdiv (p * t) dec_precision \<le> t \<and> tdiv (p * t) dec_precision * dec_precision \<le> p * t"
proof -
  have eq: "tdiv (p * t) dec_precision = p * t div dec_precision"
    using assms dec_precision_pos by (cases "p * t = 0") (auto simp: tdiv_def sgn_if zero_less_mult_iff)
  have "p * t \<le> dec_precision * t" using assms by (intro mult_right_mono) simp_all
  then have "p * t div dec_precision \<le> t" using dec_precision_pos by (metis nonzero_mult_div_cancel_left zdiv_mono1 less_irrefl)
  then show ?thesis unfolding eq using assms dec_precision_pos
    by (simp add: pos_imp_zdiv_nonneg_iff) (simp add: minus_mod_eq_div_mult [symmetric])
qed

text \<open>A pool before and after: what is taken is a part of it, rounded down.\<close>

definition slashed_pool :: "dec \<Rightarrow> OperatorAssetInfo \<Rightarrow> OperatorAssetInfo \<Rightarrow> bool" where
  "slashed_pool p i i' \<longleftrightarrow> 0 \<le> oa_TotalAmount i' \<and> oa_TotalAmount i' \<le> oa_TotalAmount i \<and>
     (oa_TotalAmount i - oa_TotalAmount i') * dec_precision \<le> p * oa_TotalAmount i \<and>
     oa_PendingUndelegationAmount i' = oa_PendingUndelegationAmount i"

lemma slash_pool_bounds:
  assumes S: "slash_pool_op legacy_dec op p x i a = Inr (i', a')" and p: "0 \<le> p" "p \<le> dec_precision" and t: "0 \<le> oa_TotalAmount i"
  shows "slashed_pool p i i'"
proof -
  obtain ds pool where a: "a = (ds, pool)" by (cases a)
  let ?n = "tdiv (p * oa_TotalAmount i) dec_precision"
  have "oa_TotalAmount i' = oa_TotalAmount i \<or> oa_TotalAmount i' = oa_TotalAmount i - ?n"
    and "oa_PendingUndelegationAmount i' = oa_PendingUndelegationAmount i"
    using S by (auto simp: slash_pool_op_def a Let_def legacy_dec_def rbind_eq_Inr_iff split: if_splits)
  then show ?thesis using tdiv_part [OF p t] p t by (auto simp: slashed_pool_def)
qed

lemma kv_get_fold_set: "kv_get (fold (\<lambda>(k, v). kv_set k v) us st) k = (case map_of (rev us) k of None \<Rightarrow> kv_get st k | Some v \<Rightarrow> Some v)"
  by (induction us arbitrary: st) (auto simp: kv_get_set map_add_def split: option.split)

lemma iterate_pools_bounds:
  assumes S: "IterateAssetsForOperator C True op None (Some (slash_pool_op legacy_dec op p)) as a = Inr (as', a')"
    and p: "0 \<le> p" "p \<le> dec_precision" and wf: "kv_wf (operatorAssetInfos as)"
    and t: "\<And>k i. kv_get (operatorAssetInfos as) k = Some i \<Longrightarrow> 0 \<le> oa_TotalAmount i"
    and k: "kv_get (operatorAssetInfos as) k = Some i"
  shows "\<exists>i'. kv_get (operatorAssetInfos as') k = Some i' \<and> slashed_pool p i i'"
proof -
  let ?I = "\<lambda>us. \<forall>(k, i')\<in>set us. \<exists>i. kv_get (operatorAssetInfos as) k = Some i \<and> slashed_pool p i i'"
  obtain us where F: "rfold (\<lambda>(key, amounts) (us, a). rbind (ParseJoinedKeyWithCount key 2) (\<lambda>keys.
      if (case None of None \<Rightarrow> False | Some F \<Rightarrow> keys ! 1 \<notin> F) then Inr (us, a)
      else rbind (slash_pool_op legacy_dec op p (keys ! 1) amounts a) (\<lambda>(amounts', a'). Inr (if True then us @ [(key, amounts')] else us, a'))))
      (kv_iterate op (operatorAssetInfos as)) ([], a) = Inr (us, a')"
    and as': "as' = as\<lparr>operatorAssetInfos := fold (\<lambda>(key, v). kv_set key v) us (operatorAssetInfos as)\<rparr>"
    using S by (auto simp: IterateAssetsForOperator_def rbind_eq_Inr_iff split: option.splits)
  have "(\<lambda>(us, a). ?I us) (us, a')"
  proof (rule rfold_invariant [OF F])
    fix x b c
    assume x: "x \<in> set (kv_iterate op (operatorAssetInfos as))" and I: "(\<lambda>(us, a). ?I us) b"
      and step: "(\<lambda>(key, amounts) (us, a). rbind (ParseJoinedKeyWithCount key 2) (\<lambda>keys.
      if (case None of None \<Rightarrow> False | Some F \<Rightarrow> keys ! 1 \<notin> F) then Inr (us, a)
      else rbind (slash_pool_op legacy_dec op p (keys ! 1) amounts a) (\<lambda>(amounts', a'). Inr (if True then us @ [(key, amounts')] else us, a')))) x b = Inr c"
    obtain key v where kv: "x = (key, v)" by (cases x)
    have g: "kv_get (operatorAssetInfos as) key = Some v"
      using x kv_wf_distinct [OF wf] by (simp add: kv kv_iterate_def kv_get_def)
    obtain us0 a0 where b: "b = (us0, a0)" by (cases b)
    obtain y v' a1 where "slash_pool_op legacy_dec op p y v a0 = Inr (v', a1)" "c = (us0 @ [(key, v')], a1)"
      using step by (auto simp: kv b rbind_eq_Inr_iff)
    then show "(\<lambda>(us, a). ?I us) c" using I g slash_pool_bounds [OF _ p t [OF g]] by (auto simp: b)
  qed simp
  then have all: "slashed_pool p i i'" if "map_of (rev us) k = Some i'" for i'
    using that k by (fastforce dest!: map_of_SomeD)
  have refl: "slashed_pool p i i" using t [OF k] p by (simp add: slashed_pool_def)
  show ?thesis unfolding as' using k all refl by (auto simp: kv_get_fold_set split: option.split)
qed

lemma chop_round_nonneg: "0 \<le> d \<Longrightarrow> 0 \<le> chop_round d"
  using dec_precision_pos by (auto simp: chop_round_def Let_def sgn_if zero_le_mult_iff pos_imp_zdiv_nonneg_iff)

lemma tdiv_nonneg: "0 \<le> a \<Longrightarrow> 0 < b \<Longrightarrow> 0 \<le> tdiv a b"
  by (auto simp: tdiv_def sgn_if pos_imp_zdiv_nonneg_iff)

lemma slash_undelegations_assets:
  assumes S: "IterateUndelegationsByOperator C op h upd (Some (slash_undelegation_op D V p)) ds (s, infos) = Inr (ds', s', infos')"
  shows "assets s' = assets s"
proof -
  have step: "assets s1 = assets s0" if "slash_undelegation_op D V p u (s0, i0) = Inr (u', s1, i1)" for u s0 i0 u' s1 i1
    using that by (auto simp: slash_undelegation_op_def SlashFromUndelegation_def Let_def rbind_eq_Inr_iff split: if_splits)
  obtain a kvs where F: "rfold (\<lambda>(key, undelegation) (updatedKeyValues, a).
      rbind (case h of None \<Rightarrow> Inr False | Some h \<Rightarrow> rbind (ParseUndelegationRecordKey C key) (\<lambda>keyFields. Inr (kf_BlockHeight keyFields < h))) (\<lambda>skip.
      if skip then Inr (updatedKeyValues, a)
      else rbind (slash_undelegation_op D V p undelegation a) (\<lambda>(undelegation', a').
        Inr (if upd then updatedKeyValues @ [(key, undelegation')] else updatedKeyValues, a'))))
      (kv_iterate a (undelegations ds)) ([], s, infos) = Inr (kvs, s', infos')"
    using S by (auto simp: IterateUndelegationsByOperator_def rbind_eq_Inr_iff)
  have "(\<lambda>(kvs, s', _). assets s' = assets s) (kvs, s', infos')"
    by (rule rfold_invariant [OF F]) (auto simp: rbind_eq_Inr_iff dest!: step split: if_splits)
  then show ?thesis by simp
qed

text \<open>
  C10: a slash takes at most the whole of an operator's pools and at most the proportion it records, which is between zero and one: no pool
  grows or becomes negative, rounding is in favour of the stakers, and the amount that waits for undelegation is not touched.
\<close>
theorem slash_bounded:
  assumes S: "SlashAssets C legacy_dec V ctx h prm s = Inr (info, s')"
    and "sv_value V s (accAddressString C (si_Operator prm)) = Inr (v, src)" "0 < v" "0 \<le> si_Power prm" "0 \<le> si_SlashProportion prm"
    and wf: "kv_wf (operatorAssetInfos (assets s))" and t: "list_all (\<lambda>(k, i). 0 \<le> oa_TotalAmount i) (operatorAssetInfos (assets s))"
    and k: "kv_get (operatorAssetInfos (assets s)) k = Some i"
  shows "0 \<le> se_SlashProportion info \<and> se_SlashProportion info \<le> newDec legacy_dec 1 \<and>
    (\<exists>i'. kv_get (operatorAssetInfos (assets s')) k = Some i' \<and> slashed_pool (se_SlashProportion info) i i')"
proof -
  let ?op = "accAddressString C (si_Operator prm)"
  let ?p = "min (newDec legacy_dec 1) (quoDec legacy_dec (mulDec legacy_dec (newDec legacy_dec (si_Power prm)) (si_SlashProportion prm)) v)"
  obtain s2 infos as3 ds3 pool rs w' where
    u: "(if si_SlashEventHeight prm < BlockHeight ctx
        then rbind (IterateUndelegationsByOperator C ?op (Some (of_int h)) True (Some (slash_undelegation_op legacy_dec V ?p)) (dlg s) (s, []))
               (\<lambda>(ds1, s1, infos). Inr (s1\<lparr>dlg := ds1\<rparr>, infos)) else Inr (s, [])) = Inr (s2, infos)"
    and it: "IterateAssetsForOperator C True ?op None (Some (slash_pool_op legacy_dec ?op ?p)) (assets s2) (dlg s2, []) = Inr (as3, ds3, pool)"
    and info: "se_SlashProportion info = ?p" and s': "s' = s2\<lparr>assets := as3, dlg := ds3, world := w'\<rparr>"
    using S assms(2,3) unfolding SlashAssets_def Let_def by (auto simp: rbind_eq_Inr_iff)
  have as: "assets s2 = assets s" using u by (auto simp: rbind_eq_Inr_iff dest: slash_undelegations_assets split: if_splits)
  have p: "0 \<le> ?p" "?p \<le> dec_precision"
    using assms(3-5) dec_precision_pos by (simp_all add: legacy_dec_def chop_round_nonneg tdiv_nonneg)
  have t': "0 \<le> oa_TotalAmount i" if "kv_get (operatorAssetInfos (assets s)) k = Some i" for k i
    using that t by (auto simp: list_all_iff kv_get_def dest!: map_of_SomeD)
  from iterate_pools_bounds [OF it p, unfolded as, OF wf t' k] show ?thesis
    unfolding info using p by (simp add: s' legacy_dec_def)
qed

definition ex_pool :: OperatorAssetInfo where
  "ex_pool = \<lparr>oa_TotalAmount = 1000, oa_PendingUndelegationAmount = 20, oa_TotalShare = 1000 * dec_precision, oa_OperatorShare = 0\<rparr>"

definition ex_pool_key :: bytes where
  "ex_pool_key = GetJoinedStoreKey [accAddressString ref_codec ex_operator, ''token'']"

definition ex_staked :: "unit state" where
  "ex_staked = ex_joined\<lparr>assets := (assets ex_joined)\<lparr>operatorAssetInfos := [(ex_pool_key, ex_pool)]\<rparr>\<rparr>"

definition ex_values :: "(unit node, unit, unit) slash_env" where
  "ex_values = \<lparr>sv_value = (\<lambda>_ _. Inr (1000 * dec_precision, ())), sv_SlashRewardUndelegation = (\<lambda>u _ s. Inr (u, world s)),
     sv_SlashOperatorUnclaimedRewards = (\<lambda>_ _ _ s. Inr ([], world s))\<rparr>"

definition ex_infraction :: SlashInputInfo where
  "ex_infraction = \<lparr>si_IsDogFood = True, si_Power = 100, si_SlashType = 1, si_Operator = ex_operator, si_AVSAddr = ex_avs_address,
     si_SlashContract = [], si_SlashID = ''id'', si_SlashEventHeight = 7, si_SlashProportion = 5 * 10 ^ 16\<rparr>"

lemma ex_pool_parse: "ParseJoinedKeyWithCount ex_pool_key 2 = Inr [accAddressString ref_codec ex_operator, ''token'']"
  using ParseJoinedKeyWithCount_joined [of "[accAddressString ref_codec ex_operator, ''token'']"] rc.acc_part
  by (simp add: ex_pool_key_def no_char_def DelimiterForCombinedKey_def numeral_2_eq_2)

lemma ex_slash:
  "\<exists>info s'. SlashAssets ref_codec legacy_dec ex_values ex_ctx 6 ex_infraction ex_staked = Inr (info, s')"
proof -
  have "\<exists>i' a'. slash_pool_op legacy_dec (accAddressString ref_codec ex_operator) 5000000000000000 ''token'' ex_pool (dlg ex_joined, []) = Inr (i', a')"
    by (simp add: slash_pool_op_def legacy_dec_def tdiv_def dec_precision_def ex_pool_def)
  then obtain i' ds pool where
    op: "slash_pool_op legacy_dec (accAddressString ref_codec ex_operator) 5000000000000000 ''token'' ex_pool (dlg ex_joined, []) = Inr (i', ds, pool)"
    by auto
  have pre: "prefix (accAddressString ref_codec ex_operator) ex_pool_key" by (simp add: ex_pool_key_def GetJoinedStoreKey_def)
  have m: "mulDec legacy_dec (newDec legacy_dec 100) 50000000000000000 = 5000000000000000000"
    by (simp add: legacy_dec_def chop_round_def dec_precision_def Let_def)
  have q: "quoDec legacy_dec 5000000000000000000 1000000000000000000000 = 5000000000000000" by code_simp
  have n: "newDec legacy_dec 1 = 1000000000000000000" by (simp add: legacy_dec_def dec_precision_def)
  show ?thesis using op pre
    by (simp add: SlashAssets_def ex_infraction_def ex_values_def ex_ctx_def dec_precision_def ex_staked_def IterateAssetsForOperator_def
        kv_iterate_def ex_pool_parse m q n)
qed

theorem slash_bounded_witness:
  "\<exists>info s' i'. SlashAssets ref_codec legacy_dec ex_values ex_ctx 6 ex_infraction ex_staked = Inr (info, s') \<and>
     kv_get (operatorAssetInfos (assets s')) ex_pool_key = Some i' \<and> oa_TotalAmount i' \<le> 1000"
proof -
  obtain info s' where S: "SlashAssets ref_codec legacy_dec ex_values ex_ctx 6 ex_infraction ex_staked = Inr (info, s')" using ex_slash by blast
  have a: "operatorAssetInfos (assets ex_staked) = [(ex_pool_key, ex_pool)]" by (simp add: ex_staked_def)
  show ?thesis
    using slash_bounded [OF S, of "1000 * dec_precision" "()" ex_pool_key ex_pool] S
    by (auto simp: a ex_values_def ex_infraction_def dec_precision_def kv_wf_def kv_get_def ex_pool_def slashed_pool_def)
qed

end
