(* ===== verification/AvsTasks.thy ===== *)
theory AvsTasks
  imports Opting Dogfood
begin

text \<open>
  The tasks of AVSs (\<^verbatim>\<open>x/avs/keeper/task.go\<close> and the operations of \<^verbatim>\<open>keeper.go\<close>): BLS keys of
  operators, tasks and their identifiers, results that are submitted in two phases, challenges, and the
  statistics at the end of an epoch (\<^verbatim>\<open>impl_epoch_hook.go\<close>); registering, updating and removing an
  AVS. The stores of tasks are kept beside the node, as the other modules do not read them.
\<close>

section \<open>Data\<close>

record OperatorActivePowerInfo =
  ap_OperatorAddress :: string
  ap_SelfActivePower :: dec

text \<open>A total power that was never set is stored as zero.\<close>

record TaskInfo =
  ti_TaskContractAddress :: string
  ti_Name :: string
  ti_Hash :: bytes
  ti_TaskId :: uint64
  ti_TaskResponsePeriod :: uint64
  ti_TaskStatisticalPeriod :: uint64
  ti_TaskChallengePeriod :: uint64
  ti_ThresholdPercentage :: uint64
  ti_StartingEpoch :: uint64
  ti_ActualThreshold :: string
  ti_OptInOperators :: "string list"
  ti_SignedOperators :: "string list"
  ti_NoSignedOperators :: "string list"
  ti_ErrSignedOperators :: "string list"
  ti_TaskTotalPower :: dec
  ti_OperatorActivePower :: "OperatorActivePowerInfo list option"
  ti_IsExpected :: bool
  ti_EligibleRewardOperators :: "string list"
  ti_EligibleSlashOperators :: "string list"

record BlsPubKeyInfo =
  bk_OperatorAddress :: string
  bk_AvsAddress :: string
  bk_PubKey :: bytes

record TaskResultInfo =
  tr_OperatorAddress :: string
  tr_TaskResponseHash :: string
  tr_TaskResponse :: "bytes option"
  tr_BlsSignature :: "bytes option"
  tr_TaskContractAddress :: string
  tr_TaskId :: uint64
  tr_Phase :: int

definition PhasePrepare :: int where "PhasePrepare = 1"
definition PhaseDoCommit :: int where "PhaseDoCommit = 2"

record TaskID =
  tn_TaskAddress :: string
  tn_TaskId :: uint64

record ChallengeInfo =
  ci_Key :: bytes
  ci_ChallengeAddress :: string

record ChainIDInfo =
  cd_AvsAddress :: string
  cd_ChainId :: string

text \<open>The store of BLS keys holds the information by operator and AVS, and each key once more under itself.\<close>

datatype bls_entry = BlsInfo BlsPubKeyInfo | BlsKey bytes

record task_state =
  taskInfos :: "(bytes, TaskInfo) kv"
  operatePubs :: "(bytes, bls_entry) kv"
  latestTaskNums :: "(bytes, uint64) kv"
  taskResults :: "(bytes, TaskResultInfo) kv"
  taskChallenges :: "(bytes, bytes) kv"

text \<open>The BLS library, and the code that \<^verbatim>\<open>x/evm\<close> stores for the addresses of chains.\<close>

record ('k, 'x) bls_env =
  be_PublicKeyFromBytes :: "bytes \<Rightarrow> 'k option"
  be_VerifySignature :: "bytes \<Rightarrow> bytes \<Rightarrow> 'k \<Rightarrow> bool option"
  be_SetCode :: "'x \<Rightarrow> 'x"

section \<open>Strings and lists\<close>

definition FormatUint :: "uint64 \<Rightarrow> string" where
  "FormatUint w = decimal (unat w)"

fun digits_value :: "nat \<Rightarrow> string \<Rightarrow> nat option" where
  "digits_value n [] = Some n"
| "digits_value n (c # cs) =
     (let d = (of_char c :: nat) in if 48 \<le> d \<and> d \<le> 57 then digits_value (10 * n + (d - 48)) cs else None)"

definition ParseUint :: "string \<Rightarrow> uint64 option" where
  "ParseUint s =
     (if s = [] then None
      else case digits_value 0 s of None \<Rightarrow> None | Some n \<Rightarrow> if n < 2 ^ 64 then Some (of_nat n) else None)"

text \<open>A field of bytes that is empty is not written, and is nil when it is read again.\<close>

definition stored_bytes :: "bytes option \<Rightarrow> bytes option" where
  "stored_bytes b = (if b = Some [] then None else b)"

text \<open>Elements of the second list that are not, or no longer, in the first, and what is left of the first.\<close>

definition diff_step :: "string \<Rightarrow> string list \<times> string list \<Rightarrow> string list \<times> string list" where
  "diff_step item a = (case a of (diffMap, different) \<Rightarrow>
     if item \<in> set diffMap then (removeAll item diffMap, different) else (diffMap, different @ [item]))"

definition Difference :: "string list \<Rightarrow> string list \<Rightarrow> string list" where
  "Difference a b = (case fold diff_step b (remdups a, []) of (diffMap, different) \<Rightarrow> sort (different @ diffMap))"

definition DelimiterForGroupKey :: char where
  "DelimiterForGroupKey = CHR ''_''"

definition parseGroupKey :: "string \<Rightarrow> (string \<times> uint64) option" where
  "parseGroupKey key =
     (case split_char DelimiterForGroupKey key of
        [taskAddr, part] \<Rightarrow> (case ParseUint part of None \<Rightarrow> None | Some taskID \<Rightarrow> Some (taskAddr, taskID))
      | _ \<Rightarrow> None)"

definition newDecWithPrec2 :: "uint64 \<Rightarrow> dec" where
  "newDecWithPrec2 w = sint w * 10 ^ 16"

section \<open>The stores\<close>

definition task_key :: "string \<Rightarrow> string \<Rightarrow> bytes" where
  "task_key taskContractAddress taskID = GetJoinedStoreKey [to_lower taskContractAddress, taskID]"

definition SetTaskInfo :: "codec \<Rightarrow> TaskInfo \<Rightarrow> task_state \<Rightarrow> task_state result" where
  "SetTaskInfo C task ts =
     (if \<not> isHexAddress C (ti_TaskContractAddress task) then Inl (AvsErr ErrInvalidAddr)
      else Inr (ts\<lparr>taskInfos := kv_set (task_key (ti_TaskContractAddress task) (FormatUint (ti_TaskId task))) task (taskInfos ts)\<rparr>))"

definition GetTaskInfo :: "codec \<Rightarrow> task_state \<Rightarrow> string \<Rightarrow> string \<Rightarrow> TaskInfo result" where
  "GetTaskInfo C ts taskID taskContractAddress =
     (if \<not> isHexAddress C taskContractAddress then Inl (AvsErr ErrInvalidAddr)
      else of_option ErrNoKeyInTheStore (kv_get (taskInfos ts) (task_key taskContractAddress taskID)))"

text \<open>The values of a store in the order of their keys, up to the first that stops the iteration.\<close>

fun iterate_values :: "(nat \<Rightarrow> 'v \<Rightarrow> 'a \<Rightarrow> bool \<times> 'a) \<Rightarrow> nat \<Rightarrow> ('k \<times> 'v) list \<Rightarrow> 'a \<Rightarrow> 'a" where
  "iterate_values fn i [] a = a"
| "iterate_values fn i ((_, v) # es) a =
     (case fn i v a of (stop, a') \<Rightarrow> if stop then a' else iterate_values fn (Suc i) es a')"

definition IterateTaskAVSInfo :: "task_state \<Rightarrow> (nat \<Rightarrow> TaskInfo \<Rightarrow> 'a \<Rightarrow> bool \<times> 'a) \<Rightarrow> 'a \<Rightarrow> 'a" where
  "IterateTaskAVSInfo ts fn = iterate_values fn 0 (taskInfos ts)"

definition GetAllTaskInfos :: "task_state \<Rightarrow> TaskInfo list" where
  "GetAllTaskInfos ts = IterateTaskAVSInfo ts (\<lambda>_ taskInfo infos. (False, infos @ [taskInfo])) []"

definition IsExistTask :: "task_state \<Rightarrow> string \<Rightarrow> string \<Rightarrow> bool" where
  "IsExistTask ts taskID taskContractAddress = kv_has (taskInfos ts) (task_key taskContractAddress taskID)"

definition pub_key :: "codec \<Rightarrow> bytes \<Rightarrow> string \<Rightarrow> bytes" where
  "pub_key C operatorAddress avsAddress =
     GetJoinedStoreKey [to_lower (accAddressString C operatorAddress), to_lower avsAddress]"

definition SetOperatorPubKey :: "codec \<Rightarrow> BlsPubKeyInfo \<Rightarrow> task_state \<Rightarrow> task_state result" where
  "SetOperatorPubKey C pub ts =
     (case accAddressFromBech32 C (bk_OperatorAddress pub) of
        None \<Rightarrow> Inl (AvsErr ErrInvalidAddr)
      | Some operatorAddress \<Rightarrow>
          if bk_PubKey pub = [] then Inl (Panic ''key is nil or empty'')
          else Inr (ts\<lparr>operatePubs := kv_set (bk_PubKey pub) (BlsKey (bk_PubKey pub))
                 (kv_set (pub_key C operatorAddress (bk_AvsAddress pub)) (BlsInfo pub) (operatePubs ts))\<rparr>))"

text \<open>A bare key under the key of an operator and an AVS is not an encoded \<^verbatim>\<open>BlsPubKeyInfo\<close>.\<close>

definition GetOperatorPubKey :: "codec \<Rightarrow> task_state \<Rightarrow> string \<Rightarrow> string \<Rightarrow> BlsPubKeyInfo result" where
  "GetOperatorPubKey C ts operatorAddress avsAddress =
     (case accAddressFromBech32 C operatorAddress of
        None \<Rightarrow> Inl ErrParse
      | Some opAccAddr \<Rightarrow>
          (case kv_get (operatePubs ts) (pub_key C opAccAddr avsAddress) of
             None \<Rightarrow> Inl ErrNoKeyInTheStore
           | Some (BlsInfo pub) \<Rightarrow> Inr pub
           | Some (BlsKey _) \<Rightarrow> Inl (Panic ''unmarshal'')))"

fun bls_infos :: "(bytes \<times> bls_entry) list \<Rightarrow> BlsPubKeyInfo list" where
  "bls_infos [] = []"
| "bls_infos ((_, BlsInfo pub) # es) = pub # bls_infos es"
| "bls_infos ((_, BlsKey _) # es) = bls_infos es"

definition GetAllBlsPubKeys :: "task_state \<Rightarrow> BlsPubKeyInfo list" where
  "GetAllBlsPubKeys ts = bls_infos (operatePubs ts)"

definition IsExistPubKey :: "task_state \<Rightarrow> BlsPubKeyInfo \<Rightarrow> bool" where
  "IsExistPubKey ts pub = kv_has (operatePubs ts) (bk_PubKey pub)"

definition IsExistPubKeyForAVS :: "codec \<Rightarrow> task_state \<Rightarrow> string \<Rightarrow> string \<Rightarrow> bool" where
  "IsExistPubKeyForAVS C ts operator avs =
     (case accAddressFromBech32 C operator of None \<Rightarrow> False
      | Some opAccAddr \<Rightarrow> kv_has (operatePubs ts) (pub_key C opAccAddr avs))"

definition SetTaskID :: "bytes \<Rightarrow> uint64 \<Rightarrow> task_state \<Rightarrow> task_state result" where
  "SetTaskID taskAddr i ts =
     (if taskAddr = zero_address then Inl (Panic ''invalid task address'')
      else Inr (ts\<lparr>latestTaskNums := kv_set taskAddr i (latestTaskNums ts)\<rparr>))"

definition GetTaskID :: "bytes \<Rightarrow> task_state \<Rightarrow> uint64 \<times> task_state" where
  "GetTaskID taskAddr ts =
     (let i = (case kv_get (latestTaskNums ts) taskAddr of None \<Rightarrow> 1 | Some n \<Rightarrow> n + 1)
      in (i, ts\<lparr>latestTaskNums := kv_set taskAddr i (latestTaskNums ts)\<rparr>))"

definition GetAllTaskNums :: "codec \<Rightarrow> task_state \<Rightarrow> TaskID list" where
  "GetAllTaskNums C ts =
     map (\<lambda>(key, i). \<lparr>tn_TaskAddress = to_lower (addressHex C (bytesToAddress C key)), tn_TaskId = i\<rparr>) (latestTaskNums ts)"

definition result_key :: "string \<Rightarrow> string \<Rightarrow> uint64 \<Rightarrow> bytes" where
  "result_key operatorAddress taskContractAddress taskID =
     GetJoinedStoreKey [operatorAddress, to_lower taskContractAddress, FormatUint taskID]"

definition SetTaskResultInfo :: "codec \<Rightarrow> TaskResultInfo \<Rightarrow> task_state \<Rightarrow> task_state result" where
  "SetTaskResultInfo C info ts =
     (if accAddressFromBech32 C (tr_OperatorAddress info) = None then Inl (Panic ''invalid operator address'')
      else if \<not> isHexAddress C (tr_TaskContractAddress info) then Inl (Panic ''invalid task contract address'')
      else Inr (ts\<lparr>taskResults :=
             kv_set (result_key (tr_OperatorAddress info) (tr_TaskContractAddress info) (tr_TaskId info))
               (info\<lparr>tr_TaskResponse := stored_bytes (tr_TaskResponse info), tr_BlsSignature := stored_bytes (tr_BlsSignature info)\<rparr>)
               (taskResults ts)\<rparr>))"

definition IsExistTaskResultInfo :: "task_state \<Rightarrow> string \<Rightarrow> string \<Rightarrow> uint64 \<Rightarrow> bool" where
  "IsExistTaskResultInfo ts operatorAddress taskContractAddress taskID =
     kv_has (taskResults ts) (result_key (to_lower operatorAddress) taskContractAddress taskID)"

definition GetTaskResultInfo :: "codec \<Rightarrow> task_state \<Rightarrow> string \<Rightarrow> string \<Rightarrow> uint64 \<Rightarrow> TaskResultInfo result" where
  "GetTaskResultInfo C ts operatorAddress taskContractAddress taskID =
     (if \<not> isHexAddress C taskContractAddress then Inl (AvsErr ErrInvalidAddr)
      else of_option ErrNoKeyInTheStore (kv_get (taskResults ts) (result_key operatorAddress taskContractAddress taskID)))"

definition IterateResultInfo :: "task_state \<Rightarrow> (nat \<Rightarrow> TaskResultInfo \<Rightarrow> 'a \<Rightarrow> bool \<times> 'a) \<Rightarrow> 'a \<Rightarrow> 'a" where
  "IterateResultInfo ts fn = iterate_values fn 0 (taskResults ts)"

definition GetAllTaskResultInfos :: "task_state \<Rightarrow> TaskResultInfo list" where
  "GetAllTaskResultInfos ts = map snd (taskResults ts)"

definition SetTaskChallengedInfo :: "codec \<Rightarrow> uint64 \<Rightarrow> string \<Rightarrow> bytes \<Rightarrow> task_state \<Rightarrow> task_state result" where
  "SetTaskChallengedInfo C taskID challengeAddr taskAddr ts =
     (case accAddressFromBech32 C challengeAddr of
        None \<Rightarrow> Inl ErrParse
      | Some key \<Rightarrow>
          Inr (ts\<lparr>taskChallenges := kv_set (task_key (addressHex C taskAddr) (FormatUint taskID)) key (taskChallenges ts)\<rparr>))"

definition IsExistTaskChallengedInfo :: "task_state \<Rightarrow> string \<Rightarrow> uint64 \<Rightarrow> bool" where
  "IsExistTaskChallengedInfo ts taskContractAddress taskID =
     kv_has (taskChallenges ts) (task_key taskContractAddress (FormatUint taskID))"

text \<open>The address in hexadecimal without the prefix \<open>0x\<close>.\<close>

definition GetTaskChallengedInfo :: "codec \<Rightarrow> task_state \<Rightarrow> string \<Rightarrow> uint64 \<Rightarrow> string result" where
  "GetTaskChallengedInfo C ts taskContractAddress taskID =
     (if \<not> isHexAddress C taskContractAddress then Inl (AvsErr ErrInvalidAddr)
      else rbind (of_option ErrNoKeyInTheStore (kv_get (taskChallenges ts) (task_key taskContractAddress (FormatUint taskID))))
        (\<lambda>value. Inr (drop 2 (hexEncode C value))))"

definition SetAllTaskChallengedInfo :: "codec \<Rightarrow> ChallengeInfo list \<Rightarrow> task_state \<Rightarrow> task_state result" where
  "SetAllTaskChallengedInfo C states =
     rfold (\<lambda>state ts. case accAddressFromBech32 C (ci_ChallengeAddress state) of
         None \<Rightarrow> Inl ErrParse
       | Some bz \<Rightarrow> if ci_Key state = [] then Inl (Panic ''key is nil or empty'')
           else Inr (ts\<lparr>taskChallenges := kv_set (ci_Key state) bz (taskChallenges ts)\<rparr>)) states"

definition GetAllChallengeInfos :: "codec \<Rightarrow> task_state \<Rightarrow> ChallengeInfo list result" where
  "GetAllChallengeInfos C ts =
     rfold (\<lambda>(key, value) ret. if value = [] then Inl (AvsErr ErrInvalidAddr)
       else Inr (ret @ [\<lparr>ci_Key = key, ci_ChallengeAddress = accAddressString C value\<rparr>])) (taskChallenges ts) []"

definition GetAllChainIDInfos :: "codec \<Rightarrow> avs_state \<Rightarrow> ChainIDInfo list" where
  "GetAllChainIDInfos C av =
     map (\<lambda>(key, chainID). \<lparr>cd_AvsAddress = to_lower (addressHex C (bytesToAddress C key)), cd_ChainId = chainID\<rparr>) (avsChainIDs av)"

text \<open>The AVS of a task contract; an address without an AVS gives an empty \<^verbatim>\<open>AVSInfo\<close>, which callers recognise by its address.\<close>

definition avs_of_task :: "codec \<Rightarrow> avs_state \<Rightarrow> string \<Rightarrow> AVSInfo option" where
  "avs_of_task C av taskAddr =
     (case GetAVSInfoByTaskAddress C av taskAddr of None \<Rightarrow> None
      | Some avs \<Rightarrow> if avs_AvsAddress avs = [] then None else Some avs)"

section \<open>Keys, tasks and challenges\<close>

record BlsParams =
  bp_OperatorAddress :: bytes
  bp_AvsAddress :: bytes
  bp_PubKey :: bytes
  bp_PubKeyRegistrationSignature :: bytes

definition BLSMessageToSign :: "string \<Rightarrow> string \<Rightarrow> bytes" where
  "BLSMessageToSign chainID acc =
     ''BLS12-381 Signed Message'' @ [CHR 0x0A] @ ''ChainIDWithoutRevision: '' @ chainID @ [CHR 0x0A] @ ''AccAddressBech32: '' @ acc"

definition RegisterBLSPublicKey ::
    "codec \<Rightarrow> 'x node_env \<Rightarrow> ('k, 'x) bls_env \<Rightarrow> BlsParams \<Rightarrow> task_state \<Rightarrow> task_state result" where
  "RegisterBLSPublicKey C E B params ts =
     (let acc = accAddressString C (bp_OperatorAddress params);
          avs = addressHex C (bp_AvsAddress params);
          hashedMsg = keccak256 C (BLSMessageToSign (ChainIDWithoutRevision C (ne_ChainID E)) acc);
          blsInfo = \<lparr>bk_OperatorAddress = acc, bk_AvsAddress = to_lower avs, bk_PubKey = bp_PubKey params\<rparr>
      in
      case be_PublicKeyFromBytes B (bp_PubKey params) of
        None \<Rightarrow> Inl (AvsErr ErrParsePubKey)
      | Some pubKey \<Rightarrow>
          if be_VerifySignature B (bp_PubKeyRegistrationSignature params) hashedMsg pubKey \<noteq> Some True
          then Inl (AvsErr ErrSigNotMatchPubKey)
          else if IsExistPubKeyForAVS C ts acc avs then Inl (AvsErr ErrAlreadyExists)
          else if IsExistPubKey ts blsInfo then Inl (AvsErr ErrAlreadyExists)
          else SetOperatorPubKey C blsInfo ts)"

record TaskInfoParams =
  tp_TaskContractAddress :: bytes
  tp_TaskName :: string
  tp_Hash :: bytes
  tp_TaskID :: uint64
  tp_TaskResponsePeriod :: uint64
  tp_TaskStatisticalPeriod :: uint64
  tp_TaskChallengePeriod :: uint64
  tp_ThresholdPercentage :: "8 word"
  tp_CallerAddress :: bytes

definition new_task :: "codec \<Rightarrow> TaskInfoParams \<Rightarrow> uint64 \<Rightarrow> int \<Rightarrow> string list \<Rightarrow> TaskInfo" where
  "new_task C params i currentEpoch operatorList =
     \<lparr>ti_TaskContractAddress = to_lower (addressHex C (tp_TaskContractAddress params)), ti_Name = tp_TaskName params,
      ti_Hash = tp_Hash params, ti_TaskId = i, ti_TaskResponsePeriod = tp_TaskResponsePeriod params,
      ti_TaskStatisticalPeriod = tp_TaskStatisticalPeriod params, ti_TaskChallengePeriod = tp_TaskChallengePeriod params,
      ti_ThresholdPercentage = ucast (tp_ThresholdPercentage params), ti_StartingEpoch = of_int (currentEpoch + 1),
      ti_ActualThreshold = [], ti_OptInOperators = operatorList, ti_SignedOperators = [], ti_NoSignedOperators = [],
      ti_ErrSignedOperators = [], ti_TaskTotalPower = 0, ti_OperatorActivePower = None, ti_IsExpected = False,
      ti_EligibleRewardOperators = [], ti_EligibleSlashOperators = []\<rparr>"

definition CreateAVSTask ::
    "codec \<Rightarrow> 'x state \<Rightarrow> TaskInfoParams \<Rightarrow> task_state \<Rightarrow> (uint64 \<times> task_state) result" where
  "CreateAVSTask C s params ts =
     (let taskAddr = addressHex C (tp_TaskContractAddress params) in
      case avs_of_task C (avs_of s) taskAddr of
        None \<Rightarrow> Inl (AvsErr ErrUnregisterNonExistent)
      | Some avsInfo \<Rightarrow>
        if accAddressString C (tp_CallerAddress params) \<notin> set (avs_AvsOwnerAddresses avsInfo)
        then Inl (AvsErr ErrCallerAddressUnauthorized)
        else rbind (GetAVSUSDValue (opr_of s) (avs_AvsAddress avsInfo)) (\<lambda>taskPowerTotal.
        if taskPowerTotal \<le> 0 then Inl (AvsErr ErrVotingPowerIncorrect)
        else rbind (of_option (AvsErr ErrEpochNotFound) (GetEpochInfo (epochs s) (avs_EpochIdentifier avsInfo))) (\<lambda>epoch.
        if IsExistTask ts (FormatUint (tp_TaskID params)) taskAddr then Inl (AvsErr ErrAlreadyExists)
        else rbind (GetOptedInOperatorListByAVS (opr_of s) (avs_AvsAddress avsInfo)) (\<lambda>operatorList.
        if operatorList = [] then Inl (AvsErr ErrNoOptedInOperators)
        else case GetTaskID (hexToAddress C taskAddr) ts of (i, ts1) \<Rightarrow>
          rbind (SetTaskInfo C (new_task C params i (ei_CurrentEpoch epoch) operatorList) ts1) (\<lambda>ts2. Inr (i, ts2))))))"

record ChallengeParams =
  cp_TaskContractAddress :: bytes
  cp_TaskID :: uint64
  cp_CallerAddress :: bytes
  cp_ActualThreshold :: "8 word"
  cp_EligibleRewardOperators :: "bytes list"
  cp_EligibleSlashOperators :: "bytes list"

definition response_end :: "TaskInfo \<Rightarrow> int" where
  "response_end task = sint (ti_StartingEpoch task + ti_TaskResponsePeriod task)"

definition statistics_end :: "TaskInfo \<Rightarrow> int" where
  "statistics_end task = sint (ti_StartingEpoch task + ti_TaskResponsePeriod task + ti_TaskStatisticalPeriod task)"

definition RaiseAndResolveChallenge ::
    "codec \<Rightarrow> 'x state \<Rightarrow> ChallengeParams \<Rightarrow> task_state \<Rightarrow> task_state result" where
  "RaiseAndResolveChallenge C s params ts =
     (let taskAddr = addressHex C (cp_TaskContractAddress params) in
      case GetTaskInfo C ts (FormatUint (cp_TaskID params)) taskAddr of
        Inl _ \<Rightarrow> Inl (ErrExternal ''task does not exist'')
      | Inr taskInfo \<Rightarrow>
        if ti_IsExpected taskInfo then Inl (ErrExternal ''the task has been finished'')
        else if ti_OptInOperators taskInfo = [] then Inl (ErrExternal ''this task has no opted-in operators'')
        else if IsExistTaskChallengedInfo ts taskAddr (cp_TaskID params) then Inl (AvsErr ErrAlreadyExists)
        else case avs_of_task C (avs_of s) (ti_TaskContractAddress taskInfo) of
          None \<Rightarrow> Inl (AvsErr ErrUnregisterNonExistent)
        | Some avsInfo \<Rightarrow>
          rbind (of_option (AvsErr ErrEpochNotFound) (GetEpochInfo (epochs s) (avs_EpochIdentifier avsInfo))) (\<lambda>epoch.
          if ei_CurrentEpoch epoch \<le> statistics_end taskInfo then Inl (AvsErr ErrSubmitTooSoonError)
          else rbind (SetTaskChallengedInfo C (cp_TaskID params) (accAddressString C (cp_CallerAddress params))
                        (cp_TaskContractAddress params) ts) (\<lambda>ts1.
          SetTaskInfo C (taskInfo\<lparr>ti_ActualThreshold := decimal (unat (cp_ActualThreshold params)),
             ti_IsExpected := ti_ThresholdPercentage taskInfo \<le> ucast (cp_ActualThreshold params),
             ti_EligibleRewardOperators := map (addressHex C) (cp_EligibleRewardOperators params),
             ti_EligibleSlashOperators := map (addressHex C) (cp_EligibleSlashOperators params)\<rparr>) ts1)))"

section \<open>Results\<close>

definition prepare_result ::
    "codec \<Rightarrow> EpochInfo \<Rightarrow> TaskInfo \<Rightarrow> TaskResultInfo \<Rightarrow> task_state \<Rightarrow> task_state result" where
  "prepare_result C epoch task info ts =
     (if IsExistTaskResultInfo ts (tr_OperatorAddress info) (tr_TaskContractAddress info) (tr_TaskId info)
      then Inl (AvsErr ErrResAlreadyExists)
      else if tr_BlsSignature info = None then Inl (AvsErr ErrParamNotEmptyError)
      else if tr_TaskResponseHash info \<noteq> [] \<or> tr_TaskResponse info \<noteq> None then Inl (AvsErr ErrParamNotEmptyError)
      else if response_end task < ei_CurrentEpoch epoch then Inl (AvsErr ErrSubmitTooLateError)
      else SetTaskResultInfo C info ts)"

text \<open>Nil and empty signatures are equal to \<^verbatim>\<open>bytes.Equal\<close>.\<close>

definition commit_result ::
    "codec \<Rightarrow> ('k, 'x) bls_env \<Rightarrow> 'k \<Rightarrow> EpochInfo \<Rightarrow> TaskInfo \<Rightarrow> TaskResultInfo \<Rightarrow> task_state \<Rightarrow> task_state result" where
  "commit_result C B pubKey epoch task info ts =
     (case tr_TaskResponse info of
        None \<Rightarrow> Inl (AvsErr ErrNotNull)
      | Some response \<Rightarrow>
        (case GetTaskResultInfo C ts (tr_OperatorAddress info) (tr_TaskContractAddress info) (tr_TaskId info) of
           Inl _ \<Rightarrow> Inl (AvsErr ErrInconsistentParams)
         | Inr res \<Rightarrow>
           if stored_bytes (tr_BlsSignature res) \<noteq> stored_bytes (tr_BlsSignature info) then Inl (AvsErr ErrInconsistentParams)
           else if ei_CurrentEpoch epoch \<le> response_end task then Inl (AvsErr ErrSubmitTooSoonError)
           else if statistics_end task < ei_CurrentEpoch epoch then Inl (AvsErr ErrSubmitTooLateError)
           else
             let taskResponseDigest = keccak256 C response;
                 info' = info\<lparr>tr_TaskResponseHash := hashString C taskResponseDigest\<rparr>;
                 sig = (case tr_BlsSignature info of None \<Rightarrow> [] | Some b \<Rightarrow> b)
             in if be_VerifySignature B sig taskResponseDigest pubKey \<noteq> Some True then Inl (AvsErr ErrSigVerifyError)
                else SetTaskResultInfo C info' ts))"

definition SubmitTaskResult ::
    "codec \<Rightarrow> ('k, 'x) bls_env \<Rightarrow> 'x state \<Rightarrow> string \<Rightarrow> TaskResultInfo \<Rightarrow> task_state \<Rightarrow> task_state result" where
  "SubmitTaskResult C B s addr info ts =
     (if addr \<noteq> tr_OperatorAddress info then Inl (AvsErr ErrInvalidAddr)
      else if \<not> IsOperator (opr_of s) (acc_or_nil C (tr_OperatorAddress info)) then Inl ErrOperatorNotExist
      else case avs_of_task C (avs_of s) (tr_TaskContractAddress info) of
        None \<Rightarrow> Inl (AvsErr ErrUnregisterNonExistent)
      | Some avsInfo \<Rightarrow>
        (case GetOperatorPubKey C ts (tr_OperatorAddress info) (avs_AvsAddress avsInfo) of
           Inl (Panic m) \<Rightarrow> Inl (Panic m)
         | Inl _ \<Rightarrow> Inl (AvsErr ErrPubKeyIsNotExists)
         | Inr keyInfo \<Rightarrow>
           if bk_PubKey keyInfo = [] then Inl (AvsErr ErrPubKeyIsNotExists)
           else case be_PublicKeyFromBytes B (bk_PubKey keyInfo) of
             None \<Rightarrow> Inl (AvsErr ErrParsePubKey)
           | Some pubKey \<Rightarrow>
             (case GetTaskInfo C ts (FormatUint (tr_TaskId info)) (tr_TaskContractAddress info) of
                Inl _ \<Rightarrow> Inl (AvsErr ErrTaskIsNotExists)
              | Inr task \<Rightarrow>
                if ti_TaskContractAddress task = [] then Inl (AvsErr ErrTaskIsNotExists)
                else rbind (of_option (AvsErr ErrEpochNotFound) (GetEpochInfo (epochs s) (avs_EpochIdentifier avsInfo))) (\<lambda>epoch.
                if tr_Phase info = PhasePrepare then prepare_result C epoch task info ts
                else if tr_Phase info = PhaseDoCommit then commit_result C B pubKey epoch task info ts
                else Inl (AvsErr ErrParamError)))))"

section \<open>Statistics at the end of an epoch\<close>

definition GetTaskStatisticalEpochEndAVSs ::
    "codec \<Rightarrow> avs_state \<Rightarrow> task_state \<Rightarrow> string \<Rightarrow> int \<Rightarrow> TaskResultInfo list" where
  "GetTaskStatisticalEpochEndAVSs C av ts epochIdentifier epochNumber =
     IterateResultInfo ts (\<lambda>_ info taskResList.
       (False,
        case avs_of_task C av (tr_TaskContractAddress info) of None \<Rightarrow> taskResList
        | Some avsInfo \<Rightarrow>
            (case GetTaskInfo C ts (FormatUint (tr_TaskId info)) (tr_TaskContractAddress info) of
               Inl _ \<Rightarrow> taskResList
             | Inr taskInfo \<Rightarrow>
                 if epochIdentifier = avs_EpochIdentifier avsInfo \<and> epochNumber = statistics_end taskInfo
                 then taskResList @ [info] else taskResList))) []"

definition group_key :: "TaskResultInfo \<Rightarrow> string" where
  "group_key task = tr_TaskContractAddress task @ [DelimiterForGroupKey] @ FormatUint (tr_TaskId task)"

text \<open>The entries of the map; the order in which a loop visits them is not determined.\<close>

definition GroupTasksByIDAndAddress :: "TaskResultInfo list \<Rightarrow> (string \<times> TaskResultInfo list) list" where
  "GroupTasksByIDAndAddress tasks =
     map (\<lambda>key. (key, sort_slice (\<lambda>a b. tr_OperatorAddress a < tr_OperatorAddress b) (filter (\<lambda>task. group_key task = key) tasks)))
       (remdups (map group_key tasks))"

definition has_signed :: "TaskResultInfo \<Rightarrow> bool" where
  "has_signed res = (tr_BlsSignature res \<noteq> None \<and> tr_TaskResponseHash res \<noteq> [] \<or> tr_TaskResponse res \<noteq> None)"

definition active_power :: "codec \<Rightarrow> 'x state \<Rightarrow> string \<Rightarrow> string \<Rightarrow> dec" where
  "active_power C s avsAddr operator =
     (case GetOperatorActiveUSDValue C (epochs s) (avs_of s) (opr_of s) avsAddr operator of
        Inl _ \<Rightarrow> 0 | Inr p \<Rightarrow> if p < 0 then 0 else p)"

text \<open>One group of results. The sum of the powers of those that signed is computed and not used.\<close>

definition update_statistics ::
    "codec \<Rightarrow> 'x state \<Rightarrow> string \<times> TaskResultInfo list \<Rightarrow> task_state \<Rightarrow> task_state" where
  "update_statistics C s g ts =
     (case parseGroupKey (fst g) of None \<Rightarrow> ts
      | Some (taskAddr, taskID) \<Rightarrow>
        (case avs_of_task C (avs_of s) taskAddr of None \<Rightarrow> ts
         | Some avsInfo \<Rightarrow>
           (case (GetTaskInfo C ts (FormatUint taskID) taskAddr, GetAVSUSDValue (opr_of s) (avs_AvsAddress avsInfo)) of
              (Inr taskInfo, Inr taskPowerTotal) \<Rightarrow>
                if taskPowerTotal = 0 then ts
                else
                  let signedOperatorList = map tr_OperatorAddress (filter has_signed (snd g));
                      operatorPowers = map (\<lambda>operator. \<lparr>ap_OperatorAddress = operator,
                        ap_SelfActivePower = active_power C s (avs_AvsAddress avsInfo) operator\<rparr>) signedOperatorList;
                      taskInfo' = taskInfo\<lparr>ti_SignedOperators := signedOperatorList,
                        ti_NoSignedOperators := Difference (ti_OptInOperators taskInfo) signedOperatorList,
                        ti_OperatorActivePower := Some operatorPowers, ti_TaskTotalPower := taskPowerTotal\<rparr>
                  in (case SetTaskInfo C taskInfo' ts of Inl _ \<Rightarrow> ts | Inr ts' \<Rightarrow> ts')
            | _ \<Rightarrow> ts)))"

text \<open>\<open>order\<close> is the order in which the loop over the map visits its entries.\<close>

definition AvsAfterEpochEnd ::
    "codec \<Rightarrow> ((string \<times> TaskResultInfo list) list \<Rightarrow> (string \<times> TaskResultInfo list) list) \<Rightarrow> 'x state \<Rightarrow> string \<Rightarrow> int
      \<Rightarrow> task_state \<Rightarrow> task_state" where
  "AvsAfterEpochEnd C order s epochIdentifier epochNumber ts =
     (let taskResList = GetTaskStatisticalEpochEndAVSs C (avs_of s) ts epochIdentifier epochNumber in
      if taskResList \<noteq> [] then fold (update_statistics C s) (order (GroupTasksByIDAndAddress taskResList)) ts else ts)"

end
