(* ===== verification/AvsOps.thy ===== *)
theory AvsOps
  imports AvsTasks
begin

text \<open>
  Registering, updating and removing AVSs (\<^verbatim>\<open>UpdateAVSInfo\<close>, \<^verbatim>\<open>RegisterAVSWithChainID\<close>), opting in
  and out through an AVS contract, and the genesis of the module (\<^verbatim>\<open>x/avs/keeper/genesis.go\<close>,
  \<^verbatim>\<open>x/avs/types/genesis.go\<close>).
\<close>

section \<open>Registering and updating\<close>

text \<open>Lists that can be nil, which an update leaves alone, are optional.\<close>

record AVSRegisterOrDeregisterParams =
  pa_AvsName :: string
  pa_AvsAddress :: bytes
  pa_MinStakeAmount :: uint64
  pa_TaskAddress :: bytes
  pa_SlashContractAddress :: bytes
  pa_RewardContractAddress :: bytes
  pa_AvsOwnerAddresses :: "string list option"
  pa_AssetIDs :: "string list option"
  pa_UnbondingPeriod :: uint64
  pa_MinSelfDelegation :: uint64
  pa_EpochIdentifier :: string
  pa_MinOptInOperators :: uint64
  pa_MinTotalStakeAmount :: uint64
  pa_CallerAddress :: bytes
  pa_ChainID :: string
  pa_AvsReward :: uint64
  pa_AvsSlash :: uint64
  pa_Action :: uint64
  pa_WhitelistAddresses :: "string list option"

definition RegisterAction :: uint64 where "RegisterAction = 1"
definition DeRegisterAction :: uint64 where "DeRegisterAction = 2"
definition UpdateAction :: uint64 where "UpdateAction = 3"

definition items :: "'a list option \<Rightarrow> 'a list" where
  "items xs = (case xs of None \<Rightarrow> [] | Some l \<Rightarrow> l)"

definition register_avs ::
    "codec \<Rightarrow> 'x node_env \<Rightarrow> AVSRegisterOrDeregisterParams \<Rightarrow> string \<Rightarrow> EpochInfo \<Rightarrow> AVSInfo option \<Rightarrow> 'x state \<Rightarrow> 'x state result" where
  "register_avs C E params epochIdentifier epoch avsInfo s =
     (if avsInfo \<noteq> None then Inl (AvsErr ErrAlreadyRegistered)
      else if avs_of_task C (avs_of s) (addressHex C (pa_TaskAddress params)) \<noteq> None then Inl (AvsErr ErrAlreadyRegistered)
      else
        let startingEpoch = (if pa_ChainID params = ChainIDWithoutRevision C (ne_ChainID E)
                             then of_int (ei_CurrentEpoch epoch) else of_int (ei_CurrentEpoch epoch + 1))
        in
        rbind (ValidateAssetIDs (assets s) (items (pa_AssetIDs params))) (\<lambda>_.
        Inr (set_avs (SetAVSInfo C
          \<lparr>avs_Name = pa_AvsName params, avs_AvsAddress = to_lower (addressHex C (pa_AvsAddress params)),
           avs_MinStakeAmount = pa_MinStakeAmount params, avs_TaskAddress = to_lower (addressHex C (pa_TaskAddress params)),
           avs_SlashAddress = to_lower (addressHex C (pa_SlashContractAddress params)),
           avs_RewardAddress = to_lower (addressHex C (pa_RewardContractAddress params)),
           avs_AvsOwnerAddresses = items (pa_AvsOwnerAddresses params), avs_AssetIDs = items (pa_AssetIDs params),
           avs_AvsUnbondingPeriod = pa_UnbondingPeriod params, avs_MinSelfDelegation = pa_MinSelfDelegation params,
           avs_EpochIdentifier = epochIdentifier, avs_MinOptInOperators = pa_MinOptInOperators params,
           avs_MinTotalStakeAmount = pa_MinTotalStakeAmount params, avs_StartingEpoch = startingEpoch, avs_ChainId = [],
           avs_AvsReward = newDecWithPrec2 (pa_AvsReward params), avs_AvsSlash = newDecWithPrec2 (pa_AvsSlash params),
           avs_WhitelistAddresses = items (pa_WhitelistAddresses params)\<rparr> (avs_of s)) s)))"

definition deregister_avs ::
    "codec \<Rightarrow> 'x node_env \<Rightarrow> AVSRegisterOrDeregisterParams \<Rightarrow> AVSInfo option \<Rightarrow> 'x state \<Rightarrow> 'x state result" where
  "deregister_avs C E params avsInfo s =
     (let addr = addressHex C (pa_AvsAddress params) in
      case avsInfo of None \<Rightarrow> Inl (AvsErr ErrUnregisterNonExistent)
      | Some info \<Rightarrow>
        if accAddressString C (pa_CallerAddress params) \<notin> set (avs_AvsOwnerAddresses info)
        then Inl (AvsErr ErrCallerAddressUnauthorized)
        else if (case GetAVSUSDValue (opr_of s) addr of Inl _ \<Rightarrow> False | Inr usd \<Rightarrow> 0 < usd)
        then Inl (AvsErr ErrCannotDeregister)
        else if IsUnbondingRelatedAVS C (epochs s) (avs_of s) (opr_of s) addr then Inl (AvsErr ErrCannotDeregister)
        else if \<not> ne_IsAVSAllRewardsClaimed E s addr then Inl (AvsErr ErrCannotDeregister)
        else if avs_Name info \<noteq> pa_AvsName params then Inl (AvsErr ErrAvsNameMismatch)
        else rbind (DeleteAVSInfo C addr (avs_of s)) (\<lambda>av. Inr (set_avs av s)))"

text \<open>
  The fields that an update changes. The address is stored with its checksum, and the epoch identifier as it
  is given.
\<close>

definition updated_avs ::
    "codec \<Rightarrow> AVSRegisterOrDeregisterParams \<Rightarrow> EpochInfo \<Rightarrow> AVSInfo \<Rightarrow> AVSInfo" where
  "updated_avs C params epoch avs =
     avs\<lparr>avs_Name := (if pa_AvsName params \<noteq> [] then pa_AvsName params else avs_Name avs),
         avs_MinStakeAmount := (if 0 < pa_MinStakeAmount params then pa_MinStakeAmount params else avs_MinStakeAmount avs),
         avs_TaskAddress := (if addressHex C (pa_TaskAddress params) \<noteq> []
           then to_lower (addressHex C (pa_TaskAddress params)) else avs_TaskAddress avs),
         avs_SlashAddress := (if addressHex C (pa_SlashContractAddress params) \<noteq> []
           then to_lower (addressHex C (pa_SlashContractAddress params)) else avs_SlashAddress avs),
         avs_RewardAddress := (if addressHex C (pa_RewardContractAddress params) \<noteq> []
           then to_lower (addressHex C (pa_RewardContractAddress params)) else avs_RewardAddress avs),
         avs_AvsOwnerAddresses := (case pa_AvsOwnerAddresses params of None \<Rightarrow> avs_AvsOwnerAddresses avs | Some l \<Rightarrow> l),
         avs_WhitelistAddresses := (case pa_WhitelistAddresses params of None \<Rightarrow> avs_WhitelistAddresses avs | Some l \<Rightarrow> l),
         avs_AssetIDs := (case pa_AssetIDs params of None \<Rightarrow> avs_AssetIDs avs | Some l \<Rightarrow> l),
         avs_AvsUnbondingPeriod := (if 0 < pa_UnbondingPeriod params then pa_UnbondingPeriod params else avs_AvsUnbondingPeriod avs),
         avs_MinSelfDelegation := pa_MinSelfDelegation params,
         avs_EpochIdentifier := (if pa_EpochIdentifier params \<noteq> [] then pa_EpochIdentifier params else avs_EpochIdentifier avs),
         avs_MinOptInOperators := (if 0 < pa_MinOptInOperators params then pa_MinOptInOperators params else avs_MinOptInOperators avs),
         avs_MinTotalStakeAmount :=
           (if 0 < pa_MinTotalStakeAmount params then pa_MinTotalStakeAmount params else avs_MinTotalStakeAmount avs),
         avs_AvsSlash := (if 0 < pa_AvsSlash params then newDecWithPrec2 (pa_AvsSlash params) else avs_AvsSlash avs),
         avs_AvsReward := (if 0 < pa_AvsReward params then newDecWithPrec2 (pa_AvsReward params) else avs_AvsReward avs),
         avs_AvsAddress := addressHex C (pa_AvsAddress params),
         avs_StartingEpoch := of_int (ei_CurrentEpoch epoch + 1)\<rparr>"

definition update_avs ::
    "codec \<Rightarrow> AVSRegisterOrDeregisterParams \<Rightarrow> EpochInfo \<Rightarrow> AVSInfo option \<Rightarrow> 'x state \<Rightarrow> 'x state result" where
  "update_avs C params epoch avsInfo s =
     (let addr = addressHex C (pa_AvsAddress params) in
      case avsInfo of None \<Rightarrow> Inl (AvsErr ErrUnregisterNonExistent)
      | Some info \<Rightarrow>
        if (case avs_of_task C (avs_of s) (addressHex C (pa_TaskAddress params)) of
              None \<Rightarrow> False | Some other \<Rightarrow> avs_AvsAddress other \<noteq> avs_AvsAddress info)
        then Inl (AvsErr ErrAlreadyRegistered)
        else
          rbind (case pa_AssetIDs params of None \<Rightarrow> Inr s
                 | Some l \<Rightarrow> rbind (ValidateAssetIDs (assets s) l) (\<lambda>_.
                     Inr (if HasAVSAssetsPerEpoch (opr_of s) addr then s
                          else set_opr (SetAVSAssetsPerEpoch addr (avs_AssetIDs info) (opr_of s)) s))) (\<lambda>s1.
          Inr (set_avs (SetAVSInfo C (updated_avs C params epoch info) (avs_of s1)) s1)))"

definition UpdateAVSInfo ::
    "codec \<Rightarrow> 'x node_env \<Rightarrow> AVSRegisterOrDeregisterParams \<Rightarrow> 'x state \<Rightarrow> 'x state result" where
  "UpdateAVSInfo C E params s =
     (let avsInfo = (case GetAVSInfo C (avs_of s) (addressHex C (pa_AvsAddress params)) of Inl _ \<Rightarrow> None | Inr i \<Rightarrow> Some i);
          epochIdentifier = (case avsInfo of None \<Rightarrow> pa_EpochIdentifier params
            | Some i \<Rightarrow> if avs_EpochIdentifier i \<noteq> [] then avs_EpochIdentifier i else pa_EpochIdentifier params)
      in
      rbind (of_option (AvsErr ErrEpochNotFound) (GetEpochInfo (epochs s) epochIdentifier)) (\<lambda>epoch.
      if pa_Action params = RegisterAction then register_avs C E params epochIdentifier epoch avsInfo s
      else if pa_Action params = DeRegisterAction then deregister_avs C E params avsInfo s
      else if pa_Action params = UpdateAction then update_avs C params epoch avsInfo s
      else Inl (AvsErr ErrInvalidAction)))"

text \<open>The result tells whether the AVS already existed; then nothing is written.\<close>

definition RegisterAVSWithChainID ::
    "codec \<Rightarrow> 'x node_env \<Rightarrow> AVSRegisterOrDeregisterParams \<Rightarrow> 'x state \<Rightarrow> (bool \<times> bytes \<times> 'x state) result" where
  "RegisterAVSWithChainID C E params s =
     (let chainID = ChainIDWithoutRevision C (pa_ChainID params) in
      if chainID = [] then Inl (AvsErr ErrNotNull)
      else
        let avsAddrStr = GenerateAVSAddress C chainID;
            avsAddr = hexToAddress C avsAddrStr
        in
        if IsAVS C (avs_of s) avsAddrStr then Inr (True, avsAddr, s)
        else
          rbind (ne_SetAccount E avsAddr (rest_of s)) (\<lambda>x.
          rbind (UpdateAVSInfo C E (params\<lparr>pa_ChainID := chainID, pa_AvsAddress := avsAddr, pa_Action := RegisterAction\<rparr>)
                   (set_rest x s)) (\<lambda>s1.
          Inr (False, avsAddr, set_avs (SetAVSAddrToChainID avsAddr chainID (avs_of s1)) s1))))"

record OperatorOptParams =
  po_OperatorAddress :: bytes
  po_AvsAddress :: bytes
  po_Action :: uint64

definition OperatorOptAction ::
    "codec \<Rightarrow> dec_ops \<Rightarrow> 'x node_env \<Rightarrow> 'x operator_hooks \<Rightarrow> block_ctx \<Rightarrow> OperatorOptParams \<Rightarrow> 'x state \<Rightarrow> 'x state result" where
  "OperatorOptAction C D E H ctx params s =
     (let avs = addressHex C (po_AvsAddress params) in
      if \<not> IsOperator (opr_of s) (po_OperatorAddress params) then Inl ErrOperatorNotExist
      else if \<not> IsAVS C (avs_of s) avs then Inl (ErrExternal ''avs does not exist'')
      else if po_Action params = RegisterAction then OptIn C D E ctx (po_OperatorAddress params) (to_lower avs) s
      else if po_Action params = DeRegisterAction then OptOut C H ctx (po_OperatorAddress params) (to_lower avs) s
      else Inl (AvsErr ErrInvalidAction))"

section \<open>Genesis\<close>

record AvsGenesis =
  ga_AvsInfos :: "AVSInfo list"
  ga_TaskInfos :: "TaskInfo list"
  ga_BlsPubKeys :: "BlsPubKeyInfo list"
  ga_TaskResultInfos :: "TaskResultInfo list"
  ga_ChallengeInfos :: "ChallengeInfo list"
  ga_TaskNums :: "TaskID list"
  ga_ChainIdInfos :: "ChainIDInfo list"

definition no_duplicates :: "('a \<Rightarrow> 'b) \<Rightarrow> ('a \<Rightarrow> bool) \<Rightarrow> 'a list \<Rightarrow> bool" where
  "no_duplicates key ok xs = (list_all ok xs \<and> distinct (map key xs))"

text \<open>Every error is reported as \<^verbatim>\<open>fmt.Errorf\<close>. A public key that is absent and one that is empty are not distinguished.\<close>

definition AvsGenesis_Validate :: "codec \<Rightarrow> AvsGenesis \<Rightarrow> bool" where
  "AvsGenesis_Validate C gs =
     (no_duplicates avs_AvsAddress (\<lambda>info. isHexAddress C (avs_AvsAddress info)) (ga_AvsInfos gs) \<and>
      no_duplicates (\<lambda>info. task_key (ti_TaskContractAddress info) (FormatUint (ti_TaskId info)))
        (\<lambda>info. isHexAddress C (ti_TaskContractAddress info)) (ga_TaskInfos gs) \<and>
      no_duplicates (\<lambda>num. task_key (tn_TaskAddress num) (FormatUint (tn_TaskId num)))
        (\<lambda>num. isHexAddress C (tn_TaskAddress num)) (ga_TaskNums gs) \<and>
      no_duplicates bk_PubKey (\<lambda>key. accAddressFromBech32 C (bk_OperatorAddress key) \<noteq> None \<and> bk_PubKey key \<noteq> []) (ga_BlsPubKeys gs) \<and>
      no_duplicates (\<lambda>r. result_key (tr_OperatorAddress r) (tr_TaskContractAddress r) (tr_TaskId r))
        (\<lambda>r. isHexAddress C (tr_TaskContractAddress r) \<and> accAddressFromBech32 C (tr_OperatorAddress r) \<noteq> None) (ga_TaskResultInfos gs) \<and>
      no_duplicates ci_Key (\<lambda>_. True) (ga_ChallengeInfos gs) \<and>
      no_duplicates cd_AvsAddress (\<lambda>i. isHexAddress C (cd_AvsAddress i)) (ga_ChainIdInfos gs))"

definition init_avs_info :: "codec \<Rightarrow> AVSInfo \<Rightarrow> avs_state \<Rightarrow> avs_state" where
  "init_avs_info C avs =
     SetAVSInfo C (avs\<lparr>avs_AvsAddress := to_lower (avs_AvsAddress avs), avs_TaskAddress := to_lower (avs_TaskAddress avs),
       avs_RewardAddress := to_lower (avs_RewardAddress avs), avs_SlashAddress := to_lower (avs_SlashAddress avs)\<rparr>)"

text \<open>Errors end in a panic.\<close>

definition panic_with :: "string \<Rightarrow> 'a result \<Rightarrow> 'a result" where
  "panic_with m r = (case r of Inl (Panic p) \<Rightarrow> Inl (Panic p) | Inl _ \<Rightarrow> Inl (Panic m) | Inr x \<Rightarrow> Inr x)"

definition avs_InitGenesis ::
    "codec \<Rightarrow> ('k, 'x) bls_env \<Rightarrow> AvsGenesis \<Rightarrow> task_state \<times> 'x state \<Rightarrow> (task_state \<times> 'x state) result" where
  "avs_InitGenesis C B state a =
     (case a of (ts, s) \<Rightarrow>
      let s0 = set_rest (be_SetCode B (rest_of s)) s;
          s1 = set_avs (fold (init_avs_info C) (ga_AvsInfos state) (avs_of s0)) s0
      in
      rbind (rfold (\<lambda>elem. panic_with ''failed to set all task info'' \<circ>
               SetTaskInfo C (elem\<lparr>ti_TaskContractAddress := to_lower (ti_TaskContractAddress elem)\<rparr>)) (ga_TaskInfos state) ts) (\<lambda>ts1.
      rbind (rfold (\<lambda>elem. panic_with ''failed to set all bls info'' \<circ> SetOperatorPubKey C elem) (ga_BlsPubKeys state) ts1) (\<lambda>ts2.
      rbind (rfold (\<lambda>elem. SetTaskID (hexToAddress C (to_lower (tn_TaskAddress elem))) (tn_TaskId elem)) (ga_TaskNums state) ts2) (\<lambda>ts3.
      rbind (rfold (\<lambda>elem. SetTaskResultInfo C (elem\<lparr>tr_TaskContractAddress := to_lower (tr_TaskContractAddress elem)\<rparr>))
               (ga_TaskResultInfos state) ts3) (\<lambda>ts4.
      rbind (panic_with ''failed to set all challenge info'' (SetAllTaskChallengedInfo C (ga_ChallengeInfos state) ts4)) (\<lambda>ts5.
      Inr (ts5, set_avs (fold (\<lambda>elem. SetAVSAddrToChainID (hexToAddress C (to_lower (cd_AvsAddress elem))) (cd_ChainId elem))
                   (ga_ChainIdInfos state) (avs_of s1)) s1)))))))"

definition GetAllAVSInfos :: "avs_state \<Rightarrow> AVSInfo list" where
  "GetAllAVSInfos av = IterateAVSInfo av (\<lambda>_ avsInfo ret. (False, ret @ [avsInfo])) []"

definition avs_ExportGenesis :: "codec \<Rightarrow> task_state \<times> 'x state \<Rightarrow> AvsGenesis result" where
  "avs_ExportGenesis C a =
     (case a of (ts, s) \<Rightarrow>
      rbind (panic_with ''failed to get all ChallengeInfos'' (GetAllChallengeInfos C ts)) (\<lambda>challenges.
      Inr \<lparr>ga_AvsInfos = GetAllAVSInfos (avs_of s), ga_TaskInfos = GetAllTaskInfos ts, ga_BlsPubKeys = GetAllBlsPubKeys ts,
           ga_TaskResultInfos = GetAllTaskResultInfos ts, ga_ChallengeInfos = challenges, ga_TaskNums = GetAllTaskNums C ts,
           ga_ChainIdInfos = GetAllChainIDInfos C (avs_of s)\<rparr>))"

end
