(* ===== verification/AvsSteps.thy ===== *)
theory AvsSteps
  imports AvsTasks
begin

text \<open>
  Sequences of the operations on tasks, and what they keep: tasks and results are stored under their own keys, BLS
  keys stay, and a result that was revealed is signed with the key of its operator. The statistics of different tasks
  can be taken in any order.
\<close>

section \<open>Spelling\<close>

lemma to_lower_append: "to_lower (s @ t) = to_lower s @ to_lower t" "to_lower (c # s) = lower_char c # to_lower s"
  by (simp_all add: to_lower_def)

lemma decimal_digits: "c \<in> set (decimal n) \<Longrightarrow> 48 \<le> (of_char c :: nat) \<and> (of_char c :: nat) \<le> 57"
proof (induction n rule: decimal.induct)
  case (1 n)
  have d: "of_char (char_of (48 + m) :: char) = 48 + m" if "m < 10" for m :: nat
    using that by (simp add: take_bit_nat_eq_self)
  show ?case
  proof (cases "n < 10")
    case True
    then show ?thesis using 1(2) d [of n] by (subst (asm) decimal.simps) auto
  next
    case False
    then show ?thesis using 1 d [of "n mod 10"] by (subst (asm) (2) decimal.simps) auto
  qed
qed

lemma decimal_no_char: "\<not> (48 \<le> (of_char c :: nat) \<and> (of_char c :: nat) \<le> 57) \<Longrightarrow> no_char c (decimal n)"
  using decimal_digits by (auto simp: no_char_def)

lemma decimal_lower: "to_lower (decimal n) = decimal n"
  unfolding to_lower_def by (rule map_idI) (use decimal_digits in \<open>fastforce simp: lower_char_def Let_def\<close>)

lemma decimal_nonempty [simp]: "decimal n \<noteq> []"
  by (subst decimal.simps) simp

lemma digits_value_snoc:
  "digits_value n (cs @ [c]) =
     (case digits_value n cs of None \<Rightarrow> None
      | Some m \<Rightarrow> if 48 \<le> (of_char c :: nat) \<and> (of_char c :: nat) \<le> 57 then Some (10 * m + (of_char c - 48)) else None)"
  by (induction n cs rule: digits_value.induct) (auto simp: Let_def)

lemma digits_decimal: "digits_value 0 (decimal n) = Some n"
proof (induction n rule: decimal.induct)
  case (1 n)
  have d: "of_char (char_of (48 + m) :: char) = 48 + m" if "m < 10" for m :: nat
    using that by (simp add: take_bit_nat_eq_self)
  show ?case
  proof (cases "n < 10")
    case True
    then show ?thesis using d [of n] by (subst decimal.simps) (simp add: Let_def)
  next
    case False
    then have "digits_value 0 (decimal (n div 10) @ [char_of (48 + n mod 10)]) = Some (10 * (n div 10) + n mod 10)"
      using 1 d [of "n mod 10"] by (simp add: digits_value_snoc)
    with False show ?thesis by (subst decimal.simps) simp
  qed
qed

lemma ParseUint_Format [simp]: "ParseUint (FormatUint w) = Some w"
proof -
  have "unat w < 2 ^ LENGTH(64)" by (rule unsigned_less)
  then show ?thesis by (simp add: ParseUint_def FormatUint_def digits_decimal)
qed

lemma FormatUint_parts:
  "no_char DelimiterForGroupKey (FormatUint w)" "key_part (FormatUint w)" "to_lower (FormatUint w) = FormatUint w"
  by (simp_all add: FormatUint_def decimal_no_char decimal_lower DelimiterForGroupKey_def DelimiterForCombinedKey_def)

lemma FormatUint_inj: "FormatUint v = FormatUint w \<longleftrightarrow> v = w"
  by (metis ParseUint_Format option.inject)

section \<open>Keys\<close>

lemma split_last: "no_char c y \<Longrightarrow> split_char c (x @ c # y) = split_char c x @ [y]"
proof (induction x)
  case (Cons a x)
  then show ?case by (cases "split_char c x") auto
qed (simp add: split_char_no_char)

lemma split_single: "split_char c x = [t] \<Longrightarrow> x = t"
  by (induction x arbitrary: t) (auto split: if_splits list.splits)

lemma parse_group:
  "parseGroupKey (group_key r) = Some (a, i) \<Longrightarrow> a = tr_TaskContractAddress r \<and> i = tr_TaskId r"
  by (auto simp: parseGroupKey_def group_key_def split_last FormatUint_parts append_eq_Cons_conv split: list.splits option.splits
      dest: split_single)

lemma append_last_part:
  assumes "x @ c # y = x' @ c # y'" "no_char c y" "no_char c y'"
  shows "x = x' \<and> y = y'"
proof -
  have "split_char c x @ [y] = split_char c x' @ [y']" using assms split_last by metis
  then have "y = y'" by simp
  with assms(1) show ?thesis by simp
qed

lemma task_key_inj: "task_key a (FormatUint v) = task_key b (FormatUint w) \<longleftrightarrow> to_lower a = to_lower b \<and> v = w"
  using append_last_part [of "to_lower a" DelimiterForCombinedKey "FormatUint v" "to_lower b" "FormatUint w"]
  by (auto simp: task_key_def GetJoinedStoreKey_def FormatUint_parts FormatUint_inj)

lemma result_key_lower: "to_lower (result_key a t i) = result_key (to_lower a) t i"
proof -
  have "lower_char DelimiterForCombinedKey = DelimiterForCombinedKey" by (simp add: lower_char_def DelimiterForCombinedKey_def)
  then show ?thesis
    by (simp add: result_key_def GetJoinedStoreKey_def to_lower_append FormatUint_parts)
qed

section \<open>Steps\<close>

text \<open>
  The node \<open>s\<close> that an operation reads, with its epochs, AVSs and operators, may change in any way between operations, and
  the order in which a loop visits a map is any permutation.
\<close>

definition visits_all :: "('a list \<Rightarrow> 'a list) \<Rightarrow> bool" where
  "visits_all order = (\<forall>xs. mset (order xs) = mset xs)"

inductive task_step :: "codec \<Rightarrow> 'x node_env \<Rightarrow> ('k, 'x) bls_env \<Rightarrow> task_state \<Rightarrow> task_state \<Rightarrow> bool" for C E B where
  create: "CreateAVSTask C (s :: 'x state) params ts = Inr (i, ts') \<Longrightarrow> task_step C E B ts ts'"
| register_key: "RegisterBLSPublicKey C E B params ts = Inr ts' \<Longrightarrow> task_step C E B ts ts'"
| submit: "SubmitTaskResult C B s addr info ts = Inr ts' \<Longrightarrow> task_step C E B ts ts'"
| challenge: "RaiseAndResolveChallenge C (s :: 'x state) params ts = Inr ts' \<Longrightarrow> task_step C E B ts ts'"
| epoch_end: "visits_all order \<Longrightarrow> task_step C E B ts (AvsAfterEpochEnd C order (s :: 'x state) epochIdentifier epochNumber ts)"

definition no_tasks :: task_state where
  "no_tasks = \<lparr>taskInfos = [], operatePubs = [], latestTaskNums = [], taskResults = [], taskChallenges = []\<rparr>"

section \<open>Tasks\<close>

definition own_key :: "TaskInfo \<Rightarrow> bytes" where
  "own_key t = task_key (ti_TaskContractAddress t) (FormatUint (ti_TaskId t))"

definition tasks_ok :: "task_state \<Rightarrow> bool" where
  "tasks_ok ts = (kv_wf (taskInfos ts) \<and> (\<forall>k t. kv_get (taskInfos ts) k = Some t \<longrightarrow> k = own_key t))"

lemma SetTaskInfo_ok: "SetTaskInfo C t ts = Inr ts' \<Longrightarrow> tasks_ok ts \<Longrightarrow> tasks_ok ts'"
  by (auto simp: SetTaskInfo_def tasks_ok_def own_key_def split: if_splits)

lemma SetTaskInfo_keeps:
  "SetTaskInfo C t ts = Inr ts' \<Longrightarrow> taskResults ts' = taskResults ts \<and> operatePubs ts' = operatePubs ts"
  by (auto simp: SetTaskInfo_def split: if_splits)

text \<open>A change of one task: \<open>f\<close> gives the new task, or nothing when it is left alone.\<close>

definition change_task :: "bytes \<Rightarrow> (TaskInfo \<Rightarrow> TaskInfo option) \<Rightarrow> task_state \<Rightarrow> task_state" where
  "change_task k f ts =
     (case Option.bind (kv_get (taskInfos ts) k) f of None \<Rightarrow> ts
      | Some t \<Rightarrow> ts\<lparr>taskInfos := kv_set k t (taskInfos ts)\<rparr>)"

lemma kv_set_commute:
  assumes "kv_wf m" "j \<noteq> k"
  shows "kv_set j v (kv_set k w m) = kv_set k w (kv_set j v m)"
  by (rule kv_ext) (use assms in \<open>auto intro: kv_wf_set\<close>)

lemma change_task_commute:
  assumes "kv_wf (taskInfos ts)" "j \<noteq> k"
  shows "change_task j f (change_task k g ts) = change_task k g (change_task j f ts)"
  using assms kv_set_commute [OF assms] by (auto simp: change_task_def split: option.splits)

lemma change_task_ok:
  assumes "tasks_ok ts" "\<And>t t'. f t = Some t' \<Longrightarrow> own_key t' = own_key t"
  shows "tasks_ok (change_task k f ts)"
proof -
  have "own_key t' = k" if "kv_get (taskInfos ts) k = Some t" "f t = Some t'" for t t'
    using that assms by (auto simp: tasks_ok_def)
  then show ?thesis using assms(1) by (auto simp: change_task_def tasks_ok_def Option.bind_eq_Some_conv intro: kv_wf_set split: option.splits)
qed

section \<open>Statistics\<close>

text \<open>A loop whose steps commute as long as an invariant holds may visit its elements in any order.\<close>

lemma fold_any_order:
  assumes "P a" "\<And>x a. x \<in> set xs \<Longrightarrow> P a \<Longrightarrow> P (f x a)"
    and "\<And>x y a. x \<in> set xs \<Longrightarrow> y \<in> set xs \<Longrightarrow> P a \<Longrightarrow> f x (f y a) = f y (f x a)"
    and "mset ys = mset xs"
  shows "fold f ys a = fold f xs a"
proof -
  define g where "g x a = (if P a then f x a else a)" for x a
  have g: "fold g zs b = fold f zs b" if "P b" "set zs \<subseteq> set xs" for zs b
    using that assms(2) by (induction zs arbitrary: b) (auto simp: g_def)
  have s: "set ys = set xs" using assms(4) by (metis set_mset_mset)
  have "fold g ys = fold g xs"
  proof (rule fold_multiset_equiv)
    fix x y assume "x \<in> set ys" "y \<in> set ys"
    then show "g x \<circ> g y = g y \<circ> g x" using assms(2,3) s by (auto simp: g_def fun_eq_iff)
  qed (use assms(4) in simp)
  then show ?thesis using g [OF assms(1), of ys] g [OF assms(1), of xs] s by simp
qed

definition new_statistics :: "codec \<Rightarrow> 'x state \<Rightarrow> string \<Rightarrow> TaskResultInfo list \<Rightarrow> TaskInfo \<Rightarrow> TaskInfo option" where
  "new_statistics C s taskAddr res t =
     (case avs_of_task C (avs_of s) taskAddr of None \<Rightarrow> None
      | Some avs \<Rightarrow>
        (case GetAVSUSDValue (opr_of s) (avs_AvsAddress avs) of Inl _ \<Rightarrow> None
         | Inr usd \<Rightarrow>
           if \<not> isHexAddress C taskAddr \<or> usd = 0 \<or> \<not> isHexAddress C (ti_TaskContractAddress t) then None
           else
             let signed = map tr_OperatorAddress (filter has_signed res) in
             Some (t\<lparr>ti_SignedOperators := signed, ti_NoSignedOperators := Difference (ti_OptInOperators t) signed,
               ti_OperatorActivePower := Some (map (\<lambda>operator. \<lparr>ap_OperatorAddress = operator,
                 ap_SelfActivePower = active_power C s (avs_AvsAddress avs) operator\<rparr>) signed),
               ti_TaskTotalPower := usd\<rparr>)))"

lemma new_statistics_key: "new_statistics C s a res t = Some t' \<Longrightarrow> own_key t' = own_key t"
  by (auto simp: new_statistics_def own_key_def Let_def split: option.splits sum.splits if_splits)

lemma update_statistics_change:
  assumes "tasks_ok ts" "parseGroupKey (fst g) = Some (a, i)"
  shows "update_statistics C s g ts = change_task (task_key a (FormatUint i)) (new_statistics C s a (snd g)) ts"
proof (cases "kv_get (taskInfos ts) (task_key a (FormatUint i))")
  case None
  then show ?thesis using assms(2)
    by (auto simp: update_statistics_def change_task_def GetTaskInfo_def of_option_def split: option.splits)
next
  case (Some t)
  then have k: "task_key a (FormatUint i) = task_key (ti_TaskContractAddress t) (FormatUint (ti_TaskId t))"
    using assms(1) by (simp add: tasks_ok_def own_key_def)
  show ?thesis using assms(2) Some
    by (auto simp: update_statistics_def change_task_def GetTaskInfo_def of_option_def new_statistics_def SetTaskInfo_def Let_def k [symmetric]
        split: option.splits sum.splits)
qed

lemma update_statistics_skip: "parseGroupKey (fst g) = None \<Longrightarrow> update_statistics C s g ts = ts"
  by (simp add: update_statistics_def)

lemma update_statistics_ok: "tasks_ok ts \<Longrightarrow> tasks_ok (update_statistics C s g ts)"
proof (cases "parseGroupKey (fst g)")
  case (Some p)
  moreover obtain a i where "p = (a, i)" by (cases p)
  moreover assume "tasks_ok ts"
  ultimately show ?thesis by (simp add: update_statistics_change change_task_ok new_statistics_key)
qed (simp add: update_statistics_skip)

lemma update_statistics_keeps:
  "taskResults (update_statistics C s g ts) = taskResults ts \<and> operatePubs (update_statistics C s g ts) = operatePubs ts"
  by (simp add: update_statistics_def SetTaskInfo_def Let_def split: option.split sum.split prod.split)

lemma update_statistics_commute:
  assumes "tasks_ok ts"
    and "\<And>a i b j. parseGroupKey (fst g) = Some (a, i) \<Longrightarrow> parseGroupKey (fst h) = Some (b, j) \<Longrightarrow> to_lower a = to_lower b \<Longrightarrow> i \<noteq> j"
  shows "update_statistics C s g (update_statistics C s h ts) = update_statistics C s h (update_statistics C s g ts)"
proof (cases "parseGroupKey (fst g) = None \<or> parseGroupKey (fst h) = None")
  case True
  then show ?thesis by (auto simp: update_statistics_skip)
next
  case False
  then obtain a i b j where p: "parseGroupKey (fst g) = Some (a, i)" "parseGroupKey (fst h) = Some (b, j)" by auto
  then have ne: "task_key a (FormatUint i) \<noteq> task_key b (FormatUint j)" using assms(2) by (auto simp: task_key_inj)
  have ok: "tasks_ok (update_statistics C s h ts)" "tasks_ok (update_statistics C s g ts)"
    using assms(1) by (rule update_statistics_ok)+
  note g = update_statistics_change [OF ok(1) p(1)] update_statistics_change [OF assms(1) p(1)]
    and h = update_statistics_change [OF ok(2) p(2)] update_statistics_change [OF assms(1) p(2)]
  have "kv_wf (taskInfos ts)" using assms(1) by (simp add: tasks_ok_def)
  then show ?thesis unfolding g(1) h(1) unfolding g(2) h(2) using ne by (rule change_task_commute)
qed

lemma statistics_ok: "tasks_ok ts \<Longrightarrow> tasks_ok (AvsAfterEpochEnd C order s e n ts)"
proof -
  have "tasks_ok (fold (update_statistics C s) gs ts)" if "tasks_ok ts" for gs
    using that by (induction gs arbitrary: ts) (simp_all add: update_statistics_ok)
  then show "tasks_ok ts \<Longrightarrow> ?thesis" by (simp add: AvsAfterEpochEnd_def Let_def)
qed

lemma statistics_keeps:
  "taskResults (AvsAfterEpochEnd C order s e n ts) = taskResults ts \<and> operatePubs (AvsAfterEpochEnd C order s e n ts) = operatePubs ts"
proof -
  have "taskResults (fold (update_statistics C s) gs ts) = taskResults ts \<and> operatePubs (fold (update_statistics C s) gs ts) = operatePubs ts" for gs
    by (induction gs arbitrary: ts) (simp_all add: update_statistics_keeps)
  then show ?thesis by (simp add: AvsAfterEpochEnd_def Let_def)
qed

section \<open>Groups\<close>

lemma iterate_filter:
  assumes "\<And>i x acc. fn i x acc = (False, if P x then acc @ [x] else acc)"
  shows "iterate_values fn i es acc = acc @ filter P (map snd es)"
  by (induction es arbitrary: i acc) (auto simp: assms)

lemma due_results: "set (GetTaskStatisticalEpochEndAVSs C av ts e n) \<subseteq> snd ` set (taskResults ts)"
proof -
  let ?P = "\<lambda>info. case avs_of_task C av (tr_TaskContractAddress info) of None \<Rightarrow> False
    | Some avs \<Rightarrow> (case GetTaskInfo C ts (FormatUint (tr_TaskId info)) (tr_TaskContractAddress info) of Inl _ \<Rightarrow> False
        | Inr t \<Rightarrow> e = avs_EpochIdentifier avs \<and> n = statistics_end t)"
  have "GetTaskStatisticalEpochEndAVSs C av ts e n = [] @ filter ?P (map snd (taskResults ts))"
    unfolding GetTaskStatisticalEpochEndAVSs_def IterateResultInfo_def
    by (rule iterate_filter) (simp split: option.split sum.split)
  then show ?thesis by auto
qed

text \<open>Results of the same task give its contract in the same spelling.\<close>

definition same_spelling :: "task_state \<Rightarrow> bool" where
  "same_spelling ts = list_all (\<lambda>(_, r). list_all (\<lambda>(_, r').
     to_lower (tr_TaskContractAddress r) = to_lower (tr_TaskContractAddress r') \<longrightarrow>
     tr_TaskContractAddress r = tr_TaskContractAddress r') (taskResults ts)) (taskResults ts)"

lemma same_spellingD:
  assumes "same_spelling ts" "r \<in> snd ` set (taskResults ts)" "r' \<in> snd ` set (taskResults ts)"
    and "to_lower (tr_TaskContractAddress r) = to_lower (tr_TaskContractAddress r')"
  shows "tr_TaskContractAddress r = tr_TaskContractAddress r'"
proof -
  obtain k k' where "(k, r) \<in> set (taskResults ts)" "(k', r') \<in> set (taskResults ts)" using assms(2,3) by force
  then show ?thesis using assms(1,4) unfolding same_spelling_def list_all_iff by blast
qed

lemma in_groups:
  assumes "g \<in> set (GroupTasksByIDAndAddress rs)"
  obtains r where "r \<in> set rs"
    "g = (group_key r, sort_slice (\<lambda>a b. tr_OperatorAddress a < tr_OperatorAddress b) (filter (\<lambda>t. group_key t = group_key r) rs))"
  using assms by (auto simp: GroupTasksByIDAndAddress_def)

lemma groups_separate:
  assumes "same_spelling ts" and "set rs \<subseteq> snd ` set (taskResults ts)"
    and "g \<in> set (GroupTasksByIDAndAddress rs)" "h \<in> set (GroupTasksByIDAndAddress rs)" "g \<noteq> h"
    and "parseGroupKey (fst g) = Some (a, i)" "parseGroupKey (fst h) = Some (b, j)" "to_lower a = to_lower b"
  shows "i \<noteq> j"
proof
  assume "i = j"
  obtain r where r: "r \<in> set rs" "fst g = group_key r"
    and g: "g = (group_key r, sort_slice (\<lambda>a b. tr_OperatorAddress a < tr_OperatorAddress b) (filter (\<lambda>t. group_key t = group_key r) rs))"
    using assms(3) by (rule in_groups) simp
  obtain r' where r': "r' \<in> set rs" "fst h = group_key r'"
    and h: "h = (group_key r', sort_slice (\<lambda>a b. tr_OperatorAddress a < tr_OperatorAddress b) (filter (\<lambda>t. group_key t = group_key r') rs))"
    using assms(4) by (rule in_groups) simp
  have ne: "group_key r \<noteq> group_key r'" using assms(5) unfolding g h by auto
  have "a = tr_TaskContractAddress r" "i = tr_TaskId r" "b = tr_TaskContractAddress r'" "j = tr_TaskId r'"
    using parse_group [of r a i] parse_group [of r' b j] assms(6,7) r(2) r'(2) by simp_all
  moreover have "tr_TaskContractAddress r = tr_TaskContractAddress r'"
    using same_spellingD [OF assms(1), of r r'] subsetD [OF assms(2) r(1)] subsetD [OF assms(2) r'(1)] assms(8) calculation by simp
  ultimately show False using ne \<open>i = j\<close> by (simp add: group_key_def)
qed

lemma statistics_any_order:
  assumes "tasks_ok ts" "same_spelling ts" "visits_all o1" "visits_all o2"
  shows "AvsAfterEpochEnd C o1 s e n ts = AvsAfterEpochEnd C o2 s e n ts"
proof -
  let ?rs = "GetTaskStatisticalEpochEndAVSs C (avs_of s) ts e n"
  let ?gs = "GroupTasksByIDAndAddress ?rs"
  have "fold (update_statistics C s) (order ?gs) ts = fold (update_statistics C s) ?gs ts" if "visits_all order" for order
  proof (rule fold_any_order [where P = tasks_ok])
    fix g h ts' assume "g \<in> set ?gs" "h \<in> set ?gs" "tasks_ok ts'"
    then show "update_statistics C s g (update_statistics C s h ts') = update_statistics C s h (update_statistics C s g ts')"
      using update_statistics_commute [of ts' g h] groups_separate [OF assms(2) due_results] by metis
  qed (use assms(1) that in \<open>simp_all add: update_statistics_ok visits_all_def\<close>)
  then show ?thesis using assms(3,4) by (simp add: AvsAfterEpochEnd_def Let_def)
qed

end
