(* ===== verification/AvsResults.thy ===== *)
theory AvsResults
  imports AvsSteps
begin

text \<open>
  The results of tasks: which keys and signatures every step keeps, and that a result that is revealed is signed. A
  submission is analysed once, by \<open>submit_cases\<close>, and the other steps leave the results alone.
\<close>

section \<open>Results\<close>

definition signature_of :: "TaskResultInfo \<Rightarrow> bytes" where
  "signature_of r = (case tr_BlsSignature r of None \<Rightarrow> [] | Some b \<Rightarrow> b)"

text \<open>The result has a response, and its signature is valid for the hash of the response and a BLS key of the operator.\<close>

definition signed_response :: "codec \<Rightarrow> ('k, 'x) bls_env \<Rightarrow> task_state \<Rightarrow> TaskResultInfo \<Rightarrow> bool" where
  "signed_response C B ts r =
     (\<exists>response operator avs keyInfo pubKey. tr_TaskResponse r = stored_bytes (Some response) \<and>
        tr_TaskResponseHash r = hashString C (keccak256 C response) \<and>
        accAddressFromBech32 C (tr_OperatorAddress r) = Some operator \<and>
        kv_get (operatePubs ts) (pub_key C operator avs) = Some (BlsInfo keyInfo) \<and>
        be_PublicKeyFromBytes B (bk_PubKey keyInfo) = Some pubKey \<and>
        be_VerifySignature B (signature_of r) (keccak256 C response) pubKey = Some True)"

definition result_ok :: "codec \<Rightarrow> ('k, 'x) bls_env \<Rightarrow> task_state \<Rightarrow> bytes \<Rightarrow> TaskResultInfo \<Rightarrow> bool" where
  "result_ok C B ts k r =
     (k = result_key (tr_OperatorAddress r) (tr_TaskContractAddress r) (tr_TaskId r) \<and>
      stored_bytes (tr_BlsSignature r) = tr_BlsSignature r \<and> (tr_Phase r = PhaseDoCommit \<longrightarrow> signed_response C B ts r))"

definition results_ok :: "codec \<Rightarrow> ('k, 'x) bls_env \<Rightarrow> task_state \<Rightarrow> bool" where
  "results_ok C B ts = (\<forall>k r. kv_get (taskResults ts) k = Some r \<longrightarrow> result_ok C B ts k r)"

definition keys_kept :: "task_state \<Rightarrow> task_state \<Rightarrow> bool" where
  "keys_kept ts ts' = (\<forall>k e. kv_get (operatePubs ts) k = Some e \<longrightarrow> kv_get (operatePubs ts') k = Some e)"

lemma signed_response_mono: "signed_response C B ts r \<Longrightarrow> keys_kept ts ts' \<Longrightarrow> signed_response C B ts' r"
  unfolding signed_response_def keys_kept_def by blast

lemma results_ok_mono:
  "results_ok C B ts \<Longrightarrow> keys_kept ts ts' \<Longrightarrow> taskResults ts' = taskResults ts \<Longrightarrow> results_ok C B ts'"
  using signed_response_mono by (fastforce simp: results_ok_def result_ok_def)

lemma stored_bytes_idem [simp]: "stored_bytes (stored_bytes b) = stored_bytes b"
  by (simp add: stored_bytes_def)

lemma signature_stored: "signature_of (r\<lparr>tr_BlsSignature := stored_bytes (tr_BlsSignature r)\<rparr>) = signature_of r"
  by (auto simp: signature_of_def stored_bytes_def split: option.split)

lemma register_key_kept:
  assumes "RegisterBLSPublicKey C E B params ts = Inr ts'"
  shows "keys_kept ts ts' \<and> taskResults ts' = taskResults ts \<and> taskInfos ts' = taskInfos ts"
proof -
  let ?acc = "accAddressString C (bp_OperatorAddress params)"
  let ?avs = "addressHex C (bp_AvsAddress params)"
  let ?info = "\<lparr>bk_OperatorAddress = ?acc, bk_AvsAddress = to_lower ?avs, bk_PubKey = bp_PubKey params\<rparr>"
  have r: "\<not> IsExistPubKeyForAVS C ts ?acc ?avs" "\<not> IsExistPubKey ts ?info" "SetOperatorPubKey C ?info ts = Inr ts'"
    using assms by (auto simp: RegisterBLSPublicKey_def Let_def split: option.splits if_splits)
  then show ?thesis
    by (auto simp: keys_kept_def SetOperatorPubKey_def IsExistPubKeyForAVS_def IsExistPubKey_def pub_key_def kv_has_iff
        split: option.splits if_splits)
qed

lemma error_or_panic: "(case e of Panic m \<Rightarrow> Inl (Panic m) | _ \<Rightarrow> Inl e') \<noteq> Inr y"
  by (cases e) simp_all

lemma GetOperatorPubKey_entry:
  "GetOperatorPubKey C ts operator avs = Inr keyInfo \<Longrightarrow>
    \<exists>a. accAddressFromBech32 C operator = Some a \<and> kv_get (operatePubs ts) (pub_key C a avs) = Some (BlsInfo keyInfo)"
  by (auto simp: GetOperatorPubKey_def split: option.splits bls_entry.splits)

lemma submit_cases:
  assumes "SubmitTaskResult C B s addr info ts = Inr ts'"
  obtains (prepare) "tr_Phase info = PhasePrepare"
      "\<not> IsExistTaskResultInfo ts (tr_OperatorAddress info) (tr_TaskContractAddress info) (tr_TaskId info)" "SetTaskResultInfo C info ts = Inr ts'"
  | (commit) keyInfo pubKey avs operator response res where "tr_Phase info = PhaseDoCommit"
      "accAddressFromBech32 C (tr_OperatorAddress info) = Some operator"
      "kv_get (operatePubs ts) (pub_key C operator avs) = Some (BlsInfo keyInfo)" "be_PublicKeyFromBytes B (bk_PubKey keyInfo) = Some pubKey"
      "tr_TaskResponse info = Some response"
      "GetTaskResultInfo C ts (tr_OperatorAddress info) (tr_TaskContractAddress info) (tr_TaskId info) = Inr res"
      "stored_bytes (tr_BlsSignature res) = stored_bytes (tr_BlsSignature info)"
      "be_VerifySignature B (signature_of info) (keccak256 C response) pubKey = Some True"
      "SetTaskResultInfo C (info\<lparr>tr_TaskResponseHash := hashString C (keccak256 C response)\<rparr>) ts = Inr ts'"
proof -
  obtain avsInfo where a: "avs_of_task C (avs_of s) (tr_TaskContractAddress info) = Some avsInfo"
    using assms by (cases "avs_of_task C (avs_of s) (tr_TaskContractAddress info)") (auto simp: SubmitTaskResult_def split: if_splits)
  obtain keyInfo where k: "GetOperatorPubKey C ts (tr_OperatorAddress info) (avs_AvsAddress avsInfo) = Inr keyInfo"
    using assms a by (cases "GetOperatorPubKey C ts (tr_OperatorAddress info) (avs_AvsAddress avsInfo)")
      (auto simp: SubmitTaskResult_def error_or_panic split: if_splits)
  obtain pubKey where p: "be_PublicKeyFromBytes B (bk_PubKey keyInfo) = Some pubKey"
    using assms a k by (cases "be_PublicKeyFromBytes B (bk_PubKey keyInfo)") (auto simp: SubmitTaskResult_def split: if_splits)
  obtain task epoch where
    ph: "(if tr_Phase info = PhasePrepare then prepare_result C epoch task info ts
        else if tr_Phase info = PhaseDoCommit then commit_result C B pubKey epoch task info ts else Inl (AvsErr ErrParamError)) = Inr ts'"
    using assms a k p by (auto simp: SubmitTaskResult_def rbind_def split: if_splits sum.splits)
  obtain operator where op: "accAddressFromBech32 C (tr_OperatorAddress info) = Some operator"
      "kv_get (operatePubs ts) (pub_key C operator (avs_AvsAddress avsInfo)) = Some (BlsInfo keyInfo)"
    using GetOperatorPubKey_entry [OF k] by blast
  show ?thesis
  proof (cases "tr_Phase info = PhasePrepare")
    case True
    then show ?thesis using ph by (auto simp: prepare_result_def intro: prepare split: if_splits)
  next
    case False
    then have "tr_Phase info = PhaseDoCommit" "commit_result C B pubKey epoch task info ts = Inr ts'"
      using ph by (auto split: if_splits)
    then show ?thesis
      using commit [OF _ op p]
      by (auto simp: commit_result_def Let_def signature_of_def split: option.splits sum.splits if_splits)
  qed
qed

lemma SetTaskResultInfo_eq:
  "SetTaskResultInfo C info ts = Inr ts' \<Longrightarrow>
    taskInfos ts' = taskInfos ts \<and> operatePubs ts' = operatePubs ts \<and>
    taskResults ts' = kv_set (result_key (tr_OperatorAddress info) (tr_TaskContractAddress info) (tr_TaskId info))
      (info\<lparr>tr_TaskResponse := stored_bytes (tr_TaskResponse info), tr_BlsSignature := stored_bytes (tr_BlsSignature info)\<rparr>) (taskResults ts)"
  by (auto simp: SetTaskResultInfo_def split: if_splits)

section \<open>What every step keeps\<close>

text \<open>A result stored under a key in lower case keeps the signature it was stored with first.\<close>

definition signatures_kept :: "task_state \<Rightarrow> task_state \<Rightarrow> bool" where
  "signatures_kept ts ts' = (\<forall>k r. kv_get (taskResults ts) k = Some r \<longrightarrow> to_lower k = k \<longrightarrow>
     (\<exists>r'. kv_get (taskResults ts') k = Some r' \<and> tr_BlsSignature r' = tr_BlsSignature r))"

lemma signatures_kept_same: "taskResults ts' = taskResults ts \<Longrightarrow> signatures_kept ts ts'"
  by (simp add: signatures_kept_def)

lemma signatures_kept_trans: "signatures_kept a b \<Longrightarrow> signatures_kept b c \<Longrightarrow> signatures_kept a c"
  unfolding signatures_kept_def by metis

lemma keys_kept_same: "operatePubs ts' = operatePubs ts \<Longrightarrow> keys_kept ts ts'"
  by (simp add: keys_kept_def)

lemma store_result_ok:
  assumes "SetTaskResultInfo C info ts = Inr ts'" "results_ok C B ts"
    and "tr_Phase info = PhaseDoCommit \<Longrightarrow> signed_response C B ts
      (info\<lparr>tr_TaskResponse := stored_bytes (tr_TaskResponse info), tr_BlsSignature := stored_bytes (tr_BlsSignature info)\<rparr>)"
  shows "results_ok C B ts'"
proof -
  note eq = SetTaskResultInfo_eq [OF assms(1)]
  have "signed_response C B ts' r" if "signed_response C B ts r" for r
    using that eq signed_response_mono keys_kept_same by metis
  then show ?thesis using eq assms(2,3) by (auto simp: results_ok_def result_ok_def)
qed

lemma submit_ok:
  assumes "SubmitTaskResult C B s addr info ts = Inr ts'" "results_ok C B ts"
  shows "results_ok C B ts' \<and> signatures_kept ts ts' \<and> taskInfos ts' = taskInfos ts"
  using assms(1)
proof (cases rule: submit_cases)
  case prepare
  let ?k = "result_key (tr_OperatorAddress info) (tr_TaskContractAddress info) (tr_TaskId info)"
  note eq = SetTaskResultInfo_eq [OF prepare(3)]
  have "kv_get (taskResults ts) (to_lower ?k) = None"
    using prepare(2) by (simp add: IsExistTaskResultInfo_def result_key_lower kv_has_def kv_get_def)
  then have "signatures_kept ts ts'" using eq by (auto simp: signatures_kept_def)
  moreover have "results_ok C B ts'"
    using prepare(1) by (intro store_result_ok [OF prepare(3) assms(2)]) (simp add: PhasePrepare_def PhaseDoCommit_def)
  ultimately show ?thesis using eq by simp
next
  case (commit keyInfo pubKey avs operator response res)
  let ?info = "info\<lparr>tr_TaskResponseHash := hashString C (keccak256 C response)\<rparr>"
  let ?new = "?info\<lparr>tr_TaskResponse := stored_bytes (tr_TaskResponse ?info), tr_BlsSignature := stored_bytes (tr_BlsSignature ?info)\<rparr>"
  note eq = SetTaskResultInfo_eq [OF commit(9)]
  have res: "kv_get (taskResults ts) (result_key (tr_OperatorAddress info) (tr_TaskContractAddress info) (tr_TaskId info)) = Some res"
    using commit(6) by (auto simp: GetTaskResultInfo_def of_option_def split: if_splits option.splits)
  then have "stored_bytes (tr_BlsSignature info) = tr_BlsSignature res"
    using assms(2) commit(7) by (simp add: results_ok_def result_ok_def)
  then have "signatures_kept ts ts'" using eq res by (auto simp: signatures_kept_def)
  moreover have "signature_of ?new = signature_of info" by (auto simp: signature_of_def stored_bytes_def split: option.split)
  then have "signed_response C B ts ?new"
    unfolding signed_response_def using commit(2-5,8) by (intro exI [of _ response] exI [of _ operator] exI [of _ avs] exI [of _ keyInfo] exI [of _ pubKey]) simp
  then have "results_ok C B ts'" using store_result_ok [OF commit(9) assms(2)] by blast
  ultimately show ?thesis using eq by simp
qed

lemma tasks_ok_cong: "taskInfos ts' = taskInfos ts \<Longrightarrow> tasks_ok ts' \<longleftrightarrow> tasks_ok ts"
  unfolding tasks_ok_def by simp

lemma create_sets:
  assumes "CreateAVSTask C s params ts = Inr (i, ts')"
  obtains t where "SetTaskInfo C t (snd (GetTaskID (hexToAddress C (addressHex C (tp_TaskContractAddress params))) ts)) = Inr ts'"
proof -
  obtain avs where a: "avs_of_task C (avs_of s) (addressHex C (tp_TaskContractAddress params)) = Some avs"
    using assms by (cases "avs_of_task C (avs_of s) (addressHex C (tp_TaskContractAddress params))") (simp_all add: CreateAVSTask_def)
  show ?thesis using assms that a unfolding CreateAVSTask_def Let_def
    by (auto simp: rbind_eq_Inr_iff case_prod_beta split: if_splits)
qed

lemma create_frame:
  assumes "CreateAVSTask C s params ts = Inr (i, ts')"
  shows "taskResults ts' = taskResults ts \<and> operatePubs ts' = operatePubs ts \<and> (tasks_ok ts \<longrightarrow> tasks_ok ts')"
  using assms
proof (rule create_sets)
  fix t assume t: "SetTaskInfo C t (snd (GetTaskID (hexToAddress C (addressHex C (tp_TaskContractAddress params))) ts)) = Inr ts'"
  have "tasks_ok (snd (GetTaskID (hexToAddress C (addressHex C (tp_TaskContractAddress params))) ts)) \<longleftrightarrow> tasks_ok ts"
    by (rule tasks_ok_cong) (simp add: GetTaskID_def Let_def)
  then show ?thesis using SetTaskInfo_keeps [OF t] SetTaskInfo_ok [OF t] by (simp add: GetTaskID_def Let_def)
qed

lemma challenge_frame:
  assumes "RaiseAndResolveChallenge C s params ts = Inr ts'"
  shows "taskResults ts' = taskResults ts \<and> operatePubs ts' = operatePubs ts \<and> (tasks_ok ts \<longrightarrow> tasks_ok ts')"
proof -
  obtain t n where t: "SetTaskInfo C t (ts\<lparr>taskChallenges := n\<rparr>) = Inr ts'"
    using assms by (auto simp: RaiseAndResolveChallenge_def SetTaskChallengedInfo_def Let_def rbind_eq_Inr_iff split: option.splits sum.splits if_splits)
  have "tasks_ok (ts\<lparr>taskChallenges := n\<rparr>) \<longleftrightarrow> tasks_ok ts" by (rule tasks_ok_cong) simp
  then show ?thesis using SetTaskInfo_keeps [OF t] SetTaskInfo_ok [OF t] by simp
qed

text \<open>Steps that only touch tasks.\<close>

lemma frame_ok:
  assumes "taskResults ts' = taskResults ts \<and> operatePubs ts' = operatePubs ts \<and> (tasks_ok ts \<longrightarrow> tasks_ok ts')" "tasks_ok ts" "results_ok C B ts"
  shows "tasks_ok ts' \<and> results_ok C B ts' \<and> signatures_kept ts ts'"
  using assms results_ok_mono [OF assms(3) keys_kept_same] signatures_kept_same by blast

lemma task_step_ok:
  assumes "task_step C E B ts ts'" "tasks_ok ts" "results_ok C B ts"
  shows "tasks_ok ts' \<and> results_ok C B ts' \<and> signatures_kept ts ts'"
  using assms(1)
proof cases
  case create
  then show ?thesis using create_frame frame_ok assms(2,3) by blast
next
  case register_key
  note r = register_key_kept [OF register_key]
  have "tasks_ok ts'" using r assms(2) tasks_ok_cong by blast
  then show ?thesis using r results_ok_mono [OF assms(3)] signatures_kept_same by blast
next
  case submit
  note r = submit_ok [OF submit assms(3)]
  have "tasks_ok ts'" using r assms(2) tasks_ok_cong by blast
  then show ?thesis using r by blast
next
  case challenge
  then show ?thesis using challenge_frame frame_ok assms(2,3) by blast
next
  case epoch_end
  then show ?thesis using statistics_ok statistics_keeps frame_ok assms(2,3) by blast
qed

lemma task_run_ok:
  assumes "(task_step C E B)\<^sup>*\<^sup>* ts ts'" "tasks_ok ts" "results_ok C B ts"
  shows "tasks_ok ts' \<and> results_ok C B ts' \<and> signatures_kept ts ts'"
  using assms(1)
proof induction
  case base
  then show ?case using assms(2,3) by (simp add: signatures_kept_same)
next
  case (step a b)
  then show ?case using task_step_ok [OF step.hyps(2)] signatures_kept_trans by blast
qed

lemma no_tasks_ok: "tasks_ok no_tasks" "results_ok C B no_tasks"
  by (simp_all add: no_tasks_def tasks_ok_def results_ok_def)

end
