(* ===== verification/AvsExample.thy ===== *)
theory AvsExample
  imports AvsResults NodeExample
begin

text \<open>
  A concrete AVS with one task and two operators, which give the address of its contract in different spellings. As in
  go-ethereum, the letters of an address may be in either case.
\<close>

definition ex_codec :: codec where
  "ex_codec = ref_codec\<lparr>isHexAddress := \<lambda>s. isHexAddress ref_codec (to_lower s)\<rparr>"

lemma chain_codec_ex: "chain_codec ex_codec"
proof -
  have "chain_codec C \<Longrightarrow> chain_codec (C\<lparr>isHexAddress := f\<rparr>)" for C f by (simp add: chain_codec_def)
  then show ?thesis unfolding ex_codec_def using chain_codec_ref .
qed

definition ex_bls :: "(bytes, unit) bls_env" where
  "ex_bls = \<lparr>be_PublicKeyFromBytes = (\<lambda>b. if b = [] then None else Some b), be_VerifySignature = (\<lambda>sig msg key. Some (sig = key)),
     be_SetCode = (\<lambda>x. x)\<rparr>"

definition ex_second :: bytes where "ex_second = replicate 20 CHR ''p''"
definition ex_contract :: bytes where "ex_contract = replicate 20 (char_of (171 :: nat))"
definition ex_service :: bytes where "ex_service = replicate 20 CHR ''v''"
definition ex_owner :: bytes where "ex_owner = replicate 20 CHR ''w''"

text \<open>The address of the contract in lower case and in upper case.\<close>

definition ex_lower :: string where "ex_lower = addressHex ref_codec ex_contract"
definition ex_upper :: string where "ex_upper = ''0x'' @ map (\<lambda>c. if c = CHR ''a'' then CHR ''A'' else c) (hex_bytes ex_contract)"
definition ex_service_hex :: string where "ex_service_hex = addressHex ref_codec ex_service"

definition ex_service_info :: AVSInfo where
  "ex_service_info = \<lparr>avs_Name = ''service'', avs_AvsAddress = ex_service_hex, avs_MinStakeAmount = 0, avs_TaskAddress = ex_lower,
     avs_SlashAddress = [], avs_RewardAddress = [], avs_AvsOwnerAddresses = [accAddressString ref_codec ex_owner], avs_AssetIDs = [],
     avs_AvsUnbondingPeriod = 7, avs_MinSelfDelegation = 0, avs_EpochIdentifier = ''day'', avs_MinOptInOperators = 0,
     avs_MinTotalStakeAmount = 0, avs_StartingEpoch = 1, avs_ChainId = [], avs_AvsReward = 0, avs_AvsSlash = 0, avs_WhitelistAddresses = []\<rparr>"

definition ex_at :: "int \<Rightarrow> unit state" where
  "ex_at epoch =
     (let opted = (\<lambda>a. (GetJoinedStoreKey [accAddressString ref_codec a, ex_service_hex],
            \<lparr>op_SlashContract = [], op_OptedInHeight = 7, op_OptedOutHeight = DefaultOptedOutHeight, op_Jailed = False, op_JailToggleHeights = []\<rparr>));
          os = (opr_of ex_node)\<lparr>operatorInfos := [(ex_operator, ex_info), (ex_second, ex_info)],
            optedInfos := [opted ex_operator, opted ex_second], avsUSDValues := [(ex_service_hex, 10 ^ 18)]\<rparr>;
          av = \<lparr>avsInfos = [(ex_service, ex_service_info)], avsChainIDs = []\<rparr>
      in (set_avs av (set_opr os ex_node))\<lparr>epochs := [(''day'', \<lparr>ei_Identifier = ''day'', ei_StartTime = 0, ei_Duration = 86400,
           ei_CurrentEpoch = epoch, ei_CurrentEpochStartTime = 0, ei_EpochCountingStarted = True, ei_CurrentEpochStartHeight = 5\<rparr>)]\<rparr>)"

definition ex_task_params :: TaskInfoParams where
  "ex_task_params = \<lparr>tp_TaskContractAddress = ex_contract, tp_TaskName = ''task'', tp_Hash = [], tp_TaskID = 0, tp_TaskResponsePeriod = 1,
     tp_TaskStatisticalPeriod = 1, tp_TaskChallengePeriod = 1, tp_ThresholdPercentage = 50, tp_CallerAddress = ex_owner\<rparr>"

definition ex_key_params :: "bytes \<Rightarrow> bytes \<Rightarrow> BlsParams" where
  "ex_key_params a k = \<lparr>bp_OperatorAddress = a, bp_AvsAddress = ex_service, bp_PubKey = k, bp_PubKeyRegistrationSignature = k\<rparr>"

definition ex_result :: "bytes \<Rightarrow> string \<Rightarrow> bytes \<Rightarrow> bytes option \<Rightarrow> int \<Rightarrow> TaskResultInfo" where
  "ex_result a spelling sig response phase =
     \<lparr>tr_OperatorAddress = accAddressString ref_codec a, tr_TaskResponseHash = [], tr_TaskResponse = response, tr_BlsSignature = Some sig,
      tr_TaskContractAddress = spelling, tr_TaskId = 1, tr_Phase = phase\<rparr>"

definition ex_submit :: "int \<Rightarrow> TaskResultInfo \<Rightarrow> task_state \<Rightarrow> task_state result" where
  "ex_submit epoch r = SubmitTaskResult ex_codec ex_bls (ex_at epoch) (tr_OperatorAddress r) r"

lemma ex_codec_simps [simp]:
  "accAddressString ex_codec = accAddressString ref_codec" "accAddressFromBech32 ex_codec = accAddressFromBech32 ref_codec"
  "addressHex ex_codec = addressHex ref_codec" "hexToAddress ex_codec = hexToAddress ref_codec" "keccak256 ex_codec = keccak256 ref_codec"
  "hashString ex_codec = hashString ref_codec"
  by (simp_all add: ex_codec_def)

lemma ref_address: "addressHex ref_codec b = ''0x'' @ hex_bytes b" "hexToAddress ref_codec (''0x'' @ hex_bytes b) = b"
  "to_lower (''0x'' @ hex_bytes b) = ''0x'' @ hex_bytes b" "isHexAddress ref_codec (''0x'' @ hex_bytes b) \<longleftrightarrow> length b = 20"
  by (simp_all add: ref_codec_def hex0x_def unhex_hex_bytes to_lower_def lower_hex_bytes lower_char_def)

lemma ref_address_inj: "addressHex ref_codec a = addressHex ref_codec b \<longleftrightarrow> a = b"
  using unhex_hex_bytes by (metis ref_address(1,2))

lemma ex_contract_hex [simp]: "addressHex ref_codec ex_contract = ex_lower" "hexToAddress ref_codec ex_lower = ex_contract"
  unfolding ex_lower_def by (simp_all only: ref_address)

lemma ex_upper_lower: "to_lower ex_upper = ex_lower"
proof -
  have "lower_char (if c = CHR ''a'' then CHR ''A'' else c) = lower_char c" for c by (simp add: lower_char_def char_of_eq_iff)
  then have "map lower_char (map (\<lambda>c. if c = CHR ''a'' then CHR ''A'' else c) (hex_bytes ex_contract)) = hex_bytes ex_contract"
    using lower_hex_bytes [of ex_contract] by (simp only: map_map comp_def)
  moreover have "to_lower (''0x'' @ xs) = ''0x'' @ map lower_char xs" for xs by (simp add: to_lower_def lower_char_def)
  ultimately show ?thesis by (simp only: ex_upper_def ex_lower_def ref_address)
qed

lemma ex_lower_upper: "ex_lower \<noteq> ex_upper"
proof -
  have c: "ex_contract = char_of (171 :: nat) # replicate 19 (char_of (171 :: nat))" unfolding ex_contract_def by (subst replicate_Suc [symmetric]) simp
  show ?thesis unfolding ex_lower_def ex_upper_def ref_address c by simp
qed

lemma ex_not_zero: "ex_lower \<noteq> addressHex ref_codec zero_address" "ex_upper \<noteq> addressHex ref_codec zero_address"
proof -
  show l: "ex_lower \<noteq> addressHex ref_codec zero_address"
    unfolding ex_lower_def ref_address_inj by (simp add: ex_contract_def zero_address_def)
  show "ex_upper \<noteq> addressHex ref_codec zero_address"
  proof
    assume "ex_upper = addressHex ref_codec zero_address"
    then have "ex_lower = to_lower (addressHex ref_codec zero_address)" using ex_upper_lower by simp
    then show False using l by (simp only: ref_address)
  qed
qed

lemma ex_spellings [simp]:
  "to_lower ex_lower = ex_lower" "to_lower ex_upper = ex_lower" "ex_lower \<noteq> ex_upper" "ex_upper \<noteq> ex_lower"
  "to_lower ex_service_hex = ex_service_hex"
  unfolding ex_service_hex_def using ex_lower_upper ex_upper_lower to_lower_idem ref_address by metis+

lemma ex_nonempty [simp]: "ex_lower \<noteq> []" "ex_upper \<noteq> []" "ex_service_hex \<noteq> []"
  by (simp_all add: ex_lower_def ex_upper_def ex_service_hex_def ref_address)

lemma ex_hex [simp]: "isHexAddress ex_codec ex_lower" "isHexAddress ex_codec ex_upper"
proof -
  have "isHexAddress ref_codec ex_lower" unfolding ex_lower_def ref_address by (simp add: ref_address ex_contract_def)
  then show "isHexAddress ex_codec ex_lower" "isHexAddress ex_codec ex_upper" by (simp_all add: ex_codec_def)
qed

lemma ex_no_delimiters [simp]:
  "key_part ex_service_hex" "no_char DelimiterForGroupKey ex_lower" "no_char DelimiterForGroupKey ex_upper"
  using hex_bytes_chars
  by (auto simp: no_char_def ex_service_hex_def ex_lower_def ex_upper_def ref_address DelimiterForCombinedKey_def DelimiterForGroupKey_def split: if_splits)

lemma ex_at_parts:
  "avsInfos (avs_of (ex_at n)) = [(ex_service, ex_service_info)]"
  "operatorInfos (opr_of (ex_at n)) = [(ex_operator, ex_info), (ex_second, ex_info)]"
  "avsUSDValues (opr_of (ex_at n)) = [(ex_service_hex, 10 ^ 18)]"
  "GetEpochInfo (epochs (ex_at n)) ''day'' = Some \<lparr>ei_Identifier = ''day'', ei_StartTime = 0, ei_Duration = 86400,
     ei_CurrentEpoch = n, ei_CurrentEpochStartTime = 0, ei_EpochCountingStarted = True, ei_CurrentEpochStartHeight = 5\<rparr>"
  by (simp_all add: ex_at_def Let_def avs_of_def opr_of_def set_avs_def set_opr_def GetEpochInfo_def kv_get_def)

lemma ex_avs_of_task [simp]:
  "avs_of_task ex_codec (avs_of (ex_at n)) ex_lower = Some ex_service_info" "avs_of_task ex_codec (avs_of (ex_at n)) ex_upper = Some ex_service_info"
  using ex_not_zero
  by (simp_all add: avs_of_task_def GetAVSInfoByTaskAddress_def IterateAVSInfo_def ex_at_parts ex_service_info_def)

lemma ex_second_bech32 [simp]:
  "accAddressFromBech32 ref_codec (accAddressString ref_codec ex_second) = Some ex_second" "length ex_second = AccAddressLength"
  using rc.acc_roundtrip [of ex_second] by (simp_all add: ex_second_def AccAddressLength_def)

lemma ex_operators [simp]: "ex_operator \<noteq> ex_second" "ex_second \<noteq> ex_operator"
  by (simp_all add: ex_operator_def ex_second_def)

lemma ex_accounts [simp]: "accAddressString ref_codec ex_operator \<noteq> accAddressString ref_codec ex_second"
  "accAddressString ref_codec ex_second \<noteq> accAddressString ref_codec ex_operator"
  using rc.acc_inj [of ex_operator ex_second] by simp_all

lemma ex_service_usd [simp]: "GetAVSUSDValue (opr_of (ex_at n)) ex_service_hex = Inr (10 ^ 18)"
  by (simp add: GetAVSUSDValue_def ex_at_parts kv_get_def of_option_def)

lemma ex_opted_list [simp]:
  "GetOptedInOperatorListByAVS (opr_of (ex_at n)) ex_service_hex = Inr [accAddressString ref_codec ex_operator, accAddressString ref_codec ex_second]"
proof -
  have "ParseJoinedKeyWithCount (GetJoinedStoreKey [accAddressString ref_codec a, ex_service_hex]) 2 = Inr [accAddressString ref_codec a, ex_service_hex]" for a
    using ParseJoinedKeyWithCount_joined [of "[accAddressString ref_codec a, ex_service_hex]"] rc.acc_part by (simp add: numeral_2_eq_2)
  then show ?thesis
    by (simp add: GetOptedInOperatorListByAVS_def IterateOptInfo_def kv_iterate_def ex_at_def Let_def opr_of_def set_avs_def set_opr_def)
qed

text \<open>The task is created in epoch 3; results can be announced until epoch 5 and revealed in epoch 6.\<close>

definition ex_task :: TaskInfo where
  "ex_task = new_task ex_codec ex_task_params 1 3 [accAddressString ref_codec ex_operator, accAddressString ref_codec ex_second]"

definition ex_created :: task_state where
  "ex_created = no_tasks\<lparr>taskInfos := [(task_key ex_lower (FormatUint 1), ex_task)], latestTaskNums := [(ex_contract, 1)]\<rparr>"

lemma ex_create: "CreateAVSTask ex_codec (ex_at 3) ex_task_params no_tasks = Inr (1, ex_created)"
proof -
  have "ti_TaskContractAddress ex_task = ex_lower" "ti_TaskId ex_task = 1" by (simp_all add: ex_task_def new_task_def ex_task_params_def)
  then have "SetTaskInfo ex_codec ex_task (no_tasks\<lparr>latestTaskNums := [(ex_contract, 1)]\<rparr>) = Inr ex_created"
    by (simp add: SetTaskInfo_def ex_created_def no_tasks_def)
  then show ?thesis
    by (simp add: CreateAVSTask_def ex_task_params_def [symmetric] ex_task_def Let_def)
      (simp add: ex_task_params_def ex_service_info_def ex_at_parts of_option_def IsExistTask_def no_tasks_def kv_has_def kv_get_def GetTaskID_def Let_def)
qed

definition ex_key_info :: "bytes \<Rightarrow> bytes \<Rightarrow> BlsPubKeyInfo" where
  "ex_key_info a k = \<lparr>bk_OperatorAddress = accAddressString ref_codec a, bk_AvsAddress = ex_service_hex, bk_PubKey = k\<rparr>"

definition ex_with_key :: "bytes \<Rightarrow> bytes \<Rightarrow> task_state \<Rightarrow> task_state" where
  "ex_with_key a k ts = ts\<lparr>operatePubs := kv_set k (BlsKey k) (kv_set (pub_key ex_codec a ex_service_hex) (BlsInfo (ex_key_info a k)) (operatePubs ts))\<rparr>"

lemma ex_register_key:
  assumes "accAddressFromBech32 ref_codec (accAddressString ref_codec a) = Some a" "k \<noteq> []"
    and "kv_get (operatePubs ts) (pub_key ex_codec a ex_service_hex) = None" "kv_get (operatePubs ts) k = None"
  shows "RegisterBLSPublicKey ex_codec ref_env ex_bls (ex_key_params a k) ts = Inr (ex_with_key a k ts)"
  using assms
  by (simp add: RegisterBLSPublicKey_def ex_key_params_def ex_bls_def IsExistPubKeyForAVS_def IsExistPubKey_def SetOperatorPubKey_def
      ex_with_key_def ex_key_info_def kv_has_iff Let_def ex_service_hex_def [symmetric])

lemma ex_account_lower: "to_lower (accAddressString ref_codec a) = accAddressString ref_codec a"
  by (simp add: ref_codec_def to_lower_def lower_hex_bytes lower_char_def)

lemma ex_pub_key [simp]:
  "pub_key ex_codec ex_operator avs \<noteq> pub_key ex_codec ex_second avs" "pub_key ex_codec ex_second avs \<noteq> pub_key ex_codec ex_operator avs"
  by (auto simp: pub_key_def GetJoinedStoreKey_def ex_account_lower)

lemma ex_pub_key_long [simp]: "pub_key ex_codec a avs \<noteq> ''key1''" "pub_key ex_codec a avs \<noteq> ''key2''"
  "''key1'' \<noteq> pub_key ex_codec a avs" "''key2'' \<noteq> pub_key ex_codec a avs"
proof -
  have "CHR ''/'' \<in> set (pub_key ex_codec a avs)" by (simp add: pub_key_def GetJoinedStoreKey_def DelimiterForCombinedKey_def)
  then show ne: "pub_key ex_codec a avs \<noteq> ''key1''" "pub_key ex_codec a avs \<noteq> ''key2''" by auto
  show "''key1'' \<noteq> pub_key ex_codec a avs" "''key2'' \<noteq> pub_key ex_codec a avs" using ne by metis+
qed

definition ex_keyed :: task_state where
  "ex_keyed = ex_with_key ex_second ''key2'' (ex_with_key ex_operator ''key1'' ex_created)"

lemma ex_keyed_steps: "(task_step ex_codec ref_env ex_bls)\<^sup>*\<^sup>* no_tasks ex_keyed"
proof -
  have "task_step ex_codec ref_env ex_bls no_tasks ex_created" by (rule task_step.create [OF ex_create])
  moreover have "task_step ex_codec ref_env ex_bls ex_created (ex_with_key ex_operator ''key1'' ex_created)"
    by (rule task_step.register_key [OF ex_register_key]) (simp_all add: ex_created_def no_tasks_def)
  moreover have "task_step ex_codec ref_env ex_bls (ex_with_key ex_operator ''key1'' ex_created) ex_keyed"
    unfolding ex_keyed_def by (rule task_step.register_key [OF ex_register_key]) (simp_all add: ex_with_key_def ex_created_def no_tasks_def del: kv_set.simps)
  ultimately show ?thesis by (meson rtranclp.rtrancl_into_rtrancl rtranclp.rtrancl_refl)
qed

lemma ex_keys [simp]:
  "GetOperatorPubKey ex_codec (ex_keyed\<lparr>taskResults := rs\<rparr>) (accAddressString ref_codec ex_operator) ex_service_hex = Inr (ex_key_info ex_operator ''key1'')"
  "GetOperatorPubKey ex_codec (ex_keyed\<lparr>taskResults := rs\<rparr>) (accAddressString ref_codec ex_second) ex_service_hex = Inr (ex_key_info ex_second ''key2'')"
  by (simp_all add: GetOperatorPubKey_def ex_keyed_def ex_with_key_def)

lemma ex_task_stored [simp]:
  "a = ex_lower \<or> a = ex_upper \<Longrightarrow> GetTaskInfo ex_codec (ex_keyed\<lparr>taskResults := rs\<rparr>) (FormatUint 1) a = Inr ex_task"
  by (auto simp: GetTaskInfo_def ex_keyed_def ex_with_key_def ex_created_def task_key_def kv_get_def of_option_def)

lemma ex_windows [simp]: "response_end ex_task = 5" "statistics_end ex_task = 6" "ti_TaskContractAddress ex_task = ex_lower" "ti_TaskId ex_task = 1"
  by (simp_all add: response_end_def statistics_end_def ex_task_def new_task_def ex_task_params_def)

section \<open>Submissions\<close>

definition ex_submitted :: "TaskResultInfo list \<Rightarrow> task_state" where
  "ex_submitted rs = ex_keyed\<lparr>taskResults := map (\<lambda>r. (result_key (tr_OperatorAddress r) (tr_TaskContractAddress r) (tr_TaskId r), r)) rs\<rparr>"

definition ex_first :: TaskResultInfo where "ex_first = ex_result ex_operator ex_lower ''key1'' None PhasePrepare"
definition ex_other :: TaskResultInfo where "ex_other = ex_result ex_second ex_upper ''key2'' None PhasePrepare"
definition ex_reveal :: TaskResultInfo where "ex_reveal = ex_result ex_operator ex_lower ''key1'' (Some ''yes'') PhaseDoCommit"
definition ex_revealed :: TaskResultInfo where "ex_revealed = ex_reveal\<lparr>tr_TaskResponseHash := hashString ref_codec (keccak256 ref_codec ''yes'')\<rparr>"

lemma ex_keys_sorted:
  "result_key (accAddressString ref_codec ex_operator) a i < result_key (accAddressString ref_codec ex_second) b j"
proof -
  have r: "replicate 20 c = c # replicate 19 c" for c :: char by (subst replicate_Suc [symmetric]) simp
  show ?thesis unfolding result_key_def GetJoinedStoreKey_def ex_operator_def ex_second_def r by (simp add: ref_codec_def)
qed

lemmas ex_results = ex_first_def ex_other_def ex_reveal_def ex_revealed_def ex_result_def

lemma ex_submit_first: "SubmitTaskResult ex_codec ex_bls (ex_at 3) (tr_OperatorAddress ex_first) ex_first (ex_submitted []) = Inr (ex_submitted [ex_first])"
  by (simp add: SubmitTaskResult_def ex_results ex_submitted_def IsOperator_def ex_at_parts kv_has_def kv_get_def acc_or_nil_def ex_service_info_def
      ex_key_info_def ex_bls_def of_option_def prepare_result_def IsExistTaskResultInfo_def SetTaskResultInfo_def stored_bytes_def)

lemma ex_submit_other: "SubmitTaskResult ex_codec ex_bls (ex_at 3) (tr_OperatorAddress ex_other) ex_other (ex_submitted [ex_first]) = Inr (ex_submitted [ex_first, ex_other])"
proof -
  have "result_key (accAddressString ref_codec ex_operator) a i \<noteq> result_key (accAddressString ref_codec ex_second) b j"
    "\<not> result_key (accAddressString ref_codec ex_second) a i < result_key (accAddressString ref_codec ex_operator) b j" for a b i j
    using ex_keys_sorted [of a i b j] ex_keys_sorted [of b j a i] by (simp_all add: less_not_sym)
  note k = this this(1) [symmetric]
  show ?thesis
    by (simp add: SubmitTaskResult_def ex_results ex_submitted_def IsOperator_def ex_at_parts kv_has_def kv_get_def acc_or_nil_def ex_service_info_def
      ex_key_info_def ex_bls_def of_option_def prepare_result_def IsExistTaskResultInfo_def SetTaskResultInfo_def stored_bytes_def ex_account_lower k)
qed

lemma ex_submit_reveal:
  "SubmitTaskResult ex_codec ex_bls (ex_at 6) (tr_OperatorAddress ex_reveal) ex_reveal (ex_submitted (ex_first # rs)) = Inr (ex_submitted (ex_revealed # rs))"
  by (simp add: SubmitTaskResult_def ex_results ex_submitted_def IsOperator_def ex_at_parts kv_has_def kv_get_def acc_or_nil_def ex_service_info_def
      ex_key_info_def ex_bls_def of_option_def commit_result_def GetTaskResultInfo_def SetTaskResultInfo_def stored_bytes_def
      PhasePrepare_def PhaseDoCommit_def Let_def)

lemma ex_task_start: "(task_step ex_codec ref_env ex_bls)\<^sup>*\<^sup>* no_tasks (ex_submitted [])"
proof -
  have "ex_submitted [] = ex_keyed" by (simp add: ex_submitted_def ex_keyed_def ex_with_key_def ex_created_def no_tasks_def)
  then show ?thesis using ex_keyed_steps by simp
qed

lemma ex_task_run:
  "(task_step ex_codec ref_env ex_bls)\<^sup>*\<^sup>* no_tasks (ex_submitted [ex_first])"
  "(task_step ex_codec ref_env ex_bls)\<^sup>*\<^sup>* (ex_submitted [ex_first]) (ex_submitted [ex_revealed])"
  "(task_step ex_codec ref_env ex_bls)\<^sup>*\<^sup>* no_tasks (ex_submitted [ex_revealed, ex_other])"
proof -
  note steps = task_step.submit [OF ex_submit_first, of ref_env] task_step.submit [OF ex_submit_other, of ref_env]
    task_step.submit [OF ex_submit_reveal, of ref_env]
  show f: "(task_step ex_codec ref_env ex_bls)\<^sup>*\<^sup>* no_tasks (ex_submitted [ex_first])" using ex_task_start steps(1) by (rule rtranclp.rtrancl_into_rtrancl)
  show "(task_step ex_codec ref_env ex_bls)\<^sup>*\<^sup>* (ex_submitted [ex_first]) (ex_submitted [ex_revealed])" using steps(3) by (rule r_into_rtranclp)
  have "(task_step ex_codec ref_env ex_bls)\<^sup>*\<^sup>* no_tasks (ex_submitted [ex_first, ex_other])" using f steps(2) by (rule rtranclp.rtrancl_into_rtrancl)
  then show "(task_step ex_codec ref_env ex_bls)\<^sup>*\<^sup>* no_tasks (ex_submitted [ex_revealed, ex_other])" using steps(3) by (rule rtranclp.rtrancl_into_rtrancl)
qed

section \<open>Statistics\<close>

lemma parse_group_key: "no_char DelimiterForGroupKey (tr_TaskContractAddress r) \<Longrightarrow> parseGroupKey (group_key r) = Some (tr_TaskContractAddress r, tr_TaskId r)"
  by (simp add: parseGroupKey_def group_key_def split_last split_char_no_char FormatUint_parts)

lemma ex_due: "GetTaskStatisticalEpochEndAVSs ex_codec (avs_of (ex_at 6)) (ex_submitted [ex_revealed, ex_other]) ''day'' 6 = [ex_revealed, ex_other]"
  by (simp add: GetTaskStatisticalEpochEndAVSs_def IterateResultInfo_def ex_submitted_def ex_results) (simp add: ex_service_info_def)

lemma ex_groups: "GroupTasksByIDAndAddress [ex_revealed, ex_other] = [(group_key ex_revealed, [ex_revealed]), (group_key ex_other, [ex_other])]"
proof -
  have "group_key ex_revealed \<noteq> group_key ex_other" by (simp add: group_key_def ex_results)
  then show ?thesis by (auto simp: GroupTasksByIDAndAddress_def sort_slice_def)
qed

lemma ex_counted:
  assumes "tasks_ok ts" "kv_get (taskInfos ts) (task_key ex_lower (FormatUint 1)) = Some t" "ti_TaskContractAddress t = ex_lower"
    and "tr_TaskContractAddress r = ex_lower \<or> tr_TaskContractAddress r = ex_upper" "tr_TaskId r = 1"
  shows "\<exists>t'. kv_get (taskInfos (update_statistics ex_codec (ex_at 6) (group_key r, [r]) ts)) (task_key ex_lower (FormatUint 1)) = Some t' \<and>
    ti_TaskContractAddress t' = ex_lower \<and> ti_SignedOperators t' = map tr_OperatorAddress (filter has_signed [r])"
proof -
  have p: "parseGroupKey (fst (group_key r, [r])) = Some (tr_TaskContractAddress r, 1)" using assms(4,5) parse_group_key [of r] by auto
  have k: "task_key (tr_TaskContractAddress r) (FormatUint 1) = task_key ex_lower (FormatUint 1)" using assms(4) by (auto simp: task_key_def)
  have a: "avs_of_task ex_codec (avs_of (ex_at 6)) (tr_TaskContractAddress r) = Some ex_service_info" "isHexAddress ex_codec (tr_TaskContractAddress r)"
    using assms(4) by auto
  have "avs_AvsAddress ex_service_info = ex_service_hex" by (simp add: ex_service_info_def)
  then show ?thesis using assms(2,3) a
    unfolding update_statistics_change [OF assms(1) p] k by (simp add: change_task_def new_statistics_def Let_def)
qed

lemma ex_has_signed: "has_signed ex_revealed" "\<not> has_signed ex_other"
  by (simp_all add: has_signed_def ex_results)

lemma ex_order_last:
  assumes "set [r, r'] = {ex_revealed, ex_other}"
  shows "map_option ti_SignedOperators (kv_get (taskInfos (fold (update_statistics ex_codec (ex_at 6)) [(group_key r, [r]), (group_key r', [r'])]
      (ex_submitted [ex_revealed, ex_other]))) (task_key ex_lower (FormatUint 1))) = Some (map tr_OperatorAddress (filter has_signed [r']))"
proof -
  let ?ts = "ex_submitted [ex_revealed, ex_other]"
  have ok: "tasks_ok ?ts" using task_run_ok [OF ex_task_run(3) no_tasks_ok] by blast
  have t: "kv_get (taskInfos ?ts) (task_key ex_lower (FormatUint 1)) = Some ex_task"
    by (simp add: ex_submitted_def ex_keyed_def ex_with_key_def ex_created_def kv_get_def)
  have sp: "tr_TaskContractAddress x = ex_lower \<or> tr_TaskContractAddress x = ex_upper" "tr_TaskId x = 1" if "x \<in> {ex_revealed, ex_other}" for x
    using that by (auto simp: ex_results)
  have r: "r \<in> {ex_revealed, ex_other}" "r' \<in> {ex_revealed, ex_other}" using assms by auto
  obtain t1 where t1: "kv_get (taskInfos (update_statistics ex_codec (ex_at 6) (group_key r, [r]) ?ts)) (task_key ex_lower (FormatUint 1)) = Some t1"
      "ti_TaskContractAddress t1 = ex_lower"
    using ex_counted [OF ok t ex_windows(3) sp [OF r(1)]] by blast
  show ?thesis using ex_counted [OF update_statistics_ok [OF ok] t1 sp [OF r(2)]] by (auto simp del: filter.simps)
qed

end
