(* ===== verification/AvsProps.thy ===== *)
theory AvsProps
  imports AvsExample
begin

text \<open>What holds of the results of tasks: a signature that was announced binds, and the statistics at the end of an epoch.\<close>

text \<open>
  C9: results are submitted in two phases that bind: in every state that the operations on tasks reach from an empty store, a result
  whose operator address is in lower case keeps, through any further operations, the signature that was announced first; and once it
  is revealed, that signature is valid for the hash of its response and a BLS key that the operator registered.
\<close>
theorem announced_signatures_bind:
  assumes "(task_step C E B)\<^sup>*\<^sup>* no_tasks ts" "(task_step C E B)\<^sup>*\<^sup>* ts ts'"
    and "kv_get (taskResults ts) k = Some r" "to_lower (tr_OperatorAddress r) = tr_OperatorAddress r"
  shows "\<exists>r'. kv_get (taskResults ts') k = Some r' \<and> tr_BlsSignature r' = tr_BlsSignature r \<and>
    (tr_Phase r' = PhaseDoCommit \<longrightarrow> signed_response C B ts' r')"
proof -
  have ok: "tasks_ok ts" "results_ok C B ts" using task_run_ok [OF assms(1) no_tasks_ok] by blast+
  have k: "k = result_key (tr_OperatorAddress r) (tr_TaskContractAddress r) (tr_TaskId r)"
    using ok(2) assms(3) by (simp add: results_ok_def result_ok_def)
  have "to_lower k = k" unfolding k result_key_lower assms(4) ..
  then obtain r' where "kv_get (taskResults ts') k = Some r'" "tr_BlsSignature r' = tr_BlsSignature r"
    using task_run_ok [OF assms(2) ok] assms(3) unfolding signatures_kept_def by blast
  then show ?thesis using task_run_ok [OF assms(2) ok] unfolding results_ok_def result_ok_def by blast
qed

theorem announced_signatures_bind_witness:
  "\<exists>r'. kv_get (taskResults (ex_submitted [ex_revealed])) (result_key (tr_OperatorAddress ex_first) ex_lower 1) = Some r' \<and>
     tr_BlsSignature r' = Some ''key1'' \<and> signed_response ex_codec ex_bls (ex_submitted [ex_revealed]) r'"
proof -
  have "kv_get (taskResults (ex_submitted [ex_first])) (result_key (tr_OperatorAddress ex_first) ex_lower 1) = Some ex_first"
    by (simp add: ex_submitted_def ex_results kv_get_def)
  moreover have "to_lower (tr_OperatorAddress ex_first) = tr_OperatorAddress ex_first" by (simp add: ex_results ex_account_lower)
  moreover have "kv_get (taskResults (ex_submitted [ex_revealed])) (result_key (tr_OperatorAddress ex_first) ex_lower 1) = Some ex_revealed"
    by (simp add: ex_submitted_def ex_results kv_get_def)
  moreover have "tr_Phase ex_revealed = PhaseDoCommit" "tr_BlsSignature ex_first = Some ''key1''" by (simp_all add: ex_results)
  ultimately show ?thesis using announced_signatures_bind [OF ex_task_run(1,2)] by fastforce
qed




end
