(* ===== verification/Spec2Isabelle.thy ===== *)
theory Spec2Isabelle
  imports KeyProps EpochProps Slash Completion AssetGenesisProps DelegationGenesisProps NodeProps ValidatorProps History Registry Whitelist SlashProps AvsOps AvsProps
begin

text \<open>
  \<^bold>\<open>Imuachain.\<close> A verification library for the chain of the repository, a Cosmos SDK application for
  restaking. Stakers deposit assets of client chains (\<^verbatim>\<open>x/assets\<close>), delegate them to operators and take
  them back after an unbonding period (\<^verbatim>\<open>x/delegation\<close>), epochs drive the periodic work
  (\<^verbatim>\<open>x/epochs\<close>). Operators register, opt in to services (AVSs, \<^verbatim>\<open>x/avs\<close>) with the value of what is
  delegated to them, and set consensus keys (\<^verbatim>\<open>x/operator\<close>); the chain is such a service itself, and the
  operators with the highest values are its validators (\<^verbatim>\<open>x/dogfood\<close>). A misbehaving operator is slashed. Other
  services have tasks, whose results operators sign.

  \<^bold>\<open>Conventions.\<close> A keeper function is a definition on the state of the module's store. A fallible function
  returns \<open>error + 'a\<close>, \<open>Inl\<close> being the error; an error discards the state, as a failed transaction or
  a cached context that is not written does, and a panic is the error \<open>Panic\<close>. A prefix store is an
  association list sorted by key, \<open>kv\<close>, so that an iterator visits keys in the order of the bytes and reads
  the store as it was when the iteration started. \<^verbatim>\<open>sdkmath.Int\<close> is \<open>int\<close> (the limit of 256 bits is not
  modelled), \<^verbatim>\<open>LegacyDec\<close> is the integer of its \<open>10\<^sup>-\<^sup>1\<^sup>8\<close> units, \<^verbatim>\<open>uint64\<close> and \<^verbatim>\<open>uint32\<close> are words. Events, logs,
  gas and telemetry are not modelled. Functions of third-party packages are the fields of records that the
  definitions take as an argument: \<open>codec\<close> (bech32, hexadecimal and big-endian encodings), \<open>dec_ops\<close> (the
  rounding of decimals); what is relied on are the laws of the locales \<open>chain_codec\<close> and \<open>dec_arith\<close>, both
  interpreted (\<open>ref_codec\<close>, \<open>legacy_dec\<close>). Functions of other modules are the fields of \<open>keepers\<close>: they read
  the chain and change their own part of it, \<open>world\<close>. For the modules around the delegations that part is a
  \<open>node\<close>: the stores of AVSs, operators and validators, and the state \<open>rest\<close> of the modules that are not modelled. A
  state of the whole is an \<open>'x state\<close>; what it calls outside (prices, rewards, \<^verbatim>\<open>x/slashing\<close>, \<^verbatim>\<open>x/staking\<close> types) are
  the fields of \<open>node_env\<close>, of \<open>reward_env\<close> for a slash, and of \<open>bls_env\<close> for BLS signatures. The hooks of the operator
  module are a record of functions, composed as \<^verbatim>\<open>app.go\<close> does. The stores of slash records and of tasks, which no other
  module reads, are passed beside the node. A loop over a Go map takes the order of its visits as an argument.

  \<^bold>\<open>Theories.\<close>
  \<^item> \<open>Prelude\<close>: errors, the error monad and its loops. \<open>KVStore\<close>: stores, with the locale \<open>kv_interface\<close>.
    \<open>Decimal\<close>: decimals. \<open>Ledger\<close>: the locale \<open>ledger_interface\<close> of a store of non-negative amounts
    that is updated by deltas, with the lemmas on single updates and on runs of them.
  \<^item> \<open>Keys\<close>, \<open>KeyProps\<close>: store keys and identifiers (\<^verbatim>\<open>utils/utils.go\<close>, \<^verbatim>\<open>x/assets/types\<close>,
    \<^verbatim>\<open>x/delegation/types/keys.go\<close>); round trips and injectivity.
  \<^item> \<open>Assets\<close>, \<open>AssetProps\<close>: \<^verbatim>\<open>x/assets\<close>; staker and operator states are ledgers, deposits add up to the
    registered totals, withdrawals undo deposits, gateways.
  \<^item> \<open>Shares\<close>: \<^verbatim>\<open>x/delegation/keeper/share.go\<close>, the conversion of shares and tokens; solvency of a pool and
    bounds on rounding.
  \<^item> \<open>Epochs\<close>, \<open>EpochProps\<close>: \<^verbatim>\<open>x/epochs\<close>; epochs do not drift, hooks run in order, genesis is stored.
  \<^item> \<open>Delegation\<close>, \<open>DelegationOps\<close>: the stores and the operations of \<^verbatim>\<open>x/delegation\<close>. \<open>DelegationProps\<close>:
    delegations are a ledger, the sum of shares. \<open>DelegationOpsProps\<close>: the operations as sequences of
    ledger updates. \<open>Balance\<close>: the relation \<open>chain_step\<close> of all operations, and the balance of shares in
    every reachable state; what delegating and undelegating do to every amount. \<open>Records\<close>: undelegation
    records and their indexes. \<open>Undelegations\<close>: every operation keeps the records and the pending amounts
    in step. \<open>Completion\<close>: the end of a block pays exactly the undelegations that are due.
  \<^item> \<open>AssetGenesis\<close>, \<open>AssetGenesisProps\<close>, \<open>DelegationGenesis\<close>, \<open>DelegationGenesisProps\<close>: validation,
    initialisation and export of the two modules; an export restores the state, and which valid or
    exported genesis is not accepted.
  \<^item> \<open>Slash\<close>: executing a slash (\<^verbatim>\<open>x/operator/keeper/slash.go\<close>).
  \<^item> \<open>Node\<close>: the state of the node. \<open>Avs\<close>: the registry of AVSs as other modules read it. \<open>Operator\<close>,
    \<open>OperatorKeys\<close>, \<open>UsdValue\<close>, \<open>VotingPower\<close>, \<open>Opting\<close>: \<^verbatim>\<open>x/operator\<close>, by file: registration and
    commissions, consensus keys, values of assets, voting power and its snapshots, opting in and out with the messages.
    \<open>Dogfood\<close>: \<^verbatim>\<open>x/dogfood\<close>. \<open>OperatorSlash\<close>: slashing with its records, and the calls that reach it through dogfood.
  \<^item> \<open>VotingPowerFrame\<close>, \<open>ConsensusKeys\<close>, \<open>KeyMessages\<close>, \<open>KeyLifecycle\<close>, \<open>NodeSteps\<close>: what each operation does
    to keys, opt-outs and the queues of the validators, and the invariant that the relation \<open>node_step\<close> of operator
    messages, jailings, epoch and block ends keeps. \<open>NodeProps\<close>: keys are unique, opted-in operators have one, and opt-outs
    finish. \<open>NodeExample\<close>: a node on which these are evaluated.
  \<^item> \<open>Validators\<close>, \<open>ValidatorProps\<close>: the validator set at the end of a block is that of the operators with the highest
    powers, and the updates that are returned bring the consensus engine to it. \<open>History\<close>: the window of historical entries.
  \<^item> \<open>Registry\<close>: operators are well formed. \<open>Whitelist\<close>: the whitelist of an AVS is not enforced. \<open>SlashProps\<close>: a
    double sign freezes the operator, bounds of a slash, and a slash that panics.
  \<^item> \<open>AvsTasks\<close>, \<open>AvsOps\<close>: \<^verbatim>\<open>x/avs\<close>: BLS keys, tasks, results, challenges and statistics; registering and updating
    AVSs, genesis. \<open>AvsSteps\<close>, \<open>AvsResults\<close>: the relation \<open>task_step\<close> of the operations on tasks and what it keeps.
    \<open>AvsExample\<close>, \<open>AvsProps\<close>: announced signatures bind, and when the statistics depend on the order of a loop.

  \<^bold>\<open>Fuel.\<close> Loops are structural recursions over the entries read from a store. \<open>strip\<close>, for
  \<^verbatim>\<open>strings.TrimSpace\<close>, takes the length of the string as fuel: every step removes a byte. The loop that prunes
  historical entries ends since the height decreases.

  \<^bold>\<open>Not modelled.\<close> Generated protobuf code beyond the structures, gRPC queries, command line and client code, the
  wiring in \<^verbatim>\<open>app\<close>, and the modules that wrap third-party ones (\<^verbatim>\<open>x/evm\<close>, IBC in \<^verbatim>\<open>x/appchain\<close>). \<^verbatim>\<open>x/oracle\<close>,
  \<^verbatim>\<open>x/feedistribution\<close> and \<^verbatim>\<open>x/immint\<close> are arguments of the model where the modelled code calls them. Of \<^verbatim>\<open>x/operator\<close>
  and \<^verbatim>\<open>x/dogfood\<close> the genesis is not modelled, of \<^verbatim>\<open>x/dogfood\<close> the message that changes its parameters is not either. The
  precompiles decode calls of the EVM for the functions that are modelled.
\<close>

end
